(* ===== verification/Latch_Prelude.thy ===== *)
theory Latch_Prelude
  imports Main "HOL-Library.Word"
begin

text \<open>
  Shared vocabulary of the development: machine integers and the checked and saturating
  operations the contracts call on them, addresses, the failures a contract invocation can end in,
  and the small result calculus (\<open>res_bind\<close>, \<open>guard\<close>, \<open>unwrap_or\<close>) in which every entry point is
  written.  The collection \<open>result_simps\<close> turns "this invocation returned" into the conjunction of
  the guards that were passed; \<open>int_simps\<close> unfolds the integer operations.
\<close>

named_theorems result_simps "what it means for a composed invocation to return or to fail"
named_theorems int_simps "unfolding of the machine integer operations"

section \<open>Machine integers\<close>

text \<open>
  Unsigned integers keep their width as words.  Signed integers are mathematical integers with the
  range written out where an operation checks or saturates.
\<close>

type_synonym u8 = "8 word"
type_synonym u32 = "32 word"
type_synonym u64 = "64 word"
type_synonym u128 = "128 word"
type_synonym i32 = int
type_synonym i64 = int
type_synonym i128 = int
type_synonym bytes = "u8 list"
type_synonym symbol = string

definition i128_max :: i128 where
  "i128_max = 2 ^ 127 - 1"

definition i128_min :: i128 where
  "i128_min = - (2 ^ 127)"

definition in_i128 :: "int \<Rightarrow> bool" where
  "in_i128 x \<longleftrightarrow> i128_min \<le> x \<and> x \<le> i128_max"

text \<open>\<open>i128::saturating_add\<close> and \<open>i128::saturating_sub\<close>.\<close>

definition saturate_i128 :: "int \<Rightarrow> i128" where
  "saturate_i128 x = max i128_min (min i128_max x)"

definition saturating_add_i128 :: "i128 \<Rightarrow> i128 \<Rightarrow> i128" where
  "saturating_add_i128 a b = saturate_i128 (a + b)"

definition saturating_sub_i128 :: "i128 \<Rightarrow> i128 \<Rightarrow> i128" where
  "saturating_sub_i128 a b = saturate_i128 (a - b)"

text \<open>\<open>i128::checked_add\<close>, \<open>checked_mul\<close>, \<open>checked_div\<close> (truncating) and \<open>checked_pow\<close>.\<close>

definition check_i128 :: "int \<Rightarrow> i128 option" where
  "check_i128 x = (if in_i128 x then Some x else None)"

definition checked_add_i128 :: "i128 \<Rightarrow> i128 \<Rightarrow> i128 option" where
  "checked_add_i128 a b = check_i128 (a + b)"

definition checked_mul_i128 :: "i128 \<Rightarrow> i128 \<Rightarrow> i128 option" where
  "checked_mul_i128 a b = check_i128 (a * b)"

definition trunc_div :: "int \<Rightarrow> int \<Rightarrow> int" where
  "trunc_div a b = sgn a * sgn b * (\<bar>a\<bar> div \<bar>b\<bar>)"

definition checked_div_i128 :: "i128 \<Rightarrow> i128 \<Rightarrow> i128 option" where
  "checked_div_i128 a b = (if b = 0 then None else check_i128 (trunc_div a b))"

definition checked_pow_i128 :: "i128 \<Rightarrow> u32 \<Rightarrow> i128 option" where
  "checked_pow_i128 a n = check_i128 (a ^ unat n)"

text \<open>\<open>saturating_sub\<close> and \<open>checked_add\<close> on an unsigned type of any width.\<close>

definition saturating_sub_word :: "'a::len word \<Rightarrow> 'a word \<Rightarrow> 'a word" where
  "saturating_sub_word a b = (if a < b then 0 else a - b)"

definition checked_add_word :: "'a::len word \<Rightarrow> 'a word \<Rightarrow> 'a word option" where
  "checked_add_word a b = (if uint a + uint b < 2 ^ LENGTH('a) then Some (a + b) else None)"

lemmas i128_range_defs = i128_max_def i128_min_def in_i128_def

declare saturate_i128_def [int_simps] saturating_add_i128_def [int_simps]
  saturating_sub_i128_def [int_simps] check_i128_def [int_simps] checked_add_i128_def [int_simps]
  checked_mul_i128_def [int_simps] checked_div_i128_def [int_simps]
  checked_pow_i128_def [int_simps]

lemma saturate_in_range: "in_i128 x \<Longrightarrow> saturate_i128 x = x"
  by (simp add: saturate_i128_def in_i128_def)

lemma in_i128_saturate [simp]: "in_i128 (saturate_i128 x)"
  by (simp add: saturate_i128_def i128_range_defs)

lemma in_i128_nonneg: "0 \<le> x \<Longrightarrow> x \<le> y \<Longrightarrow> in_i128 y \<Longrightarrow> in_i128 x"
  by (simp add: i128_range_defs)

lemma saturating_add_exact: "0 \<le> a + b \<Longrightarrow> a + b \<le> i128_max \<Longrightarrow> saturating_add_i128 a b = a + b"
  by (simp add: saturating_add_i128_def saturate_i128_def i128_range_defs)

lemma saturating_sub_exact: "0 \<le> a - b \<Longrightarrow> a - b \<le> i128_max \<Longrightarrow> saturating_sub_i128 a b = a - b"
  by (simp add: saturating_sub_i128_def saturate_i128_def i128_range_defs)

lemma saturating_add_le:
  "saturating_add_i128 a b \<le> m \<Longrightarrow> m < i128_max \<Longrightarrow> a + b \<le> m"
  by (auto simp: saturating_add_i128_def saturate_i128_def i128_range_defs)

lemma in_i128_0 [simp]: "in_i128 0"
  by (simp add: i128_range_defs)

lemma trunc_div_nonneg: "0 \<le> a \<Longrightarrow> 0 < b \<Longrightarrow> trunc_div a b = a div b"
  by (cases "a = 0") (simp_all add: trunc_div_def)

lemma uint_saturating_sub_word:
  "uint (saturating_sub_word a b) = max 0 (uint a - uint b)"
  by (simp add: saturating_sub_word_def word_less_def uint_sub_if')

lemma checked_add_word_Some:
  "checked_add_word a b = Some c \<Longrightarrow> uint c = uint a + uint b"
  by (auto simp: checked_add_word_def uint_word_ariths split: if_splits)

lemma unat_of_nat_u32: "n < 2 ^ 32 \<Longrightarrow> unat (of_nat n :: u32) = n"
  by (simp add: unat_of_nat)

lemma of_nat_u32_inject:
  "m < 2 ^ 32 \<Longrightarrow> n < 2 ^ 32 \<Longrightarrow> (of_nat m :: u32) = of_nat n \<longleftrightarrow> m = n"
  by (metis unat_of_nat_u32)

section \<open>Addresses and failures\<close>

text \<open>
  An address is opaque to the contracts: they compare addresses for equality and, in the factory,
  by the host's total order.  The host's address space is finite, so numbering the addresses in
  that order loses nothing.
\<close>

datatype address = Addr (addr_index: nat)

instantiation address :: linorder
begin
definition less_eq_address :: "address \<Rightarrow> address \<Rightarrow> bool" where
  "less_eq_address a b = (addr_index a \<le> addr_index b)"
definition less_address :: "address \<Rightarrow> address \<Rightarrow> bool" where
  "less_address a b = (addr_index a < addr_index b)"
instance
  by standard (auto simp: less_eq_address_def less_address_def address.expand)
end

text \<open>
  How an invocation ends when it does not return: \<open>panic_with_error!\<close> with one of the contract's
  own error codes, a refused \<open>require_auth\<close>, or a trap raised by the language or the host
  (overflow check, division by zero, \<open>unwrap\<close>/\<open>expect\<close> on nothing, a TTL extension of an entry that
  does not exist, a cross-contract call that reverted, a host cryptography or deployment error).  Every failure rolls the invocation back, so
  it carries no state.
\<close>

datatype trap = ArithmeticOverflow | DivisionByZero | IndexOutOfBounds | UnwrapNone
  | MissingEntry | EntryArchived | CallReverted | CryptoInvalid | DeployFailed

datatype 'e fault = Panic 'e | AuthFailed address | Trap trap

type_synonym ('e, 'a) result = "'e fault + 'a"

section \<open>The result calculus\<close>

fun res_bind :: "'e + 'a \<Rightarrow> ('a \<Rightarrow> 'e + 'b) \<Rightarrow> 'e + 'b" where
  "res_bind (Inl e) f = Inl e"
| "res_bind (Inr x) f = f x"

definition guard :: "bool \<Rightarrow> 'e \<Rightarrow> 'e + unit" where
  "guard c e = (if c then Inr () else Inl e)"

definition unwrap_or :: "'a option \<Rightarrow> 'e \<Rightarrow> 'e + 'a" where
  "unwrap_or v e = (case v of None \<Rightarrow> Inl e | Some x \<Rightarrow> Inr x)"

text \<open>Sequencing of a loop body over a list: the first failure ends the loop.\<close>

fun res_map :: "('a \<Rightarrow> 'e + 'b) \<Rightarrow> 'a list \<Rightarrow> 'e + 'b list" where
  "res_map f [] = Inr []"
| "res_map f (x # xs) = res_bind (f x) (\<lambda>y. res_bind (res_map f xs) (\<lambda>ys. Inr (y # ys)))"

text \<open>What the ledger keeps after an invocation: the new state, or the old one on a failure.\<close>

definition commit :: "'s \<Rightarrow> 'e + 's \<Rightarrow> 's" where
  "commit s r = (case r of Inl e \<Rightarrow> s | Inr s' \<Rightarrow> s')"

lemma res_bind_Inr_iff [result_simps]:
  "res_bind m f = Inr y \<longleftrightarrow> (\<exists>x. m = Inr x \<and> f x = Inr y)"
  by (cases m) auto

lemma res_bind_Inl_iff [result_simps]:
  "res_bind m f = Inl e \<longleftrightarrow> m = Inl e \<or> (\<exists>x. m = Inr x \<and> f x = Inl e)"
  by (cases m) auto

lemma guard_Inr_iff [result_simps]: "guard c e = Inr u \<longleftrightarrow> c"
  by (simp add: guard_def)

lemma guard_Inl_iff [result_simps]: "guard c e = Inl e' \<longleftrightarrow> \<not> c \<and> e' = e"
  by (auto simp: guard_def)

lemma guard_True [simp]: "guard True e = Inr ()"
  by (simp add: guard_def)

lemma guard_False [simp]: "guard False e = Inl e"
  by (simp add: guard_def)

lemma unwrap_or_Inr_iff [result_simps]: "unwrap_or v e = Inr x \<longleftrightarrow> v = Some x"
  by (cases v) (auto simp: unwrap_or_def)

lemma unwrap_or_Inl_iff [result_simps]: "unwrap_or v e = Inl e' \<longleftrightarrow> v = None \<and> e' = e"
  by (cases v) (auto simp: unwrap_or_def)

lemma unwrap_or_simps [simp]: "unwrap_or None e = Inl e" "unwrap_or (Some x) e = Inr x"
  by (simp_all add: unwrap_or_def)

lemma commit_simps [simp]: "commit s (Inl e) = s" "commit s (Inr s') = s'"
  by (simp_all add: commit_def)

lemma commit_cases:
  obtains "commit s r = s" | s' where "r = Inr s'" "commit s r = s'"
  by (cases r) auto

lemma res_map_Inr_iff [result_simps]:
  "res_map f xs = Inr ys \<longleftrightarrow> list_all2 (\<lambda>x y. f x = Inr y) xs ys"
  by (induction xs arbitrary: ys) (auto simp: result_simps list_all2_Cons1)

lemma res_map_length: "res_map f xs = Inr ys \<Longrightarrow> length ys = length xs"
  by (simp add: res_map_Inr_iff list_all2_lengthD)

lemma res_map_Inl: "res_map f xs = Inl e \<Longrightarrow> \<exists>x \<in> set xs. f x = Inl e"
  by (induction xs) (auto simp: result_simps)

lemma res_map_total: "(\<And>x. x \<in> set xs \<Longrightarrow> f x = Inr (g x)) \<Longrightarrow> res_map f xs = Inr (map g xs)"
  by (induction xs) auto

end
