(* ===== verification/Soroban_Env.thy ===== *)
theory Soroban_Env
  imports Latch_Prelude
begin

text \<open>
  What a contract sees of its host: the invocation's environment (ledger sequence and timestamp,
  the contract's own address, which addresses authorised the call), dynamically typed arguments,
  authorisation contexts and context rules, and the externally visible effects an invocation asks
  the host for (events, TTL extensions).  These are the data types of the Soroban SDK and of
  the \<open>stellar-accounts\<close> crate as far as the contracts of this repository read them.
\<close>

record env =
  ledger_sequence :: u32
  ledger_timestamp :: u64
  current_contract_address :: address
  authorized :: "address \<Rightarrow> bool"

definition require_auth :: "env \<Rightarrow> address \<Rightarrow> ('e, unit) result" where
  "require_auth e a = guard (authorized e a) (AuthFailed a)"

lemma require_auth_Inr_iff [result_simps]: "require_auth e a = Inr u \<longleftrightarrow> authorized e a"
  by (simp add: require_auth_def result_simps)

lemma require_auth_Inl_iff [result_simps]:
  "require_auth e a = Inl f \<longleftrightarrow> \<not> authorized e a \<and> f = AuthFailed a"
  by (simp add: require_auth_def result_simps)

lemma require_auth_simps [simp]:
  "authorized e a \<Longrightarrow> require_auth e a = Inr ()"
  "\<not> authorized e a \<Longrightarrow> require_auth e a = Inl (AuthFailed a)"
  by (simp_all add: require_auth_def)

section \<open>Dynamically typed values\<close>

text \<open>
  A \<open>Val\<close> carries its type tag; converting it to a native type succeeds exactly when the tag is
  that type's.
\<close>

datatype val = U32Val u32 | I32Val i32 | U64Val u64 | I64Val i64 | U128Val u128 | I128Val i128
  | SymbolVal symbol | AddressVal address | VoidVal | OtherVal nat

fun address_try_from_val :: "val \<Rightarrow> address option" where
  "address_try_from_val (AddressVal a) = Some a"
| "address_try_from_val _ = None"

fun i128_try_from_val :: "val \<Rightarrow> i128 option" where
  "i128_try_from_val (I128Val x) = Some x"
| "i128_try_from_val _ = None"

fun u32_try_from_val :: "val \<Rightarrow> u32 option" where
  "u32_try_from_val (U32Val x) = Some x"
| "u32_try_from_val _ = None"

text \<open>\<open>Option<u32>\<close>: \<open>Void\<close> is \<open>None\<close>.\<close>

fun opt_u32_try_from_val :: "val \<Rightarrow> u32 option option" where
  "opt_u32_try_from_val VoidVal = Some None"
| "opt_u32_try_from_val v = map_option Some (u32_try_from_val v)"

lemma address_try_from_val_Some [result_simps]:
  "address_try_from_val v = Some a \<longleftrightarrow> v = AddressVal a"
  by (cases v) auto

lemma i128_try_from_val_Some [result_simps]:
  "i128_try_from_val v = Some x \<longleftrightarrow> v = I128Val x"
  by (cases v) auto

text \<open>\<open>Vec::get\<close>: \<open>None\<close> out of range.\<close>

definition vec_get :: "'a list \<Rightarrow> u32 \<Rightarrow> 'a option" where
  "vec_get xs i = (if unat i < length xs then Some (xs ! unat i) else None)"

lemma vec_get_Some [result_simps]:
  "vec_get xs i = Some x \<longleftrightarrow> unat i < length xs \<and> x = xs ! unat i"
  by (auto simp: vec_get_def)

section \<open>Authorisation contexts, rules, signers\<close>

record ContractContext =
  ctx_contract :: address
  ctx_fn_name :: symbol
  ctx_args :: "val list"

datatype Context = Contract ContractContext
  | CreateContractHostFn bytes
  | CreateContractWithCtorHostFn bytes

datatype ContextRuleType = Default | CallContract address | CreateContract bytes

record ContextRule =
  rule_id :: u32
  context_type :: ContextRuleType

definition is_call_contract :: "ContextRuleType \<Rightarrow> bool" where
  "is_call_contract t = (case t of CallContract _ \<Rightarrow> True | _ \<Rightarrow> False)"

lemma is_call_contract_simps [simp]:
  "is_call_contract (CallContract a)"
  "\<not> is_call_contract Default"
  "\<not> is_call_contract (CreateContract h)"
  by (simp_all add: is_call_contract_def)

datatype Signer = Delegated address | External address bytes

section \<open>Effects\<close>

text \<open>
  The requests an invocation leaves with the host beside its storage writes, in order.  How long an
  entry then lives is the network's business; that the contract asked is the contract's.
\<close>

datatype ('k, 'ev) effect = ExtendTtl 'k u32 u32 | Publish 'ev

definition DAY_IN_LEDGERS :: u32 where
  "DAY_IN_LEDGERS = 17280"

end
