(* ===== verification/Policy_Store.thy ===== *)
theory Policy_Store
  imports Soroban_Env
begin

text \<open>
  The part every policy contract of \<open>src/policies\<close> shares: persistent entries keyed by
  \<open>AccountContext(smart_account, context_rule_id)\<close>, and the life cycle install, enforce,
  uninstall.  The locale \<open>policy_contract\<close> states the contract a smart account relies on when it
  installs such a policy; its lemmas are proved once, over arbitrary histories of calls by
  arbitrary callers, and every policy of the development interprets it.
\<close>

datatype storage_key = AccountContext address u32

record ('d, 'ev) policy_state =
  entries :: "storage_key \<Rightarrow> 'd option"
  effects :: "(storage_key, 'ev) effect list"

definition init_policy_state :: "('d, 'ev) policy_state" where
  "init_policy_state = \<lparr>entries = (\<lambda>_. None), effects = []\<rparr>"

definition store_set ::
  "storage_key \<Rightarrow> 'd \<Rightarrow> ('d, 'ev) policy_state \<Rightarrow> ('d, 'ev) policy_state" where
  "store_set k d s = s\<lparr>entries := (entries s)(k := Some d)\<rparr>"

definition store_remove ::
  "storage_key \<Rightarrow> ('d, 'ev) policy_state \<Rightarrow> ('d, 'ev) policy_state" where
  "store_remove k s = s\<lparr>entries := (entries s)(k := None)\<rparr>"

definition log_effect ::
  "(storage_key, 'ev) effect \<Rightarrow> ('d, 'ev) policy_state \<Rightarrow> ('d, 'ev) policy_state" where
  "log_effect x s = s\<lparr>effects := effects s @ [x]\<rparr>"

lemma store_simps [simp]:
  "entries (store_set k d s) = (entries s)(k := Some d)"
  "entries (store_remove k s) = (entries s)(k := None)"
  "entries (log_effect x s) = entries s"
  "effects (store_set k d s) = effects s"
  "effects (store_remove k s) = effects s"
  "effects (log_effect x s) = effects s @ [x]"
  "entries init_policy_state = (\<lambda>_. None)"
  "effects init_policy_state = []"
  by (simp_all add: store_set_def store_remove_def log_effect_def init_policy_state_def)

section \<open>Histories of policy calls\<close>

text \<open>
  One call to a policy contract, with the environment the host runs it in.  Anyone may make any
  call; a call that fails leaves the ledger as it was.
\<close>

datatype 'p policy_call =
    CallInstall env 'p ContextRule address
  | CallUninstall env ContextRule address
  | CallEnforce env Context "Signer list" ContextRule address

fun call_env :: "'p policy_call \<Rightarrow> env" where
  "call_env (CallInstall e _ _ _) = e"
| "call_env (CallUninstall e _ _) = e"
| "call_env (CallEnforce e _ _ _ _) = e"

fun call_key :: "'p policy_call \<Rightarrow> storage_key" where
  "call_key (CallInstall _ _ r a) = AccountContext a (rule_id r)"
| "call_key (CallUninstall _ r a) = AccountContext a (rule_id r)"
| "call_key (CallEnforce _ _ _ r a) = AccountContext a (rule_id r)"

fun policy_step ::
  "(env \<Rightarrow> 'p \<Rightarrow> ContextRule \<Rightarrow> address \<Rightarrow> 's \<Rightarrow> ('e, 's) result)
   \<Rightarrow> (env \<Rightarrow> ContextRule \<Rightarrow> address \<Rightarrow> 's \<Rightarrow> ('e, 's) result)
   \<Rightarrow> (env \<Rightarrow> Context \<Rightarrow> Signer list \<Rightarrow> ContextRule \<Rightarrow> address \<Rightarrow> 's \<Rightarrow> ('e, 's) result)
   \<Rightarrow> 'p policy_call \<Rightarrow> 's \<Rightarrow> 's" where
  "policy_step ins uns enf (CallInstall e p r a) s = commit s (ins e p r a s)"
| "policy_step ins uns enf (CallUninstall e r a) s = commit s (uns e r a s)"
| "policy_step ins uns enf (CallEnforce e c sg r a) s = commit s (enf e c sg r a s)"

fun policy_run ::
  "(env \<Rightarrow> 'p \<Rightarrow> ContextRule \<Rightarrow> address \<Rightarrow> 's \<Rightarrow> ('e, 's) result)
   \<Rightarrow> (env \<Rightarrow> ContextRule \<Rightarrow> address \<Rightarrow> 's \<Rightarrow> ('e, 's) result)
   \<Rightarrow> (env \<Rightarrow> Context \<Rightarrow> Signer list \<Rightarrow> ContextRule \<Rightarrow> address \<Rightarrow> 's \<Rightarrow> ('e, 's) result)
   \<Rightarrow> 'p policy_call list \<Rightarrow> 's \<Rightarrow> 's" where
  "policy_run ins uns enf [] s = s"
| "policy_run ins uns enf (c # cs) s = policy_run ins uns enf cs (policy_step ins uns enf c s)"

section \<open>The policy interface\<close>

locale policy_contract =
  fixes entry :: "'s \<Rightarrow> storage_key \<Rightarrow> 'd option"
    and install :: "env \<Rightarrow> 'p \<Rightarrow> ContextRule \<Rightarrow> address \<Rightarrow> 's \<Rightarrow> ('e, 's) result"
    and uninstall :: "env \<Rightarrow> ContextRule \<Rightarrow> address \<Rightarrow> 's \<Rightarrow> ('e, 's) result"
    and enforce ::
      "env \<Rightarrow> Context \<Rightarrow> Signer list \<Rightarrow> ContextRule \<Rightarrow> address \<Rightarrow> 's \<Rightarrow> ('e, 's) result"
    and valid :: "'d \<Rightarrow> bool"
  assumes install_ok:
      "install e p r a s = Inr s' \<Longrightarrow>
         authorized e a \<and> is_call_contract (context_type r)
         \<and> entry s (AccountContext a (rule_id r)) = None
         \<and> (\<exists>d. valid d \<and> entry s' = (entry s)(AccountContext a (rule_id r) := Some d))"
    and uninstall_ok:
      "uninstall e r a s = Inr s' \<Longrightarrow>
         authorized e a \<and> entry s (AccountContext a (rule_id r)) \<noteq> None
         \<and> entry s' = (entry s)(AccountContext a (rule_id r) := None)"
    and enforce_ok:
      "enforce e c sg r a s = Inr s' \<Longrightarrow>
         authorized e a
         \<and> (\<exists>d d'. entry s (AccountContext a (rule_id r)) = Some d
              \<and> (valid d \<longrightarrow> valid d')
              \<and> entry s' = (entry s)(AccountContext a (rule_id r) := Some d'))"
begin

lemma step_frame:
  assumes "\<not> authorized (call_env c) b \<or> call_key c \<noteq> AccountContext b i"
  shows "entry (policy_step install uninstall enforce c s) (AccountContext b i)
         = entry s (AccountContext b i)"
proof (cases c)
  case (CallInstall e p r a)
  with assms show ?thesis
    by (cases "install e p r a s") (auto dest!: install_ok)
next
  case (CallUninstall e r a)
  with assms show ?thesis
    by (cases "uninstall e r a s") (auto dest!: uninstall_ok)
next
  case (CallEnforce e x sg r a)
  with assms show ?thesis
    by (cases "enforce e x sg r a s") (auto dest!: enforce_ok)
qed

lemma run_isolation:
  assumes "\<And>c. c \<in> set cs \<Longrightarrow> \<not> authorized (call_env c) b \<or> call_key c \<noteq> AccountContext b i"
  shows "entry (policy_run install uninstall enforce cs s) (AccountContext b i)
         = entry s (AccountContext b i)"
  using assms
proof (induction cs arbitrary: s)
  case Nil
  then show ?case by simp
next
  case (Cons c cs)
  then show ?case by (simp add: step_frame)
qed

lemma step_valid:
  assumes inv: "\<And>k d. entry s k = Some d \<Longrightarrow> valid d"
    and "entry (policy_step install uninstall enforce c s) k = Some d"
  shows "valid d"
proof (cases c)
  case (CallInstall e p r a)
  with assms show ?thesis
    by (cases "install e p r a s") (auto dest!: install_ok split: if_splits)
next
  case (CallUninstall e r a)
  with assms show ?thesis
    by (cases "uninstall e r a s") (auto dest!: uninstall_ok split: if_splits)
next
  case (CallEnforce e x sg r a)
  show ?thesis
  proof (cases "enforce e x sg r a s")
    case (Inl f)
    with assms CallEnforce show ?thesis by auto
  next
    case (Inr s')
    from enforce_ok [OF this] obtain d0 d1 where
      d0: "entry s (AccountContext a (rule_id r)) = Some d0" "valid d0 \<longrightarrow> valid d1"
      and s': "entry s' = (entry s)(AccountContext a (rule_id r) := Some d1)"
      by blast
    from inv d0 have "valid d1" by blast
    with assms Inr CallEnforce s' show ?thesis by (auto split: if_splits)
  qed
qed

lemma run_valid:
  assumes "\<And>k d. entry s k = Some d \<Longrightarrow> valid d"
    and "entry (policy_run install uninstall enforce cs s) k = Some d"
  shows "valid d"
  using assms
proof (induction cs arbitrary: s)
  case Nil
  then show ?case by simp
next
  case (Cons c cs)
  from Cons.prems(2) show ?case
    by (auto intro: Cons.IH step_valid [OF Cons.prems(1)])
qed

lemma install_uninstall:
  assumes "install e p r a s = Inr s'" and "uninstall e' r a s' = Inr s''"
  shows "entry s'' = entry s"
  using install_ok [OF assms(1)] uninstall_ok [OF assms(2)] by auto

lemma not_installed_fails:
  assumes "entry s (AccountContext a (rule_id r)) = None"
  shows "\<exists>f. enforce e c sg r a s = Inl f" and "\<exists>f. uninstall e' r a s = Inl f"
proof -
  show "\<exists>f. enforce e c sg r a s = Inl f"
    using assms by (cases "enforce e c sg r a s") (auto dest: enforce_ok)
  show "\<exists>f. uninstall e' r a s = Inl f"
    using assms by (cases "uninstall e' r a s") (auto dest: uninstall_ok)
qed

lemma revoked:
  assumes "uninstall e r a s = Inr s'"
    and "\<And>x. x \<in> set cs \<Longrightarrow> \<not> authorized (call_env x) a \<or> call_key x \<noteq> AccountContext a (rule_id r)"
  shows "\<exists>f. enforce e' c sg r a (policy_run install uninstall enforce cs s') = Inl f"
proof (rule not_installed_fails(1))
  show "entry (policy_run install uninstall enforce cs s') (AccountContext a (rule_id r)) = None"
    using uninstall_ok [OF assms(1)] run_isolation [OF assms(2)] by simp
qed

lemma installed_once:
  assumes "install e p r a s = Inr s'"
  shows "\<exists>f. install e' p' r' a s' = Inl f \<or> rule_id r' \<noteq> rule_id r"
proof (cases "install e' p' r' a s'")
  case (Inl f)
  then show ?thesis by blast
next
  case (Inr s'')
  then show ?thesis
    using install_ok [OF assms] install_ok [OF Inr] by (auto split: if_splits)
qed

end

section \<open>Policies whose data enforcement does not change\<close>

text \<open>
  For a policy that only reads its data in \<open>enforce\<close>, what was installed stays in force until the
  account itself uninstalls it.
\<close>

fun uninstalls :: "storage_key \<Rightarrow> 'p policy_call \<Rightarrow> bool" where
  "uninstalls k (CallUninstall e r a) = (k = AccountContext a (rule_id r) \<and> authorized e a)"
| "uninstalls k _ = False"

locale fixed_policy = policy_contract +
  assumes enforce_keeps: "enforce e c sg r a s = Inr s' \<Longrightarrow> entry s' = entry s"
begin

lemma step_keeps:
  assumes "entry s k = Some d" "\<not> uninstalls k c"
  shows "entry (policy_step install uninstall enforce c s) k = Some d"
proof (cases c)
  case (CallInstall e p r a)
  with assms show ?thesis by (cases "install e p r a s") (auto dest!: install_ok)
next
  case (CallUninstall e r a)
  with assms show ?thesis by (cases "uninstall e r a s") (auto dest!: uninstall_ok)
next
  case (CallEnforce e x sg r a)
  with assms show ?thesis by (cases "enforce e x sg r a s") (auto dest!: enforce_keeps)
qed

lemma run_keeps:
  assumes "entry s k = Some d" "\<And>c. c \<in> set cs \<Longrightarrow> \<not> uninstalls k c"
  shows "entry (policy_run install uninstall enforce cs s) k = Some d"
  using assms
proof (induction cs arbitrary: s)
  case Nil
  then show ?case by simp
next
  case (Cons c cs)
  from step_keeps [OF Cons.prems(1)] Cons.prems(2) Cons.IH show ?case by simp
qed

end

section \<open>Policies whose data the account can replace\<close>

text \<open>
  A policy that also offers a setter for installed data.  Histories then interleave policy calls
  and updates, and the laws of the base interface carry over to them.
\<close>

datatype ('p, 'u) updatable_call = PolicyCall "'p policy_call" | CallUpdate env 'u u32 address

fun ucall_env :: "('p, 'u) updatable_call \<Rightarrow> env" where
  "ucall_env (PolicyCall c) = call_env c"
| "ucall_env (CallUpdate e _ _ _) = e"

fun ucall_key :: "('p, 'u) updatable_call \<Rightarrow> storage_key" where
  "ucall_key (PolicyCall c) = call_key c"
| "ucall_key (CallUpdate _ _ i a) = AccountContext a i"

fun updatable_run ::
  "('p policy_call \<Rightarrow> 's \<Rightarrow> 's)
   \<Rightarrow> (env \<Rightarrow> 'u \<Rightarrow> u32 \<Rightarrow> address \<Rightarrow> 's \<Rightarrow> ('e, 's) result)
   \<Rightarrow> ('p, 'u) updatable_call list \<Rightarrow> 's \<Rightarrow> 's" where
  "updatable_run stp upd [] s = s"
| "updatable_run stp upd (PolicyCall c # cs) s = updatable_run stp upd cs (stp c s)"
| "updatable_run stp upd (CallUpdate e u i a # cs) s =
     updatable_run stp upd cs (commit s (upd e u i a s))"

locale updatable_policy = policy_contract +
  fixes update :: "env \<Rightarrow> 'u \<Rightarrow> u32 \<Rightarrow> address \<Rightarrow> 'a \<Rightarrow> ('e, 'a) result"
  assumes update_ok:
    "update e u i a s = Inr s' \<Longrightarrow>
       authorized e a \<and> entry s (AccountContext a i) \<noteq> None
       \<and> (\<exists>d. valid d \<and> entry s' = (entry s)(AccountContext a i := Some d))"
begin

lemma update_frame:
  assumes "\<not> authorized e b \<or> AccountContext a i \<noteq> AccountContext b j"
  shows "entry (commit s (update e u i a s)) (AccountContext b j) = entry s (AccountContext b j)"
  using assms by (cases "update e u i a s") (auto dest!: update_ok)

lemma updatable_isolation:
  assumes "\<And>c. c \<in> set cs \<Longrightarrow> \<not> authorized (ucall_env c) b \<or> ucall_key c \<noteq> AccountContext b i"
  shows "entry (updatable_run (policy_step install uninstall enforce) update cs s)
           (AccountContext b i) = entry s (AccountContext b i)"
  using assms
proof (induction cs arbitrary: s)
  case Nil
  then show ?case by simp
next
  case (Cons c cs)
  have IH: "entry (updatable_run (policy_step install uninstall enforce) update cs t)
           (AccountContext b i) = entry t (AccountContext b i)" for t
    using Cons.prems by (intro Cons.IH) auto
  from Cons.prems [of c] show ?case
    by (cases c) (simp_all add: IH step_frame update_frame)
qed

lemma updatable_valid:
  assumes "\<And>k d. entry s k = Some d \<Longrightarrow> valid d"
    and "entry (updatable_run (policy_step install uninstall enforce) update cs s) k = Some d"
  shows "valid d"
  using assms
proof (induction cs arbitrary: s)
  case Nil
  then show ?case by simp
next
  case (Cons c cs)
  show ?case
  proof (cases c)
    case (PolicyCall x)
    with Cons.prems(2) show ?thesis
      by (auto intro: Cons.IH step_valid [OF Cons.prems(1)])
  next
    case (CallUpdate e u i a)
    have "valid d'" if "entry (commit s (update e u i a s)) k' = Some d'" for k' d'
      using that Cons.prems(1)
      by (cases "update e u i a s") (auto dest!: update_ok split: if_splits)
    with CallUpdate Cons.prems(2) show ?thesis
      by (auto intro: Cons.IH)
  qed
qed

end

end
