(* ===== verification/Session_Policy.thy ===== *)
theory Session_Policy
  imports Policy_Store
begin

text \<open>
  The session (method allowlist) policy, \<open>src/policies/session-policy\<close>: its data and error types,
  the three policy entry points and the query, the allowlist invariant, and the interpretation of
  the policy interface.
\<close>

section \<open>Data\<close>

datatype SessionError = SmartAccountNotInstalled | OnlyCallContractAllowed | InvalidAllowedFns
  | MethodNotAllowed | AlreadyInstalled

record SessionAccountParams =
  param_allowed_fns :: "symbol list"

record SessionData =
  allowed_fns :: "symbol list"

datatype session_event =
    SessionEnforced address u32 symbol
  | SessionInstalled address u32 "symbol list"
  | SessionUninstalled address u32

type_synonym session_state = "(SessionData, session_event) policy_state"

definition SESSION_EXTEND_AMOUNT :: u32 where
  "SESSION_EXTEND_AMOUNT = 30 * DAY_IN_LEDGERS"

definition SESSION_TTL_THRESHOLD :: u32 where
  "SESSION_TTL_THRESHOLD = SESSION_EXTEND_AMOUNT - DAY_IN_LEDGERS"

definition MAX_ALLOWED_FNS :: nat where
  "MAX_ALLOWED_FNS = 10"

section \<open>Entry points\<close>

definition session_get_allowed_fns ::
  "u32 \<Rightarrow> address \<Rightarrow> session_state \<Rightarrow> (SessionError, symbol list \<times> session_state) result" where
  "session_get_allowed_fns context_rule_id smart_account s =
     (let key = AccountContext smart_account context_rule_id in
      res_bind (unwrap_or (entries s key) (Panic SmartAccountNotInstalled)) (\<lambda>data.
      Inr (allowed_fns data,
           log_effect (ExtendTtl key SESSION_TTL_THRESHOLD SESSION_EXTEND_AMOUNT) s)))"

definition session_enforce ::
  "env \<Rightarrow> Context \<Rightarrow> Signer list \<Rightarrow> ContextRule \<Rightarrow> address \<Rightarrow> session_state
   \<Rightarrow> (SessionError, session_state) result" where
  "session_enforce e ctx authenticated_signers context_rule smart_account s =
     res_bind (require_auth e smart_account) (\<lambda>_.
     res_bind (guard (authenticated_signers \<noteq> []) (Panic MethodNotAllowed)) (\<lambda>_.
     res_bind (session_get_allowed_fns (rule_id context_rule) smart_account s) (\<lambda>(fns, s1).
     (case ctx of
        Contract cc \<Rightarrow>
          res_bind (guard (ctx_fn_name cc \<in> set fns) (Panic MethodNotAllowed)) (\<lambda>_.
          Inr (log_effect
                 (Publish (SessionEnforced smart_account (rule_id context_rule) (ctx_fn_name cc)))
                 s1))
      | _ \<Rightarrow> Inl (Panic MethodNotAllowed)))))"

definition session_install ::
  "env \<Rightarrow> SessionAccountParams \<Rightarrow> ContextRule \<Rightarrow> address \<Rightarrow> session_state
   \<Rightarrow> (SessionError, session_state) result" where
  "session_install e params context_rule smart_account s =
     (let fns = param_allowed_fns params;
          key = AccountContext smart_account (rule_id context_rule) in
      res_bind (require_auth e smart_account) (\<lambda>_.
      res_bind (guard (is_call_contract (context_type context_rule))
                 (Panic OnlyCallContractAllowed)) (\<lambda>_.
      res_bind (guard (\<not> (fns = [] \<or> length fns > MAX_ALLOWED_FNS))
                 (Panic InvalidAllowedFns)) (\<lambda>_.
      res_bind (guard (entries s key = None) (Panic AlreadyInstalled)) (\<lambda>_.
      Inr (log_effect (Publish (SessionInstalled smart_account (rule_id context_rule) fns))
            (store_set key \<lparr>allowed_fns = fns\<rparr> s)))))))"

definition session_uninstall ::
  "env \<Rightarrow> ContextRule \<Rightarrow> address \<Rightarrow> session_state \<Rightarrow> (SessionError, session_state) result" where
  "session_uninstall e context_rule smart_account s =
     (let key = AccountContext smart_account (rule_id context_rule) in
      res_bind (require_auth e smart_account) (\<lambda>_.
      res_bind (guard (entries s key \<noteq> None) (Panic SmartAccountNotInstalled)) (\<lambda>_.
      Inr (log_effect (Publish (SessionUninstalled smart_account (rule_id context_rule)))
            (store_remove key s)))))"

text \<open>The contract's own entry points, in \<open>src/policies/session-policy/src/lib.rs\<close>, forward to these.\<close>

definition SessionPolicy_enforce ::
  "env \<Rightarrow> Context \<Rightarrow> Signer list \<Rightarrow> ContextRule \<Rightarrow> address \<Rightarrow> session_state
   \<Rightarrow> (SessionError, session_state) result" where
  "SessionPolicy_enforce e ctx authenticated_signers context_rule smart_account s =
     session_enforce e ctx authenticated_signers context_rule smart_account s"

definition SessionPolicy_install ::
  "env \<Rightarrow> SessionAccountParams \<Rightarrow> ContextRule \<Rightarrow> address \<Rightarrow> session_state
   \<Rightarrow> (SessionError, session_state) result" where
  "SessionPolicy_install e install_params context_rule smart_account s =
     session_install e install_params context_rule smart_account s"

definition SessionPolicy_uninstall ::
  "env \<Rightarrow> ContextRule \<Rightarrow> address \<Rightarrow> session_state \<Rightarrow> (SessionError, session_state) result" where
  "SessionPolicy_uninstall e context_rule smart_account s =
     session_uninstall e context_rule smart_account s"

definition SessionPolicy_get_allowed_fns ::
  "u32 \<Rightarrow> address \<Rightarrow> session_state \<Rightarrow> (SessionError, symbol list \<times> session_state) result" where
  "SessionPolicy_get_allowed_fns context_rule_id smart_account s =
     session_get_allowed_fns context_rule_id smart_account s"

lemmas session_shell_defs = SessionPolicy_enforce_def SessionPolicy_install_def
  SessionPolicy_uninstall_def SessionPolicy_get_allowed_fns_def

lemmas session_defs = session_get_allowed_fns_def session_enforce_def session_install_def
  session_uninstall_def Let_def

section \<open>Invariant and behaviour\<close>

definition session_valid :: "SessionData \<Rightarrow> bool" where
  "session_valid d \<longleftrightarrow> allowed_fns d \<noteq> [] \<and> length (allowed_fns d) \<le> MAX_ALLOWED_FNS"

lemma session_enforce_Inr:
  "session_enforce e ctx sg r a s = Inr s' \<longleftrightarrow>
     authorized e a \<and> sg \<noteq> []
     \<and> (\<exists>d cc. entries s (AccountContext a (rule_id r)) = Some d \<and> ctx = Contract cc
          \<and> ctx_fn_name cc \<in> set (allowed_fns d)
          \<and> s' = s\<lparr>effects := effects s
                 @ [ExtendTtl (AccountContext a (rule_id r)) SESSION_TTL_THRESHOLD
                      SESSION_EXTEND_AMOUNT,
                    Publish (SessionEnforced a (rule_id r) (ctx_fn_name cc))]\<rparr>)"
  by (cases ctx) (auto simp: session_defs result_simps log_effect_def)

lemma session_install_Inr:
  "session_install e p r a s = Inr s' \<longleftrightarrow>
     authorized e a \<and> is_call_contract (context_type r)
     \<and> param_allowed_fns p \<noteq> [] \<and> length (param_allowed_fns p) \<le> MAX_ALLOWED_FNS
     \<and> entries s (AccountContext a (rule_id r)) = None
     \<and> s' = log_effect (Publish (SessionInstalled a (rule_id r) (param_allowed_fns p)))
              (store_set (AccountContext a (rule_id r)) \<lparr>allowed_fns = param_allowed_fns p\<rparr> s)"
  by (auto simp: session_defs result_simps not_less)

lemma session_uninstall_Inr:
  "session_uninstall e r a s = Inr s' \<longleftrightarrow>
     authorized e a \<and> entries s (AccountContext a (rule_id r)) \<noteq> None
     \<and> s' = log_effect (Publish (SessionUninstalled a (rule_id r)))
              (store_remove (AccountContext a (rule_id r)) s)"
  by (auto simp: session_defs result_simps)

interpretation session: fixed_policy entries session_install session_uninstall session_enforce
  session_valid
proof unfold_locales
  fix e p r a and s s' :: session_state
  assume "session_install e p r a s = Inr s'"
  then show "authorized e a \<and> is_call_contract (context_type r)
      \<and> entries s (AccountContext a (rule_id r)) = None
      \<and> (\<exists>d. session_valid d
            \<and> entries s' = (entries s)(AccountContext a (rule_id r) := Some d))"
    by (auto simp: session_install_Inr session_valid_def intro!: exI [of _ "\<lparr>allowed_fns = _\<rparr>"])
next
  fix e r a and s s' :: session_state
  assume "session_uninstall e r a s = Inr s'"
  then show "authorized e a \<and> entries s (AccountContext a (rule_id r)) \<noteq> None
      \<and> entries s' = (entries s)(AccountContext a (rule_id r) := None)"
    by (auto simp: session_uninstall_Inr)
next
  fix e c sg r a and s s' :: session_state
  assume "session_enforce e c sg r a s = Inr s'"
  then show "authorized e a
      \<and> (\<exists>d d'. entries s (AccountContext a (rule_id r)) = Some d
            \<and> (session_valid d \<longrightarrow> session_valid d')
            \<and> entries s' = (entries s)(AccountContext a (rule_id r) := Some d'))"
    by (fastforce simp: session_enforce_Inr)
next
  fix e c sg r a and s s' :: session_state
  assume "session_enforce e c sg r a s = Inr s'"
  then show "entries s' = entries s" by (auto simp: session_enforce_Inr)
qed

end
