(* ===== verification/Recipient_Policy.thy ===== *)
theory Recipient_Policy
  imports Policy_Store
begin

text \<open>
  The recipient allowlist policy, \<open>src/policies/recipient-allowlist-policy\<close>: transfers to a fixed
  set of recipients, with a setter that replaces the set.
\<close>

section \<open>Data\<close>

datatype RecipientError = SmartAccountNotInstalled | OnlyCallContractAllowed
  | InvalidAllowedRecipients | RecipientNotAllowed | AlreadyInstalled | InvalidTransferArgs

record RecipientAccountParams =
  param_allowed_recipients :: "address list"

record RecipientData =
  allowed_recipients :: "address list"

datatype recipient_event =
    RecipientEnforced address u32 address
  | RecipientInstalled address u32 "address list"
  | RecipientUninstalled address u32

type_synonym recipient_state = "(RecipientData, recipient_event) policy_state"

definition RECIPIENT_EXTEND_AMOUNT :: u32 where
  "RECIPIENT_EXTEND_AMOUNT = 30 * DAY_IN_LEDGERS"

definition RECIPIENT_TTL_THRESHOLD :: u32 where
  "RECIPIENT_TTL_THRESHOLD = RECIPIENT_EXTEND_AMOUNT - DAY_IN_LEDGERS"

definition MAX_ALLOWED_RECIPIENTS :: nat where
  "MAX_ALLOWED_RECIPIENTS = 10"

section \<open>Entry points\<close>

definition emit_recipient_enforced ::
  "address \<Rightarrow> u32 \<Rightarrow> address \<Rightarrow> recipient_state \<Rightarrow> recipient_state" where
  "emit_recipient_enforced smart_account context_rule_id recipient =
     log_effect (Publish (RecipientEnforced smart_account context_rule_id recipient))"

definition emit_recipient_installed ::
  "address \<Rightarrow> u32 \<Rightarrow> address list \<Rightarrow> recipient_state \<Rightarrow> recipient_state" where
  "emit_recipient_installed smart_account context_rule_id recipients =
     log_effect (Publish (RecipientInstalled smart_account context_rule_id recipients))"

definition emit_recipient_uninstalled ::
  "address \<Rightarrow> u32 \<Rightarrow> recipient_state \<Rightarrow> recipient_state" where
  "emit_recipient_uninstalled smart_account context_rule_id =
     log_effect (Publish (RecipientUninstalled smart_account context_rule_id))"

definition get_allowed_recipients ::
  "u32 \<Rightarrow> address \<Rightarrow> recipient_state
   \<Rightarrow> (RecipientError, address list \<times> recipient_state) result" where
  "get_allowed_recipients context_rule_id smart_account s =
     (let key = AccountContext smart_account context_rule_id in
      res_bind (unwrap_or (entries s key) (Panic SmartAccountNotInstalled)) (\<lambda>data.
      Inr (allowed_recipients data,
           log_effect (ExtendTtl key RECIPIENT_TTL_THRESHOLD RECIPIENT_EXTEND_AMOUNT) s)))"

definition recipient_enforce ::
  "env \<Rightarrow> Context \<Rightarrow> Signer list \<Rightarrow> ContextRule \<Rightarrow> address \<Rightarrow> recipient_state
   \<Rightarrow> (RecipientError, recipient_state) result" where
  "recipient_enforce e ctx authenticated_signers context_rule smart_account s =
     res_bind (require_auth e smart_account) (\<lambda>_.
     res_bind (guard (authenticated_signers \<noteq> []) (Panic RecipientNotAllowed)) (\<lambda>_.
     res_bind (get_allowed_recipients (rule_id context_rule) smart_account s)
       (\<lambda>(recipients, s1).
     (case ctx of
        Contract cc \<Rightarrow>
          res_bind (guard (ctx_fn_name cc = ''transfer'') (Panic RecipientNotAllowed)) (\<lambda>_.
          res_bind (unwrap_or (vec_get (ctx_args cc) 1) (Panic InvalidTransferArgs)) (\<lambda>to_val.
          res_bind (unwrap_or (address_try_from_val to_val) (Panic InvalidTransferArgs))
            (\<lambda>recipient.
          res_bind (guard (recipient \<in> set recipients) (Panic RecipientNotAllowed)) (\<lambda>_.
          Inr (emit_recipient_enforced smart_account (rule_id context_rule) recipient s1)))))
      | _ \<Rightarrow> Inl (Panic RecipientNotAllowed)))))"

definition recipient_install ::
  "env \<Rightarrow> RecipientAccountParams \<Rightarrow> ContextRule \<Rightarrow> address \<Rightarrow> recipient_state
   \<Rightarrow> (RecipientError, recipient_state) result" where
  "recipient_install e params context_rule smart_account s =
     (let rs = param_allowed_recipients params;
          key = AccountContext smart_account (rule_id context_rule) in
      res_bind (require_auth e smart_account) (\<lambda>_.
      res_bind (guard (is_call_contract (context_type context_rule))
                 (Panic OnlyCallContractAllowed)) (\<lambda>_.
      res_bind (guard (\<not> (rs = [] \<or> length rs > MAX_ALLOWED_RECIPIENTS))
                 (Panic InvalidAllowedRecipients)) (\<lambda>_.
      res_bind (guard (entries s key = None) (Panic AlreadyInstalled)) (\<lambda>_.
      Inr (emit_recipient_installed smart_account (rule_id context_rule) rs
            (store_set key \<lparr>allowed_recipients = rs\<rparr> s)))))))"

definition recipient_uninstall ::
  "env \<Rightarrow> ContextRule \<Rightarrow> address \<Rightarrow> recipient_state \<Rightarrow> (RecipientError, recipient_state) result"
  where
  "recipient_uninstall e context_rule smart_account s =
     (let key = AccountContext smart_account (rule_id context_rule) in
      res_bind (require_auth e smart_account) (\<lambda>_.
      res_bind (guard (entries s key \<noteq> None) (Panic SmartAccountNotInstalled)) (\<lambda>_.
      Inr (emit_recipient_uninstalled smart_account (rule_id context_rule)
            (store_remove key s)))))"

definition set_allowed_recipients ::
  "env \<Rightarrow> address list \<Rightarrow> u32 \<Rightarrow> address \<Rightarrow> recipient_state
   \<Rightarrow> (RecipientError, recipient_state) result" where
  "set_allowed_recipients e rs context_rule_id smart_account s =
     (let key = AccountContext smart_account context_rule_id in
      res_bind (require_auth e smart_account) (\<lambda>_.
      res_bind (guard (\<not> (rs = [] \<or> length rs > MAX_ALLOWED_RECIPIENTS))
                 (Panic InvalidAllowedRecipients)) (\<lambda>_.
      res_bind (guard (entries s key \<noteq> None) (Panic SmartAccountNotInstalled)) (\<lambda>_.
      Inr (store_set key \<lparr>allowed_recipients = rs\<rparr> s)))))"

lemmas recipient_defs = get_allowed_recipients_def recipient_enforce_def recipient_install_def
  recipient_uninstall_def set_allowed_recipients_def emit_recipient_enforced_def
  emit_recipient_installed_def emit_recipient_uninstalled_def Let_def

section \<open>Invariant and behaviour\<close>

definition recipient_valid :: "RecipientData \<Rightarrow> bool" where
  "recipient_valid d \<longleftrightarrow>
     allowed_recipients d \<noteq> [] \<and> length (allowed_recipients d) \<le> MAX_ALLOWED_RECIPIENTS"

text \<open>The calls the policy lets through: a token \<open>transfer\<close> whose second argument is a listed
  address.\<close>

definition transfer_to_listed :: "address list \<Rightarrow> Context \<Rightarrow> address \<Rightarrow> bool" where
  "transfer_to_listed rs ctx recipient \<longleftrightarrow>
     (\<exists>cc. ctx = Contract cc \<and> ctx_fn_name cc = ''transfer'' \<and> 1 < length (ctx_args cc)
        \<and> ctx_args cc ! 1 = AddressVal recipient \<and> recipient \<in> set rs)"

lemma recipient_enforce_Inr:
  "recipient_enforce e ctx sg r a s = Inr s' \<longleftrightarrow>
     authorized e a \<and> sg \<noteq> []
     \<and> (\<exists>d recipient. entries s (AccountContext a (rule_id r)) = Some d
          \<and> transfer_to_listed (allowed_recipients d) ctx recipient
          \<and> s' = s\<lparr>effects := effects s
                 @ [ExtendTtl (AccountContext a (rule_id r)) RECIPIENT_TTL_THRESHOLD
                      RECIPIENT_EXTEND_AMOUNT,
                    Publish (RecipientEnforced a (rule_id r) recipient)]\<rparr>)"
  by (cases ctx) (auto simp: recipient_defs result_simps log_effect_def transfer_to_listed_def)

lemma recipient_install_Inr:
  "recipient_install e p r a s = Inr s' \<longleftrightarrow>
     authorized e a \<and> is_call_contract (context_type r)
     \<and> recipient_valid \<lparr>allowed_recipients = param_allowed_recipients p\<rparr>
     \<and> entries s (AccountContext a (rule_id r)) = None
     \<and> s' = log_effect (Publish (RecipientInstalled a (rule_id r) (param_allowed_recipients p)))
              (store_set (AccountContext a (rule_id r))
                \<lparr>allowed_recipients = param_allowed_recipients p\<rparr> s)"
  by (auto simp: recipient_defs result_simps not_less recipient_valid_def)

lemma recipient_uninstall_Inr:
  "recipient_uninstall e r a s = Inr s' \<longleftrightarrow>
     authorized e a \<and> entries s (AccountContext a (rule_id r)) \<noteq> None
     \<and> s' = log_effect (Publish (RecipientUninstalled a (rule_id r)))
              (store_remove (AccountContext a (rule_id r)) s)"
  by (auto simp: recipient_defs result_simps)

lemma set_allowed_recipients_Inr:
  "set_allowed_recipients e rs i a s = Inr s' \<longleftrightarrow>
     authorized e a \<and> recipient_valid \<lparr>allowed_recipients = rs\<rparr>
     \<and> entries s (AccountContext a i) \<noteq> None
     \<and> s' = store_set (AccountContext a i) \<lparr>allowed_recipients = rs\<rparr> s"
  by (auto simp: recipient_defs result_simps not_less recipient_valid_def)

interpretation recipient: updatable_policy entries recipient_install recipient_uninstall
  recipient_enforce recipient_valid set_allowed_recipients
proof unfold_locales
  fix e p r a and s s' :: recipient_state
  assume "recipient_install e p r a s = Inr s'"
  then show "authorized e a \<and> is_call_contract (context_type r)
      \<and> entries s (AccountContext a (rule_id r)) = None
      \<and> (\<exists>d. recipient_valid d
            \<and> entries s' = (entries s)(AccountContext a (rule_id r) := Some d))"
    by (auto simp: recipient_install_Inr)
next
  fix e r a and s s' :: recipient_state
  assume "recipient_uninstall e r a s = Inr s'"
  then show "authorized e a \<and> entries s (AccountContext a (rule_id r)) \<noteq> None
      \<and> entries s' = (entries s)(AccountContext a (rule_id r) := None)"
    by (auto simp: recipient_uninstall_Inr)
next
  fix e c sg r a and s s' :: recipient_state
  assume "recipient_enforce e c sg r a s = Inr s'"
  then show "authorized e a
      \<and> (\<exists>d d'. entries s (AccountContext a (rule_id r)) = Some d
            \<and> (recipient_valid d \<longrightarrow> recipient_valid d')
            \<and> entries s' = (entries s)(AccountContext a (rule_id r) := Some d'))"
    by (fastforce simp: recipient_enforce_Inr)
next
  fix e rs i a and s s' :: recipient_state
  assume "set_allowed_recipients e rs i a s = Inr s'"
  then show "authorized e a \<and> entries s (AccountContext a i) \<noteq> None
      \<and> (\<exists>d. recipient_valid d \<and> entries s' = (entries s)(AccountContext a i := Some d))"
    by (auto simp: set_allowed_recipients_Inr)
qed

interpretation recipient_fixed: fixed_policy entries recipient_install recipient_uninstall
  recipient_enforce recipient_valid
  by unfold_locales (auto simp: recipient_enforce_Inr)

end
