(* ===== verification/Parameter_Policy.thy ===== *)
theory Parameter_Policy
  imports Policy_Store
begin

text \<open>
  The parameter-scoped policy, \<open>src/policies/parameter-scoped-policy\<close>: per function name, a list
  of conditions on the call's arguments.  The map of conditions is kept as the host keeps a
  \<open>Map\<close>: an association list in key order with distinct keys.
\<close>

section \<open>Data\<close>

datatype Operator = Eq | Neq | Gt | Gte | Lt | Lte

datatype ExpectedValue = EU32 u32 | EI32 i32 | EU64 u64 | EI64 i64 | EU128 u128 | EI128 i128
  | ESym symbol | EAddr address

record Condition =
  arg_index :: u32
  operator :: Operator
  expected_value :: ExpectedValue

datatype parameter_event =
    ConditionsEnforced address u32 symbol
  | ConditionsInstalled address u32
  | ConditionsUninstalled address u32

type_synonym conditions_map = "(symbol \<times> Condition list) list"

record ParameterScopedAccountParams =
  param_conditions :: conditions_map

record ParameterScopedData =
  conditions :: conditions_map

datatype ParameterScopedError = SmartAccountNotInstalled | OnlyCallContractAllowed
  | InvalidConditions | MethodNotAllowed | ConditionFailed | AlreadyInstalled
  | ArgumentIndexOutOfBounds

type_synonym parameter_state = "(ParameterScopedData, parameter_event) policy_state"

definition PARAMETER_SCOPED_EXTEND_AMOUNT :: u32 where
  "PARAMETER_SCOPED_EXTEND_AMOUNT = 30 * DAY_IN_LEDGERS"

definition PARAMETER_SCOPED_TTL_THRESHOLD :: u32 where
  "PARAMETER_SCOPED_TTL_THRESHOLD = PARAMETER_SCOPED_EXTEND_AMOUNT - DAY_IN_LEDGERS"

definition MAX_FNS :: nat where
  "MAX_FNS = 10"

definition MAX_CONDITIONS_PER_FN :: nat where
  "MAX_CONDITIONS_PER_FN = 5"

section \<open>Comparing arguments\<close>

fun compare_ord :: "'t::linorder option \<Rightarrow> 't \<Rightarrow> Operator \<Rightarrow> bool" where
  "compare_ord None expected op = False"
| "compare_ord (Some actual) expected op =
     (case op of
        Eq \<Rightarrow> actual = expected
      | Neq \<Rightarrow> actual \<noteq> expected
      | Gt \<Rightarrow> actual > expected
      | Gte \<Rightarrow> actual \<ge> expected
      | Lt \<Rightarrow> actual < expected
      | Lte \<Rightarrow> actual \<le> expected)"

fun compare_eq :: "'t option \<Rightarrow> 't \<Rightarrow> Operator \<Rightarrow> bool" where
  "compare_eq None expected op = False"
| "compare_eq (Some actual) expected op =
     (case op of
        Eq \<Rightarrow> actual = expected
      | Neq \<Rightarrow> actual \<noteq> expected
      | _ \<Rightarrow> False)"

text \<open>The conversion \<open>try_into_val\<close> at each type a condition can expect.\<close>

definition as_u32 :: "val \<Rightarrow> u32 option" where
  "as_u32 v = (case v of U32Val x \<Rightarrow> Some x | _ \<Rightarrow> None)"

definition as_i32 :: "val \<Rightarrow> i32 option" where
  "as_i32 v = (case v of I32Val x \<Rightarrow> Some x | _ \<Rightarrow> None)"

definition as_u64 :: "val \<Rightarrow> u64 option" where
  "as_u64 v = (case v of U64Val x \<Rightarrow> Some x | _ \<Rightarrow> None)"

definition as_i64 :: "val \<Rightarrow> i64 option" where
  "as_i64 v = (case v of I64Val x \<Rightarrow> Some x | _ \<Rightarrow> None)"

definition as_u128 :: "val \<Rightarrow> u128 option" where
  "as_u128 v = (case v of U128Val x \<Rightarrow> Some x | _ \<Rightarrow> None)"

definition as_symbol :: "val \<Rightarrow> symbol option" where
  "as_symbol v = (case v of SymbolVal x \<Rightarrow> Some x | _ \<Rightarrow> None)"

lemmas as_val_defs = as_u32_def as_i32_def as_u64_def as_i64_def as_u128_def as_symbol_def

definition condition_passed :: "val \<Rightarrow> Condition \<Rightarrow> bool" where
  "condition_passed actual_arg cond =
     (case expected_value cond of
        EU32 expected \<Rightarrow> compare_ord (as_u32 actual_arg) expected (operator cond)
      | EI32 expected \<Rightarrow> compare_ord (as_i32 actual_arg) expected (operator cond)
      | EU64 expected \<Rightarrow> compare_ord (as_u64 actual_arg) expected (operator cond)
      | EI64 expected \<Rightarrow> compare_ord (as_i64 actual_arg) expected (operator cond)
      | EU128 expected \<Rightarrow> compare_ord (as_u128 actual_arg) expected (operator cond)
      | EI128 expected \<Rightarrow> compare_ord (i128_try_from_val actual_arg) expected (operator cond)
      | ESym expected \<Rightarrow> compare_eq (as_symbol actual_arg) expected (operator cond)
      | EAddr expected \<Rightarrow> compare_eq (address_try_from_val actual_arg) expected (operator cond))"

section \<open>Entry points\<close>

definition emit_conditions_enforced ::
  "address \<Rightarrow> u32 \<Rightarrow> symbol \<Rightarrow> parameter_state \<Rightarrow> parameter_state" where
  "emit_conditions_enforced smart_account context_rule_id fn_name =
     log_effect (Publish (ConditionsEnforced smart_account context_rule_id fn_name))"

definition emit_conditions_installed ::
  "address \<Rightarrow> u32 \<Rightarrow> parameter_state \<Rightarrow> parameter_state" where
  "emit_conditions_installed smart_account context_rule_id =
     log_effect (Publish (ConditionsInstalled smart_account context_rule_id))"

definition emit_conditions_uninstalled ::
  "address \<Rightarrow> u32 \<Rightarrow> parameter_state \<Rightarrow> parameter_state" where
  "emit_conditions_uninstalled smart_account context_rule_id =
     log_effect (Publish (ConditionsUninstalled smart_account context_rule_id))"

definition get_conditions ::
  "u32 \<Rightarrow> address \<Rightarrow> parameter_state
   \<Rightarrow> (ParameterScopedError, conditions_map \<times> parameter_state) result" where
  "get_conditions context_rule_id smart_account s =
     (let key = AccountContext smart_account context_rule_id in
      res_bind (unwrap_or (entries s key) (Panic SmartAccountNotInstalled)) (\<lambda>data.
      Inr (conditions data,
           log_effect
             (ExtendTtl key PARAMETER_SCOPED_TTL_THRESHOLD PARAMETER_SCOPED_EXTEND_AMOUNT) s)))"

text \<open>The loop over the conditions of the called function.\<close>

fun check_conditions ::
  "val list \<Rightarrow> Condition list \<Rightarrow> (ParameterScopedError, unit) result" where
  "check_conditions args [] = Inr ()"
| "check_conditions args (cond # conds) =
     res_bind (unwrap_or (vec_get args (arg_index cond)) (Panic ArgumentIndexOutOfBounds))
       (\<lambda>actual_arg.
     res_bind (guard (condition_passed actual_arg cond) (Panic ConditionFailed)) (\<lambda>_.
     check_conditions args conds))"

definition parameter_enforce ::
  "env \<Rightarrow> Context \<Rightarrow> Signer list \<Rightarrow> ContextRule \<Rightarrow> address \<Rightarrow> parameter_state
   \<Rightarrow> (ParameterScopedError, parameter_state) result" where
  "parameter_enforce e ctx authenticated_signers context_rule smart_account s =
     res_bind (require_auth e smart_account) (\<lambda>_.
     res_bind (guard (authenticated_signers \<noteq> []) (Panic MethodNotAllowed)) (\<lambda>_.
     res_bind (get_conditions (rule_id context_rule) smart_account s)
       (\<lambda>(configured_fns, s1).
     (case ctx of
        Contract cc \<Rightarrow>
          res_bind (unwrap_or (map_of configured_fns (ctx_fn_name cc)) (Panic MethodNotAllowed))
            (\<lambda>fn_conditions.
          res_bind (check_conditions (ctx_args cc) fn_conditions) (\<lambda>_.
          Inr (emit_conditions_enforced smart_account (rule_id context_rule) (ctx_fn_name cc) s1)))
      | _ \<Rightarrow> Inl (Panic MethodNotAllowed)))))"

definition operator_compatible :: "Condition \<Rightarrow> bool" where
  "operator_compatible cond =
     (case expected_value cond of
        ESym _ \<Rightarrow> \<not> (operator cond \<noteq> Eq \<and> operator cond \<noteq> Neq)
      | EAddr _ \<Rightarrow> \<not> (operator cond \<noteq> Eq \<and> operator cond \<noteq> Neq)
      | _ \<Rightarrow> True)"

fun validate_conditions :: "conditions_map \<Rightarrow> (ParameterScopedError, unit) result" where
  "validate_conditions [] = Inr ()"
| "validate_conditions ((_, fn_conditions) # rest) =
     res_bind (guard (\<not> (fn_conditions = [] \<or> length fn_conditions > MAX_CONDITIONS_PER_FN))
                (Panic InvalidConditions)) (\<lambda>_.
     res_bind (guard (list_all operator_compatible fn_conditions) (Panic InvalidConditions)) (\<lambda>_.
     validate_conditions rest))"

definition parameter_install ::
  "env \<Rightarrow> ParameterScopedAccountParams \<Rightarrow> ContextRule \<Rightarrow> address \<Rightarrow> parameter_state
   \<Rightarrow> (ParameterScopedError, parameter_state) result" where
  "parameter_install e params context_rule smart_account s =
     (let conds = param_conditions params;
          key = AccountContext smart_account (rule_id context_rule) in
      res_bind (require_auth e smart_account) (\<lambda>_.
      res_bind (guard (is_call_contract (context_type context_rule))
                 (Panic OnlyCallContractAllowed)) (\<lambda>_.
      res_bind (guard (\<not> (conds = [] \<or> length conds > MAX_FNS)) (Panic InvalidConditions)) (\<lambda>_.
      res_bind (validate_conditions conds) (\<lambda>_.
      res_bind (guard (entries s key = None) (Panic AlreadyInstalled)) (\<lambda>_.
      Inr (emit_conditions_installed smart_account (rule_id context_rule)
            (store_set key \<lparr>conditions = conds\<rparr> s))))))))"

definition parameter_uninstall ::
  "env \<Rightarrow> ContextRule \<Rightarrow> address \<Rightarrow> parameter_state
   \<Rightarrow> (ParameterScopedError, parameter_state) result" where
  "parameter_uninstall e context_rule smart_account s =
     (let key = AccountContext smart_account (rule_id context_rule) in
      res_bind (require_auth e smart_account) (\<lambda>_.
      res_bind (guard (entries s key \<noteq> None) (Panic SmartAccountNotInstalled)) (\<lambda>_.
      Inr (emit_conditions_uninstalled smart_account (rule_id context_rule)
            (store_remove key s)))))"

text \<open>
  The contract's own entry points, in \<open>src/policies/parameter-scoped-policy/src/lib.rs\<close>, forward to
  these.
\<close>

definition ParameterScopedPolicy_enforce ::
  "env \<Rightarrow> Context \<Rightarrow> Signer list \<Rightarrow> ContextRule \<Rightarrow> address \<Rightarrow> parameter_state
   \<Rightarrow> (ParameterScopedError, parameter_state) result" where
  "ParameterScopedPolicy_enforce e ctx authenticated_signers context_rule smart_account s =
     parameter_enforce e ctx authenticated_signers context_rule smart_account s"

definition ParameterScopedPolicy_install ::
  "env \<Rightarrow> ParameterScopedAccountParams \<Rightarrow> ContextRule \<Rightarrow> address \<Rightarrow> parameter_state
   \<Rightarrow> (ParameterScopedError, parameter_state) result" where
  "ParameterScopedPolicy_install e install_params context_rule smart_account s =
     parameter_install e install_params context_rule smart_account s"

definition ParameterScopedPolicy_uninstall ::
  "env \<Rightarrow> ContextRule \<Rightarrow> address \<Rightarrow> parameter_state
   \<Rightarrow> (ParameterScopedError, parameter_state) result" where
  "ParameterScopedPolicy_uninstall e context_rule smart_account s =
     parameter_uninstall e context_rule smart_account s"

definition ParameterScopedPolicy_get_conditions ::
  "u32 \<Rightarrow> address \<Rightarrow> parameter_state
   \<Rightarrow> (ParameterScopedError, conditions_map \<times> parameter_state) result" where
  "ParameterScopedPolicy_get_conditions context_rule_id smart_account s =
     get_conditions context_rule_id smart_account s"

lemmas parameter_shell_defs = ParameterScopedPolicy_enforce_def ParameterScopedPolicy_install_def
  ParameterScopedPolicy_uninstall_def ParameterScopedPolicy_get_conditions_def

lemmas parameter_defs = get_conditions_def parameter_enforce_def parameter_install_def
  parameter_uninstall_def emit_conditions_enforced_def emit_conditions_installed_def
  emit_conditions_uninstalled_def Let_def

section \<open>Conditions\<close>

definition condition_holds :: "val list \<Rightarrow> Condition \<Rightarrow> bool" where
  "condition_holds args cond \<longleftrightarrow>
     unat (arg_index cond) < length args
     \<and> condition_passed (args ! unat (arg_index cond)) cond"

lemma check_conditions_Inr [result_simps]:
  "check_conditions args conds = Inr u \<longleftrightarrow> list_all (condition_holds args) conds"
  by (induction conds) (auto simp: result_simps condition_holds_def)

text \<open>The denotation of an operator on ordered values.\<close>

fun operator_rel :: "Operator \<Rightarrow> 't::linorder \<Rightarrow> 't \<Rightarrow> bool" where
  "operator_rel Eq x y = (x = y)"
| "operator_rel Neq x y = (x \<noteq> y)"
| "operator_rel Gt x y = (y < x)"
| "operator_rel Gte x y = (y \<le> x)"
| "operator_rel Lt x y = (x < y)"
| "operator_rel Lte x y = (x \<le> y)"

lemma compare_ord_iff: "compare_ord v y op \<longleftrightarrow> (\<exists>x. v = Some x \<and> operator_rel op x y)"
  by (cases v; cases op) auto

lemma compare_eq_iff:
  "compare_eq v y op \<longleftrightarrow> (\<exists>x. v = Some x \<and> (op = Eq \<and> x = y \<or> op = Neq \<and> x \<noteq> y))"
  by (cases v; cases op) auto

text \<open>
  What a condition means: the argument has the expected value's type and stands in the operator's
  relation to it; symbols and addresses can only be equal or different.
\<close>

definition condition_spec :: "val \<Rightarrow> Condition \<Rightarrow> bool" where
  "condition_spec v cond \<longleftrightarrow>
     (case expected_value cond of
        EU32 y \<Rightarrow> (\<exists>x. v = U32Val x \<and> operator_rel (operator cond) x y)
      | EI32 y \<Rightarrow> (\<exists>x. v = I32Val x \<and> operator_rel (operator cond) x y)
      | EU64 y \<Rightarrow> (\<exists>x. v = U64Val x \<and> operator_rel (operator cond) x y)
      | EI64 y \<Rightarrow> (\<exists>x. v = I64Val x \<and> operator_rel (operator cond) x y)
      | EU128 y \<Rightarrow> (\<exists>x. v = U128Val x \<and> operator_rel (operator cond) x y)
      | EI128 y \<Rightarrow> (\<exists>x. v = I128Val x \<and> operator_rel (operator cond) x y)
      | ESym y \<Rightarrow> (\<exists>x. v = SymbolVal x \<and> (operator cond = Eq \<and> x = y \<or> operator cond = Neq \<and> x \<noteq> y))
      | EAddr y \<Rightarrow>
          (\<exists>x. v = AddressVal x \<and> (operator cond = Eq \<and> x = y \<or> operator cond = Neq \<and> x \<noteq> y)))"

lemma condition_passed_iff: "condition_passed v cond \<longleftrightarrow> condition_spec v cond"
  by (cases v; cases "expected_value cond")
     (simp_all add: condition_passed_def condition_spec_def compare_ord_iff compare_eq_iff as_val_defs)

section \<open>Invariant and behaviour\<close>

definition parameter_valid :: "ParameterScopedData \<Rightarrow> bool" where
  "parameter_valid d \<longleftrightarrow>
     conditions d \<noteq> [] \<and> length (conditions d) \<le> MAX_FNS
     \<and> (\<forall>(f, cs) \<in> set (conditions d). cs \<noteq> [] \<and> length cs \<le> MAX_CONDITIONS_PER_FN
          \<and> list_all operator_compatible cs)"

lemma validate_conditions_Inr [result_simps]:
  "validate_conditions m = Inr u \<longleftrightarrow>
     (\<forall>(f, cs) \<in> set m. cs \<noteq> [] \<and> length cs \<le> MAX_CONDITIONS_PER_FN
          \<and> list_all operator_compatible cs)"
  by (induction m rule: validate_conditions.induct) (auto simp: result_simps not_less)

lemma parameter_enforce_Inr:
  "parameter_enforce e ctx sg r a s = Inr s' \<longleftrightarrow>
     authorized e a \<and> sg \<noteq> []
     \<and> (\<exists>d cc conds. entries s (AccountContext a (rule_id r)) = Some d \<and> ctx = Contract cc
          \<and> map_of (conditions d) (ctx_fn_name cc) = Some conds
          \<and> list_all (condition_holds (ctx_args cc)) conds
          \<and> s' = s\<lparr>effects := effects s
                 @ [ExtendTtl (AccountContext a (rule_id r)) PARAMETER_SCOPED_TTL_THRESHOLD
                      PARAMETER_SCOPED_EXTEND_AMOUNT,
                    Publish (ConditionsEnforced a (rule_id r) (ctx_fn_name cc))]\<rparr>)"
  by (cases ctx) (auto simp: parameter_defs result_simps log_effect_def)

lemma parameter_install_Inr:
  "parameter_install e p r a s = Inr s' \<longleftrightarrow>
     authorized e a \<and> is_call_contract (context_type r)
     \<and> parameter_valid \<lparr>conditions = param_conditions p\<rparr>
     \<and> entries s (AccountContext a (rule_id r)) = None
     \<and> s' = log_effect (Publish (ConditionsInstalled a (rule_id r)))
              (store_set (AccountContext a (rule_id r)) \<lparr>conditions = param_conditions p\<rparr> s)"
  by (auto simp: parameter_defs result_simps not_less parameter_valid_def)

lemma parameter_uninstall_Inr:
  "parameter_uninstall e r a s = Inr s' \<longleftrightarrow>
     authorized e a \<and> entries s (AccountContext a (rule_id r)) \<noteq> None
     \<and> s' = log_effect (Publish (ConditionsUninstalled a (rule_id r)))
              (store_remove (AccountContext a (rule_id r)) s)"
  by (auto simp: parameter_defs result_simps)

interpretation parameter: fixed_policy entries parameter_install parameter_uninstall
  parameter_enforce parameter_valid
proof unfold_locales
  fix e p r a and s s' :: parameter_state
  assume "parameter_install e p r a s = Inr s'"
  then show "authorized e a \<and> is_call_contract (context_type r)
      \<and> entries s (AccountContext a (rule_id r)) = None
      \<and> (\<exists>d. parameter_valid d
            \<and> entries s' = (entries s)(AccountContext a (rule_id r) := Some d))"
    by (auto simp: parameter_install_Inr)
next
  fix e r a and s s' :: parameter_state
  assume "parameter_uninstall e r a s = Inr s'"
  then show "authorized e a \<and> entries s (AccountContext a (rule_id r)) \<noteq> None
      \<and> entries s' = (entries s)(AccountContext a (rule_id r) := None)"
    by (auto simp: parameter_uninstall_Inr)
next
  fix e c sg r a and s s' :: parameter_state
  assume "parameter_enforce e c sg r a s = Inr s'"
  then show "authorized e a
      \<and> (\<exists>d d'. entries s (AccountContext a (rule_id r)) = Some d
            \<and> (parameter_valid d \<longrightarrow> parameter_valid d')
            \<and> entries s' = (entries s)(AccountContext a (rule_id r) := Some d'))"
    by (fastforce simp: parameter_enforce_Inr)
next
  fix e c sg r a and s s' :: parameter_state
  assume "parameter_enforce e c sg r a s = Inr s'"
  then show "entries s' = entries s" by (auto simp: parameter_enforce_Inr)
qed

end
