(* ===== verification/Price_Oracle.thy ===== *)
theory Price_Oracle
  imports Soroban_Env
begin

text \<open>
  The oracle side of the multi-token spending limit policy,
  \<open>src/policies/multi-token-spending-limit-policy/src/oracle.rs\<close>: its wire types and the three
  cross-contract queries.  The called contracts are outside the repository, so they are a
  parameter, the record \<open>oracle_host\<close>; a call that reverts answers \<open>None\<close>.
\<close>

datatype MultiTokenError = InvalidContextRule | InvalidInstallParams | AlreadyInstalled
  | NotInstalled | TokenNotAllowed | InvalidTransferArgs | StaleOraclePrice
  | SpendingLimitExceeded | HistoryCapacityExceeded | InvalidOracleResponse
  | InvalidTokenResponse | AmountConversionOverflow

datatype Asset = Stellar address | Other symbol

record PriceData =
  price :: i128
  timestamp :: u64

text \<open>
  What the called contracts answer: \<open>decimals()\<close> of an oracle or token contract, and
  \<open>lastprice(asset)\<close> of an oracle, which itself returns an \<open>Option\<close>.
\<close>

record oracle_host =
  decimals :: "address \<Rightarrow> u32 option"
  lastprice :: "address \<Rightarrow> Asset \<Rightarrow> PriceData option option"

definition MAX_TOKEN_DECIMALS :: u32 where
  "MAX_TOKEN_DECIMALS = 20"

definition MAX_ORACLE_DECIMALS :: u32 where
  "MAX_ORACLE_DECIMALS = 30"

definition fetch_usd_divisor :: "oracle_host \<Rightarrow> address \<Rightarrow> (MultiTokenError, i128) result" where
  "fetch_usd_divisor h oracle_address =
     res_bind (unwrap_or (decimals h oracle_address) (Trap CallReverted)) (\<lambda>n.
     res_bind (guard (\<not> n > MAX_ORACLE_DECIMALS) (Panic InvalidOracleResponse)) (\<lambda>_.
     unwrap_or (checked_pow_i128 10 n) (Panic InvalidOracleResponse)))"

definition fetch_token_divisor :: "oracle_host \<Rightarrow> address \<Rightarrow> (MultiTokenError, i128) result" where
  "fetch_token_divisor h tk =
     res_bind (unwrap_or (decimals h tk) (Trap CallReverted)) (\<lambda>n.
     res_bind (guard (\<not> n > MAX_TOKEN_DECIMALS) (Panic InvalidTokenResponse)) (\<lambda>_.
     unwrap_or (checked_pow_i128 10 n) (Panic InvalidTokenResponse)))"

definition fetch_price ::
  "oracle_host \<Rightarrow> env \<Rightarrow> address \<Rightarrow> address \<Rightarrow> (MultiTokenError, PriceData) result" where
  "fetch_price h e oracle_address tk =
     res_bind (unwrap_or (lastprice h oracle_address (Stellar tk)) (Trap CallReverted)) (\<lambda>answer.
     res_bind (unwrap_or answer (Panic InvalidOracleResponse)) (\<lambda>price_data.
     res_bind (guard (\<not> (price price_data \<le> 0 \<or> timestamp price_data > ledger_timestamp e))
                (Panic InvalidOracleResponse)) (\<lambda>_.
     Inr price_data)))"

text \<open>Within the decimals bounds the power never overflows, so the overflow branches are dead.\<close>

lemma checked_pow_small:
  assumes "n \<le> MAX_ORACLE_DECIMALS"
  shows "checked_pow_i128 10 n = Some (10 ^ unat n)"
proof -
  from assms have "unat n \<le> 30" by (simp add: MAX_ORACLE_DECIMALS_def word_le_nat_alt)
  then have "(10 :: int) ^ unat n \<le> 10 ^ 30" by (intro power_increasing) simp_all
  then have "(10 :: int) ^ unat n \<le> i128_max" by (simp add: i128_max_def)
  moreover have "i128_min \<le> (10 :: int) ^ unat n"
    by (rule order_trans [of _ 0]) (simp_all add: i128_min_def)
  ultimately show ?thesis by (simp add: checked_pow_i128_def check_i128_def in_i128_def)
qed

lemma token_decimals_le: "n \<le> MAX_TOKEN_DECIMALS \<Longrightarrow> n \<le> MAX_ORACLE_DECIMALS"
  by (simp add: MAX_TOKEN_DECIMALS_def MAX_ORACLE_DECIMALS_def word_le_nat_alt)

lemma fetch_usd_divisor_Inr [result_simps]:
  "fetch_usd_divisor h a = Inr v \<longleftrightarrow>
     (\<exists>n. decimals h a = Some n \<and> n \<le> MAX_ORACLE_DECIMALS \<and> v = 10 ^ unat n)"
  by (auto simp: fetch_usd_divisor_def result_simps checked_pow_small not_less)

lemma fetch_token_divisor_Inr [result_simps]:
  "fetch_token_divisor h a = Inr v \<longleftrightarrow>
     (\<exists>n. decimals h a = Some n \<and> n \<le> MAX_TOKEN_DECIMALS \<and> v = 10 ^ unat n)"
  by (auto simp: fetch_token_divisor_def result_simps checked_pow_small token_decimals_le not_less)

lemma fetch_price_Inr [result_simps]:
  "fetch_price h e oa tk = Inr p \<longleftrightarrow>
     lastprice h oa (Stellar tk) = Some (Some p) \<and> 0 < price p \<and> timestamp p \<le> ledger_timestamp e"
  by (auto simp: fetch_price_def result_simps not_le not_less)

end
