(* ===== verification/Multi_Token_Policy.thy ===== *)
theory Multi_Token_Policy
  imports Policy_Store Price_Oracle
begin

text \<open>
  The multi-token spending limit policy,
  \<open>src/policies/multi-token-spending-limit-policy/src/lib.rs\<close>: stored data, the window clean-up
  loop, the policy entry points, the accounting invariant and the interpretation of the
  policy interface (for every behaviour of the oracle and token contracts).
\<close>

section \<open>Data\<close>

record MultiTokenSpendingLimitAccountParams =
  p_spending_limit_usd :: i128
  p_period_ledgers :: u32
  p_oracle_address :: address
  p_allowed_tokens :: "address list"

record SpendingEntry =
  amount_usd :: i128
  spent_ledger :: u32

record PolicyData =
  spending_limit_usd :: i128
  period_ledgers :: u32
  oracle_address :: address
  usd_divisor :: i128
  allowed_tokens :: "address list"
  token_divisors :: "i128 list"
  spending_history :: "SpendingEntry list"
  cached_total_spent_usd :: i128

type_synonym multi_state = "(PolicyData, unit) policy_state"

definition POLICY_EXTEND_AMOUNT :: u32 where
  "POLICY_EXTEND_AMOUNT = 30 * DAY_IN_LEDGERS"

definition POLICY_TTL_THRESHOLD :: u32 where
  "POLICY_TTL_THRESHOLD = POLICY_EXTEND_AMOUNT - DAY_IN_LEDGERS"

definition MAX_HISTORY_ENTRIES :: nat where
  "MAX_HISTORY_ENTRIES = 1000"

definition MAX_STALENESS_LEDGERS :: u32 where
  "MAX_STALENESS_LEDGERS = 100"

definition LEDGER_CLOSE_TIME_SECS :: u64 where
  "LEDGER_CLOSE_TIME_SECS = 5"

section \<open>Helpers\<close>

definition get_policy_data ::
  "u32 \<Rightarrow> address \<Rightarrow> multi_state \<Rightarrow> (MultiTokenError, PolicyData \<times> multi_state) result" where
  "get_policy_data context_rule_id smart_account s =
     (let key = AccountContext smart_account context_rule_id in
      res_bind (unwrap_or (entries s key) (Panic NotInstalled)) (\<lambda>data.
      Inr (data, log_effect (ExtendTtl key POLICY_TTL_THRESHOLD POLICY_EXTEND_AMOUNT) s)))"

text \<open>
  The \<open>while let\<close> loop that pops expired entries off the front: what is left of the history, and
  the accumulated removed total.
\<close>

fun cleanup_loop :: "u32 \<Rightarrow> SpendingEntry list \<Rightarrow> i128 \<Rightarrow> SpendingEntry list \<times> i128" where
  "cleanup_loop cutoff [] removed_total = ([], removed_total)"
| "cleanup_loop cutoff (x # xs) removed_total =
     (if spent_ledger x \<le> cutoff
      then cleanup_loop cutoff xs (saturating_add_i128 removed_total (amount_usd x))
      else (x # xs, removed_total))"

definition cleanup_old_entries ::
  "SpendingEntry list \<Rightarrow> u32 \<Rightarrow> u32 \<Rightarrow> SpendingEntry list \<times> i128" where
  "cleanup_old_entries history current_ledger period =
     cleanup_loop (saturating_sub_word current_ledger period) history 0"

text \<open>\<open>Vec::first_index_of\<close>; a host vector has fewer than \<open>2\<^sup>3\<^sup>2\<close> elements.\<close>

fun first_index_of :: "'a \<Rightarrow> 'a list \<Rightarrow> nat option" where
  "first_index_of x [] = None"
| "first_index_of x (y # ys) = (if x = y then Some 0 else map_option Suc (first_index_of x ys))"

definition nth_opt :: "'a list \<Rightarrow> nat \<Rightarrow> 'a option" where
  "nth_opt xs i = (if i < length xs then Some (xs ! i) else None)"

section \<open>Entry points\<close>

definition multi_install ::
  "oracle_host \<Rightarrow> env \<Rightarrow> MultiTokenSpendingLimitAccountParams \<Rightarrow> ContextRule \<Rightarrow> address
   \<Rightarrow> multi_state \<Rightarrow> (MultiTokenError, multi_state) result" where
  "multi_install h e params context_rule smart_account s =
     (let key = AccountContext smart_account (rule_id context_rule) in
      res_bind (require_auth e smart_account) (\<lambda>_.
      res_bind (guard (is_call_contract (context_type context_rule))
                 (Panic InvalidContextRule)) (\<lambda>_.
      res_bind (guard (\<not> (p_spending_limit_usd params \<le> 0 \<or> p_period_ledgers params = 0
                       \<or> p_allowed_tokens params = [])) (Panic InvalidInstallParams)) (\<lambda>_.
      res_bind (guard (entries s key = None) (Panic AlreadyInstalled)) (\<lambda>_.
      res_bind (fetch_usd_divisor h (p_oracle_address params)) (\<lambda>divisor.
      res_bind (res_map (fetch_token_divisor h) (p_allowed_tokens params)) (\<lambda>divisors.
      Inr (store_set key
            \<lparr>spending_limit_usd = p_spending_limit_usd params,
             period_ledgers = p_period_ledgers params,
             oracle_address = p_oracle_address params,
             usd_divisor = divisor,
             allowed_tokens = p_allowed_tokens params,
             token_divisors = divisors,
             spending_history = [],
             cached_total_spent_usd = 0\<rparr> s))))))))"

definition multi_uninstall ::
  "env \<Rightarrow> ContextRule \<Rightarrow> address \<Rightarrow> multi_state \<Rightarrow> (MultiTokenError, multi_state) result" where
  "multi_uninstall e context_rule smart_account s =
     (let key = AccountContext smart_account (rule_id context_rule) in
      res_bind (require_auth e smart_account) (\<lambda>_.
      res_bind (guard (entries s key \<noteq> None) (Panic NotInstalled)) (\<lambda>_.
      Inr (store_remove key s))))"

text \<open>The conversion \<open>amount * price / usd_divisor / token_divisor\<close>, checked at each step.\<close>

definition to_usd :: "i128 \<Rightarrow> i128 \<Rightarrow> i128 \<Rightarrow> i128 \<Rightarrow> (MultiTokenError, i128) result" where
  "to_usd amount p usd_div token_div =
     unwrap_or
       (Option.bind (checked_mul_i128 amount p) (\<lambda>v.
        Option.bind (checked_div_i128 v usd_div) (\<lambda>v.
        checked_div_i128 v token_div)))
       (Panic AmountConversionOverflow)"

text \<open>The tail of \<open>enforce\<close>: clean-up, limit and capacity checks, and the new data.\<close>

definition record_spend :: "u32 \<Rightarrow> i128 \<Rightarrow> PolicyData \<Rightarrow> (MultiTokenError, PolicyData) result" where
  "record_spend current_ledger usd data =
     (let (history, removed_amount) =
            cleanup_old_entries (spending_history data) current_ledger (period_ledgers data);
          cached = saturating_sub_i128 (cached_total_spent_usd data) removed_amount in
      res_bind (guard (\<not> saturating_add_i128 cached usd > spending_limit_usd data)
                 (Panic SpendingLimitExceeded)) (\<lambda>_.
      res_bind (guard (\<not> length history \<ge> MAX_HISTORY_ENTRIES)
                 (Panic HistoryCapacityExceeded)) (\<lambda>_.
      Inr (data\<lparr>spending_history := history @ [\<lparr>amount_usd = usd, spent_ledger = current_ledger\<rparr>],
                cached_total_spent_usd := saturating_add_i128 cached usd\<rparr>))))"

definition multi_enforce ::
  "oracle_host \<Rightarrow> env \<Rightarrow> Context \<Rightarrow> Signer list \<Rightarrow> ContextRule \<Rightarrow> address
   \<Rightarrow> multi_state \<Rightarrow> (MultiTokenError, multi_state) result" where
  "multi_enforce h e ctx authenticated_signers context_rule smart_account s =
     res_bind (require_auth e smart_account) (\<lambda>_.
     (case ctx of
        Contract cc \<Rightarrow>
          res_bind (guard (ctx_fn_name cc = ''transfer'') (Panic InvalidTransferArgs)) (\<lambda>_.
          res_bind (unwrap_or (vec_get (ctx_args cc) 2) (Panic InvalidTransferArgs)) (\<lambda>amount_val.
          res_bind (unwrap_or (i128_try_from_val amount_val) (Panic InvalidTransferArgs)) (\<lambda>amount.
          res_bind (guard (\<not> amount < 0) (Panic InvalidTransferArgs)) (\<lambda>_.
          res_bind (get_policy_data (rule_id context_rule) smart_account s) (\<lambda>(data, s1).
          res_bind (unwrap_or (first_index_of (ctx_contract cc) (allowed_tokens data))
                     (Panic TokenNotAllowed)) (\<lambda>token_idx.
          res_bind (unwrap_or (nth_opt (token_divisors data) token_idx)
                     (Panic TokenNotAllowed)) (\<lambda>token_divisor.
          res_bind (fetch_price h e (oracle_address data) (ctx_contract cc)) (\<lambda>price_data.
          res_bind (guard (\<not> saturating_sub_word (ledger_timestamp e) (timestamp price_data)
                             > ucast MAX_STALENESS_LEDGERS * LEDGER_CLOSE_TIME_SECS)
                     (Panic StaleOraclePrice)) (\<lambda>_.
          res_bind (to_usd amount (price price_data) (usd_divisor data) token_divisor) (\<lambda>usd.
          res_bind (record_spend (ledger_sequence e) usd data) (\<lambda>data'.
          Inr (store_set (AccountContext smart_account (rule_id context_rule)) data' s1))))))))))))
      | _ \<Rightarrow> Inl (Panic InvalidTransferArgs)))"

text \<open>The public query forwards to the helper of the same name.\<close>

definition MultiTokenSpendingLimitPolicy_get_policy_data ::
  "u32 \<Rightarrow> address \<Rightarrow> multi_state \<Rightarrow> (MultiTokenError, PolicyData \<times> multi_state) result" where
  "MultiTokenSpendingLimitPolicy_get_policy_data context_rule_id smart_account s =
     get_policy_data context_rule_id smart_account s"

section \<open>Helper lemmas\<close>

lemma first_index_of_Some:
  "first_index_of x ys = Some i \<longleftrightarrow> i < length ys \<and> ys ! i = x \<and> (\<forall>j < i. ys ! j \<noteq> x)"
proof (induction ys arbitrary: i)
  case Nil
  then show ?case by simp
next
  case (Cons y ys)
  then show ?case by (cases i) (auto simp: All_less_Suc2)
qed

lemma first_index_of_None: "first_index_of x ys = None \<longleftrightarrow> x \<notin> set ys"
  by (induction ys) auto

lemma nth_opt_Some: "nth_opt xs i = Some x \<longleftrightarrow> i < length xs \<and> x = xs ! i"
  by (auto simp: nth_opt_def)

definition usd_total :: "SpendingEntry list \<Rightarrow> int" where
  "usd_total xs = (\<Sum>x\<leftarrow>xs. amount_usd x)"

abbreviation expired :: "u32 \<Rightarrow> SpendingEntry \<Rightarrow> bool" where
  "expired c x \<equiv> spent_ledger x \<le> c"

lemma usd_total_simps [simp]:
  "usd_total [] = 0" "usd_total (x # xs) = amount_usd x + usd_total xs"
  "usd_total (xs @ ys) = usd_total xs + usd_total ys"
  by (simp_all add: usd_total_def)

lemma usd_total_nonneg: "(\<And>x. x \<in> set xs \<Longrightarrow> 0 \<le> amount_usd x) \<Longrightarrow> 0 \<le> usd_total xs"
  by (induction xs) auto

lemma usd_total_split: "usd_total (takeWhile P xs) + usd_total (dropWhile P xs) = usd_total xs"
  by (metis takeWhile_dropWhile_id usd_total_simps(3))

text \<open>
  On a history of non-negative amounts whose total is an \<open>i128\<close> the loop's saturation never
  happens: it splits the history at the first live entry.
\<close>

lemma cleanup_loop_exact:
  assumes "\<And>x. x \<in> set xs \<Longrightarrow> 0 \<le> amount_usd x" "0 \<le> r" "r + usd_total xs \<le> i128_max"
  shows "cleanup_loop c xs r = (dropWhile (expired c) xs, r + usd_total (takeWhile (expired c) xs))"
  using assms
proof (induction xs arbitrary: r)
  case Nil
  then show ?case by simp
next
  case (Cons x xs)
  have "0 \<le> usd_total xs" "0 \<le> amount_usd x"
    using Cons.prems(1) by (auto intro: usd_total_nonneg)
  moreover from this Cons.prems have "saturating_add_i128 r (amount_usd x) = r + amount_usd x"
    by (intro saturating_add_exact) auto
  ultimately show ?case using Cons by auto
qed

lemma cleanup_loop_history: "fst (cleanup_loop c xs r) = dropWhile (expired c) xs"
  by (induction xs arbitrary: r) auto

lemma div_le_self: "0 \<le> (v::int) \<Longrightarrow> 0 < d \<Longrightarrow> v div d \<le> v"
  using zdiv_mono2 [of v 1 d] by simp

lemma quotient_in_range:
  assumes "0 \<le> v" "0 < d" "in_i128 v"
  shows "checked_div_i128 v d = Some (v div d)"
proof -
  have "0 \<le> v div d" "v div d \<le> v"
    using assms by (simp_all add: pos_imp_zdiv_nonneg_iff div_le_self)
  with assms show ?thesis
    by (simp add: checked_div_i128_def check_i128_def trunc_div_nonneg in_i128_nonneg)
qed

lemma to_usd_Inr:
  assumes "0 \<le> amount" "0 < p" "0 < u" "0 < t"
  shows "to_usd amount p u t = Inr v \<longleftrightarrow> amount * p \<le> i128_max \<and> v = amount * p div (u * t)"
proof -
  have pos: "0 \<le> amount * p" using assms by simp
  then have range: "in_i128 (amount * p) \<longleftrightarrow> amount * p \<le> i128_max"
    by (auto simp: i128_range_defs)
  show ?thesis
  proof (cases "in_i128 (amount * p)")
    case True
    let ?q = "amount * p div u"
    have q: "0 \<le> ?q" "?q \<le> amount * p"
      using pos assms by (simp_all add: pos_imp_zdiv_nonneg_iff div_le_self)
    have "in_i128 ?q" using q True by (rule in_i128_nonneg)
    then have "to_usd amount p u t = Inr (?q div t)"
      using True pos q assms
      by (simp add: to_usd_def checked_mul_i128_def check_i128_def quotient_in_range)
    then show ?thesis
      using assms True range by (auto simp: zdiv_zmult2_eq)
  next
    case False
    then show ?thesis
      using range by (simp add: to_usd_def checked_mul_i128_def check_i128_def)
  qed
qed

section \<open>The accounting invariant\<close>

text \<open>
  Configuration: positive limit, period and divisors, one divisor per token.  History: recorded
  amounts are non-negative and at most \<open>MAX_HISTORY_ENTRIES\<close> are kept.  Accounting: moreover the cached
  total is their sum and within the limit.  The accounting part is for limits below \<open>i128::MAX\<close>: at that
  limit the saturating sum in \<open>enforce\<close> never exceeds it, so the cap is not enforced and the cached total
  stops being the sum.
\<close>

definition multi_config :: "PolicyData \<Rightarrow> bool" where
  "multi_config d \<longleftrightarrow>
     0 < spending_limit_usd d \<and> 0 < period_ledgers d \<and> allowed_tokens d \<noteq> []
     \<and> 0 < usd_divisor d \<and> length (token_divisors d) = length (allowed_tokens d)
     \<and> (\<forall>x \<in> set (token_divisors d). 0 < x)"

definition multi_bounded :: "PolicyData \<Rightarrow> bool" where
  "multi_bounded d \<longleftrightarrow>
     (\<forall>x \<in> set (spending_history d). 0 \<le> amount_usd x)
     \<and> length (spending_history d) \<le> MAX_HISTORY_ENTRIES"

definition multi_accounts :: "PolicyData \<Rightarrow> bool" where
  "multi_accounts d \<longleftrightarrow>
     (\<forall>x \<in> set (spending_history d). 0 \<le> amount_usd x)
     \<and> cached_total_spent_usd d = usd_total (spending_history d)
     \<and> cached_total_spent_usd d \<le> spending_limit_usd d
     \<and> length (spending_history d) \<le> MAX_HISTORY_ENTRIES"

definition multi_valid :: "PolicyData \<Rightarrow> bool" where
  "multi_valid d \<longleftrightarrow>
     multi_config d \<and> multi_bounded d \<and> (spending_limit_usd d < i128_max \<longrightarrow> multi_accounts d)"

definition live_history :: "u32 \<Rightarrow> PolicyData \<Rightarrow> SpendingEntry list" where
  "live_history now d =
     dropWhile (expired (saturating_sub_word now (period_ledgers d))) (spending_history d)"

lemma live_history_set: "x \<in> set (live_history now d) \<Longrightarrow> x \<in> set (spending_history d)"
  unfolding live_history_def by (rule set_dropWhileD)

text \<open>Expiry on consistent accounts: the saturating operations are exact.\<close>

lemma live_history_total:
  assumes "multi_accounts d"
  shows "0 \<le> usd_total (live_history now d)"
    and "usd_total (live_history now d) \<le> spending_limit_usd d"
proof -
  let ?P = "expired (saturating_sub_word now (period_ledgers d))"
  show "0 \<le> usd_total (live_history now d)"
    using assms by (intro usd_total_nonneg) (auto simp: multi_accounts_def dest: live_history_set)
  have "0 \<le> usd_total (takeWhile ?P (spending_history d))"
    using assms by (intro usd_total_nonneg) (auto simp: multi_accounts_def dest: set_takeWhileD)
  with usd_total_split [of ?P "spending_history d"] assms
  show "usd_total (live_history now d) \<le> spending_limit_usd d"
    by (simp add: multi_accounts_def live_history_def)
qed

lemma cleanup_exact:
  assumes "multi_accounts d" "spending_limit_usd d < i128_max"
  shows "cleanup_old_entries (spending_history d) now (period_ledgers d)
         = (live_history now d, usd_total (spending_history d) - usd_total (live_history now d))"
proof -
  let ?P = "expired (saturating_sub_word now (period_ledgers d))"
  have "cleanup_loop (saturating_sub_word now (period_ledgers d)) (spending_history d) 0
        = (live_history now d, 0 + usd_total (takeWhile ?P (spending_history d)))"
    unfolding live_history_def
    using assms by (intro cleanup_loop_exact) (auto simp: multi_accounts_def)
  with usd_total_split [of ?P "spending_history d"] show ?thesis
    by (simp add: cleanup_old_entries_def live_history_def)
qed

lemma record_spend_Inr:
  assumes acc: "multi_accounts d" and lim: "spending_limit_usd d < i128_max" and usd: "0 \<le> usd"
  shows "record_spend now usd d = Inr d' \<longleftrightarrow>
     usd_total (live_history now d) + usd \<le> spending_limit_usd d
     \<and> length (live_history now d) < MAX_HISTORY_ENTRIES
     \<and> d' = d\<lparr>spending_history := live_history now d @ [\<lparr>amount_usd = usd, spent_ledger = now\<rparr>],
               cached_total_spent_usd := usd_total (live_history now d) + usd\<rparr>"
proof -
  let ?l = "usd_total (live_history now d)"
  note l = live_history_total [OF acc, of now]
  have sub: "saturating_sub_i128 (cached_total_spent_usd d) (usd_total (spending_history d) - ?l) = ?l"
    using l acc lim by (subst saturating_sub_exact) (auto simp: multi_accounts_def)
  have lt: "\<not> spending_limit_usd d < saturating_add_i128 ?l usd \<longleftrightarrow> ?l + usd \<le> spending_limit_usd d"
    using l lim usd by (auto simp: saturating_add_exact not_less dest: saturating_add_le)
  have add: "?l + usd \<le> spending_limit_usd d \<Longrightarrow> saturating_add_i128 ?l usd = ?l + usd"
    using l lim usd by (intro saturating_add_exact) auto
  show ?thesis
    using lt add
    by (auto simp: record_spend_def cleanup_exact [OF acc lim] sub result_simps not_le)
qed

lemma record_spend_config:
  "record_spend now usd d = Inr d' \<Longrightarrow>
     \<exists>hist c. d' = d\<lparr>spending_history := hist, cached_total_spent_usd := c\<rparr>"
  by (auto simp: record_spend_def result_simps Let_def split: prod.splits)

text \<open>The history stays bounded at every limit, whatever the saturating total says.\<close>

lemma record_spend_bounded:
  assumes "record_spend now usd d = Inr d'" "multi_bounded d" "0 \<le> usd"
  shows "multi_bounded d'"
proof -
  have hist: "fst (cleanup_old_entries (spending_history d) now (period_ledgers d)) = live_history now d"
    by (simp add: cleanup_old_entries_def cleanup_loop_history live_history_def)
  from assms(1) have "length (live_history now d) < MAX_HISTORY_ENTRIES"
    "spending_history d' = live_history now d @ [\<lparr>amount_usd = usd, spent_ledger = now\<rparr>]"
    unfolding hist [symmetric]
    by (auto simp: record_spend_def result_simps Let_def not_le split: prod.splits)
  with assms(2,3) show ?thesis by (auto simp: multi_bounded_def dest: live_history_set)
qed

lemma record_spend_accounts:
  assumes "record_spend now usd d = Inr d'" "multi_accounts d" "spending_limit_usd d < i128_max"
    "0 \<le> usd"
  shows "multi_accounts d'"
  using assms by (auto simp: record_spend_Inr multi_accounts_def dest: live_history_set)

section \<open>The entry points in closed form\<close>

lemma multi_install_Inr:
  "multi_install h e p r a s = Inr s' \<longleftrightarrow>
     authorized e a \<and> is_call_contract (context_type r)
     \<and> 0 < p_spending_limit_usd p \<and> p_period_ledgers p \<noteq> 0 \<and> p_allowed_tokens p \<noteq> []
     \<and> entries s (AccountContext a (rule_id r)) = None
     \<and> (\<exists>n ts. decimals h (p_oracle_address p) = Some n \<and> n \<le> MAX_ORACLE_DECIMALS
          \<and> list_all2 (\<lambda>tk t. fetch_token_divisor h tk = Inr t) (p_allowed_tokens p) ts
          \<and> s' = store_set (AccountContext a (rule_id r))
              \<lparr>spending_limit_usd = p_spending_limit_usd p, period_ledgers = p_period_ledgers p,
               oracle_address = p_oracle_address p, usd_divisor = 10 ^ unat n,
               allowed_tokens = p_allowed_tokens p, token_divisors = ts,
               spending_history = [], cached_total_spent_usd = 0\<rparr> s)"
  by (auto simp: multi_install_def result_simps Let_def not_le)

lemma multi_uninstall_Inr:
  "multi_uninstall e r a s = Inr s' \<longleftrightarrow>
     authorized e a \<and> entries s (AccountContext a (rule_id r)) \<noteq> None
     \<and> s' = store_remove (AccountContext a (rule_id r)) s"
  by (auto simp: multi_uninstall_def result_simps Let_def)

text \<open>
  A priced transfer: the call \<open>cc\<close> moves \<open>amount\<close> of an allowed token whose divisor is \<open>t\<close>, and the
  oracle has a current price for it.
\<close>

definition priced_transfer ::
  "oracle_host \<Rightarrow> env \<Rightarrow> PolicyData \<Rightarrow> ContractContext \<Rightarrow> int \<Rightarrow> int \<Rightarrow> PriceData \<Rightarrow> bool" where
  "priced_transfer h e d cc amount t p \<longleftrightarrow>
     ctx_fn_name cc = ''transfer'' \<and> 2 < length (ctx_args cc)
     \<and> ctx_args cc ! 2 = I128Val amount \<and> 0 \<le> amount
     \<and> (\<exists>i. first_index_of (ctx_contract cc) (allowed_tokens d) = Some i
          \<and> nth_opt (token_divisors d) i = Some t)
     \<and> lastprice h (oracle_address d) (Stellar (ctx_contract cc)) = Some (Some p)
     \<and> 0 < price p \<and> timestamp p \<le> ledger_timestamp e
     \<and> uint (ledger_timestamp e) - uint (timestamp p) \<le> 500"

lemma fresh_iff:
  assumes "t \<le> now"
  shows "saturating_sub_word now t \<le> ucast MAX_STALENESS_LEDGERS * LEDGER_CLOSE_TIME_SECS
         \<longleftrightarrow> uint now - uint t \<le> 500"
  using assms uint_saturating_sub_word [of now t]
  by (simp add: word_less_def word_le_def MAX_STALENESS_LEDGERS_def LEDGER_CLOSE_TIME_SECS_def
      not_less)

lemma multi_enforce_Inr:
  "multi_enforce h e ctx sg r a s = Inr s' \<longleftrightarrow>
     authorized e a
     \<and> (\<exists>cc amount d t p usd d'. ctx = Contract cc
          \<and> entries s (AccountContext a (rule_id r)) = Some d
          \<and> priced_transfer h e d cc amount t p
          \<and> to_usd amount (price p) (usd_divisor d) t = Inr usd
          \<and> record_spend (ledger_sequence e) usd d = Inr d'
          \<and> s' = store_set (AccountContext a (rule_id r)) d'
              (log_effect (ExtendTtl (AccountContext a (rule_id r)) POLICY_TTL_THRESHOLD
                 POLICY_EXTEND_AMOUNT) s))"
proof (cases ctx)
  case (Contract cc)
  then show ?thesis
    by (auto simp: multi_enforce_def get_policy_data_def result_simps priced_transfer_def fresh_iff
        Let_def not_less cong: conj_cong)
qed (simp_all add: multi_enforce_def result_simps)

text \<open>On an installed, valid entry the stored divisors are positive, so the value is exact.\<close>

lemma priced_transfer_divisor:
  assumes "priced_transfer h e d cc amount t p" "multi_config d"
  shows "0 \<le> amount" "0 < price p" "0 < usd_divisor d" "0 < t"
  using assms by (auto simp: priced_transfer_def multi_config_def nth_opt_Some)

lemma priced_usd_nonneg:
  assumes "priced_transfer h e d cc amount t p" "multi_config d"
    "to_usd amount (price p) (usd_divisor d) t = Inr usd"
  shows "0 \<le> usd"
  using assms(3) priced_transfer_divisor [OF assms(1,2)]
  by (simp add: to_usd_Inr pos_imp_zdiv_nonneg_iff)

lemma multi_enforce_valid:
  assumes "priced_transfer h e d cc amount t p" "multi_valid d"
    "to_usd amount (price p) (usd_divisor d) t = Inr usd" "record_spend now usd d = Inr d'"
  shows "multi_valid d'"
proof -
  from record_spend_config [OF assms(4)] assms(2) have "multi_config d'"
    "spending_limit_usd d' = spending_limit_usd d"
    by (auto simp: multi_valid_def multi_config_def)
  moreover have "0 \<le> usd"
    using priced_usd_nonneg [OF assms(1) _ assms(3)] assms(2) by (simp add: multi_valid_def)
  ultimately show ?thesis
    using record_spend_accounts [OF assms(4)] record_spend_bounded [OF assms(4)] assms(2)
    by (auto simp: multi_valid_def)
qed

text \<open>On a valid entry below the largest limit: the conditions of approval, and what is then stored.\<close>

lemma multi_enforce_valid_iff:
  assumes "entries s (AccountContext a (rule_id r)) = Some d" "multi_valid d"
    and "spending_limit_usd d < i128_max"
  shows "multi_enforce h e ctx sg r a s = Inr s' \<longleftrightarrow>
     authorized e a
     \<and> (\<exists>cc amount t p usd. ctx = Contract cc \<and> priced_transfer h e d cc amount t p
          \<and> amount * price p \<le> i128_max \<and> usd = amount * price p div (usd_divisor d * t)
          \<and> usd_total (live_history (ledger_sequence e) d) + usd \<le> spending_limit_usd d
          \<and> length (live_history (ledger_sequence e) d) < MAX_HISTORY_ENTRIES
          \<and> s' = store_set (AccountContext a (rule_id r))
              (d\<lparr>spending_history := live_history (ledger_sequence e) d
                   @ [\<lparr>amount_usd = usd, spent_ledger = ledger_sequence e\<rparr>],
                 cached_total_spent_usd := usd_total (live_history (ledger_sequence e) d) + usd\<rparr>)
              (log_effect (ExtendTtl (AccountContext a (rule_id r)) POLICY_TTL_THRESHOLD
                 POLICY_EXTEND_AMOUNT) s))"
proof -
  have cfg: "multi_config d" and acc: "multi_accounts d"
    using assms(2,3) by (simp_all add: multi_valid_def)
  have usd: "to_usd amount (price p) (usd_divisor d) t = Inr v \<longleftrightarrow>
      amount * price p \<le> i128_max \<and> v = amount * price p div (usd_divisor d * t)"
    if "priced_transfer h e d cc amount t p" for cc amount t p v
    using priced_transfer_divisor [OF that cfg] by (rule to_usd_Inr)
  have spend: "record_spend now v d = Inr d' \<longleftrightarrow>
     usd_total (live_history now d) + v \<le> spending_limit_usd d
     \<and> length (live_history now d) < MAX_HISTORY_ENTRIES
     \<and> d' = d\<lparr>spending_history := live_history now d @ [\<lparr>amount_usd = v, spent_ledger = now\<rparr>],
               cached_total_spent_usd := usd_total (live_history now d) + v\<rparr>"
    if "priced_transfer h e d cc amount t p" "to_usd amount (price p) (usd_divisor d) t = Inr v"
    for cc amount t p v d' now
    using record_spend_Inr [OF acc assms(3) priced_usd_nonneg [OF that(1) cfg that(2)]] .
  show ?thesis
    unfolding multi_enforce_Inr assms(1)
    by (auto simp: usd spend cong: conj_cong)
qed

lemma fetched_divisors_positive:
  "list_all2 (\<lambda>tk t. fetch_token_divisor h tk = Inr t) tks ts \<Longrightarrow>
     length ts = length tks \<and> (\<forall>t \<in> set ts. 0 < t)"
  by (induction rule: list_all2_induct) (auto simp: result_simps)

lemma fresh_policy_valid:
  assumes "multi_install h e p r a s = Inr s'"
  shows "\<exists>d. multi_valid d \<and> spending_history d = []
           \<and> entries s' = (entries s)(AccountContext a (rule_id r) := Some d)"
proof -
  from assms obtain n ts where
    ts: "list_all2 (\<lambda>tk t. fetch_token_divisor h tk = Inr t) (p_allowed_tokens p) ts"
    and s': "entries s' = (entries s)(AccountContext a (rule_id r) := Some
        \<lparr>spending_limit_usd = p_spending_limit_usd p, period_ledgers = p_period_ledgers p,
         oracle_address = p_oracle_address p, usd_divisor = 10 ^ unat (n :: u32),
         allowed_tokens = p_allowed_tokens p, token_divisors = ts,
         spending_history = [], cached_total_spent_usd = 0\<rparr>)" (is "_ = _(_ := Some ?d)")
    and ok: "0 < p_spending_limit_usd p" "p_period_ledgers p \<noteq> 0" "p_allowed_tokens p \<noteq> []"
    by (auto simp: multi_install_Inr)
  have "multi_valid ?d \<and> spending_history ?d = []"
    using ok fetched_divisors_positive [OF ts]
    by (simp add: multi_valid_def multi_config_def multi_bounded_def multi_accounts_def word_gt_0)
  with s' show ?thesis by blast
qed

interpretation multi: policy_contract entries "multi_install h" multi_uninstall "multi_enforce h"
  multi_valid for h
proof unfold_locales
  fix e p r a and s s' :: multi_state
  assume "multi_install h e p r a s = Inr s'"
  then show "authorized e a \<and> is_call_contract (context_type r)
      \<and> entries s (AccountContext a (rule_id r)) = None
      \<and> (\<exists>d. multi_valid d
            \<and> entries s' = (entries s)(AccountContext a (rule_id r) := Some d))"
    using fresh_policy_valid [of h e p r a s s'] by (auto simp: multi_install_Inr)
next
  fix e r a and s s' :: multi_state
  assume "multi_uninstall e r a s = Inr s'"
  then show "authorized e a \<and> entries s (AccountContext a (rule_id r)) \<noteq> None
      \<and> entries s' = (entries s)(AccountContext a (rule_id r) := None)"
    by (auto simp: multi_uninstall_Inr)
next
  fix e c sg r a and s s' :: multi_state
  assume "multi_enforce h e c sg r a s = Inr s'"
  then show "authorized e a
      \<and> (\<exists>d d'. entries s (AccountContext a (rule_id r)) = Some d
            \<and> (multi_valid d \<longrightarrow> multi_valid d')
            \<and> entries s' = (entries s)(AccountContext a (rule_id r) := Some d'))"
    by (auto simp: multi_enforce_Inr) (blast intro: multi_enforce_valid)
qed

end
