(* ===== verification/Multi_Token_Window.thy ===== *)
theory Multi_Token_Window
  imports Multi_Token_Policy
begin

text \<open>
  The multi-token policy over time.  A history is a sequence of calls, each with the answers the
  oracle and token contracts give at that moment.  \<open>approved\<close> lists the transfers the policy let
  through for one installation, valued in dollars; the lemmas bound what it lets through in every
  window of \<open>period_ledgers\<close> ledgers, wherever the window lies.
\<close>

type_synonym multi_call = "oracle_host \<times> MultiTokenSpendingLimitAccountParams policy_call"

definition multi_step :: "multi_call \<Rightarrow> multi_state \<Rightarrow> multi_state" where
  "multi_step hc s = policy_step (multi_install (fst hc)) multi_uninstall (multi_enforce (fst hc)) (snd hc) s"

fun multi_run :: "multi_call list \<Rightarrow> multi_state \<Rightarrow> multi_state" where
  "multi_run [] s = s"
| "multi_run (c # cs) s = multi_run cs (multi_step c s)"

text \<open>The dollar value of a call to \<open>transfer\<close>, computed on the mathematical integers.\<close>

definition transfer_amount :: "ContractContext \<Rightarrow> int" where
  "transfer_amount cc = (case ctx_args cc ! 2 of I128Val x \<Rightarrow> x | _ \<Rightarrow> 0)"

definition oracle_price :: "oracle_host \<Rightarrow> PolicyData \<Rightarrow> address \<Rightarrow> int" where
  "oracle_price h d tk =
     (case lastprice h (oracle_address d) (Stellar tk) of Some (Some p) \<Rightarrow> price p | _ \<Rightarrow> 0)"

definition token_scale :: "PolicyData \<Rightarrow> address \<Rightarrow> int" where
  "token_scale d tk =
     (case first_index_of tk (allowed_tokens d) of
        Some i \<Rightarrow> usd_divisor d * token_divisors d ! i | None \<Rightarrow> 1)"

definition usd_value :: "oracle_host \<Rightarrow> PolicyData \<Rightarrow> ContractContext \<Rightarrow> int" where
  "usd_value h d cc =
     transfer_amount cc * oracle_price h d (ctx_contract cc) div token_scale d (ctx_contract cc)"

text \<open>The transfer a call got approved for the installation \<open>k\<close>, if any.\<close>

fun approves :: "storage_key \<Rightarrow> multi_call \<Rightarrow> multi_state \<Rightarrow> SpendingEntry list" where
  "approves k (h, CallEnforce e (Contract cc) sg r a) s =
     (case (entries s k, multi_enforce h e (Contract cc) sg r a s) of
        (Some d, Inr s') \<Rightarrow>
          if k = AccountContext a (rule_id r)
          then [\<lparr>amount_usd = usd_value h d cc, spent_ledger = ledger_sequence e\<rparr>] else []
      | _ \<Rightarrow> [])"
| "approves k _ s = []"

fun approved :: "storage_key \<Rightarrow> multi_call list \<Rightarrow> multi_state \<Rightarrow> SpendingEntry list" where
  "approved k [] s = []"
| "approved k (c # cs) s = approves k c s @ approved k cs (multi_step c s)"

text \<open>The entries in the window of \<open>p\<close> ledgers that ends with \<open>l\<close>.\<close>

definition in_window :: "u32 \<Rightarrow> u32 \<Rightarrow> SpendingEntry list \<Rightarrow> SpendingEntry list" where
  "in_window p l xs =
     filter (\<lambda>x. saturating_sub_word l p < spent_ledger x \<and> spent_ledger x \<le> l) xs"

text \<open>Every call but an uninstallation of \<open>k\<close> that the account authorised.\<close>

fun keeps_installed :: "storage_key \<Rightarrow> multi_call \<Rightarrow> bool" where
  "keeps_installed k (h, CallUninstall e r a) = (k \<noteq> AccountContext a (rule_id r) \<or> \<not> authorized e a)"
| "keeps_installed k _ = True"

abbreviation call_ledger :: "multi_call \<Rightarrow> u32" where
  "call_ledger c \<equiv> ledger_sequence (call_env (snd c))"

section \<open>One call\<close>

definition same_config :: "PolicyData \<Rightarrow> PolicyData \<Rightarrow> bool" where
  "same_config d d' \<longleftrightarrow>
     spending_limit_usd d' = spending_limit_usd d \<and> period_ledgers d' = period_ledgers d
     \<and> oracle_address d' = oracle_address d \<and> usd_divisor d' = usd_divisor d
     \<and> allowed_tokens d' = allowed_tokens d \<and> token_divisors d' = token_divisors d"

lemma record_spend_same_config: "record_spend now usd d = Inr d' \<Longrightarrow> same_config d d'"
  by (auto simp: same_config_def dest!: record_spend_config)

lemma usd_value_eq:
  assumes "priced_transfer h e d cc amount t p" "multi_config d"
    "to_usd amount (price p) (usd_divisor d) t = Inr usd"
  shows "usd = usd_value h d cc"
proof -
  from assms(1) have "transfer_amount cc = amount" "oracle_price h d (ctx_contract cc) = price p"
    "token_scale d (ctx_contract cc) = usd_divisor d * t"
    by (auto simp: priced_transfer_def transfer_amount_def oracle_price_def token_scale_def nth_opt_Some)
  with assms(3) priced_transfer_divisor [OF assms(1,2)] show ?thesis
    by (simp add: to_usd_Inr usd_value_def)
qed

text \<open>
  A call that does not remove the installation either leaves its entry alone and approves nothing,
  or records exactly the approved transfer.
\<close>

lemma step_cases:
  assumes "entries s k = Some d" "multi_valid d" "keeps_installed k c"
  obtains "entries (multi_step c s) k = Some d" "approves k c s = []"
  | usd d' where "entries (multi_step c s) k = Some d'" "0 \<le> usd"
      "record_spend (call_ledger c) usd d = Inr d'"
      "approves k c s = [\<lparr>amount_usd = usd, spent_ledger = call_ledger c\<rparr>]"
proof (cases c)
  case (Pair h call)
  show thesis
  proof (cases call)
    case (CallInstall e p r a)
    have "entries (multi_step c s) k = Some d"
      using Pair CallInstall assms(1)
      by (cases "multi_install h e p r a s") (auto simp: multi_step_def dest!: multi.install_ok)
    then show thesis using that(1) Pair CallInstall by simp
  next
    case (CallUninstall e r a)
    have "entries (multi_step c s) k = Some d"
      using Pair CallUninstall assms(1,3)
      by (cases "multi_uninstall e r a s") (auto simp: multi_step_def dest!: multi.uninstall_ok)
    then show thesis using that(1) Pair CallUninstall by simp
  next
    case (CallEnforce e ctx sg r a)
    show thesis
    proof (cases "multi_enforce h e ctx sg r a s")
      case (Inl f)
      then show thesis
        using that(1) Pair CallEnforce assms(1) by (cases ctx) (auto simp: multi_step_def)
    next
      case (Inr s')
      then obtain cc amount d1 t p usd d' where
        ok: "ctx = Contract cc" "entries s (AccountContext a (rule_id r)) = Some d1"
          "priced_transfer h e d1 cc amount t p"
          "to_usd amount (price p) (usd_divisor d1) t = Inr usd"
          "record_spend (ledger_sequence e) usd d1 = Inr d'"
        and s': "entries s' = (entries s)(AccountContext a (rule_id r) := Some d')"
        by (auto simp: multi_enforce_Inr)
      show thesis
      proof (cases "k = AccountContext a (rule_id r)")
        case True
        with ok(2) assms(1,2) have d1: "d1 = d" and "multi_config d" by (auto simp: multi_valid_def)
        with ok have "usd = usd_value h d cc" "0 \<le> usd"
          by (auto intro: usd_value_eq priced_usd_nonneg)
        with that(2) [of d' usd] True ok d1 s' Inr Pair CallEnforce assms(1) show thesis
          by (simp add: multi_step_def)
      next
        case False
        with that(1) ok s' Inr Pair CallEnforce assms(1) show thesis
          by (simp add: multi_step_def)
      qed
    qed
  qed
qed

section \<open>Windows\<close>

lemma usd_total_filter_mono:
  assumes "\<And>x. x \<in> set xs \<Longrightarrow> 0 \<le> amount_usd x" "\<And>x. x \<in> set xs \<Longrightarrow> P x \<Longrightarrow> Q x"
  shows "usd_total (filter P xs) \<le> usd_total (filter Q xs)"
  using assms by (induction xs) (auto intro: add_increasing)

lemma length_filter_mono:
  assumes "\<And>x. x \<in> set xs \<Longrightarrow> P x \<Longrightarrow> Q x"
  shows "length (filter P xs) \<le> length (filter Q xs)"
  using assms by (induction xs) auto

lemma dropWhile_expired:
  "sorted (map spent_ledger xs) \<Longrightarrow> dropWhile (expired c) xs = filter (\<lambda>x. c < spent_ledger x) xs"
  by (induction xs) (auto simp: not_le intro!: filter_True [symmetric] dest: order.strict_trans2)

text \<open>
  The invariant that relates the stored history to everything approved so far (\<open>log\<close>, up to ledger
  \<open>now\<close>): on the unexpired entries the two agree, and every window of the log is within the limit
  and the capacity.
\<close>

abbreviation unexpired :: "u32 \<Rightarrow> PolicyData \<Rightarrow> SpendingEntry list \<Rightarrow> SpendingEntry list" where
  "unexpired now d \<equiv> filter (\<lambda>x. saturating_sub_word now (period_ledgers d) < spent_ledger x)"

definition window_inv :: "PolicyData \<Rightarrow> SpendingEntry list \<Rightarrow> u32 \<Rightarrow> PolicyData \<Rightarrow> bool" where
  "window_inv d0 log now d \<longleftrightarrow>
     same_config d0 d \<and> multi_accounts d
     \<and> sorted (map spent_ledger (spending_history d))
     \<and> (\<forall>x \<in> set (spending_history d). spent_ledger x \<le> now)
     \<and> (\<forall>x \<in> set log. 0 \<le> amount_usd x)
     \<and> unexpired now d (spending_history d) = unexpired now d log
     \<and> (\<forall>l. usd_total (in_window (period_ledgers d) l log) \<le> spending_limit_usd d
          \<and> length (in_window (period_ledgers d) l log) \<le> MAX_HISTORY_ENTRIES)"

lemma window_inv_start:
  assumes "multi_valid d" "spending_limit_usd d < i128_max" "spending_history d = []"
  shows "window_inv d [] now d"
  using assms
  by (auto simp: window_inv_def multi_valid_def same_config_def in_window_def multi_config_def)

lemma saturating_sub_word_mono: "a \<le> b \<Longrightarrow> saturating_sub_word a c \<le> saturating_sub_word b c"
  using uint_saturating_sub_word [of a c] uint_saturating_sub_word [of b c]
  by (simp add: word_le_def)

lemma unexpired_later:
  assumes "now \<le> l"
  shows "unexpired l d (unexpired now d xs) = unexpired l d xs"
  using saturating_sub_word_mono [OF assms, of "period_ledgers d"]
  by (auto simp: intro!: filter_cong)

lemma window_inv_time:
  assumes "window_inv d0 log now d" "now \<le> l"
  shows "window_inv d0 log l d"
proof -
  have "unexpired l d (spending_history d) = unexpired l d log"
    using unexpired_later [OF assms(2), of d log] unexpired_later [OF assms(2), of d "spending_history d"]
      assms(1) by (simp only: window_inv_def)
  with assms show ?thesis by (auto simp: window_inv_def intro: order_trans)
qed

lemma live_history_unexpired:
  assumes "window_inv d0 log now d"
  shows "live_history now d = unexpired now d log"
  using assms by (simp add: live_history_def dropWhile_expired window_inv_def)

text \<open>A window that reaches the newest entry lies inside the live history and that entry.\<close>

lemma window_of_new:
  assumes "now \<le> l" "\<forall>x \<in> set log. 0 \<le> amount_usd x" "0 \<le> amount_usd y"
  shows "usd_total (in_window (period_ledgers d) l (log @ [y])) \<le> usd_total (unexpired now d log) + amount_usd y"
    and "length (in_window (period_ledgers d) l (log @ [y])) \<le> Suc (length (unexpired now d log))"
proof -
  let ?P = "\<lambda>x. saturating_sub_word l (period_ledgers d) < spent_ledger x \<and> spent_ledger x \<le> l"
  have sub: "?P x \<Longrightarrow> saturating_sub_word now (period_ledgers d) < spent_ledger x" for x
    using saturating_sub_word_mono [OF assms(1), of "period_ledgers d"] by auto
  have "usd_total (filter ?P log) \<le> usd_total (unexpired now d log)"
    using assms(2) sub by (intro usd_total_filter_mono) auto
  then show "usd_total (in_window (period_ledgers d) l (log @ [y]))
             \<le> usd_total (unexpired now d log) + amount_usd y"
    using assms(3) by (simp add: in_window_def)
  have "length (filter ?P log) \<le> length (unexpired now d log)"
    using sub by (intro length_filter_mono) auto
  then show "length (in_window (period_ledgers d) l (log @ [y])) \<le> Suc (length (unexpired now d log))"
    by (simp add: in_window_def)
qed

lemma window_inv_spend:
  assumes inv: "window_inv d0 log now d" and lim: "spending_limit_usd d < i128_max"
    and usd: "0 \<le> usd" and rec: "record_spend now usd d = Inr d'"
  shows "window_inv d0 (log @ [\<lparr>amount_usd = usd, spent_ledger = now\<rparr>]) now d'"
proof -
  let ?y = "\<lparr>amount_usd = usd, spent_ledger = now\<rparr>"
  let ?log = "log @ [?y]"
  have acc: "multi_accounts d" and nonneg: "\<forall>x \<in> set log. 0 \<le> amount_usd x"
    using inv by (auto simp: window_inv_def)
  note live = live_history_unexpired [OF inv]
  have d': "usd_total (unexpired now d log) + usd \<le> spending_limit_usd d"
    "length (unexpired now d log) < MAX_HISTORY_ENTRIES"
    "spending_history d' = unexpired now d log @ [?y]"
    using rec by (auto simp: record_spend_Inr [OF acc lim usd] live)
  have cfg: "same_config d d'" by (rule record_spend_same_config [OF rec])
  then have same: "period_ledgers d' = period_ledgers d" "spending_limit_usd d' = spending_limit_usd d"
    by (simp_all add: same_config_def)
  have windows: "usd_total (in_window (period_ledgers d) l ?log) \<le> spending_limit_usd d
          \<and> length (in_window (period_ledgers d) l ?log) \<le> MAX_HISTORY_ENTRIES" for l
  proof (cases "now \<le> l")
    case True
    from window_of_new [OF True nonneg, of ?y d] usd d'(1,2) show ?thesis by simp
  next
    case False
    then have "in_window (period_ledgers d) l ?log = in_window (period_ledgers d) l log"
      by (simp add: in_window_def)
    with inv show ?thesis by (simp add: window_inv_def)
  qed
  have hist: "sorted (map spent_ledger (spending_history d))"
    "\<And>x. x \<in> set (spending_history d) \<Longrightarrow> spent_ledger x \<le> now"
    "unexpired now d log = unexpired now d (spending_history d)"
    using inv by (auto simp: window_inv_def)
  have "sorted (map spent_ledger (unexpired now d log))"
    using hist(1) by (simp add: hist(3) sorted_filter)
  then have "sorted (map spent_ledger (spending_history d'))"
    "\<forall>x \<in> set (spending_history d'). spent_ledger x \<le> now"
    using hist(2) by (auto simp: d'(3) hist(3) sorted_append)
  moreover have "same_config d0 d'"
    using inv cfg by (auto simp: window_inv_def same_config_def)
  ultimately show ?thesis
    using windows record_spend_accounts [OF rec acc lim usd] nonneg usd
    by (simp add: window_inv_def same d'(3))
qed

section \<open>Histories\<close>

lemma window_inv_step:
  assumes "entries s k = Some d" "multi_valid d" "spending_limit_usd d < i128_max"
    and inv: "window_inv d0 log (call_ledger c) d" and "keeps_installed k c"
  obtains d' where "entries (multi_step c s) k = Some d'" "multi_valid d'"
    "spending_limit_usd d' < i128_max" "window_inv d0 (log @ approves k c s) (call_ledger c) d'"
  using assms(1,2,5)
proof (cases rule: step_cases)
  case 1
  with that [of d] assms(2-4) show thesis by simp
next
  case (2 usd d')
  have cfg: "same_config d d'" by (rule record_spend_same_config [OF 2(3)])
  then have lim: "spending_limit_usd d' < i128_max"
    using assms(3) by (simp add: same_config_def)
  have "multi_valid d'"
    using assms(2,3) cfg record_spend_accounts [OF 2(3) _ assms(3) 2(2)]
      record_spend_bounded [OF 2(3) _ 2(2)]
    by (auto simp: multi_valid_def multi_config_def same_config_def)
  with that [OF 2(1) _ lim] window_inv_spend [OF inv assms(3) 2(2,3)] 2(4) show thesis by simp
qed

lemma window_inv_run:
  assumes "entries s k = Some d" "multi_valid d" "window_inv d0 log now d"
    and "spending_limit_usd d < i128_max"
    and "\<And>c. c \<in> set cs \<Longrightarrow> keeps_installed k c"
    and "sorted (now # map call_ledger cs)"
  shows "\<exists>d'. entries (multi_run cs s) k = Some d' \<and> multi_valid d'
           \<and> window_inv d0 (log @ approved k cs s) (last (now # map call_ledger cs)) d'"
  using assms
proof (induction cs arbitrary: s d log now)
  case Nil
  then show ?case by simp
next
  case (Cons c cs)
  have "now \<le> call_ledger c" "keeps_installed k c" using Cons.prems(5,6) by simp_all
  then obtain d' where d': "entries (multi_step c s) k = Some d'" "multi_valid d'"
    "spending_limit_usd d' < i128_max" "window_inv d0 (log @ approves k c s) (call_ledger c) d'"
    using window_inv_step [OF Cons.prems(1,2,4) window_inv_time [OF Cons.prems(3)]] by metis
  with Cons.IH [OF d'(1,2,4,3)] Cons.prems(5,6) show ?case by simp
qed

text \<open>What an installation fixes: the parameters and the divisors read at that moment.\<close>

definition installed_as ::
  "oracle_host \<Rightarrow> MultiTokenSpendingLimitAccountParams \<Rightarrow> PolicyData \<Rightarrow> bool" where
  "installed_as h p d \<longleftrightarrow>
     spending_limit_usd d = p_spending_limit_usd p \<and> period_ledgers d = p_period_ledgers p
     \<and> oracle_address d = p_oracle_address p \<and> allowed_tokens d = p_allowed_tokens p
     \<and> (\<exists>n. decimals h (p_oracle_address p) = Some n \<and> usd_divisor d = 10 ^ unat n)
     \<and> list_all2 (\<lambda>tk t. \<exists>n. decimals h tk = Some n \<and> t = 10 ^ unat n)
         (p_allowed_tokens p) (token_divisors d)"

lemma same_config_installed: "same_config d d' \<Longrightarrow> installed_as h p d \<Longrightarrow> installed_as h p d'"
  by (simp add: same_config_def installed_as_def)

lemma fetched_decimals:
  "list_all2 (\<lambda>tk t. fetch_token_divisor h tk = Inr t) tks ts \<Longrightarrow>
     list_all2 (\<lambda>tk t. \<exists>n. decimals h tk = Some n \<and> t = 10 ^ unat n) tks ts"
  by (erule list_all2_mono) (auto simp: result_simps)

lemma install_entry:
  assumes "multi_install h e p r a s = Inr s'"
  shows "\<exists>d. entries s' (AccountContext a (rule_id r)) = Some d \<and> multi_valid d
           \<and> spending_history d = [] \<and> installed_as h p d"
proof -
  from fresh_policy_valid [OF assms] obtain d where
    d: "multi_valid d" "spending_history d = []"
      "entries s' = (entries s)(AccountContext a (rule_id r) := Some d)" by blast
  then have at: "entries s' (AccountContext a (rule_id r)) = Some d" by simp
  have "installed_as h p d"
    using assms at by (auto simp: multi_install_Inr installed_as_def dest!: fetched_decimals)
  with d at show ?thesis by blast
qed

text \<open>The entry after a history, at any ledger not before its calls.\<close>

lemma installed_run_at:
  assumes "multi_install h e p r a s0 = Inr s" "p_spending_limit_usd p < i128_max"
    and "\<And>c. c \<in> set cs \<Longrightarrow> keeps_installed (AccountContext a (rule_id r)) c"
    and "sorted (map call_ledger cs @ [now])"
  obtains d d0 where "entries (multi_run cs s) (AccountContext a (rule_id r)) = Some d"
    "multi_valid d" "installed_as h p d"
    "window_inv d0 (approved (AccountContext a (rule_id r)) cs s) now d"
proof -
  from install_entry [OF assms(1)] obtain d1 where
    d1: "entries s (AccountContext a (rule_id r)) = Some d1" "multi_valid d1"
      "spending_history d1 = []" "installed_as h p d1" by blast
  then have lim: "spending_limit_usd d1 < i128_max" using assms(2) by (simp add: installed_as_def)
  have sorted: "sorted (0 # map call_ledger cs)" and last: "last (0 # map call_ledger cs) \<le> now"
    using assms(4) by (auto simp: sorted_append last_map)
  from window_inv_run [OF d1(1,2) window_inv_start [OF d1(2) lim d1(3)] lim assms(3) sorted]
  obtain d where d: "entries (multi_run cs s) (AccountContext a (rule_id r)) = Some d"
    "multi_valid d" "window_inv d1 (approved (AccountContext a (rule_id r)) cs s) now d"
    using window_inv_time [OF _ last] by auto
  moreover from d(3) d1(4) have "installed_as h p d"
    by (auto simp: window_inv_def intro: same_config_installed)
  ultimately show thesis by (intro that)
qed

lemma installed_run:
  assumes "multi_install h e p r a s0 = Inr s" "p_spending_limit_usd p < i128_max"
    and "\<And>c. c \<in> set cs \<Longrightarrow> keeps_installed (AccountContext a (rule_id r)) c"
    and "sorted (map call_ledger cs)"
  obtains d d0 now where "entries (multi_run cs s) (AccountContext a (rule_id r)) = Some d"
    "multi_valid d" "installed_as h p d"
    "window_inv d0 (approved (AccountContext a (rule_id r)) cs s) now d"
proof -
  have "sorted (map call_ledger cs @ [- 1])" using assms(4) by (simp add: sorted_append)
  from installed_run_at [OF assms(1-3) this] that show thesis by blast
qed

lemma multi_run_valid:
  assumes "\<And>k d. entries s k = Some d \<Longrightarrow> multi_valid d" "entries (multi_run cs s) k = Some d"
  shows "multi_valid d"
  using assms
proof (induction cs arbitrary: s)
  case Nil
  then show ?case by simp
next
  case (Cons c cs)
  have "multi_valid d'" if "entries (multi_step c s) k' = Some d'" for k' d'
    using multi.step_valid [of s, OF _ that [unfolded multi_step_def]] Cons.prems(1) by blast
  from Cons.IH [OF this] Cons.prems(2) show ?case by simp
qed

text \<open>A transfer that meets the terms of the installation, as the stored entry sees it.\<close>

lemma priced_installed:
  assumes "multi_valid d" "installed_as h0 p d"
    and "ctx_fn_name cc = ''transfer''" "2 < length (ctx_args cc)"
    and "ctx_args cc ! 2 = I128Val amount" "0 \<le> amount" "ctx_contract cc \<in> set (p_allowed_tokens p)"
    and "lastprice h (p_oracle_address p) (Stellar (ctx_contract cc)) = Some (Some pr)"
    and "0 < price pr" "timestamp pr \<le> ledger_timestamp e"
    and "uint (ledger_timestamp e) - uint (timestamp pr) \<le> 500"
    and "decimals h0 (p_oracle_address p) = Some od" "decimals h0 (ctx_contract cc) = Some td"
  shows "\<exists>t. priced_transfer h e d cc amount t pr \<and> usd_divisor d * t = 10 ^ (unat od + unat td)"
proof -
  from assms(2,7) have "\<exists>i. first_index_of (ctx_contract cc) (allowed_tokens d) = Some i"
    by (cases "first_index_of (ctx_contract cc) (allowed_tokens d)")
      (auto simp: installed_as_def first_index_of_None)
  then obtain i where i: "first_index_of (ctx_contract cc) (allowed_tokens d) = Some i" by blast
  then have at: "i < length (allowed_tokens d)" "allowed_tokens d ! i = ctx_contract cc"
    by (simp_all add: first_index_of_Some)
  with assms(1) have len: "i < length (token_divisors d)" by (simp add: multi_valid_def multi_config_def)
  have "usd_divisor d = 10 ^ unat od" "token_divisors d ! i = 10 ^ unat td"
    using assms(2,12,13) at by (auto simp: installed_as_def list_all2_conv_all_nth)
  moreover have "priced_transfer h e d cc amount (token_divisors d ! i) pr"
    using assms(2-11) i len by (simp add: priced_transfer_def nth_opt_def installed_as_def)
  ultimately show ?thesis by (auto simp: power_add)
qed

text \<open>The value recorded for an approved transfer, against the decimals read at installation.\<close>

lemma approved_value:
  assumes "entries s (AccountContext a (rule_id r)) = Some d" "multi_valid d" "installed_as h0 p d"
    and "multi_enforce h e (Contract cc) sg r a s = Inr s'"
    and "decimals h0 (p_oracle_address p) = Some od" "decimals h0 (ctx_contract cc) = Some td"
  shows "\<exists>amount pr usd. ctx_args cc ! 2 = I128Val amount
           \<and> lastprice h (p_oracle_address p) (Stellar (ctx_contract cc)) = Some (Some pr)
           \<and> approves (AccountContext a (rule_id r)) (h, CallEnforce e (Contract cc) sg r a) s
               = [\<lparr>amount_usd = usd, spent_ledger = ledger_sequence e\<rparr>]
           \<and> usd = amount * price pr div 10 ^ (unat od + unat td)"
proof -
  from assms(1,4) obtain amount t pr usd d' where
    ok: "priced_transfer h e d cc amount t pr" "to_usd amount (price pr) (usd_divisor d) t = Inr usd"
    by (auto simp: multi_enforce_Inr)
  have cfg: "multi_config d" using assms(2) by (simp add: multi_valid_def)
  from ok(1) obtain i where i: "i < length (allowed_tokens d)" "allowed_tokens d ! i = ctx_contract cc"
    "i < length (token_divisors d)" "t = token_divisors d ! i"
    by (auto simp: priced_transfer_def first_index_of_Some nth_opt_Some)
  have u: "usd_divisor d = 10 ^ unat od" and t: "t = 10 ^ unat td"
    using assms(3,5,6) i by (auto simp: installed_as_def list_all2_conv_all_nth)
  have "usd = amount * price pr div 10 ^ (unat od + unat td)"
    using ok(2) priced_transfer_divisor [OF ok(1) cfg] by (simp add: to_usd_Inr u t power_add)
  with ok(1) assms(1,3,4) usd_value_eq [OF ok(1) cfg ok(2)] show ?thesis
    by (auto simp: priced_transfer_def installed_as_def)
qed

end
