(* ===== verification/Spending_Exposure.thy ===== *)
theory Spending_Exposure
  imports Complex_Main Multi_Token_Window
begin

text \<open>
  What the multi-token limit means in exact dollars.  The policy counts whole dollars, rounded down
  per transfer; here every approved transfer is paired with its exact rational value, and the
  rounding lost in a window is bounded by the number of transfers in it.
\<close>

record exact_entry =
  exact_usd :: rat
  exact_ledger :: u32

definition exact_value :: "oracle_host \<Rightarrow> PolicyData \<Rightarrow> ContractContext \<Rightarrow> rat" where
  "exact_value h d cc =
     of_int (transfer_amount cc * oracle_price h d (ctx_contract cc))
       / of_int (token_scale d (ctx_contract cc))"

fun exact_approves :: "storage_key \<Rightarrow> multi_call \<Rightarrow> multi_state \<Rightarrow> exact_entry list" where
  "exact_approves k (h, CallEnforce e (Contract cc) sg r a) s =
     (case (entries s k, multi_enforce h e (Contract cc) sg r a s) of
        (Some d, Inr s') \<Rightarrow>
          if k = AccountContext a (rule_id r)
          then [\<lparr>exact_usd = exact_value h d cc, exact_ledger = ledger_sequence e\<rparr>] else []
      | _ \<Rightarrow> [])"
| "exact_approves k _ s = []"

fun exact_approved :: "storage_key \<Rightarrow> multi_call list \<Rightarrow> multi_state \<Rightarrow> exact_entry list" where
  "exact_approved k [] s = []"
| "exact_approved k (c # cs) s = exact_approves k c s @ exact_approved k cs (multi_step c s)"

definition exact_window :: "u32 \<Rightarrow> u32 \<Rightarrow> exact_entry list \<Rightarrow> exact_entry list" where
  "exact_window p l xs =
     filter (\<lambda>x. saturating_sub_word l p < exact_ledger x \<and> exact_ledger x \<le> l) xs"

definition exact_total :: "exact_entry list \<Rightarrow> rat" where
  "exact_total xs = (\<Sum>x\<leftarrow>xs. exact_usd x)"

section \<open>Whole dollars against exact dollars\<close>

definition rounds_to :: "exact_entry \<Rightarrow> SpendingEntry \<Rightarrow> bool" where
  "rounds_to x y \<longleftrightarrow> exact_ledger x = spent_ledger y \<and> amount_usd y = \<lfloor>exact_usd x\<rfloor>"

lemma usd_value_floor: "usd_value h d cc = \<lfloor>exact_value h d cc\<rfloor>"
  unfolding usd_value_def exact_value_def floor_divide_of_int_eq ..

lemma exact_approves_rounds: "list_all2 rounds_to (exact_approves k c s) (approves k c s)"
  by (cases "(k, c, s)" rule: approves.cases)
    (auto simp: rounds_to_def usd_value_floor split: option.splits sum.splits)

lemma exact_approved_rounds: "list_all2 rounds_to (exact_approved k cs s) (approved k cs s)"
  by (induction cs arbitrary: s) (simp_all add: list_all2_appendI exact_approves_rounds)

lemma exact_window_rounds:
  "list_all2 rounds_to xs ys \<Longrightarrow> list_all2 rounds_to (exact_window p l xs) (in_window p l ys)"
  by (induction rule: list_all2_induct) (auto simp: exact_window_def in_window_def rounds_to_def)

lemma rounds_to_total:
  assumes "list_all2 rounds_to xs ys"
  shows "of_int (usd_total ys) \<le> exact_total xs"
    and "exact_total xs \<le> of_int (usd_total ys) + of_nat (length ys)"
    and "ys \<noteq> [] \<Longrightarrow> exact_total xs < of_int (usd_total ys) + of_nat (length ys)"
proof -
  have "of_int (usd_total ys) \<le> exact_total xs
    \<and> exact_total xs \<le> of_int (usd_total ys) + of_nat (length ys)
    \<and> (ys \<noteq> [] \<longrightarrow> exact_total xs < of_int (usd_total ys) + of_nat (length ys))"
    using assms
  proof (induction rule: list_all2_induct)
    case Nil
    then show ?case by (simp add: exact_total_def)
  next
    case (Cons x xs y ys)
    have "of_int (amount_usd y) \<le> exact_usd x" "exact_usd x < of_int (amount_usd y) + 1"
      using Cons.hyps(1) floor_correct [of "exact_usd x"] by (simp_all add: rounds_to_def)
    with Cons.IH show ?case by (auto simp: exact_total_def)
  qed
  then show "of_int (usd_total ys) \<le> exact_total xs"
    and "exact_total xs \<le> of_int (usd_total ys) + of_nat (length ys)"
    and "ys \<noteq> [] \<Longrightarrow> exact_total xs < of_int (usd_total ys) + of_nat (length ys)"
    by auto
qed

end
