(* ===== verification/Window_Limiter.thy ===== *)
theory Window_Limiter
  imports Multi_Token_Window
begin

text \<open>
  The specification of the multi-token limit and the proof that
  \<open>src/policies/multi-token-spending-limit-policy/src/lib.rs\<close> implements it.  The specification is a
  limiter that remembers every accepted request for ever and looks at the recent ones by
  filtering; it has no cached total, no clean-up and no saturation.  The policy, which keeps a
  bounded history and a running total, accepts exactly the same requests in every history.
\<close>

section \<open>The specification\<close>

definition recent :: "u32 \<Rightarrow> u32 \<Rightarrow> SpendingEntry list \<Rightarrow> SpendingEntry list" where
  "recent period now log = filter (\<lambda>x. saturating_sub_word now period < spent_ledger x) log"

definition limiter_accepts :: "int \<Rightarrow> u32 \<Rightarrow> nat \<Rightarrow> SpendingEntry list \<Rightarrow> SpendingEntry \<Rightarrow> bool" where
  "limiter_accepts limit period capacity log x \<longleftrightarrow>
     usd_total (recent period (spent_ledger x) log) + amount_usd x \<le> limit
     \<and> length (recent period (spent_ledger x) log) < capacity"

text \<open>The requests the limiter accepts, given what it accepted before.\<close>

fun limiter_run ::
  "int \<Rightarrow> u32 \<Rightarrow> nat \<Rightarrow> SpendingEntry list \<Rightarrow> SpendingEntry list \<Rightarrow> SpendingEntry list" where
  "limiter_run limit period capacity log [] = []"
| "limiter_run limit period capacity log (x # xs) =
     (if limiter_accepts limit period capacity log x
      then x # limiter_run limit period capacity (log @ [x]) xs
      else limiter_run limit period capacity log xs)"

lemma limiter_run_append:
  "limiter_run limit period capacity log (xs @ ys) =
     limiter_run limit period capacity log xs
     @ limiter_run limit period capacity (log @ limiter_run limit period capacity log xs) ys"
  by (induction xs arbitrary: log) simp_all

section \<open>What a call requests\<close>

text \<open>
  The dollars a call asks for, on the mathematical integers: a function of the call, the oracle's
  answer and the configuration, not of the spending so far.
\<close>

definition valued :: "oracle_host \<Rightarrow> env \<Rightarrow> PolicyData \<Rightarrow> ContractContext \<Rightarrow> int option" where
  "valued h e d cc =
     (if ctx_fn_name cc = ''transfer'' \<and> 2 < length (ctx_args cc) then
        (case (ctx_args cc ! 2, first_index_of (ctx_contract cc) (allowed_tokens d),
               lastprice h (oracle_address d) (Stellar (ctx_contract cc))) of
           (I128Val amount, Some i, Some (Some p)) \<Rightarrow>
             if 0 \<le> amount \<and> i < length (token_divisors d) \<and> 0 < price p
                \<and> timestamp p \<le> ledger_timestamp e
                \<and> uint (ledger_timestamp e) - uint (timestamp p) \<le> 500
                \<and> amount * price p \<le> i128_max
             then Some (amount * price p div (usd_divisor d * token_divisors d ! i)) else None
         | _ \<Rightarrow> None)
      else None)"

fun request_of :: "PolicyData \<Rightarrow> storage_key \<Rightarrow> multi_call \<Rightarrow> SpendingEntry list" where
  "request_of d k (h, CallEnforce e (Contract cc) sg r a) =
     (if k = AccountContext a (rule_id r) \<and> authorized e a then
        (case valued h e d cc of
           None \<Rightarrow> []
         | Some usd \<Rightarrow> [\<lparr>amount_usd = usd, spent_ledger = ledger_sequence e\<rparr>])
      else [])"
| "request_of d k _ = []"

definition requests :: "PolicyData \<Rightarrow> storage_key \<Rightarrow> multi_call list \<Rightarrow> SpendingEntry list" where
  "requests d k cs = concat (map (request_of d k) cs)"

lemma valued_Some:
  assumes "multi_config d"
  shows "valued h e d cc = Some usd \<longleftrightarrow>
     (\<exists>amount t p. priced_transfer h e d cc amount t p
        \<and> to_usd amount (price p) (usd_divisor d) t = Inr usd)" (is "?l \<longleftrightarrow> ?r")
proof
  assume ?l
  then obtain amount i p where ok:
    "ctx_fn_name cc = ''transfer''" "2 < length (ctx_args cc)" "ctx_args cc ! 2 = I128Val amount"
    "first_index_of (ctx_contract cc) (allowed_tokens d) = Some i" "i < length (token_divisors d)"
    "lastprice h (oracle_address d) (Stellar (ctx_contract cc)) = Some (Some p)"
    "0 \<le> amount" "0 < price p" "timestamp p \<le> ledger_timestamp e"
    "uint (ledger_timestamp e) - uint (timestamp p) \<le> 500" "amount * price p \<le> i128_max"
    "usd = amount * price p div (usd_divisor d * token_divisors d ! i)"
    by (auto simp: valued_def split: if_splits val.splits option.splits)
  then have "priced_transfer h e d cc amount (token_divisors d ! i) p"
    by (simp add: priced_transfer_def nth_opt_Some)
  moreover from ok priced_transfer_divisor [OF this assms]
  have "to_usd amount (price p) (usd_divisor d) (token_divisors d ! i) = Inr usd"
    by (simp add: to_usd_Inr)
  ultimately show ?r by blast
next
  assume ?r
  then obtain amount t p where ok: "priced_transfer h e d cc amount t p"
    "to_usd amount (price p) (usd_divisor d) t = Inr usd" by blast
  with priced_transfer_divisor [OF ok(1) assms] show ?l
    by (auto simp: to_usd_Inr valued_def priced_transfer_def nth_opt_Some)
qed

lemma valued_same_config: "same_config d d' \<Longrightarrow> valued h e d' cc = valued h e d cc"
  unfolding same_config_def valued_def by (elim conjE) (simp only:)

lemma request_of_same_config: "same_config d d' \<Longrightarrow> request_of d' k c = request_of d k c"
  by (cases "(d, k, c)" rule: request_of.cases) (simp_all add: valued_same_config)

section \<open>The policy accepts what the limiter accepts\<close>

lemma multi_enforce_limiter:
  assumes "entries s (AccountContext a (rule_id r)) = Some d" "multi_valid d"
    and "spending_limit_usd d < i128_max" "window_inv d0 log (ledger_sequence e) d"
  shows "(\<exists>s'. multi_enforce h e (Contract cc) sg r a s = Inr s') \<longleftrightarrow>
     authorized e a
     \<and> (\<exists>usd. valued h e d cc = Some usd
          \<and> limiter_accepts (spending_limit_usd d) (period_ledgers d) MAX_HISTORY_ENTRIES log
              \<lparr>amount_usd = usd, spent_ledger = ledger_sequence e\<rparr>)"
proof -
  have cfg: "multi_config d" and acc: "multi_accounts d"
    using assms(2,3) by (simp_all add: multi_valid_def)
  have live: "live_history (ledger_sequence e) d = recent (period_ledgers d) (ledger_sequence e) log"
    using live_history_unexpired [OF assms(4)] by (simp add: recent_def)
  have spend: "(\<exists>d'. record_spend (ledger_sequence e) usd d = Inr d') \<longleftrightarrow>
      limiter_accepts (spending_limit_usd d) (period_ledgers d) MAX_HISTORY_ENTRIES log
        \<lparr>amount_usd = usd, spent_ledger = ledger_sequence e\<rparr>"
    if "valued h e d cc = Some usd" for usd
  proof -
    have "0 \<le> usd" using that priced_usd_nonneg [OF _ cfg] by (auto simp: valued_Some [OF cfg])
    then show ?thesis by (simp add: record_spend_Inr [OF acc assms(3)] live limiter_accepts_def)
  qed
  have "(\<exists>s'. multi_enforce h e (Contract cc) sg r a s = Inr s') \<longleftrightarrow>
      authorized e a \<and> (\<exists>usd. valued h e d cc = Some usd
        \<and> (\<exists>d'. record_spend (ledger_sequence e) usd d = Inr d'))"
    unfolding multi_enforce_Inr valued_Some [OF cfg] using assms(1) by fastforce
  with spend show ?thesis by blast
qed

lemma approves_limiter:
  assumes "entries s k = Some d" "multi_valid d" "spending_limit_usd d < i128_max"
    and "window_inv d0 log (call_ledger c) d"
  shows "approves k c s =
     limiter_run (spending_limit_usd d) (period_ledgers d) MAX_HISTORY_ENTRIES log (request_of d k c)"
proof (cases "\<exists>h e cc sg r a. c = (h, CallEnforce e (Contract cc) sg r a) \<and> k = AccountContext a (rule_id r)")
  case True
  then obtain h e cc sg r a where c: "c = (h, CallEnforce e (Contract cc) sg r a)"
    and k: "k = AccountContext a (rule_id r)" by blast
  have cfg: "multi_config d" using assms(2) by (simp add: multi_valid_def)
  have inv: "window_inv d0 log (ledger_sequence e) d" using assms(4) c by simp
  note iff = multi_enforce_limiter [OF assms(1) [unfolded k] assms(2,3) inv, of h cc sg]
  show ?thesis
  proof (cases "multi_enforce h e (Contract cc) sg r a s")
    case (Inl f)
    then have "\<not> (\<exists>s'. multi_enforce h e (Contract cc) sg r a s = Inr s')" by simp
    with Inl iff show ?thesis by (auto simp: c k assms(1) split: option.split)
  next
    case (Inr s')
    then obtain usd where usd: "authorized e a" "valued h e d cc = Some usd"
      "limiter_accepts (spending_limit_usd d) (period_ledgers d) MAX_HISTORY_ENTRIES log
        \<lparr>amount_usd = usd, spent_ledger = ledger_sequence e\<rparr>" using iff by blast
    then have "usd = usd_value h d cc"
      using usd_value_eq [OF _ cfg] by (auto simp: valued_Some [OF cfg])
    with usd Inr assms(1) show ?thesis by (simp add: c k)
  qed
next
  case False
  then show ?thesis
    by (cases "(k, c, s)" rule: approves.cases) (auto split: option.splits sum.splits)
qed

text \<open>The simulation along a history.\<close>

lemma approved_limiter:
  assumes "entries s k = Some d" "multi_valid d" "window_inv d0 log now d"
    and "spending_limit_usd d < i128_max"
    and "\<And>c. c \<in> set cs \<Longrightarrow> keeps_installed k c"
    and "sorted (now # map call_ledger cs)"
  shows "approved k cs s =
     limiter_run (spending_limit_usd d0) (period_ledgers d0) MAX_HISTORY_ENTRIES log (requests d0 k cs)"
  using assms
proof (induction cs arbitrary: s d log now)
  case Nil
  then show ?case by (simp add: requests_def)
next
  case (Cons c cs)
  have le: "now \<le> call_ledger c" using Cons.prems(6) by simp
  have cs: "\<And>x. x \<in> set cs \<Longrightarrow> keeps_installed k x" "sorted (call_ledger c # map call_ledger cs)"
    using Cons.prems(5,6) by auto
  note inv = window_inv_time [OF Cons.prems(3) le]
  have same: "same_config d0 d" using inv by (simp add: window_inv_def)
  then have lim: "spending_limit_usd d = spending_limit_usd d0" "period_ledgers d = period_ledgers d0"
    by (simp_all add: same_config_def)
  have head: "approves k c s =
      limiter_run (spending_limit_usd d0) (period_ledgers d0) MAX_HISTORY_ENTRIES log (request_of d0 k c)"
    using approves_limiter [OF Cons.prems(1,2,4) inv] by (simp add: lim request_of_same_config [OF same])
  have "keeps_installed k c" using Cons.prems(5) by simp
  then obtain d' where d': "entries (multi_step c s) k = Some d'" "multi_valid d'"
    "spending_limit_usd d' < i128_max" "window_inv d0 (log @ approves k c s) (call_ledger c) d'"
    using window_inv_step [OF Cons.prems(1,2,4) inv] by metis
  from Cons.IH [OF d'(1,2,4,3) cs] head show ?case
    by (simp add: requests_def limiter_run_append)
qed

lemma installed_limiter:
  assumes "multi_install h e p r a s0 = Inr s" "p_spending_limit_usd p < i128_max"
    and "\<And>c. c \<in> set cs \<Longrightarrow> keeps_installed (AccountContext a (rule_id r)) c"
    and "sorted (map call_ledger cs)"
  obtains d where "entries s (AccountContext a (rule_id r)) = Some d" "installed_as h p d"
    "approved (AccountContext a (rule_id r)) cs s =
       limiter_run (p_spending_limit_usd p) (p_period_ledgers p) MAX_HISTORY_ENTRIES []
         (requests d (AccountContext a (rule_id r)) cs)"
proof -
  from install_entry [OF assms(1)] obtain d where
    d: "entries s (AccountContext a (rule_id r)) = Some d" "multi_valid d"
      "spending_history d = []" "installed_as h p d" by blast
  then have lim: "spending_limit_usd d < i128_max" using assms(2) by (simp add: installed_as_def)
  have "sorted (0 # map call_ledger cs)" using assms(4) by simp
  from approved_limiter [OF d(1,2) window_inv_start [OF d(2) lim d(3)] lim assms(3) this] d
  show thesis by (intro that) (simp_all add: installed_as_def)
qed

end
