(* ===== verification/Spending_Properties.thy ===== *)
theory Spending_Properties
  imports Spending_Exposure Window_Limiter
begin

text \<open>
  The properties of the multi-token spending limit policy, each with a concrete instance.  The
  definitions of the first section are the data of those instances and model no code.
\<close>

section \<open>Concrete data\<close>

definition demo_env :: "u32 \<Rightarrow> env" where
  "demo_env l = \<lparr>ledger_sequence = l, ledger_timestamp = 1000,
     current_contract_address = Addr 9, authorized = (\<lambda>a. a = Addr 11)\<rparr>"

definition demo_rule :: ContextRule where
  "demo_rule = \<lparr>rule_id = 1, context_type = CallContract (Addr 5)\<rparr>"

definition demo_call :: "int \<Rightarrow> ContractContext" where
  "demo_call x = \<lparr>ctx_contract = Addr 5, ctx_fn_name = ''transfer'',
     ctx_args = [AddressVal (Addr 11), AddressVal (Addr 2), I128Val x]\<rparr>"

definition demo_host :: oracle_host where
  "demo_host = \<lparr>decimals = (\<lambda>_. Some 1),
     lastprice = (\<lambda>_ _. Some (Some \<lparr>price = 10, timestamp = 900\<rparr>))\<rparr>"

definition demo_params :: MultiTokenSpendingLimitAccountParams where
  "demo_params = \<lparr>p_spending_limit_usd = 100, p_period_ledgers = 10,
     p_oracle_address = Addr 4, p_allowed_tokens = [Addr 5]\<rparr>"

definition demo_data :: PolicyData where
  "demo_data = \<lparr>spending_limit_usd = 100, period_ledgers = 10, oracle_address = Addr 4,
     usd_divisor = 10, allowed_tokens = [Addr 5], token_divisors = [10],
     spending_history = [], cached_total_spent_usd = 0\<rparr>"

definition demo_state :: multi_state where
  "demo_state = store_set (AccountContext (Addr 11) 1) demo_data init_policy_state"

text \<open>60 dollars, 60 more one ledger later, 60 after the window.\<close>

definition demo_calls :: "multi_call list" where
  "demo_calls =
     map (\<lambda>l. (demo_host, CallEnforce (demo_env l) (Contract (demo_call 600)) [] demo_rule (Addr 11)))
       [5, 6, 20]"

lemmas demo_defs = demo_env_def demo_rule_def demo_call_def demo_host_def demo_params_def
  demo_data_def

lemma demo_install:
  "multi_install demo_host (demo_env 1) demo_params demo_rule (Addr 11) init_policy_state
   = Inr demo_state"
  by (simp add: multi_install_def fetch_usd_divisor_def fetch_token_divisor_def
      MAX_ORACLE_DECIMALS_def MAX_TOKEN_DECIMALS_def int_simps i128_range_defs demo_defs
      demo_state_def Let_def)

lemma demo_approved:
  "approved (AccountContext (Addr 11) 1) demo_calls demo_state
   = [\<lparr>amount_usd = 60, spent_ledger = 5\<rparr>, \<lparr>amount_usd = 60, spent_ledger = 20\<rparr>]"
  by code_simp

text \<open>60.50 and 40.10 dollars: over the limit of 100 in exact dollars, within it in whole ones.\<close>

definition demo_fractions :: "multi_call list" where
  "demo_fractions =
     [(demo_host, CallEnforce (demo_env 5) (Contract (demo_call 605)) [] demo_rule (Addr 11)),
      (demo_host, CallEnforce (demo_env 6) (Contract (demo_call 401)) [] demo_rule (Addr 11))]"

lemma demo_exact:
  "exact_approved (AccountContext (Addr 11) 1) demo_fractions demo_state
   = [\<lparr>exact_usd = 121 / 2, exact_ledger = 5\<rparr>, \<lparr>exact_usd = 401 / 10, exact_ledger = 6\<rparr>]"
  by code_simp

section \<open>The rolling window\<close>

text \<open>
  C1: Rolling-window safety of the multi-token spending limit.  From an installation on, whatever
  calls anyone makes in whatever order (short of the account uninstalling the policy), with whatever
  the oracle and token contracts answer at each call, and with ledger numbers that never go back,
  the dollar total approved in every window of \<open>period_ledgers\<close> ledgers stays within the limit, and
  no window holds more transfers than the history capacity.
\<close>

theorem multi_window_limit:
  assumes "multi_install h e p r a s0 = Inr s" "p_spending_limit_usd p < i128_max"
    and "\<forall>c \<in> set cs. keeps_installed (AccountContext a (rule_id r)) c"
    and "sorted (map call_ledger cs)"
  shows "usd_total (in_window (p_period_ledgers p) l (approved (AccountContext a (rule_id r)) cs s))
           \<le> p_spending_limit_usd p
         \<and> length (in_window (p_period_ledgers p) l (approved (AccountContext a (rule_id r)) cs s))
           \<le> MAX_HISTORY_ENTRIES"
proof -
  from assms(3) have "\<And>c. c \<in> set cs \<Longrightarrow> keeps_installed (AccountContext a (rule_id r)) c" by blast
  from assms(1,2) this assms(4) obtain d d0 now where
    "installed_as h p d" "window_inv d0 (approved (AccountContext a (rule_id r)) cs s) now d"
    by (rule installed_run)
  then show ?thesis by (auto simp: window_inv_def installed_as_def)
qed

theorem multi_window_limit_witness:
  "approved (AccountContext (Addr 11) 1) demo_calls demo_state
     = [\<lparr>amount_usd = 60, spent_ledger = 5\<rparr>, \<lparr>amount_usd = 60, spent_ledger = 20\<rparr>]
   \<and> usd_total (in_window 10 20 (approved (AccountContext (Addr 11) 1) demo_calls demo_state)) \<le> 100"
  using multi_window_limit [OF demo_install, of demo_calls 20] demo_approved
  by (simp add: demo_calls_def demo_params_def demo_rule_def demo_env_def i128_max_def)

text \<open>
  C24: The policy refines a limiter without optimisations.  Under the conditions of C1, the transfers the
  policy approves are exactly those accepted by a limiter that keeps every accepted transfer for ever,
  sums up the recent ones afresh at each request and never saturates, run on the dollar values the
  calls ask for at the moment they are made: the bounded history, the cached total, the
  clean-up loop and the saturating arithmetic change no decision.
\<close>

theorem multi_refines_limiter:
  assumes "multi_install h e p r a s0 = Inr s" "p_spending_limit_usd p < i128_max"
    and "\<forall>c \<in> set cs. keeps_installed (AccountContext a (rule_id r)) c"
    and "sorted (map call_ledger cs)"
  shows "\<exists>d. entries s (AccountContext a (rule_id r)) = Some d \<and> installed_as h p d
     \<and> approved (AccountContext a (rule_id r)) cs s =
         limiter_run (p_spending_limit_usd p) (p_period_ledgers p) MAX_HISTORY_ENTRIES []
           (requests d (AccountContext a (rule_id r)) cs)"
proof -
  from assms(3) have "\<And>c. c \<in> set cs \<Longrightarrow> keeps_installed (AccountContext a (rule_id r)) c" by blast
  from assms(1,2) this assms(4) show ?thesis by (rule installed_limiter) blast+
qed

theorem multi_refines_limiter_witness:
  "limiter_run 100 10 MAX_HISTORY_ENTRIES [] (requests demo_data (AccountContext (Addr 11) 1) demo_calls)
     = [\<lparr>amount_usd = 60, spent_ledger = 5\<rparr>, \<lparr>amount_usd = 60, spent_ledger = 20\<rparr>]"
  using multi_refines_limiter [OF demo_install, of demo_calls] demo_approved
  by (auto simp: demo_calls_def demo_params_def demo_rule_def demo_env_def demo_state_def i128_max_def)

text \<open>
  C2: What \<open>enforce\<close> lets through.  On a valid installation a call is approved exactly when the
  account authorised it, it is a \<open>transfer\<close> of a non-negative amount of an allowed token with a
  positive price at most 500 seconds old, the product with the price fits \<open>i128\<close>, the unexpired spending plus
  its dollar value is within the limit and the history has room; and then the only
  change to storage is that the expired entries are dropped, the new one appended and the cached
  total made the sum of what is kept.
\<close>

theorem multi_enforce_exact:
  assumes "entries s (AccountContext a (rule_id r)) = Some d" "multi_valid d"
    and "spending_limit_usd d < i128_max"
  shows "multi_enforce h e ctx sg r a s = Inr s' \<longleftrightarrow>
     authorized e a
     \<and> (\<exists>cc amount t p usd. ctx = Contract cc \<and> priced_transfer h e d cc amount t p
          \<and> amount * price p \<le> i128_max \<and> usd = amount * price p div (usd_divisor d * t)
          \<and> usd_total (live_history (ledger_sequence e) d) + usd \<le> spending_limit_usd d
          \<and> length (live_history (ledger_sequence e) d) < MAX_HISTORY_ENTRIES
          \<and> s' = store_set (AccountContext a (rule_id r))
              (d\<lparr>spending_history := live_history (ledger_sequence e) d
                   @ [\<lparr>amount_usd = usd, spent_ledger = ledger_sequence e\<rparr>],
                 cached_total_spent_usd := usd_total (live_history (ledger_sequence e) d) + usd\<rparr>)
              (log_effect (ExtendTtl (AccountContext a (rule_id r)) POLICY_TTL_THRESHOLD
                 POLICY_EXTEND_AMOUNT) s))"
  using assms by (rule multi_enforce_valid_iff)

lemma demo_valid: "multi_valid demo_data"
  by (simp add: multi_valid_def multi_config_def multi_bounded_def multi_accounts_def demo_data_def
      word_less_def MAX_HISTORY_ENTRIES_def)

lemma demo_entry [simp]: "entries demo_state (AccountContext (Addr 11) 1) = Some demo_data"
  by (simp add: demo_state_def)

lemma demo_priced:
  "0 \<le> x \<Longrightarrow> priced_transfer demo_host (demo_env l) demo_data (demo_call x) x 10
     \<lparr>price = 10, timestamp = 900\<rparr>"
  by (simp add: priced_transfer_def nth_opt_def demo_defs word_le_def)

theorem multi_enforce_exact_witness:
  "multi_valid demo_data
   \<and> (\<exists>s'. multi_enforce demo_host (demo_env 5) (Contract (demo_call 600)) [] demo_rule (Addr 11)
        demo_state = Inr s')"
proof -
  have entry: "entries demo_state (AccountContext (Addr 11) (rule_id demo_rule)) = Some demo_data"
    by (simp add: demo_rule_def)
  have limit: "spending_limit_usd demo_data < i128_max"
    by (simp add: demo_data_def i128_max_def)
  have room: "live_history 5 demo_data = []" by (simp add: live_history_def demo_data_def)
  show ?thesis
    using multi_enforce_exact [OF entry demo_valid limit, of demo_host "demo_env 5"
        "Contract (demo_call 600)" "[]"] demo_priced [of 600 5] demo_valid room
    by (fastforce simp: demo_env_def demo_data_def i128_max_def MAX_HISTORY_ENTRIES_def)
qed

text \<open>
  C3: What every entry of a policy contract that started empty satisfies after any history of
  calls.  At every limit the configuration is well-formed, the recorded amounts are non-negative and the
  history holds at most \<open>MAX_HISTORY_ENTRIES\<close> entries.  At every limit below \<open>i128::MAX\<close> the cached total is
  moreover exactly the sum of the recorded history and within the limit.
\<close>

theorem multi_accounts_invariant:
  assumes "entries (multi_run cs init_policy_state) k = Some d"
  shows "multi_config d
     \<and> (\<forall>x \<in> set (spending_history d). 0 \<le> amount_usd x)
     \<and> length (spending_history d) \<le> MAX_HISTORY_ENTRIES
     \<and> (spending_limit_usd d < i128_max \<longrightarrow>
          cached_total_spent_usd d = usd_total (spending_history d)
          \<and> cached_total_spent_usd d \<le> spending_limit_usd d)"
proof -
  have "multi_valid d" by (rule multi_run_valid [OF _ assms]) simp
  then show ?thesis by (auto simp: multi_valid_def multi_bounded_def multi_accounts_def)
qed

theorem multi_accounts_invariant_witness:
  "\<exists>d. entries (multi_run ((demo_host, CallInstall (demo_env 1) demo_params demo_rule (Addr 11))
         # demo_calls) init_policy_state) (AccountContext (Addr 11) 1) = Some d
       \<and> cached_total_spent_usd d = 60 \<and> usd_total (spending_history d) = 60
       \<and> length (spending_history d) \<le> MAX_HISTORY_ENTRIES"
proof -
  let ?cs = "(demo_host, CallInstall (demo_env 1) demo_params demo_rule (Addr 11)) # demo_calls"
  have "map_option (\<lambda>d. (cached_total_spent_usd d, spending_limit_usd d))
          (entries (multi_run ?cs init_policy_state) (AccountContext (Addr 11) 1)) = Some (60, 100)"
    by code_simp
  then obtain d where d: "entries (multi_run ?cs init_policy_state) (AccountContext (Addr 11) 1) = Some d"
    "cached_total_spent_usd d = 60" "spending_limit_usd d = 100" by auto
  have "spending_limit_usd d < i128_max" using d(3) by (simp add: i128_max_def)
  with multi_accounts_invariant [OF d(1)] d show ?thesis by metis
qed

text \<open>
  The condition on the limit is needed.  \<open>install\<close> accepts \<open>i128::MAX\<close>; there two transfers of that many
  dollars are approved in one window, the cached total saturates, and after the first has expired it
  says that nothing was spent while the second is still in the window.
\<close>

definition max_host :: oracle_host where
  "max_host = \<lparr>decimals = (\<lambda>_. Some 0),
     lastprice = (\<lambda>_ _. Some (Some \<lparr>price = 1, timestamp = 900\<rparr>))\<rparr>"

definition max_calls :: "multi_call list" where
  "max_calls =
     (max_host, CallInstall (demo_env 1) (demo_params\<lparr>p_spending_limit_usd := i128_max\<rparr>) demo_rule (Addr 11))
     # map (\<lambda>(l, x). (max_host, CallEnforce (demo_env l) (Contract (demo_call x)) [] demo_rule (Addr 11)))
         [(5, i128_max), (7, i128_max), (16, 0)]"

theorem accounting_at_max_limit:
  "map_option (\<lambda>d. (cached_total_spent_usd d, usd_total (spending_history d)))
     (entries (multi_run max_calls init_policy_state) (AccountContext (Addr 11) 1)) = Some (0, i128_max)"
  by code_simp

text \<open>
  C4: The policy fails closed on the oracle.  For a well-formed transfer of an allowed token, an
  oracle call that reverts, an absent price, a non-positive or future-dated price, and a price older
  than 500 seconds each end the call with the error the code names, whatever the limit.
\<close>

theorem oracle_fail_closed:
  assumes "authorized e a" "entries s (AccountContext a (rule_id r)) = Some d"
    and "ctx_fn_name cc = ''transfer''" "2 < length (ctx_args cc)"
    and "ctx_args cc ! 2 = I128Val amount" "0 \<le> amount"
    and "first_index_of (ctx_contract cc) (allowed_tokens d) = Some i" "i < length (token_divisors d)"
  shows "(lastprice h (oracle_address d) (Stellar (ctx_contract cc)) = None \<longrightarrow>
            multi_enforce h e (Contract cc) sg r a s = Inl (Trap CallReverted))
       \<and> (lastprice h (oracle_address d) (Stellar (ctx_contract cc)) = Some None \<longrightarrow>
            multi_enforce h e (Contract cc) sg r a s = Inl (Panic InvalidOracleResponse))
       \<and> (\<forall>p. lastprice h (oracle_address d) (Stellar (ctx_contract cc)) = Some (Some p) \<longrightarrow>
            (price p \<le> 0 \<or> ledger_timestamp e < timestamp p \<longrightarrow>
               multi_enforce h e (Contract cc) sg r a s = Inl (Panic InvalidOracleResponse))
            \<and> (0 < price p \<and> timestamp p \<le> ledger_timestamp e
                \<and> 500 < uint (ledger_timestamp e) - uint (timestamp p) \<longrightarrow>
               multi_enforce h e (Contract cc) sg r a s = Inl (Panic StaleOraclePrice)))"
  using assms fresh_iff
  by (auto simp: multi_enforce_def get_policy_data_def fetch_price_def vec_get_def nth_opt_def Let_def
      guard_def not_less not_le)

theorem oracle_fail_closed_witness:
  "multi_enforce (demo_host\<lparr>lastprice := \<lambda>_ _. Some (Some \<lparr>price = 10, timestamp = 100\<rparr>)\<rparr>)
     (demo_env 5) (Contract (demo_call 600)) [] demo_rule (Addr 11) demo_state
   = Inl (Panic StaleOraclePrice)"
  using oracle_fail_closed [of "demo_env 5" "Addr 11" demo_state demo_rule demo_data "demo_call 600" 600 0
      "demo_host\<lparr>lastprice := \<lambda>_ _. Some (Some \<lparr>price = 10, timestamp = 100\<rparr>)\<rparr>" "[]"]
  by (simp add: demo_defs demo_state_def)



text \<open>
  C15: The limit renews.  However the policy was used before (the limit exhausted, the history full of
  small transfers), once every transfer approved so far is \<open>period_ledgers\<close> ledgers old, an authorised
  transfer of an allowed token at a current price whose dollar value is within the limit is approved,
  up to the full limit, and it is then all the policy keeps: one entry and its value as the cached total.
\<close>

theorem multi_limit_renews:
  assumes "multi_install h0 e0 p r a s0 = Inr s" "p_spending_limit_usd p < i128_max"
    and "\<forall>c \<in> set cs. keeps_installed (AccountContext a (rule_id r)) c"
    and "sorted (map call_ledger cs @ [ledger_sequence e])"
    and "\<forall>x \<in> set (approved (AccountContext a (rule_id r)) cs s).
           uint (spent_ledger x) + uint (p_period_ledgers p) \<le> uint (ledger_sequence e)"
    and "authorized e a" "ctx_fn_name cc = ''transfer''" "2 < length (ctx_args cc)"
    and "ctx_args cc ! 2 = I128Val amount" "0 \<le> amount" "ctx_contract cc \<in> set (p_allowed_tokens p)"
    and "lastprice h (p_oracle_address p) (Stellar (ctx_contract cc)) = Some (Some pr)"
    and "0 < price pr" "timestamp pr \<le> ledger_timestamp e"
    and "uint (ledger_timestamp e) - uint (timestamp pr) \<le> 500"
    and "decimals h0 (p_oracle_address p) = Some od" "decimals h0 (ctx_contract cc) = Some td"
    and "amount * price pr \<le> i128_max"
    and "usd = amount * price pr div 10 ^ (unat od + unat td)" "usd \<le> p_spending_limit_usd p"
  shows "\<exists>s' d. multi_enforce h e (Contract cc) sg r a (multi_run cs s) = Inr s'
     \<and> entries s' (AccountContext a (rule_id r)) = Some d
     \<and> spending_history d = [\<lparr>amount_usd = usd, spent_ledger = ledger_sequence e\<rparr>]
     \<and> cached_total_spent_usd d = usd"
proof -
  have kept: "\<And>c. c \<in> set cs \<Longrightarrow> keeps_installed (AccountContext a (rule_id r)) c"
    using assms(3) by blast
  obtain d d0 where d: "entries (multi_run cs s) (AccountContext a (rule_id r)) = Some d" "multi_valid d"
    "installed_as h0 p d" "window_inv d0 (approved (AccountContext a (rule_id r)) cs s) (ledger_sequence e) d"
    by (rule installed_run_at [OF assms(1,2) kept assms(4)])
  have lim: "spending_limit_usd d < i128_max" using d(3) assms(2) by (simp add: installed_as_def)
  have live: "live_history (ledger_sequence e) d = []"
    unfolding live_history_unexpired [OF d(4)]
    using assms(5) d(3) uint_saturating_sub_word [of "ledger_sequence e" "period_ledgers d"]
    by (fastforce simp: filter_empty_conv installed_as_def word_less_def)
  from priced_installed [OF d(2,3) assms(7-17)] obtain t where
    t: "priced_transfer h e d cc amount t pr" "usd_divisor d * t = 10 ^ (unat od + unat td)"
    by blast
  have l: "spending_limit_usd d = p_spending_limit_usd p" using d(3) by (simp add: installed_as_def)
  have "multi_enforce h e (Contract cc) sg r a (multi_run cs s) = Inr (store_set (AccountContext a (rule_id r))
      (d\<lparr>spending_history := [\<lparr>amount_usd = usd, spent_ledger = ledger_sequence e\<rparr>],
         cached_total_spent_usd := usd\<rparr>)
      (log_effect (ExtendTtl (AccountContext a (rule_id r)) POLICY_TTL_THRESHOLD POLICY_EXTEND_AMOUNT)
        (multi_run cs s)))"
    unfolding multi_enforce_valid_iff [OF d(1,2) lim]
    using t assms(6,18-20)
    by (intro conjI exI [of _ cc] exI [of _ amount] exI [of _ t] exI [of _ pr] exI [of _ usd])
      (simp_all add: live l MAX_HISTORY_ENTRIES_def)
  then show ?thesis by simp
qed

text \<open>60 dollars at ledgers 5 and 20; the full 100 dollars at ledger 30, ten ledgers after the last.\<close>

theorem multi_limit_renews_witness:
  "\<exists>s' d. multi_enforce demo_host (demo_env 30) (Contract (demo_call 1000)) [] demo_rule (Addr 11)
        (multi_run demo_calls demo_state) = Inr s'
     \<and> entries s' (AccountContext (Addr 11) 1) = Some d
     \<and> spending_history d = [\<lparr>amount_usd = 100, spent_ledger = 30\<rparr>] \<and> cached_total_spent_usd d = 100"
proof -
  have old: "\<forall>x \<in> set (approved (AccountContext (Addr 11) (rule_id demo_rule)) demo_calls demo_state).
      uint (spent_ledger x) + uint (p_period_ledgers demo_params) \<le> uint (ledger_sequence (demo_env 30))"
    using demo_approved by (simp add: demo_rule_def demo_params_def demo_env_def)
  have kept: "\<forall>c \<in> set demo_calls. keeps_installed (AccountContext (Addr 11) (rule_id demo_rule)) c"
    "sorted (map call_ledger demo_calls @ [ledger_sequence (demo_env 30)])"
    by (simp_all add: demo_calls_def demo_env_def)
  have p: "p_spending_limit_usd demo_params < i128_max" "(100 :: int) \<le> p_spending_limit_usd demo_params"
    "ctx_contract (demo_call 1000) \<in> set (p_allowed_tokens demo_params)"
    by (simp_all add: demo_params_def demo_call_def i128_max_def)
  have e: "authorized (demo_env 30) (Addr 11)" "timestamp \<lparr>price = 10, timestamp = 900\<rparr> \<le> ledger_timestamp (demo_env 30)"
    "uint (ledger_timestamp (demo_env 30)) - uint (timestamp \<lparr>price = 10, timestamp = 900\<rparr>) \<le> 500"
    by (simp_all add: demo_env_def word_le_def)
  have c: "ctx_fn_name (demo_call 1000) = ''transfer''" "2 < length (ctx_args (demo_call 1000))"
    "ctx_args (demo_call 1000) ! 2 = I128Val 1000" "(0 :: int) \<le> 1000"
    by (simp_all add: demo_call_def)
  have h: "lastprice demo_host (p_oracle_address demo_params) (Stellar (ctx_contract (demo_call 1000)))
      = Some (Some \<lparr>price = 10, timestamp = 900\<rparr>)"
    "decimals demo_host (p_oracle_address demo_params) = Some 1"
    "decimals demo_host (ctx_contract (demo_call 1000)) = Some 1"
    by (simp_all add: demo_host_def)
  have v: "0 < price \<lparr>price = 10, timestamp = 900\<rparr>" "1000 * price \<lparr>price = 10, timestamp = 900\<rparr> \<le> i128_max"
    "100 = 1000 * price \<lparr>price = 10, timestamp = 900\<rparr> div 10 ^ (unat (1 :: u32) + unat (1 :: u32))"
    by (simp_all add: i128_max_def)
  from multi_limit_renews [OF demo_install p(1) kept old e(1) c p(3) h(1) v(1) e(2,3) h(2,3) v(2,3) p(2), of "[]"]
  show ?thesis by (simp only: demo_rule_def demo_env_def env.simps ContextRule.simps)
qed

text \<open>
  C40: Exposure in exact dollars.  The policy counts whole dollars and lets a sub-dollar remainder of
  each transfer through uncounted.  Under the conditions of C1, the exact value (a rational number)
  of the transfers approved in any window of \<open>period_ledgers\<close> ledgers exceeds the limit by less than one
  dollar per transfer in that window, and there are at most a thousand of them, the history capacity.
\<close>

theorem multi_exact_exposure:
  assumes "multi_install h e p r a s0 = Inr s" "p_spending_limit_usd p < i128_max"
    and "\<forall>c \<in> set cs. keeps_installed (AccountContext a (rule_id r)) c"
    and "sorted (map call_ledger cs)"
    and "xs = exact_window (p_period_ledgers p) l (exact_approved (AccountContext a (rule_id r)) cs s)"
    and "xs \<noteq> []"
  shows "exact_total xs < of_int (p_spending_limit_usd p) + of_nat (length xs)
     \<and> length xs \<le> MAX_HISTORY_ENTRIES"
proof -
  let ?W = "in_window (p_period_ledgers p) l (approved (AccountContext a (rule_id r)) cs s)"
  have rounds: "list_all2 rounds_to xs ?W"
    unfolding assms(5) by (rule exact_window_rounds [OF exact_approved_rounds])
  then have len: "length xs = length ?W" by (rule list_all2_lengthD)
  from assms(3) have "\<And>c. c \<in> set cs \<Longrightarrow> keeps_installed (AccountContext a (rule_id r)) c" by blast
  from assms(1,2) this assms(4) obtain d d0 now where
    "installed_as h p d" "window_inv d0 (approved (AccountContext a (rule_id r)) cs s) now d"
    by (rule installed_run)
  then have "usd_total ?W \<le> p_spending_limit_usd p" "length ?W \<le> MAX_HISTORY_ENTRIES"
    by (auto simp: window_inv_def installed_as_def)
  moreover from this(1) have "rat_of_int (usd_total ?W) \<le> of_int (p_spending_limit_usd p)"
    by (simp only: of_int_le_iff)
  moreover have "exact_total xs < of_int (usd_total ?W) + of_nat (length ?W)"
    by (rule rounds_to_total(3) [OF rounds]) (use assms(6) len in auto)
  ultimately show ?thesis by (simp add: len)
qed

theorem multi_exact_exposure_witness:
  "exact_approved (AccountContext (Addr 11) 1) demo_fractions demo_state
     = [\<lparr>exact_usd = 121 / 2, exact_ledger = 5\<rparr>, \<lparr>exact_usd = 401 / 10, exact_ledger = 6\<rparr>]
   \<and> exact_total (exact_window 10 6
        (exact_approved (AccountContext (Addr 11) 1) demo_fractions demo_state)) < 100 + 2"
proof -
  let ?xs = "exact_window 10 6 (exact_approved (AccountContext (Addr 11) 1) demo_fractions demo_state)"
  have len: "length ?xs = 2" unfolding demo_exact by code_simp
  then have "?xs \<noteq> []" by auto
  with multi_exact_exposure [OF demo_install, of demo_fractions ?xs 6] len demo_exact show ?thesis
    by (simp add: demo_fractions_def demo_params_def demo_rule_def demo_env_def i128_max_def)
qed

end
