(* ===== verification/Policy_Properties.thy ===== *)
theory Policy_Properties
  imports Session_Policy Recipient_Policy Parameter_Policy Spending_Properties
begin

text \<open>
  The properties of the allowlist policies (session, recipient, parameter-scoped), stated over
  histories of calls by anyone, and the isolation and revocation of installations in all four
  storing policies.
\<close>

section \<open>Concrete data\<close>

definition stranger_env :: "u32 \<Rightarrow> env" where
  "stranger_env l = (demo_env l)\<lparr>authorized := (\<lambda>a. a = Addr 66)\<rparr>"

definition demo_signer :: Signer where
  "demo_signer = Delegated (Addr 2)"

definition demo_session_params :: SessionAccountParams where
  "demo_session_params = \<lparr>param_allowed_fns = [''transfer'', ''approve'']\<rparr>"

definition demo_session :: session_state where
  "demo_session = log_effect (Publish (SessionInstalled (Addr 11) 1 [''transfer'', ''approve'']))
     (store_set (AccountContext (Addr 11) 1) \<lparr>allowed_fns = [''transfer'', ''approve'']\<rparr>
        init_policy_state)"

lemma demo_session_install:
  "session_install (demo_env 1) demo_session_params demo_rule (Addr 11) init_policy_state
   = Inr demo_session"
  by (simp add: session_install_Inr demo_session_def demo_session_params_def demo_env_def
      demo_rule_def MAX_ALLOWED_FNS_def)

definition session_calls :: "SessionAccountParams policy_call list" where
  "session_calls =
     [CallEnforce (demo_env 2) (Contract (demo_call 7)) [demo_signer] demo_rule (Addr 11),
      CallInstall (demo_env 3) \<lparr>param_allowed_fns = [''burn'']\<rparr> demo_rule (Addr 11),
      CallUninstall (stranger_env 4) demo_rule (Addr 11)]"

section \<open>Session policy\<close>

lemma session_shell:
  "SessionPolicy_enforce = session_enforce" "SessionPolicy_install = session_install"
  "SessionPolicy_uninstall = session_uninstall"
  by (intro ext, simp add: session_shell_defs)+

text \<open>
  C6: The session policy enforces the installed allowlist.  After an installation and any history
  of calls by anyone in which the account does not uninstall the policy, a call is approved exactly
  when the account authorised it, at least one signer is present, and it invokes a function of
  the list given at installation; and approving it changes no stored data.
\<close>

theorem session_gate:
  assumes "SessionPolicy_install e0 p r a s0 = Inr s"
    and "\<forall>c \<in> set cs. \<not> uninstalls (AccountContext a (rule_id r)) c"
    and "t = policy_run SessionPolicy_install SessionPolicy_uninstall SessionPolicy_enforce cs s"
  shows "(\<exists>s'. SessionPolicy_enforce e ctx sg r a t = Inr s' \<and> entries s' = entries t) \<longleftrightarrow>
     authorized e a \<and> sg \<noteq> []
     \<and> (\<exists>cc. ctx = Contract cc \<and> ctx_fn_name cc \<in> set (param_allowed_fns p))"
proof -
  from assms(1) have "entries s (AccountContext a (rule_id r)) = Some \<lparr>allowed_fns = param_allowed_fns p\<rparr>"
    by (auto simp: session_shell session_install_Inr)
  from session.run_keeps [OF this] assms(2,3)
  have "entries t (AccountContext a (rule_id r)) = Some \<lparr>allowed_fns = param_allowed_fns p\<rparr>"
    unfolding session_shell by blast
  then show ?thesis by (auto simp: session_shell session_enforce_Inr)
qed

theorem session_gate_witness:
  "\<exists>s'. SessionPolicy_enforce (demo_env 9) (Contract (demo_call 7)) [demo_signer] demo_rule (Addr 11)
     (policy_run SessionPolicy_install SessionPolicy_uninstall SessionPolicy_enforce session_calls demo_session) = Inr s'"
  using session_gate [OF demo_session_install [folded session_shell] _ refl, of session_calls "demo_env 9"
      "Contract (demo_call 7)" "[demo_signer]"]
  by (auto simp: session_calls_def demo_env_def stranger_env_def demo_rule_def demo_call_def
      demo_session_params_def)

section \<open>Recipient allowlist policy\<close>

definition demo_recipients :: recipient_state where
  "demo_recipients =
     store_set (AccountContext (Addr 11) 1) \<lparr>allowed_recipients = [Addr 3]\<rparr> init_policy_state"

definition demo_recipients' :: recipient_state where
  "demo_recipients' =
     store_set (AccountContext (Addr 11) 1) \<lparr>allowed_recipients = [Addr 2]\<rparr> demo_recipients"

lemma demo_set_recipients:
  "set_allowed_recipients (demo_env 2) [Addr 2] (rule_id demo_rule) (Addr 11) demo_recipients
   = Inr demo_recipients'"
  by (simp add: set_allowed_recipients_Inr recipient_valid_def MAX_ALLOWED_RECIPIENTS_def
      demo_recipients_def demo_recipients'_def demo_env_def demo_rule_def)

text \<open>
  C8: A replaced recipient list is in force at once and stays in force.  After the account set a
  list, and any history of policy calls in which it does not uninstall, a call is approved exactly
  when the account authorised it, a signer is present and it is a \<open>transfer\<close> whose second argument is an
  address of that list.
\<close>

theorem recipient_gate:
  assumes "set_allowed_recipients e0 rs (rule_id r) a s0 = Inr s"
    and "\<forall>c \<in> set cs. \<not> uninstalls (AccountContext a (rule_id r)) c"
    and "t = policy_run recipient_install recipient_uninstall recipient_enforce cs s"
  shows "(\<exists>s'. recipient_enforce e ctx sg r a t = Inr s' \<and> entries s' = entries t) \<longleftrightarrow>
     authorized e a \<and> sg \<noteq> [] \<and> (\<exists>x. transfer_to_listed rs ctx x)"
proof -
  from assms(1) have "entries s (AccountContext a (rule_id r)) = Some \<lparr>allowed_recipients = rs\<rparr>"
    by (auto simp: set_allowed_recipients_Inr)
  from recipient_fixed.run_keeps [OF this] assms(2,3)
  have "entries t (AccountContext a (rule_id r)) = Some \<lparr>allowed_recipients = rs\<rparr>"
    by blast
  then show ?thesis by (auto simp: recipient_enforce_Inr)
qed

theorem recipient_gate_witness:
  "\<exists>s'. recipient_enforce (demo_env 9) (Contract (demo_call 7)) [demo_signer] demo_rule (Addr 11)
     (policy_run recipient_install recipient_uninstall recipient_enforce
        [CallUninstall (stranger_env 4) demo_rule (Addr 11)] demo_recipients') = Inr s'"
  using recipient_gate [OF demo_set_recipients _ refl,
      of "[CallUninstall (stranger_env 4) demo_rule (Addr 11)]" "demo_env 9" "Contract (demo_call 7)"
        "[demo_signer]"]
  by (auto simp: demo_env_def stranger_env_def demo_call_def transfer_to_listed_def)

text \<open>
  After any history of policy calls and list replacements from an empty contract, every
  stored recipient list is non-empty and has at most ten entries.
\<close>

theorem recipient_invariant:
  assumes "entries (updatable_run (policy_step recipient_install recipient_uninstall recipient_enforce)
             set_allowed_recipients cs init_policy_state) k = Some d"
  shows "allowed_recipients d \<noteq> [] \<and> length (allowed_recipients d) \<le> 10"
  using recipient.updatable_valid [OF _ assms] by (simp add: recipient_valid_def MAX_ALLOWED_RECIPIENTS_def)

theorem recipient_invariant_witness:
  "\<exists>d. entries (updatable_run (policy_step recipient_install recipient_uninstall recipient_enforce)
         set_allowed_recipients
         [PolicyCall (CallInstall (demo_env 1) \<lparr>param_allowed_recipients = [Addr 3]\<rparr> demo_rule (Addr 11)),
          CallUpdate (demo_env 2) [Addr 2, Addr 3] 1 (Addr 11),
          CallUpdate (demo_env 3) [] 1 (Addr 11)] init_policy_state) (AccountContext (Addr 11) 1) = Some d
     \<and> length (allowed_recipients d) \<le> 10"
  (is "\<exists>d. entries (updatable_run _ _ ?cs _) _ = Some d \<and> _")
proof -
  have "entries (updatable_run (policy_step recipient_install recipient_uninstall recipient_enforce)
          set_allowed_recipients ?cs init_policy_state) (AccountContext (Addr 11) 1)
        = Some \<lparr>allowed_recipients = [Addr 2, Addr 3]\<rparr>"
    by code_simp
  with recipient_invariant [OF this] show ?thesis by blast
qed

section \<open>Parameter-scoped policy\<close>

definition demo_conditions :: conditions_map where
  "demo_conditions =
     [(''transfer'', [\<lparr>arg_index = 1, operator = Eq, expected_value = EAddr (Addr 2)\<rparr>,
                      \<lparr>arg_index = 2, operator = Lte, expected_value = EI128 1000\<rparr>])]"

definition demo_parameter :: parameter_state where
  "demo_parameter = log_effect (Publish (ConditionsInstalled (Addr 11) 1))
     (store_set (AccountContext (Addr 11) 1) \<lparr>conditions = demo_conditions\<rparr> init_policy_state)"

lemma demo_parameter_install:
  "parameter_install (demo_env 1) \<lparr>param_conditions = demo_conditions\<rparr> demo_rule (Addr 11)
     init_policy_state = Inr demo_parameter"
  by (simp add: parameter_install_Inr parameter_valid_def demo_conditions_def demo_parameter_def
      demo_env_def demo_rule_def MAX_FNS_def MAX_CONDITIONS_PER_FN_def operator_compatible_def)

lemma parameter_shell:
  "ParameterScopedPolicy_enforce = parameter_enforce"
  "ParameterScopedPolicy_install = parameter_install"
  "ParameterScopedPolicy_uninstall = parameter_uninstall"
  by (intro ext, simp add: parameter_shell_defs)+

text \<open>
  C10: The parameter-scoped policy enforces the installed conditions at their meaning.  After
  an installation and any history in which the account does not uninstall, a call is approved
  exactly when the account authorised it, a signer is present, the called function has an installed
  condition list, and every condition of it finds its argument, of the expected type and in the
  stated relation to the expected value.
\<close>

theorem parameter_gate:
  assumes "ParameterScopedPolicy_install e0 p r a s0 = Inr s"
    and "\<forall>c \<in> set cs. \<not> uninstalls (AccountContext a (rule_id r)) c"
    and "t = policy_run ParameterScopedPolicy_install ParameterScopedPolicy_uninstall
          ParameterScopedPolicy_enforce cs s"
  shows "(\<exists>s'. ParameterScopedPolicy_enforce e ctx sg r a t = Inr s' \<and> entries s' = entries t) \<longleftrightarrow>
     authorized e a \<and> sg \<noteq> []
     \<and> (\<exists>cc conds. ctx = Contract cc \<and> map_of (param_conditions p) (ctx_fn_name cc) = Some conds
          \<and> (\<forall>c \<in> set conds. unat (arg_index c) < length (ctx_args cc)
               \<and> condition_spec (ctx_args cc ! unat (arg_index c)) c))"
proof -
  from assms(1) have "entries s (AccountContext a (rule_id r)) = Some \<lparr>conditions = param_conditions p\<rparr>"
    by (auto simp: parameter_shell parameter_install_Inr)
  from parameter.run_keeps [OF this] assms(2,3)
  have "entries t (AccountContext a (rule_id r)) = Some \<lparr>conditions = param_conditions p\<rparr>"
    unfolding parameter_shell by blast
  then show ?thesis
    by (auto simp: parameter_shell parameter_enforce_Inr list_all_iff condition_holds_def condition_passed_iff)
qed

theorem parameter_gate_witness:
  "\<exists>s'. ParameterScopedPolicy_enforce (demo_env 9) (Contract (demo_call 7)) [demo_signer] demo_rule (Addr 11)
     (policy_run ParameterScopedPolicy_install ParameterScopedPolicy_uninstall ParameterScopedPolicy_enforce
        [CallEnforce (demo_env 4) (Contract (demo_call 70000)) [demo_signer] demo_rule (Addr 11)]
        demo_parameter) = Inr s'"
  using parameter_gate [OF demo_parameter_install [folded parameter_shell] _ refl,
      of "[CallEnforce (demo_env 4) (Contract (demo_call 70000)) [demo_signer] demo_rule (Addr 11)]"
        "demo_env 9" "Contract (demo_call 7)" "[demo_signer]"]
  by (auto simp: demo_env_def demo_call_def demo_conditions_def condition_spec_def)

text \<open>
  After any history of calls from an empty contract, every stored condition on a symbol or an
  address tests equality or inequality only, every function has between one and five conditions,
  and there are between one and ten functions.
\<close>

theorem parameter_invariant:
  assumes "entries (policy_run parameter_install parameter_uninstall parameter_enforce cs
             init_policy_state) k = Some d"
  shows "conditions d \<noteq> [] \<and> length (conditions d) \<le> 10
     \<and> (\<forall>(f, conds) \<in> set (conditions d). conds \<noteq> [] \<and> length conds \<le> 5
          \<and> (\<forall>c \<in> set conds. (\<exists>x. expected_value c = ESym x) \<or> (\<exists>x. expected_value c = EAddr x)
               \<longrightarrow> operator c = Eq \<or> operator c = Neq))"
proof -
  have "parameter_valid d" using parameter.run_valid [OF _ assms] by simp
  then show ?thesis
    by (fastforce simp: parameter_valid_def MAX_FNS_def MAX_CONDITIONS_PER_FN_def list_all_iff
        operator_compatible_def)
qed

text \<open>
  C9: What the allowlist policies store stays within the documented bounds.  After any history of
  calls by anyone from an empty contract, every stored session has between one and ten functions;
  after any history of calls and list replacements, every stored recipient list has between one and
  ten entries; and every stored condition map has between one and ten functions with one to five
  conditions each, where symbols and addresses are only tested for equality or inequality.
\<close>

theorem stored_bounds:
  "(entries (policy_run session_install session_uninstall session_enforce cs init_policy_state) k = Some d
      \<longrightarrow> allowed_fns d \<noteq> [] \<and> length (allowed_fns d) \<le> 10)
   \<and> (entries (updatable_run (policy_step recipient_install recipient_uninstall recipient_enforce)
             set_allowed_recipients us init_policy_state) k = Some d'
      \<longrightarrow> allowed_recipients d' \<noteq> [] \<and> length (allowed_recipients d') \<le> 10)
   \<and> (entries (policy_run parameter_install parameter_uninstall parameter_enforce ps init_policy_state) k
        = Some d''
      \<longrightarrow> conditions d'' \<noteq> [] \<and> length (conditions d'') \<le> 10
        \<and> (\<forall>(f, conds) \<in> set (conditions d''). conds \<noteq> [] \<and> length conds \<le> 5
             \<and> (\<forall>c \<in> set conds. (\<exists>x. expected_value c = ESym x) \<or> (\<exists>x. expected_value c = EAddr x)
                  \<longrightarrow> operator c = Eq \<or> operator c = Neq)))"
proof (intro conjI impI)
  assume "entries (policy_run session_install session_uninstall session_enforce cs init_policy_state) k
    = Some d"
  from session.run_valid [OF _ this] have "session_valid d" by simp
  then show "allowed_fns d \<noteq> []" "length (allowed_fns d) \<le> 10"
    by (simp_all add: session_valid_def MAX_ALLOWED_FNS_def)
qed (use recipient_invariant parameter_invariant in blast)+

theorem stored_bounds_witness:
  "\<exists>d. entries (policy_run parameter_install parameter_uninstall parameter_enforce
         [CallInstall (demo_env 1) \<lparr>param_conditions = demo_conditions\<rparr> demo_rule (Addr 11)]
         init_policy_state) (AccountContext (Addr 11) 1) = Some d \<and> length (conditions d) \<le> 10"
proof -
  have "entries (policy_run parameter_install parameter_uninstall parameter_enforce
         [CallInstall (demo_env 1) \<lparr>param_conditions = demo_conditions\<rparr> demo_rule (Addr 11)]
         init_policy_state) (AccountContext (Addr 11) 1) = Some \<lparr>conditions = demo_conditions\<rparr>"
    by (simp add: demo_parameter_install) (simp add: demo_parameter_def)
  with stored_bounds [where k = "AccountContext (Addr 11) 1" and d'' = "\<lparr>conditions = demo_conditions\<rparr>"
      and ps = "[CallInstall (demo_env 1) \<lparr>param_conditions = demo_conditions\<rparr> demo_rule (Addr 11)]"]
  show ?thesis by blast
qed

section \<open>Isolation and revocation\<close>

text \<open>A call that cannot speak for account \<open>a\<close> under rule \<open>i\<close>: not authorised by it, or about another entry.\<close>

definition foreign :: "address \<Rightarrow> u32 \<Rightarrow> env \<Rightarrow> storage_key \<Rightarrow> bool" where
  "foreign a i e k \<longleftrightarrow> \<not> authorized e a \<or> k \<noteq> AccountContext a i"

lemma session_isolated:
  "\<forall>c \<in> set cs. foreign a i (call_env c) (call_key c) \<Longrightarrow>
   entries (policy_run session_install session_uninstall session_enforce cs s) (AccountContext a i)
   = entries s (AccountContext a i)"
  by (rule session.run_isolation) (auto simp: foreign_def)

lemma recipient_isolated:
  "\<forall>u \<in> set us. foreign a i (ucall_env u) (ucall_key u) \<Longrightarrow>
   entries (updatable_run (policy_step recipient_install recipient_uninstall recipient_enforce)
      set_allowed_recipients us s) (AccountContext a i) = entries s (AccountContext a i)"
  by (rule recipient.updatable_isolation) (auto simp: foreign_def)

lemma parameter_isolated:
  "\<forall>c \<in> set cs. foreign a i (call_env c) (call_key c) \<Longrightarrow>
   entries (policy_run parameter_install parameter_uninstall parameter_enforce cs s) (AccountContext a i)
   = entries s (AccountContext a i)"
  by (rule parameter.run_isolation) (auto simp: foreign_def)

lemma multi_isolated:
  "\<forall>m \<in> set ms. foreign a i (call_env (snd m)) (call_key (snd m)) \<Longrightarrow>
   entries (multi_run ms s) (AccountContext a i) = entries s (AccountContext a i)"
  by (induction ms arbitrary: s) (auto simp: multi_step_def foreign_def multi.step_frame)

lemmas isolated = session_isolated recipient_isolated parameter_isolated multi_isolated

text \<open>
  C12: Installations are isolated.  In each of the four storing policies, what is stored for an account
  under one rule is untouched by any history of calls, list replacements included, none of which both
  carries that account's authorisation and names that account and rule.
\<close>

theorem policies_isolated:
  assumes "\<forall>c \<in> set cs. foreign a i (call_env c) (call_key c)"
    and "\<forall>u \<in> set us. foreign a i (ucall_env u) (ucall_key u)"
    and "\<forall>c \<in> set ps. foreign a i (call_env c) (call_key c)"
    and "\<forall>m \<in> set ms. foreign a i (call_env (snd m)) (call_key (snd m))"
  shows "entries (policy_run session_install session_uninstall session_enforce cs s1) (AccountContext a i)
           = entries s1 (AccountContext a i)
     \<and> entries (updatable_run (policy_step recipient_install recipient_uninstall recipient_enforce)
           set_allowed_recipients us s2) (AccountContext a i) = entries s2 (AccountContext a i)
     \<and> entries (policy_run parameter_install parameter_uninstall parameter_enforce ps s3) (AccountContext a i)
           = entries s3 (AccountContext a i)
     \<and> entries (multi_run ms s4) (AccountContext a i) = entries s4 (AccountContext a i)"
  using isolated assms by blast

theorem policies_isolated_witness:
  "entries (updatable_run (policy_step recipient_install recipient_uninstall recipient_enforce)
       set_allowed_recipients
       [PolicyCall (CallUninstall (stranger_env 4) demo_rule (Addr 11)),
        CallUpdate (stranger_env 5) [Addr 66] 1 (Addr 11)] demo_recipients) (AccountContext (Addr 11) 1)
     = Some \<lparr>allowed_recipients = [Addr 3]\<rparr>
   \<and> entries (multi_run [(demo_host, CallUninstall (stranger_env 4) demo_rule (Addr 11)),
       (demo_host, CallEnforce (stranger_env 5) (Contract (demo_call 600)) [] demo_rule (Addr 11))]
       demo_state) (AccountContext (Addr 11) 1) = Some demo_data"
  using policies_isolated [of "[]" "Addr 11" 1
      "[PolicyCall (CallUninstall (stranger_env 4) demo_rule (Addr 11)),
        CallUpdate (stranger_env 5) [Addr 66] 1 (Addr 11)]" "[]"
      "[(demo_host, CallUninstall (stranger_env 4) demo_rule (Addr 11)),
       (demo_host, CallEnforce (stranger_env 5) (Contract (demo_call 600)) [] demo_rule (Addr 11))]"
      init_policy_state demo_recipients init_policy_state demo_state]
  by (simp add: foreign_def stranger_env_def demo_recipients_def)

text \<open>
  C7: Revocation.  Once the account has uninstalled one of the four storing policies from a rule, every
  later enforcement of that policy for the rule fails, whatever calls follow in which the account
  itself does not act on that rule again.
\<close>

theorem policies_revoked:
  assumes "\<forall>c \<in> set cs. foreign a (rule_id r) (call_env c) (call_key c)"
    and "\<forall>u \<in> set us. foreign a (rule_id r) (ucall_env u) (ucall_key u)"
    and "\<forall>c \<in> set ps. foreign a (rule_id r) (call_env c) (call_key c)"
    and "\<forall>m \<in> set ms. foreign a (rule_id r) (call_env (snd m)) (call_key (snd m))"
  shows "(session_uninstall e r a s1 = Inr t1 \<longrightarrow> (\<exists>f. session_enforce e' ctx sg r a
            (policy_run session_install session_uninstall session_enforce cs t1) = Inl f))
     \<and> (recipient_uninstall e r a s2 = Inr t2 \<longrightarrow> (\<exists>f. recipient_enforce e' ctx sg r a
            (updatable_run (policy_step recipient_install recipient_uninstall recipient_enforce)
               set_allowed_recipients us t2) = Inl f))
     \<and> (parameter_uninstall e r a s3 = Inr t3 \<longrightarrow> (\<exists>f. parameter_enforce e' ctx sg r a
            (policy_run parameter_install parameter_uninstall parameter_enforce ps t3) = Inl f))
     \<and> (multi_uninstall e r a s4 = Inr t4 \<longrightarrow> (\<exists>f. multi_enforce h e' ctx sg r a (multi_run ms t4) = Inl f))"
proof (intro conjI impI)
  assume "session_uninstall e r a s1 = Inr t1"
  from session.uninstall_ok [OF this] isolated(1) [OF assms(1)]
  show "\<exists>f. session_enforce e' ctx sg r a (policy_run session_install session_uninstall session_enforce cs t1) = Inl f"
    by (intro session.not_installed_fails(1)) simp
next
  assume "recipient_uninstall e r a s2 = Inr t2"
  from recipient.uninstall_ok [OF this] isolated(2) [OF assms(2)]
  show "\<exists>f. recipient_enforce e' ctx sg r a (updatable_run
      (policy_step recipient_install recipient_uninstall recipient_enforce) set_allowed_recipients us t2) = Inl f"
    by (intro recipient.not_installed_fails(1)) simp
next
  assume "parameter_uninstall e r a s3 = Inr t3"
  from parameter.uninstall_ok [OF this] isolated(3) [OF assms(3)]
  show "\<exists>f. parameter_enforce e' ctx sg r a (policy_run parameter_install parameter_uninstall parameter_enforce ps t3) = Inl f"
    by (intro parameter.not_installed_fails(1)) simp
next
  assume "multi_uninstall e r a s4 = Inr t4"
  from multi.uninstall_ok [OF this] isolated(4) [OF assms(4)]
  show "\<exists>f. multi_enforce h e' ctx sg r a (multi_run ms t4) = Inl f"
    by (intro multi.not_installed_fails(1)) simp
qed

theorem policies_revoked_witness:
  "\<exists>s' f. session_uninstall (demo_env 5) demo_rule (Addr 11) demo_session = Inr s'
     \<and> session_enforce (demo_env 9) (Contract (demo_call 7)) [demo_signer] demo_rule (Addr 11)
         (policy_run session_install session_uninstall session_enforce
            [CallInstall (stranger_env 6) demo_session_params demo_rule (Addr 11)] s') = Inl f"
proof -
  obtain s' where s': "session_uninstall (demo_env 5) demo_rule (Addr 11) demo_session = Inr s'"
    by (simp add: session_uninstall_Inr demo_session_def demo_env_def demo_rule_def)
  have "\<forall>c \<in> set [CallInstall (stranger_env 6) demo_session_params demo_rule (Addr 11)].
      foreign (Addr 11) (rule_id demo_rule) (call_env c) (call_key c)"
    by (simp add: foreign_def stranger_env_def)
  from policies_revoked [OF this, where us = "[]" and ps = "[]" and ms = "[]"] s' show ?thesis
    by (simp del: policy_run.simps)
qed

end
