(* ===== verification/Vesting_Math.thy ===== *)
theory Vesting_Math
  imports Latch_Prelude
begin

text \<open>
  The arithmetic of the vesting schedule, \<open>src/templates/vesting-schedule/src/lib.rs\<close>: the wide
  multiplication \<open>mul_div_u128\<close> at its 128-bit width, with every operation that the release
  profile's overflow checks guard, and \<open>compute_vested\<close>; the closed form they compute; and
  the order properties of the closed form.
\<close>

section \<open>Checked 128-bit operations\<close>

text \<open>
  \<open>u128::checked_mul\<close>, and the operators \<open>*\<close>, \<open>+\<close>, \<open>/\<close>, \<open>%\<close>, \<open>-\<close> as the release profile builds
  them (\<open>overflow-checks = true\<close>): a result out of range traps.
\<close>

definition checked_mul_u128 :: "u128 \<Rightarrow> u128 \<Rightarrow> u128 option" where
  "checked_mul_u128 a b = (if uint a * uint b < 2 ^ 128 then Some (a * b) else None)"

definition mul_u128 :: "u128 \<Rightarrow> u128 \<Rightarrow> ('e, u128) result" where
  "mul_u128 a b = unwrap_or (checked_mul_u128 a b) (Trap ArithmeticOverflow)"

definition add_u128 :: "u128 \<Rightarrow> u128 \<Rightarrow> ('e, u128) result" where
  "add_u128 a b = unwrap_or (checked_add_word a b) (Trap ArithmeticOverflow)"

definition div_u128 :: "u128 \<Rightarrow> u128 \<Rightarrow> ('e, u128) result" where
  "div_u128 a b = (if b = 0 then Inl (Trap DivisionByZero) else Inr (a div b))"

definition rem_u128 :: "u128 \<Rightarrow> u128 \<Rightarrow> ('e, u128) result" where
  "rem_u128 a b = (if b = 0 then Inl (Trap DivisionByZero) else Inr (a mod b))"

definition sub_u32 :: "u32 \<Rightarrow> u32 \<Rightarrow> ('e, u32) result" where
  "sub_u32 a b = (if a < b then Inl (Trap ArithmeticOverflow) else Inr (a - b))"

section \<open>The program\<close>

definition mul_div_u128 :: "u128 \<Rightarrow> u64 \<Rightarrow> u64 \<Rightarrow> ('e, u128) result" where
  "mul_div_u128 tot elapsed0 duration0 =
     (let elapsed = ucast elapsed0 :: u128; duration = ucast duration0 :: u128 in
      (case checked_mul_u128 tot elapsed of
         Some product \<Rightarrow> div_u128 product duration
       | None \<Rightarrow>
          (let hi = ucast (ucast (drop_bit 64 tot) :: u64) :: u128;
               lo = ucast (ucast tot :: u64) :: u128 in
           res_bind (mul_u128 hi elapsed) (\<lambda>hi_prod.
           res_bind (mul_u128 lo elapsed) (\<lambda>lo_prod.
           res_bind (div_u128 hi_prod duration) (\<lambda>hi_div.
           res_bind (rem_u128 hi_prod duration) (\<lambda>hi_rem.
           res_bind (add_u128 (push_bit 64 hi_rem) lo_prod) (\<lambda>lo_sum.
           res_bind (div_u128 lo_sum duration) (\<lambda>lo_div.
           add_u128 (push_bit 64 hi_div) lo_div))))))))) "

text \<open>\<open>total_amount as u128\<close> and \<open>... as i128\<close> are the two's complement reinterpretations.\<close>

definition compute_vested ::
  "i128 \<Rightarrow> u32 \<Rightarrow> u32 option \<Rightarrow> u32 \<Rightarrow> u32 \<Rightarrow> ('e, i128) result" where
  "compute_vested total_amount start_ledger cliff_ledger end_ledger current_ledger =
     (if current_ledger < start_ledger then Inr 0
      else if (case cliff_ledger of Some cliff \<Rightarrow> current_ledger < cliff | None \<Rightarrow> False) then Inr 0
      else if current_ledger \<ge> end_ledger then Inr total_amount
      else
        res_bind (sub_u32 current_ledger start_ledger) (\<lambda>elapsed.
        res_bind (sub_u32 end_ledger start_ledger) (\<lambda>duration.
        res_bind (mul_div_u128 (word_of_int total_amount) (ucast elapsed) (ucast duration)) (\<lambda>v.
        Inr (sint v)))))"

section \<open>The closed form\<close>

definition vested_spec :: "int \<Rightarrow> u32 \<Rightarrow> u32 option \<Rightarrow> u32 \<Rightarrow> u32 \<Rightarrow> int" where
  "vested_spec tot start_ledger cliff_ledger end_ledger current =
     (if current < start_ledger \<or> (\<exists>c. cliff_ledger = Some c \<and> current < c) then 0
      else if end_ledger \<le> current then tot
      else tot * (uint current - uint start_ledger) div (uint end_ledger - uint start_ledger))"

section \<open>Exactness of the wide multiplication\<close>

lemma uint_mul_u128: "uint a * uint b < 2 ^ 128 \<Longrightarrow> uint (a * b :: u128) = uint a * uint b"
  by (simp add: uint_word_ariths)

lemma uint_add_u128: "uint a + uint b < 2 ^ 128 \<Longrightarrow> uint (a + b :: u128) = uint a + uint b"
  by (simp add: uint_word_ariths)

lemma uint_push_64:
  assumes "uint a < 2 ^ 64"
  shows "uint (push_bit 64 a :: u128) = uint a * 2 ^ 64"
proof -
  have "uint (push_bit 64 a :: u128) = take_bit 128 (push_bit 64 (uint a))"
    by (subst unsigned_push_bit_eq) simp
  with assms show ?thesis by (simp add: take_bit_eq_mod push_bit_eq_mult)
qed

lemma u128_halves: "0 \<le> uint (a :: u128) div 2 ^ 64" "uint (a :: u128) div 2 ^ 64 < 2 ^ 64"
proof -
  have "uint a < 2 ^ 128" using uint_lt2p [of a] by simp
  then show "uint a div 2 ^ 64 < 2 ^ 64"
    by (simp add: div_less_iff_less_mult)
  show "0 \<le> uint a div 2 ^ 64"
    by (simp add: pos_imp_zdiv_nonneg_iff)
qed

lemma uint_hi_half:
  "uint (ucast (ucast (drop_bit 64 (a :: u128)) :: u64) :: u128) = uint a div 2 ^ 64"
proof -
  have "uint (ucast (ucast (drop_bit 64 a) :: u64) :: u128)
        = take_bit 128 (take_bit 64 (uint (drop_bit 64 a)))"
    by (simp only: unsigned_ucast_eq) (simp add: unsigned_take_bit_eq)
  also have "uint (drop_bit 64 a) = uint a div 2 ^ 64"
    using uint_lt2p [of a]
    by (subst unsigned_drop_bit_eq) (simp add: drop_bit_eq_div take_bit_eq_mod)
  finally show ?thesis
    using u128_halves [of a] by (simp add: take_bit_eq_mod)
qed

lemma uint_lo_half: "uint (ucast (ucast (a :: u128) :: u64) :: u128) = uint a mod 2 ^ 64"
proof -
  have "uint (ucast (ucast a :: u64) :: u128) = take_bit 128 (take_bit 64 (uint a))"
    by (simp only: unsigned_ucast_eq) (simp add: unsigned_take_bit_eq)
  then show ?thesis by (simp add: take_bit_eq_mod)
qed

lemma uint_u64_u128 [simp]: "uint (ucast (x :: u64) :: u128) = uint x"
  using uint_lt2p [of x] by (simp add: unsigned_ucast_eq take_bit_eq_mod)

lemma uint_u32_u64 [simp]: "uint (ucast (x :: u32) :: u64) = uint x"
  using uint_lt2p [of x] by (simp add: unsigned_ucast_eq take_bit_eq_mod)

text \<open>Long division: dividing the high half first and carrying the remainder.\<close>

lemma long_division:
  fixes t e d b :: int
  assumes "0 < d" "0 < b"
  shows "(t div b * e div d) * b + ((t div b * e mod d) * b + t mod b * e) div d = t * e div d"
proof -
  let ?h = "t div b * e"
  have "t * e = (t div b * b + t mod b) * e"
    by (simp only: div_mult_mod_eq)
  also have "\<dots> = ?h * b + t mod b * e"
    by (simp only: algebra_simps)
  also have "\<dots> = (?h div d * d + ?h mod d) * b + t mod b * e"
    by (simp only: div_mult_mod_eq)
  also have "\<dots> = (?h div d * b) * d + (?h mod d * b + t mod b * e)"
    by (simp only: algebra_simps)
  finally have "t * e = (?h div d * b) * d + (?h mod d * b + t mod b * e)" .
  then show ?thesis
    using assms by (simp add: add.commute)
qed

text \<open>
  With the arguments the contract passes (ledger differences, below \<open>2\<^sup>3\<^sup>2\<close>) no step of the wide
  branch overflows, and the result is the exact quotient.
\<close>

lemma mul_u128_exact:
  "uint a * uint b < 2 ^ 128 \<Longrightarrow> mul_u128 a b = Inr (a * b)"
  by (simp add: mul_u128_def checked_mul_u128_def)

lemma add_u128_exact:
  "uint a + uint b < 2 ^ 128 \<Longrightarrow> add_u128 a b = Inr (a + b)"
  by (simp add: add_u128_def checked_add_word_def)

lemma div_u128_exact: "0 < uint b \<Longrightarrow> div_u128 a b = Inr (a div b)"
  by (auto simp: div_u128_def)

lemma rem_u128_exact: "0 < uint b \<Longrightarrow> rem_u128 a b = Inr (a mod b)"
  by (auto simp: rem_u128_def)

lemmas u128_exact = mul_u128_exact add_u128_exact div_u128_exact rem_u128_exact

lemma scaled_le:
  fixes x e d :: int
  assumes "0 \<le> x" "0 \<le> e" "e \<le> d" "0 < d"
  shows "0 \<le> x * e div d" "x * e div d \<le> x"
proof -
  show "0 \<le> x * e div d" using assms by (simp add: pos_imp_zdiv_nonneg_iff)
  have "x * e div d \<le> x * d div d"
    using assms by (intro zdiv_mono1 mult_left_mono) simp_all
  with assms show "x * e div d \<le> x" by simp
qed

lemma mul_div_u128_wide:
  fixes t :: u128 and e d :: u64
  assumes e: "uint e \<le> uint d" and d: "0 < uint d" "uint d < 2 ^ 32"
    and ovf: "\<not> uint t * uint e < 2 ^ 128"
  shows "\<exists>r. mul_div_u128 t e d = (Inr r :: ('e, u128) result)
             \<and> uint r = uint t * uint e div uint d"
proof -
  define hi where "hi = (ucast (ucast (drop_bit 64 t) :: u64) :: u128)"
  define lo where "lo = (ucast (ucast t :: u64) :: u128)"
  define E where "E = (ucast e :: u128)"
  define D where "D = (ucast d :: u128)"
  have hi: "uint hi = uint t div 2 ^ 64"
    unfolding hi_def by (rule uint_hi_half)
  have lo: "uint lo = uint t mod 2 ^ 64"
    unfolding lo_def by (rule uint_lo_half)
  have ED: "uint E = uint e" "uint D = uint d" by (simp_all add: E_def D_def)
  have hi_lt: "uint hi < 2 ^ 64" using u128_halves [of t] by (simp only: hi)
  have lo_lt: "uint lo < 2 ^ 64" by (simp add: lo)
  have e_lt: "uint e < 2 ^ 32" using e d by simp
  have hp: "uint hi * uint E < 2 ^ 96"
    using mult_strict_mono' [of "uint hi" "2 ^ 64" "uint e" "2 ^ 32"] hi_lt e_lt by (simp add: ED)
  have lp: "uint lo * uint E < 2 ^ 96"
    using mult_strict_mono' [of "uint lo" "2 ^ 64" "uint e" "2 ^ 32"] lo_lt e_lt by (simp add: ED)
  have hp_u: "uint (hi * E) = uint hi * uint E" and lp_u: "uint (lo * E) = uint lo * uint E"
    using hp lp by (simp_all add: uint_mul_u128)
  have q: "uint (hi * E div D) \<le> uint hi"
    using scaled_le(2) [of "uint hi" "uint e" "uint d"] e d by (simp add: uint_div_distrib hp_u ED)
  have r: "uint (hi * E mod D) < 2 ^ 32"
    using d less_trans [OF pos_mod_bound [OF d(1)] d(2)]
    by (simp only: uint_mod_distrib hp_u ED)
  have rs: "uint (push_bit 64 (hi * E mod D)) = uint (hi * E mod D) * 2 ^ 64"
    using r by (intro uint_push_64) simp
  have qs: "uint (push_bit 64 (hi * E div D)) = uint (hi * E div D) * 2 ^ 64"
    using q hi_lt by (intro uint_push_64) simp
  have sum_lt: "uint (push_bit 64 (hi * E mod D)) + uint (lo * E) < 2 ^ 128"
    using r lp by (simp add: rs lp_u)
  define ls where "ls = push_bit 64 (hi * E mod D) + lo * E"
  have ls: "uint ls = (uint hi * uint e mod uint d) * 2 ^ 64 + uint lo * uint e"
    using sum_lt by (simp add: ls_def uint_add_u128 rs lp_u uint_mod_distrib hp_u ED)
  have total: "uint (push_bit 64 (hi * E div D)) + uint (ls div D) = uint t * uint e div uint d"
    using long_division [of "uint d" "2 ^ 64" "uint t" "uint e"] d
    by (simp add: qs uint_div_distrib ls hp_u ED hi lo)
  have "uint t * uint e div uint d \<le> uint t"
    using scaled_le(2) [of "uint t" "uint e" "uint d"] e d by simp
  then have final_lt: "uint (push_bit 64 (hi * E div D)) + uint (ls div D) < 2 ^ 128"
    using uint_lt2p [of t] by (simp add: total)
  have "mul_div_u128 t e d
        = (add_u128 (push_bit 64 (hi * E div D)) (ls div D) :: ('e, u128) result)"
    using ovf hp lp d sum_lt
    by (simp add: mul_div_u128_def checked_mul_u128_def Let_def u128_exact ED ls_def
        flip: hi_def lo_def E_def D_def)
  also have "\<dots> = Inr (push_bit 64 (hi * E div D) + ls div D)"
    using final_lt by (rule add_u128_exact)
  finally show ?thesis
    using final_lt total by (auto simp: uint_add_u128)
qed

lemma mul_div_u128_exact:
  fixes t :: u128 and e d :: u64
  assumes "uint e \<le> uint d" "0 < uint d" "uint d < 2 ^ 32"
  shows "\<exists>r. mul_div_u128 t e d = (Inr r :: ('e, u128) result)
             \<and> uint r = uint t * uint e div uint d"
proof (cases "uint t * uint e < 2 ^ 128")
  case True
  then have "mul_div_u128 t e d = (Inr (t * ucast e div ucast d) :: ('e, u128) result)"
    using assms by (simp add: mul_div_u128_def checked_mul_u128_def Let_def div_u128_exact)
  moreover have "uint (t * ucast e div ucast d :: u128) = uint t * uint e div uint d"
    using True by (simp add: uint_div_distrib uint_mul_u128)
  ultimately show ?thesis by blast
next
  case False
  then show ?thesis by (rule mul_div_u128_wide [OF assms])
qed

section \<open>\<open>compute_vested\<close> is the closed form\<close>

lemma i128_cast_roundtrip:
  assumes "0 \<le> x" "x \<le> i128_max"
  shows "uint (word_of_int x :: u128) = x"
  using assms by (simp add: uint_word_of_int i128_max_def)

lemma sint_small_u128:
  assumes "uint (w :: u128) \<le> i128_max"
  shows "sint w = uint w"
  using assms
  by (simp add: sint_uint signed_take_bit_int_eq_self_iff i128_max_def)
    (rule order_trans [OF _ uint_ge_0], simp)

lemma compute_vested_eq:
  assumes "0 \<le> tot" "tot \<le> i128_max"
  shows "compute_vested tot st cl en cur = (Inr (vested_spec tot st cl en cur) :: ('e, i128) result)"
proof (cases "cur < st \<or> (\<exists>c. cl = Some c \<and> cur < c) \<or> en \<le> cur")
  case True
  then show ?thesis
    by (auto simp: compute_vested_def vested_spec_def not_less split: option.splits)
next
  case False
  then have ord: "st \<le> cur" "cur < en" and cl: "\<And>c. cl = Some c \<Longrightarrow> c \<le> cur" by auto
  have e: "uint (cur - st) = uint cur - uint st" and d: "uint (en - st) = uint en - uint st"
    using ord by (auto simp: uint_sub_if' word_le_def word_less_def)
  have "uint (ucast (cur - st) :: u64) \<le> uint (ucast (en - st) :: u64)"
    "0 < uint (ucast (en - st) :: u64)"
    using ord by (simp_all add: e d word_le_def word_less_def)
  moreover have "uint (ucast (en - st) :: u64) < 2 ^ 32"
    using uint_lt2p [of "en - st"] by simp
  ultimately obtain r :: u128 where
    r: "mul_div_u128 (word_of_int tot) (ucast (cur - st)) (ucast (en - st)) = (Inr r :: ('e, u128) result)"
       "uint r = tot * (uint cur - uint st) div (uint en - uint st)"
    using mul_div_u128_exact [of "ucast (cur - st)" "ucast (en - st)" "word_of_int tot"]
      i128_cast_roundtrip [OF assms] by (auto simp: e d)
  have "uint r \<le> tot"
    using r(2) scaled_le(2) [of tot "uint cur - uint st" "uint en - uint st"] assms ord
    by (simp add: word_le_def word_less_def)
  then have "sint r = uint r" using assms by (intro sint_small_u128) simp
  moreover have "st \<le> en" using ord by simp
  ultimately show ?thesis
    using r ord cl False
    by (auto simp: compute_vested_def vested_spec_def sub_u32_def not_less split: option.splits)
qed

section \<open>Order properties of the closed form\<close>

lemma vested_spec_bounds:
  assumes "0 \<le> tot"
  shows "0 \<le> vested_spec tot st cl en cur" "vested_spec tot st cl en cur \<le> tot"
  using assms scaled_le [of tot "uint cur - uint st" "uint en - uint st"]
  by (auto simp: vested_spec_def word_le_def word_less_def not_less not_le)

lemma vested_spec_mono:
  assumes "0 \<le> tot" "cur \<le> cur'"
  shows "vested_spec tot st cl en cur \<le> vested_spec tot st cl en cur'"
proof (cases "cur < st \<or> (\<exists>c. cl = Some c \<and> cur < c)")
  case True
  then have "vested_spec tot st cl en cur = 0" by (simp add: vested_spec_def)
  then show ?thesis using vested_spec_bounds(1) [OF assms(1)] by simp
next
  case False
  then have after: "\<not> (cur' < st \<or> (\<exists>c. cl = Some c \<and> cur' < c))"
    using assms(2) by (auto dest: order.strict_trans1)
  show ?thesis
  proof (cases "en \<le> cur'")
    case True
    with after have "vested_spec tot st cl en cur' = tot" by (auto simp: vested_spec_def)
    then show ?thesis using vested_spec_bounds(2) [OF assms(1)] by simp
  next
    case nen: False
    have "tot * (uint cur - uint st) div (uint en - uint st)
          \<le> tot * (uint cur' - uint st) div (uint en - uint st)"
      using assms False nen by (intro zdiv_mono1 mult_left_mono) (auto simp: word_le_def word_less_def)
    moreover have "\<not> en \<le> cur" using nen assms(2) by auto
    ultimately show ?thesis using False after nen by (auto simp: vested_spec_def)
  qed
qed

lemma vested_spec_end: "en \<le> cur \<Longrightarrow> st \<le> en \<Longrightarrow> (\<And>c. cl = Some c \<Longrightarrow> c \<le> en) \<Longrightarrow>
    vested_spec tot st cl en cur = tot"
  by (auto simp: vested_spec_def dest: order.strict_trans2)

end
