(* ===== verification/Token_Interface.thy ===== *)
theory Token_Interface
  imports Soroban_Env
begin

text \<open>
  The SEP-41 token a template contract calls.  Tokens are other contracts, so the models take the
  \<open>transfer\<close> entry point as a parameter: it acts on the state of the token contracts (of type
  \<open>'w\<close>) and either reverts (\<open>None\<close>) or returns their new state.  The locale
  \<open>sep41_token\<close> states what SEP-41 documents of a transfer; the mock token the repository's own
  tests run the contracts against interprets it.
\<close>

type_synonym 'w token_transfer = "address \<Rightarrow> address \<Rightarrow> address \<Rightarrow> i128 \<Rightarrow> 'w \<Rightarrow> 'w option"
type_synonym 'w token_balance = "address \<Rightarrow> address \<Rightarrow> 'w \<Rightarrow> i128"

locale sep41_token =
  fixes transfer :: "'w token_transfer"
    and balance :: "'w token_balance"
  assumes transfer_moves:
      "transfer tk from to amount w = Some w' \<Longrightarrow> 0 \<le> amount \<Longrightarrow>
         balance tk a w' = balance tk a w - (if a = from then amount else 0)
                           + (if a = to then amount else 0)"
    and transfer_frame:
      "transfer tk from to amount w = Some w' \<Longrightarrow> tk' \<noteq> tk \<Longrightarrow> balance tk' a w' = balance tk' a w"
    and transfer_covered:
      "transfer tk from to amount w = Some w' \<Longrightarrow> amount \<le> balance tk from w"
begin

lemma transfer_other:
  assumes "transfer tk from to amount w = Some w'" "0 \<le> amount" "a \<noteq> from"
  shows "balance tk' a w \<le> balance tk' a w'"
  using assms transfer_moves [OF assms(1,2), of a] transfer_frame [OF assms(1), of tk' a]
  by (cases "tk' = tk") auto

lemma transfer_debits:
  assumes "transfer tk from to amount w = Some w'" "0 \<le> amount" "to \<noteq> from"
  shows "balance tk from w' = balance tk from w - amount"
    and "balance tk to w' = balance tk to w + amount"
  using assms transfer_moves [OF assms(1,2)] by auto

end

section \<open>The mock token of the test suites\<close>

text \<open>
  Balances per token contract and account, absent entries read as zero.  A transfer needs the
  sender's authorisation and a sufficient balance; the arithmetic is overflow-checked.
\<close>

type_synonym mock_ledger = "address \<Rightarrow> address \<Rightarrow> i128 option"

definition mock_balance :: "mock_ledger token_balance" where
  "mock_balance tk account w = (case w tk account of None \<Rightarrow> 0 | Some b \<Rightarrow> b)"

definition mock_set :: "address \<Rightarrow> address \<Rightarrow> i128 \<Rightarrow> mock_ledger \<Rightarrow> mock_ledger" where
  "mock_set tk account b w = w(tk := (w tk)(account := Some b))"

definition mock_transfer :: "(address \<Rightarrow> bool) \<Rightarrow> mock_ledger token_transfer" where
  "mock_transfer auth tk from to amount w =
     (if \<not> auth from then None
      else
        let balance_from = mock_balance tk from w in
        if balance_from < amount then None
        else if \<not> in_i128 (balance_from - amount) then None
        else
          let w1 = mock_set tk from (balance_from - amount) w;
              balance_to = mock_balance tk to w1 in
          if \<not> in_i128 (balance_to + amount) then None
          else Some (mock_set tk to (balance_to + amount) w1))"

definition mock_mint :: "address \<Rightarrow> address \<Rightarrow> i128 \<Rightarrow> mock_ledger \<Rightarrow> mock_ledger option" where
  "mock_mint tk to amount w =
     (let b = mock_balance tk to w in
      if in_i128 (b + amount) then Some (mock_set tk to (b + amount) w) else None)"

lemma mock_balance_set [simp]:
  "mock_balance tk' a (mock_set tk c b w) = (if tk' = tk \<and> a = c then b else mock_balance tk' a w)"
  by (auto simp: mock_balance_def mock_set_def)

lemma mock_transfer_covered:
  "mock_transfer auth tk from to amount w = Some w' \<Longrightarrow> amount \<le> mock_balance tk from w"
  by (auto simp: mock_transfer_def Let_def split: if_splits)

lemma mock_transfer_balance:
  "mock_transfer auth tk from to amount w = Some w' \<Longrightarrow>
     mock_balance tk' a w' = mock_balance tk' a w
       - (if tk' = tk \<and> a = from then amount else 0) + (if tk' = tk \<and> a = to then amount else 0)"
  by (auto simp: mock_transfer_def Let_def split: if_splits)

interpretation mock_token: sep41_token "mock_transfer auth" mock_balance for auth
  by unfold_locales (simp_all add: mock_transfer_balance mock_transfer_covered)

lemma mock_transfer_succeeds:
  assumes "auth from" "0 \<le> amount" "amount \<le> mock_balance tk from w"
    and "in_i128 (mock_balance tk from w)" "in_i128 (mock_balance tk to w + amount)"
  shows "\<exists>w'. mock_transfer auth tk from to amount w = Some w'"
  using assms by (auto simp: mock_transfer_def Let_def i128_range_defs)

section \<open>Tokens that refuse negative amounts\<close>

text \<open>
  SEP-41 asks a token to refuse a negative amount.  The mock token does not check it; a vault that
  accepts deposits of any token relies on it, so it is a law of its own.
\<close>

locale sep41_strict = sep41_token +
  assumes transfer_nonneg: "transfer tk from to amount w = Some w' \<Longrightarrow> 0 \<le> amount"
begin

lemma balance_kept:
  assumes "transfer tk from to amount w = Some w'" "a \<noteq> from \<or> to = from"
  shows "balance tk' a w \<le> balance tk' a w'"
  using transfer_nonneg [OF assms(1)] transfer_moves [OF assms(1), of a]
    transfer_frame [OF assms(1), of tk' a] assms(2)
  by (cases "tk' = tk") auto

end

definition nonneg_transfer :: "'w token_transfer \<Rightarrow> 'w token_transfer" where
  "nonneg_transfer transfer tk from to amount w =
     (if amount < 0 then None else transfer tk from to amount w)"

interpretation strict_mock: sep41_strict "nonneg_transfer (mock_transfer auth)" mock_balance for auth
  by unfold_locales
    (auto simp: nonneg_transfer_def mock_transfer_balance mock_transfer_covered split: if_splits)

end
