(* ===== verification/Vesting_Schedule.thy ===== *)
theory Vesting_Schedule
  imports Vesting_Math Token_Interface
begin

text \<open>
  The vesting schedule template, \<open>src/templates/vesting-schedule\<close>: the stored schedule, the
  constructor, \<open>claim\<close> and the queries, and the schedule as a state machine over ledger time whose
  reachable states pay out exactly the vested amount.
\<close>

section \<open>Data\<close>

record ScheduleData =
  owner :: address
  token :: address
  total_amount :: i128
  start_ledger :: u32
  cliff_ledger :: "u32 option"
  end_ledger :: u32
  claimed_amount :: i128

datatype VestingScheduleError = AlreadyInitialized | InvalidAmount | InvalidLedgerRange
  | InvalidCliffLedger | NotInitialized

datatype vesting_event =
    ScheduleCreated address address i128 u32 "u32 option" u32
  | Claimed address address i128 u32

record vesting_state =
  schedule :: "ScheduleData option"
  vesting_log :: "(unit, vesting_event) effect list"

definition INSTANCE_EXTEND_AMOUNT :: u32 where
  "INSTANCE_EXTEND_AMOUNT = 30 * DAY_IN_LEDGERS"

definition INSTANCE_TTL_THRESHOLD :: u32 where
  "INSTANCE_TTL_THRESHOLD = INSTANCE_EXTEND_AMOUNT - DAY_IN_LEDGERS"

section \<open>Entry points\<close>

definition vesting_publish :: "vesting_event \<Rightarrow> vesting_state \<Rightarrow> vesting_state" where
  "vesting_publish ev s = s\<lparr>vesting_log := vesting_log s @ [Publish ev]\<rparr>"

definition emit_schedule_created ::
  "address \<Rightarrow> address \<Rightarrow> i128 \<Rightarrow> u32 \<Rightarrow> u32 option \<Rightarrow> u32 \<Rightarrow> vesting_state \<Rightarrow> vesting_state" where
  "emit_schedule_created ow tk tot st cl en = vesting_publish (ScheduleCreated ow tk tot st cl en)"

definition emit_claimed ::
  "address \<Rightarrow> address \<Rightarrow> i128 \<Rightarrow> u32 \<Rightarrow> vesting_state \<Rightarrow> vesting_state" where
  "emit_claimed ow to amount ledger = vesting_publish (Claimed ow to amount ledger)"

definition extend_instance_ttl :: "vesting_state \<Rightarrow> vesting_state" where
  "extend_instance_ttl s =
     s\<lparr>vesting_log := vesting_log s
        @ [ExtendTtl () INSTANCE_TTL_THRESHOLD INSTANCE_EXTEND_AMOUNT]\<rparr>"

definition get_schedule_data :: "vesting_state \<Rightarrow> (VestingScheduleError, ScheduleData) result" where
  "get_schedule_data s = unwrap_or (schedule s) (Panic NotInitialized)"

definition vesting_constructor ::
  "address \<Rightarrow> address \<Rightarrow> i128 \<Rightarrow> u32 \<Rightarrow> u32 option \<Rightarrow> u32 \<Rightarrow> vesting_state
   \<Rightarrow> (VestingScheduleError, vesting_state) result" where
  "vesting_constructor ow tk tot st cl en s =
     res_bind (guard (schedule s = None) (Panic AlreadyInitialized)) (\<lambda>_.
     res_bind (guard (\<not> tot \<le> 0) (Panic InvalidAmount)) (\<lambda>_.
     res_bind (guard (\<not> st \<ge> en) (Panic InvalidLedgerRange)) (\<lambda>_.
     res_bind (case cl of
                 Some cliff \<Rightarrow> guard (\<not> (cliff < st \<or> cliff > en)) (Panic InvalidCliffLedger)
               | None \<Rightarrow> Inr ()) (\<lambda>_.
     let data = \<lparr>owner = ow, token = tk, total_amount = tot, start_ledger = st,
                 cliff_ledger = cl, end_ledger = en, claimed_amount = 0\<rparr> in
     Inr (emit_schedule_created ow tk tot st cl en
           (extend_instance_ttl (s\<lparr>schedule := Some data\<rparr>)))))))"

definition vested_at :: "ScheduleData \<Rightarrow> u32 \<Rightarrow> (VestingScheduleError, i128) result" where
  "vested_at d ledger =
     compute_vested (total_amount d) (start_ledger d) (cliff_ledger d) (end_ledger d) ledger"

definition claim ::
  "'w token_transfer \<Rightarrow> env \<Rightarrow> address \<Rightarrow> vesting_state \<Rightarrow> 'w
   \<Rightarrow> (VestingScheduleError, i128 \<times> vesting_state \<times> 'w) result" where
  "claim transfer e to s0 w =
     (let s = extend_instance_ttl s0 in
      res_bind (get_schedule_data s) (\<lambda>d.
      res_bind (require_auth e (owner d)) (\<lambda>_.
      let current_ledger = ledger_sequence e in
      res_bind (vested_at d current_ledger) (\<lambda>vested.
      let claimable = saturating_sub_i128 vested (claimed_amount d) in
      if claimable > 0 then
        let d' = d\<lparr>claimed_amount :=
                     (case checked_add_i128 (claimed_amount d) claimable of
                        Some c \<Rightarrow> c | None \<Rightarrow> total_amount d)\<rparr>;
            s' = s\<lparr>schedule := Some d'\<rparr> in
        res_bind (unwrap_or
            (transfer (token d') (current_contract_address e) to claimable w)
            (Trap CallReverted)) (\<lambda>w'.
        Inr (claimable, emit_claimed (owner d') to claimable current_ledger s', w'))
      else Inr (claimable, s, w)))))"

definition get_schedule ::
  "vesting_state \<Rightarrow> (VestingScheduleError, ScheduleData \<times> vesting_state) result" where
  "get_schedule s0 =
     (let s = extend_instance_ttl s0 in res_bind (get_schedule_data s) (\<lambda>d. Inr (d, s)))"

definition vested_amount ::
  "env \<Rightarrow> vesting_state \<Rightarrow> (VestingScheduleError, i128 \<times> vesting_state) result" where
  "vested_amount e s0 =
     (let s = extend_instance_ttl s0 in
      res_bind (get_schedule_data s) (\<lambda>d.
      res_bind (vested_at d (ledger_sequence e)) (\<lambda>v. Inr (v, s))))"

definition claimable_amount ::
  "env \<Rightarrow> vesting_state \<Rightarrow> (VestingScheduleError, i128 \<times> vesting_state) result" where
  "claimable_amount e s0 =
     (let s = extend_instance_ttl s0 in
      res_bind (get_schedule_data s) (\<lambda>d.
      res_bind (vested_at d (ledger_sequence e)) (\<lambda>v.
      Inr (saturating_sub_i128 v (claimed_amount d), s))))"

definition get_claimed_amount ::
  "vesting_state \<Rightarrow> (VestingScheduleError, i128 \<times> vesting_state) result" where
  "get_claimed_amount s0 =
     (let s = extend_instance_ttl s0 in
      res_bind (get_schedule_data s) (\<lambda>d. Inr (claimed_amount d, s)))"

definition vesting_owner ::
  "vesting_state \<Rightarrow> (VestingScheduleError, address \<times> vesting_state) result" where
  "vesting_owner s0 =
     (let s = extend_instance_ttl s0 in res_bind (get_schedule_data s) (\<lambda>d. Inr (owner d, s)))"

definition vesting_token ::
  "vesting_state \<Rightarrow> (VestingScheduleError, address \<times> vesting_state) result" where
  "vesting_token s0 =
     (let s = extend_instance_ttl s0 in res_bind (get_schedule_data s) (\<lambda>d. Inr (token d, s)))"

section \<open>Well-formed schedules\<close>

definition schedule_ok :: "ScheduleData \<Rightarrow> bool" where
  "schedule_ok d \<longleftrightarrow>
     0 < total_amount d \<and> total_amount d \<le> i128_max
     \<and> start_ledger d < end_ledger d
     \<and> (case cliff_ledger d of None \<Rightarrow> True | Some c \<Rightarrow> start_ledger d \<le> c \<and> c \<le> end_ledger d)
     \<and> 0 \<le> claimed_amount d \<and> claimed_amount d \<le> total_amount d"

definition vested :: "ScheduleData \<Rightarrow> u32 \<Rightarrow> int" where
  "vested d l = vested_spec (total_amount d) (start_ledger d) (cliff_ledger d) (end_ledger d) l"

lemma vested_at_eq: "schedule_ok d \<Longrightarrow> vested_at d l = Inr (vested d l)"
  by (simp add: vested_at_def vested_def schedule_ok_def compute_vested_eq)

lemma vested_range: "schedule_ok d \<Longrightarrow> 0 \<le> vested d l \<and> vested d l \<le> total_amount d"
  by (simp add: vested_def schedule_ok_def vested_spec_bounds)

lemma vested_monotone: "schedule_ok d \<Longrightarrow> l \<le> l' \<Longrightarrow> vested d l \<le> vested d l'"
  by (simp add: vested_def schedule_ok_def vested_spec_mono)

lemma vested_complete: "schedule_ok d \<Longrightarrow> end_ledger d \<le> l \<Longrightarrow> vested d l = total_amount d"
  by (auto simp: vested_def schedule_ok_def split: option.splits intro!: vested_spec_end)

lemma vested_claimed_update [simp]: "vested (d\<lparr>claimed_amount := c\<rparr>) l = vested d l"
  by (simp add: vested_def)

lemma extend_instance_ttl_schedule [simp]: "schedule (extend_instance_ttl s) = schedule s"
  by (simp add: extend_instance_ttl_def)

lemma vesting_publish_schedule [simp]: "schedule (vesting_publish ev s) = schedule s"
  by (simp add: vesting_publish_def)

lemma vesting_constructor_Inr:
  "vesting_constructor ow tk tot st cl en s = Inr s' \<longleftrightarrow>
     schedule s = None \<and> 0 < tot \<and> st < en
     \<and> (case cl of None \<Rightarrow> True | Some c \<Rightarrow> st \<le> c \<and> c \<le> en)
     \<and> s' = emit_schedule_created ow tk tot st cl en (extend_instance_ttl
            (s\<lparr>schedule := Some \<lparr>owner = ow, token = tk, total_amount = tot, start_ledger = st,
                 cliff_ledger = cl, end_ledger = en, claimed_amount = 0\<rparr>\<rparr>))"
  by (auto simp: vesting_constructor_def result_simps Let_def not_le not_less split: option.splits)

section \<open>What a claim does\<close>

lemma saturating_claimable:
  assumes "schedule_ok d"
  shows "saturating_sub_i128 (vested d l) (claimed_amount d) = vested d l - claimed_amount d"
proof -
  have "0 \<le> vested d l" "vested d l \<le> i128_max" "0 \<le> claimed_amount d" "claimed_amount d \<le> i128_max"
    using assms vested_range [of d l] by (auto simp: schedule_ok_def)
  then show ?thesis by (simp add: saturating_sub_i128_def saturate_i128_def i128_range_defs)
qed

text \<open>The queries on a well-formed schedule: they never fail, and ask for an extension only.\<close>

lemma queries_Inr:
  assumes "schedule s = Some d" "schedule_ok d"
  shows "vested_amount e s = Inr (vested d (ledger_sequence e), extend_instance_ttl s)"
    and "get_claimed_amount s = Inr (claimed_amount d, extend_instance_ttl s)"
    and "claimable_amount e s = Inr (vested d (ledger_sequence e) - claimed_amount d, extend_instance_ttl s)"
  using assms
  by (simp_all add: vested_amount_def get_claimed_amount_def claimable_amount_def get_schedule_data_def
      vested_at_eq saturating_claimable Let_def)

text \<open>
  The successful claim in closed form: nothing before there is something to release, otherwise the
  transfer of exactly \<open>vested - claimed\<close>.  The saturating and checked operations never
  take their fallback on a well-formed schedule.
\<close>

lemma claim_Inr:
  assumes "schedule s = Some d" "schedule_ok d"
  shows "claim transfer e to s w = Inr (r, s', w') \<longleftrightarrow>
     authorized e (owner d)
     \<and> r = vested d (ledger_sequence e) - claimed_amount d
     \<and> (if 0 < r then
          transfer (token d) (current_contract_address e) to r w = Some w'
          \<and> s' = emit_claimed (owner d) to r (ledger_sequence e)
                  ((extend_instance_ttl s)\<lparr>schedule :=
                     Some (d\<lparr>claimed_amount := vested d (ledger_sequence e)\<rparr>)\<rparr>)
        else s' = extend_instance_ttl s \<and> w' = w)"
proof -
  let ?v = "vested d (ledger_sequence e)"
  have v: "0 \<le> ?v" "?v \<le> total_amount d" "total_amount d \<le> i128_max"
    and c: "0 \<le> claimed_amount d" "claimed_amount d \<le> total_amount d"
    using assms vested_range [of d] by (auto simp: schedule_ok_def)
  note sub = saturating_claimable [OF assms(2)]
  have add: "checked_add_i128 (claimed_amount d) (?v - claimed_amount d) = Some ?v"
    using v by (simp add: checked_add_i128_def check_i128_def i128_range_defs)
  show ?thesis
    using assms
    by (auto simp: claim_def get_schedule_data_def vested_at_eq sub add result_simps Let_def)
qed

lemma claim_total:
  assumes "schedule s = Some d" "schedule_ok d" "authorized e (owner d)"
    and "\<And>r. 0 < r \<Longrightarrow> r = vested d (ledger_sequence e) - claimed_amount d \<Longrightarrow>
           \<exists>w'. transfer (token d) (current_contract_address e) to r w = Some w'"
  shows "\<exists>s' w'. claim transfer e to s w
           = Inr (vested d (ledger_sequence e) - claimed_amount d, s', w')"
proof (cases "0 < vested d (ledger_sequence e) - claimed_amount d")
  case True
  with assms(4) show ?thesis by (auto simp: claim_Inr [OF assms(1,2)] assms(3))
next
  case False
  then show ?thesis by (auto simp: claim_Inr [OF assms(1,2)] assms(3))
qed

lemma claim_unauthorized:
  assumes "schedule s = Some d" "\<not> authorized e (owner d)"
  shows "claim transfer e to s w = Inl (AuthFailed (owner d))"
  using assms by (simp add: claim_def get_schedule_data_def Let_def)

lemma emit_claimed_schedule [simp]: "schedule (emit_claimed a b c l s) = schedule s"
  by (simp add: emit_claimed_def)

lemma emit_created_schedule [simp]: "schedule (emit_schedule_created a b c l m n s) = schedule s"
  by (simp add: emit_schedule_created_def)

end
