(* ===== verification/Vesting_Machine.thy ===== *)
theory Vesting_Machine
  imports Vesting_Schedule
begin

text \<open>
  The vesting schedule over ledger time: one deployed schedule, a clock that only moves forward,
  any number of claims and queries by anyone, and the other users of the token.  \<open>paid\<close> is a ghost
  field, the sum of what the claims have returned.
\<close>

record 'w vesting_system =
  vs :: vesting_state
  vw :: 'w
  vnow :: u32
  paid :: int

inductive vesting_step ::
  "'w token_transfer \<Rightarrow> ('w \<Rightarrow> 'w \<Rightarrow> bool) \<Rightarrow> address \<Rightarrow> 'w vesting_system \<Rightarrow> 'w vesting_system \<Rightarrow> bool"
  for transfer others self where
  v_claim: "claim transfer e to (vs c) (vw c) = Inr (r, s', w') \<Longrightarrow> ledger_sequence e = vnow c
     \<Longrightarrow> current_contract_address e = self
     \<Longrightarrow> vesting_step transfer others self c (c\<lparr>vs := s', vw := w', paid := paid c + r\<rparr>)"
| v_construct: "vesting_constructor ow tk tot st cl en (vs c) = Inr s'
     \<Longrightarrow> vesting_step transfer others self c (c\<lparr>vs := s'\<rparr>)"
| v_query: "get_schedule (vs c) = Inr (d, s')
     \<Longrightarrow> vesting_step transfer others self c (c\<lparr>vs := s'\<rparr>)"
| v_time: "vnow c \<le> l \<Longrightarrow> vesting_step transfer others self c (c\<lparr>vnow := l\<rparr>)"
| v_world: "others (vw c) w' \<Longrightarrow> vesting_step transfer others self c (c\<lparr>vw := w'\<rparr>)"

inductive vesting_reachable ::
  "'w token_transfer \<Rightarrow> ('w \<Rightarrow> 'w \<Rightarrow> bool) \<Rightarrow> address \<Rightarrow> 'w vesting_system \<Rightarrow> 'w vesting_system \<Rightarrow> bool"
  for transfer others self c0 where
  v_start: "vesting_reachable transfer others self c0 c0"
| v_next: "vesting_reachable transfer others self c0 c \<Longrightarrow> vesting_step transfer others self c c'
     \<Longrightarrow> vesting_reachable transfer others self c0 c'"

text \<open>A freshly constructed schedule.\<close>

definition vesting_started :: "ScheduleData \<Rightarrow> 'w vesting_system \<Rightarrow> bool" where
  "vesting_started d c \<longleftrightarrow>
     paid c = 0 \<and> total_amount d \<le> i128_max \<and> claimed_amount d = 0
     \<and> (\<exists>s0. vesting_constructor (owner d) (token d) (total_amount d) (start_ledger d)
               (cliff_ledger d) (end_ledger d) s0 = Inr (vs c))"

definition vesting_inv :: "ScheduleData \<Rightarrow> 'w vesting_system \<Rightarrow> bool" where
  "vesting_inv d c \<longleftrightarrow>
     schedule (vs c) = Some (d\<lparr>claimed_amount := paid c\<rparr>) \<and> schedule_ok d
     \<and> 0 \<le> paid c \<and> paid c \<le> vested d (vnow c)"

lemma schedule_ok_claimed:
  "schedule_ok d \<Longrightarrow> 0 \<le> c \<Longrightarrow> c \<le> total_amount d \<Longrightarrow> schedule_ok (d\<lparr>claimed_amount := c\<rparr>)"
  by (cases "cliff_ledger d") (simp_all add: schedule_ok_def)

lemma started_inv:
  fixes c :: "'w vesting_system"
  assumes "vesting_started d c"
  shows "vesting_inv d c"
proof -
  from assms have ok: "schedule_ok d" and "schedule (vs c) = Some d" "claimed_amount d = 0" "paid c = 0"
    by (auto simp: vesting_started_def vesting_constructor_Inr schedule_ok_def)
  moreover from this have "d\<lparr>claimed_amount := 0\<rparr> = d" by (cases d) simp
  ultimately show ?thesis
    using vested_range [OF ok] by (simp add: vesting_inv_def)
qed

lemma inv_schedule_ok:
  assumes "vesting_inv d c"
  shows "schedule_ok (d\<lparr>claimed_amount := paid c\<rparr>)"
  using assms vested_range [of d "vnow c"]
  by (auto simp: vesting_inv_def intro!: schedule_ok_claimed)

lemma claim_inv:
  fixes c :: "'w vesting_system"
  assumes inv: "vesting_inv d c"
    and cl: "claim transfer e to (vs c) (vw c) = Inr (r, s', w')" and now: "ledger_sequence e = vnow c"
  shows "r = vested d (vnow c) - paid c"
    and "schedule s' = Some (d\<lparr>claimed_amount := vested d (vnow c)\<rparr>)"
    and "authorized e (owner d)"
proof -
  from inv have sch: "schedule (vs c) = Some (d\<lparr>claimed_amount := paid c\<rparr>)"
    and le: "paid c \<le> vested d (vnow c)"
    by (simp_all add: vesting_inv_def)
  note * = claim_Inr [OF sch inv_schedule_ok [OF inv], of transfer e to "vw c" r s' w'] cl now
  from * show r: "r = vested d (vnow c) - paid c" by simp
  from * show "authorized e (owner d)" by simp
  from * le r sch show "schedule s' = Some (d\<lparr>claimed_amount := vested d (vnow c)\<rparr>)"
    by (cases "0 < r") auto
qed

lemma vesting_step_inv:
  assumes "vesting_step transfer others self c c'" "vesting_inv d c"
  shows "vesting_inv d c'"
  using assms
proof (induction rule: vesting_step.induct)
  case (v_claim e to c r s' w')
  with claim_inv [OF v_claim.prems v_claim.hyps(1,2)] show ?case
    by (auto simp: vesting_inv_def)
next
  case (v_construct ow tk tot st cl en c s')
  then show ?case by (simp add: vesting_inv_def vesting_constructor_Inr)
next
  case (v_query c d' s')
  then show ?case
    by (auto simp: vesting_inv_def get_schedule_def get_schedule_data_def result_simps Let_def)
next
  case (v_time c l)
  then show ?case
    using vested_monotone [of d "vnow c" l] by (auto simp: vesting_inv_def intro: order_trans)
next
  case (v_world c w')
  then show ?case by (simp add: vesting_inv_def)
qed

lemma reachable_vesting_inv:
  assumes "vesting_reachable transfer others self c0 c" "vesting_started d c0"
  shows "vesting_inv d c"
  using assms
  by (induction rule: vesting_reachable.induct) (auto intro: started_inv vesting_step_inv)

section \<open>Solvency\<close>

text \<open>
  With a SEP-41 token and no other user able to debit the contract, the contract's balance only
  drops by what it pays, so a schedule funded with its total can always cover the next claim.
\<close>

context sep41_token begin

lemma vesting_step_balance:
  assumes "vesting_step transfer others self c c'" "vesting_inv d c"
    and others: "\<And>w w'. others w w' \<Longrightarrow> balance (token d) self w \<le> balance (token d) self w'"
    and "b \<le> balance (token d) self (vw c) + paid c"
  shows "b \<le> balance (token d) self (vw c') + paid c'"
  using assms(1,2,4)
proof (induction rule: vesting_step.induct)
  case (v_claim e to c r s' w')
  note inv = v_claim.prems(1)
  have sch: "schedule (vs c) = Some (d\<lparr>claimed_amount := paid c\<rparr>)"
    using inv by (simp add: vesting_inv_def)
  note ci = claim_Inr [OF sch inv_schedule_ok [OF inv], of transfer e to "vw c" r s' w']
  show ?case
  proof (cases "0 < r")
    case True
    with ci v_claim.hyps have "transfer (token d) self to r (vw c) = Some w'" by auto
    from transfer_moves [OF this, of self] True v_claim.prems(2) show ?thesis by auto
  next
    case False
    moreover have "0 \<le> r"
      using claim_inv(1) [OF inv v_claim.hyps(1,2)] inv by (simp add: vesting_inv_def)
    ultimately show ?thesis using ci v_claim.hyps v_claim.prems(2) by simp
  qed
next
  case (v_world c w')
  then show ?case using others [of "vw c" w'] by simp
qed simp_all

lemma vesting_funded:
  assumes "vesting_reachable transfer others self c0 c" "vesting_started d c0"
    and "\<And>w w'. others w w' \<Longrightarrow> balance (token d) self w \<le> balance (token d) self w'"
    and "total_amount d \<le> balance (token d) self (vw c0)"
  shows "total_amount d \<le> balance (token d) self (vw c) + paid c"
  using assms(1,2,4)
proof (induction rule: vesting_reachable.induct)
  case v_start
  then show ?case by (simp add: vesting_started_def)
next
  case (v_next c c')
  then show ?case
    using vesting_step_balance [OF v_next.hyps(2)
      reachable_vesting_inv [OF v_next.hyps(1) v_next.prems(1)] assms(3)] by simp
qed

lemma vesting_claim_covered:
  assumes "vesting_reachable transfer others self c0 c" "vesting_started d c0"
    and "\<And>w w'. others w w' \<Longrightarrow> balance (token d) self w \<le> balance (token d) self w'"
    and "total_amount d \<le> balance (token d) self (vw c0)"
  shows "vested d (vnow c) - paid c \<le> balance (token d) self (vw c)"
proof -
  from reachable_vesting_inv [OF assms(1,2)] have "schedule_ok d" by (simp add: vesting_inv_def)
  from vested_range [OF this, of "vnow c"] vesting_funded [OF assms] show ?thesis by simp
qed

end

end
