(* ===== verification/Timelock_Vault.thy ===== *)
theory Timelock_Vault
  imports Token_Interface
begin

text \<open>
  The timelock vault template, \<open>src/templates/timelock-vault\<close>: the two stored entries, the
  constructor, deposits, withdrawals, the keep-alive call and the queries; then the vault over
  ledger time, with anyone calling it, and the balance it holds of any token.
\<close>

section \<open>Data\<close>

datatype vault_key = Owner | UnlockLedger

datatype VaultError = StillLocked | InvalidUnlockLedger

datatype vault_event =
    Deposited address address i128
  | Withdrawn address address i128

record vault_state =
  vault_owner :: "address option"
  unlock_ledger :: "u32 option"
  vault_log :: "(vault_key, vault_event) effect list"

definition EXTEND_AMOUNT :: u32 where
  "EXTEND_AMOUNT = 120 * DAY_IN_LEDGERS"

definition TTL_THRESHOLD :: u32 where
  "TTL_THRESHOLD = EXTEND_AMOUNT - DAY_IN_LEDGERS"

section \<open>Entry points\<close>

text \<open>Extending the TTL of an entry that does not exist is a host error.\<close>

definition extend_state_ttl :: "vault_state \<Rightarrow> (VaultError, vault_state) result" where
  "extend_state_ttl s =
     res_bind (guard (vault_owner s \<noteq> None) (Trap MissingEntry)) (\<lambda>_.
     res_bind (guard (unlock_ledger s \<noteq> None) (Trap MissingEntry)) (\<lambda>_.
     Inr (s\<lparr>vault_log := vault_log s
            @ [ExtendTtl Owner TTL_THRESHOLD EXTEND_AMOUNT,
               ExtendTtl UnlockLedger TTL_THRESHOLD EXTEND_AMOUNT]\<rparr>)))"

definition vault_publish :: "vault_event \<Rightarrow> vault_state \<Rightarrow> vault_state" where
  "vault_publish ev s = s\<lparr>vault_log := vault_log s @ [Publish ev]\<rparr>"

definition vault_constructor ::
  "env \<Rightarrow> address \<Rightarrow> u32 \<Rightarrow> vault_state \<Rightarrow> (VaultError, vault_state) result" where
  "vault_constructor e ow unlock s =
     res_bind (guard (\<not> unlock \<le> ledger_sequence e) (Panic InvalidUnlockLedger)) (\<lambda>_.
     extend_state_ttl (s\<lparr>vault_owner := Some ow, unlock_ledger := Some unlock\<rparr>))"

definition bump_ttl :: "vault_state \<Rightarrow> (VaultError, vault_state) result" where
  "bump_ttl s = extend_state_ttl s"

definition deposit ::
  "'w token_transfer \<Rightarrow> env \<Rightarrow> address \<Rightarrow> address \<Rightarrow> i128 \<Rightarrow> vault_state \<Rightarrow> 'w
   \<Rightarrow> (VaultError, vault_state \<times> 'w) result" where
  "deposit transfer e from tk amount s w =
     res_bind (require_auth e from) (\<lambda>_.
     res_bind (unwrap_or (transfer tk from (current_contract_address e) amount w)
                (Trap CallReverted)) (\<lambda>w'.
     res_bind (extend_state_ttl s) (\<lambda>s1.
     Inr (vault_publish (Deposited tk from amount) s1, w'))))"

definition withdraw ::
  "'w token_transfer \<Rightarrow> env \<Rightarrow> address \<Rightarrow> i128 \<Rightarrow> address \<Rightarrow> vault_state \<Rightarrow> 'w
   \<Rightarrow> (VaultError, vault_state \<times> 'w) result" where
  "withdraw transfer e tk amount to s w =
     res_bind (unwrap_or (vault_owner s) (Trap UnwrapNone)) (\<lambda>ow.
     res_bind (require_auth e ow) (\<lambda>_.
     res_bind (unwrap_or (unlock_ledger s) (Trap UnwrapNone)) (\<lambda>unlock.
     res_bind (guard (\<not> ledger_sequence e < unlock) (Panic StillLocked)) (\<lambda>_.
     res_bind (unwrap_or (transfer tk (current_contract_address e) to amount w)
                (Trap CallReverted)) (\<lambda>w'.
     res_bind (extend_state_ttl s) (\<lambda>s1.
     Inr (vault_publish (Withdrawn tk to amount) s1, w')))))))"

definition get_owner :: "vault_state \<Rightarrow> (VaultError, address) result" where
  "get_owner s = unwrap_or (vault_owner s) (Trap UnwrapNone)"

definition get_unlock_ledger :: "vault_state \<Rightarrow> (VaultError, u32) result" where
  "get_unlock_ledger s = unwrap_or (unlock_ledger s) (Trap UnwrapNone)"

definition get_balance :: "'w token_balance \<Rightarrow> env \<Rightarrow> address \<Rightarrow> 'w \<Rightarrow> i128" where
  "get_balance balance e tk w = balance tk (current_contract_address e) w"

section \<open>Behaviour of the entry points\<close>

definition vault_cfg :: "vault_state \<Rightarrow> address \<Rightarrow> u32 \<Rightarrow> bool" where
  "vault_cfg s ow unlock \<longleftrightarrow> vault_owner s = Some ow \<and> unlock_ledger s = Some unlock"

lemma extend_state_ttl_Inr [result_simps]:
  "extend_state_ttl s = Inr s' \<longleftrightarrow>
     (\<exists>ow unlock. vault_cfg s ow unlock)
     \<and> s' = s\<lparr>vault_log := vault_log s
            @ [ExtendTtl Owner TTL_THRESHOLD EXTEND_AMOUNT,
               ExtendTtl UnlockLedger TTL_THRESHOLD EXTEND_AMOUNT]\<rparr>"
  by (auto simp: extend_state_ttl_def result_simps vault_cfg_def)

lemma vault_publish_cfg [simp]: "vault_cfg (vault_publish ev s) ow u \<longleftrightarrow> vault_cfg s ow u"
  by (simp add: vault_publish_def vault_cfg_def)

lemma vault_log_cfg [simp]: "vault_cfg (s\<lparr>vault_log := l\<rparr>) ow u \<longleftrightarrow> vault_cfg s ow u"
  by (simp add: vault_cfg_def)

lemma deposit_Inr:
  "deposit transfer e from tk amount s w = Inr (s', w') \<longleftrightarrow>
     authorized e from \<and> transfer tk from (current_contract_address e) amount w = Some w'
     \<and> (\<exists>s1. extend_state_ttl s = Inr s1 \<and> s' = vault_publish (Deposited tk from amount) s1)"
  by (auto simp: deposit_def res_bind_Inr_iff require_auth_Inr_iff unwrap_or_Inr_iff)

lemma withdraw_Inr:
  "withdraw transfer e tk amount to s w = Inr (s', w') \<longleftrightarrow>
     (\<exists>ow unlock s1. vault_cfg s ow unlock \<and> authorized e ow \<and> unlock \<le> ledger_sequence e
        \<and> transfer tk (current_contract_address e) to amount w = Some w'
        \<and> extend_state_ttl s = Inr s1 \<and> s' = vault_publish (Withdrawn tk to amount) s1)"
  by (auto simp: withdraw_def vault_cfg_def res_bind_Inr_iff require_auth_Inr_iff guard_Inr_iff
      unwrap_or_Inr_iff not_less)

lemma deposit_cfg:
  "deposit transfer e from tk amount s w = Inr (s', w') \<Longrightarrow> vault_cfg s' ow u \<longleftrightarrow> vault_cfg s ow u"
  by (auto simp: deposit_Inr result_simps)

lemma withdraw_cfg:
  "withdraw transfer e tk amount to s w = Inr (s', w') \<Longrightarrow> vault_cfg s' ow u \<longleftrightarrow> vault_cfg s ow u"
  by (auto simp: withdraw_Inr result_simps)

section \<open>The vault over time\<close>

text \<open>
  One deployed vault: calls by anyone with any authorisations, the passage of time, and the other
  users of the tokens (\<open>others\<close>).  The host runs a constructor only at deployment, so a deployed
  vault has no constructor step.
\<close>

record 'w vault_system =
  vault :: vault_state
  world :: 'w
  vault_now :: u32

inductive vault_step ::
  "'w token_transfer \<Rightarrow> ('w \<Rightarrow> 'w \<Rightarrow> bool) \<Rightarrow> address \<Rightarrow> 'w vault_system \<Rightarrow> 'w vault_system \<Rightarrow> bool"
  for transfer others self where
  s_deposit: "deposit transfer e from tk amount (vault c) (world c) = Inr (s', w')
     \<Longrightarrow> ledger_sequence e = vault_now c \<Longrightarrow> current_contract_address e = self
     \<Longrightarrow> vault_step transfer others self c (c\<lparr>vault := s', world := w'\<rparr>)"
| s_withdraw: "withdraw transfer e tk amount to (vault c) (world c) = Inr (s', w')
     \<Longrightarrow> ledger_sequence e = vault_now c \<Longrightarrow> current_contract_address e = self
     \<Longrightarrow> vault_step transfer others self c (c\<lparr>vault := s', world := w'\<rparr>)"
| s_bump: "bump_ttl (vault c) = Inr s'
     \<Longrightarrow> vault_step transfer others self c (c\<lparr>vault := s'\<rparr>)"
| s_time: "vault_now c \<le> l \<Longrightarrow> vault_step transfer others self c (c\<lparr>vault_now := l\<rparr>)"
| s_world: "others (world c) w' \<Longrightarrow> vault_step transfer others self c (c\<lparr>world := w'\<rparr>)"

inductive vault_reachable ::
  "'w token_transfer \<Rightarrow> ('w \<Rightarrow> 'w \<Rightarrow> bool) \<Rightarrow> address \<Rightarrow> 'w vault_system \<Rightarrow> 'w vault_system \<Rightarrow> bool"
  for transfer others self c0 where
  r_start: "vault_reachable transfer others self c0 c0"
| r_next: "vault_reachable transfer others self c0 c \<Longrightarrow> vault_step transfer others self c c'
     \<Longrightarrow> vault_reachable transfer others self c0 c'"

inductive_cases vault_stepE: "vault_step transfer others self c c'"

lemma vault_step_time: "vault_step transfer others self c c' \<Longrightarrow> vault_now c \<le> vault_now c'"
  by (erule vault_stepE) simp_all

lemma vault_step_cfg:
  "vault_step transfer others self c c' \<Longrightarrow> vault_cfg (vault c') ow u \<longleftrightarrow> vault_cfg (vault c) ow u"
  by (erule vault_stepE) (auto simp: bump_ttl_def result_simps dest: deposit_cfg withdraw_cfg)

lemma reachable_cfg:
  "vault_reachable transfer others self c0 c \<Longrightarrow>
     (vault_cfg (vault c) ow u \<longleftrightarrow> vault_cfg (vault c0) ow u) \<and> vault_now c0 \<le> vault_now c"
  by (induction rule: vault_reachable.induct)
    (auto simp: vault_step_cfg dest: vault_step_time)

context sep41_strict begin

lemma vault_step_balance:
  assumes "vault_step transfer others self c c'" "vault_cfg (vault c) ow unlock" "vault_now c < unlock"
    and others: "\<And>w w'. others w w' \<Longrightarrow> balance tk self w \<le> balance tk self w'"
  shows "balance tk self (world c) \<le> balance tk self (world c')"
  using assms(1)
proof cases
  case (s_deposit e fr tk' amount s' w')
  then have "transfer tk' fr self amount (world c) = Some w'" by (simp add: deposit_Inr)
  then have "balance tk self (world c) \<le> balance tk self w'" by (rule balance_kept) auto
  with s_deposit show ?thesis by simp
next
  case (s_withdraw e tk' amount to s' w')
  with assms(2,3) have False by (auto simp: withdraw_Inr vault_cfg_def)
  then show ?thesis ..
qed (auto intro: others)

lemma vault_reachable_balance:
  assumes "vault_reachable transfer others self c0 c" "vault_cfg (vault c0) ow unlock"
    "vault_now c < unlock"
    and "\<And>w w'. others w w' \<Longrightarrow> balance tk self w \<le> balance tk self w'"
  shows "balance tk self (world c0) \<le> balance tk self (world c)"
  using assms(1,2,3)
proof (induction rule: vault_reachable.induct)
  case r_start
  then show ?case by simp
next
  case (r_next c c')
  have "vault_now c < unlock" using vault_step_time [OF r_next.hyps(2)] r_next.prems(2) by simp
  moreover have "vault_cfg (vault c) ow unlock"
    using reachable_cfg [OF r_next.hyps(1)] r_next.prems(1) by blast
  ultimately show ?case
    using r_next vault_step_balance [OF r_next.hyps(2) _ _ assms(4)] by (meson order_trans)
qed

end

text \<open>After the lock the owner gets the funds: with a covered amount the withdrawal succeeds.\<close>

lemma withdraw_succeeds:
  assumes "vault_cfg s ow unlock" "authorized e ow" "unlock \<le> ledger_sequence e"
    and "transfer tk (current_contract_address e) to amount w = Some w'"
  shows "\<exists>s'. withdraw transfer e tk amount to s w = Inr (s', w')"
  using assms by (auto simp: withdraw_Inr result_simps)

lemma withdraw_errors:
  assumes "vault_cfg s ow unlock"
  shows "\<not> authorized e ow \<Longrightarrow> withdraw transfer e tk amount to s w = Inl (AuthFailed ow)"
    and "authorized e ow \<Longrightarrow> ledger_sequence e < unlock \<Longrightarrow>
           withdraw transfer e tk amount to s w = Inl (Panic StillLocked)"
  using assms by (simp_all add: withdraw_def vault_cfg_def)

lemma vault_constructor_Inr:
  "vault_constructor e ow unlock s = Inr s' \<Longrightarrow>
     vault_cfg s' ow unlock \<and> ledger_sequence e < unlock"
  by (auto simp: vault_constructor_def result_simps vault_cfg_def not_le)

end
