(* ===== verification/Template_Properties.thy ===== *)
theory Template_Properties
  imports Vesting_Machine Timelock_Vault
begin

text \<open>
  The properties of the two templates: the vesting schedule (arithmetic, payments over time,
  solvency) and the timelock vault.
\<close>

section \<open>Concrete data\<close>

definition v_env :: "u32 \<Rightarrow> env" where
  "v_env l = \<lparr>ledger_sequence = l, ledger_timestamp = 1000,
     current_contract_address = Addr 9, authorized = (\<lambda>a. a = Addr 11)\<rparr>"

definition v_schedule :: ScheduleData where
  "v_schedule = \<lparr>owner = Addr 11, token = Addr 5, total_amount = 1000, start_ledger = 100,
     cliff_ledger = Some 120, end_ledger = 200, claimed_amount = 0\<rparr>"

definition v_state :: vesting_state where
  "v_state = emit_schedule_created (Addr 11) (Addr 5) 1000 100 (Some 120) 200
     (extend_instance_ttl \<lparr>schedule = Some v_schedule, vesting_log = []\<rparr>)"

definition v_funds :: "int \<Rightarrow> mock_ledger" where
  "v_funds x = (\<lambda>_ _. None)(Addr 5 := [Addr 9 \<mapsto> x])"

definition v_system :: "u32 \<Rightarrow> mock_ledger vesting_system" where
  "v_system l = \<lparr>vs = v_state, vw = v_funds 1000, vnow = l, paid = 0\<rparr>"

abbreviation v_transfer :: "mock_ledger token_transfer" where
  "v_transfer \<equiv> mock_transfer (\<lambda>a. a = Addr 9)"

definition quiet :: "'w \<Rightarrow> 'w \<Rightarrow> bool" where
  "quiet w w' \<longleftrightarrow> w' = w"

lemma v_constructed:
  "vesting_constructor (Addr 11) (Addr 5) 1000 100 (Some 120) 200 \<lparr>schedule = None, vesting_log = []\<rparr>
   = Inr v_state"
  by (simp add: vesting_constructor_Inr v_state_def v_schedule_def)

lemma v_started: "vesting_started v_schedule (v_system l)"
  unfolding vesting_started_def
  by (auto simp: v_schedule_def v_system_def i128_max_def
      intro!: exI [of _ "\<lparr>schedule = None, vesting_log = []\<rparr>"] v_constructed)

lemma v_reached: "vesting_reachable v_transfer quiet (Addr 9) (v_system 50) (v_system 150)"
proof (rule vesting_reachable.v_next [OF vesting_reachable.v_start])
  have "vesting_step v_transfer quiet (Addr 9) (v_system 50) ((v_system 50)\<lparr>vnow := 150\<rparr>)"
    by (rule vesting_step.v_time) (simp add: v_system_def word_le_def)
  then show "vesting_step v_transfer quiet (Addr 9) (v_system 50) (v_system 150)"
    by (simp add: v_system_def)
qed

section \<open>The vesting arithmetic\<close>

text \<open>
  C13: The wide multiplication is exact.  For a quotient of ledger differences (numerator at most the
  denominator, denominator below \<open>2\<^sup>3\<^sup>2\<close>) \<open>mul_div_u128\<close> returns, without trapping, the floor
  of \<open>total * elapsed / duration\<close> for every 128-bit total, also when the product does not fit 128
  bits and the two-limb branch runs.
\<close>

theorem mul_div_exact:
  assumes "uint e \<le> uint d" "0 < uint d" "uint d < 2 ^ 32"
  shows "\<exists>r. mul_div_u128 t e d = (Inr r :: ('x, u128) result)
           \<and> uint r = uint t * uint e div uint d"
  using assms by (rule mul_div_u128_exact)

theorem mul_div_exact_witness:
  "\<exists>r. mul_div_u128 (2 ^ 126 + 7) 3000000000 4000000000 = (Inr r :: (unit, u128) result)
     \<and> uint r = (2 ^ 126 + 7) * 3000000000 div 4000000000"
  using mul_div_exact [where 'x = unit, of 3000000000 4000000000 "2 ^ 126 + 7"] by simp

text \<open>
  C14: \<open>compute_vested\<close> never traps on a non-negative \<open>i128\<close> total and computes the linear-with-cliff
  curve: nothing before the start or the cliff, everything from the end on, and in between the
  floor of the linear fraction.
\<close>

theorem compute_vested_exact:
  assumes "0 \<le> tot" "tot \<le> i128_max"
  shows "compute_vested tot st cl en cur = (Inr (vested_spec tot st cl en cur) :: ('x, i128) result)"
  using assms by (rule compute_vested_eq)

theorem compute_vested_exact_witness:
  "compute_vested 1000 100 (Some 120) 200 150 = (Inr 500 :: (unit, i128) result)"
  using compute_vested_exact [where 'x = unit, of 1000 100 "Some 120" 200 150]
  by (simp add: vested_spec_def i128_max_def word_less_def)

text \<open>
  The curve behind the claims.  The vested amount never decreases with the ledger, stays between zero and the total, and is
  the total from the end ledger on (when the cliff, if any, is not after the end).
\<close>

theorem vested_curve:
  assumes "schedule_ok d" "l \<le> l'"
  shows "0 \<le> vested d l \<and> vested d l \<le> vested d l' \<and> vested d l' \<le> total_amount d
     \<and> (end_ledger d \<le> l \<longrightarrow> vested d l = total_amount d)
     \<and> vested_at d l = Inr (vested d l)"
  using vested_range [OF assms(1)] vested_monotone [OF assms] vested_complete [OF assms(1)]
    vested_at_eq [OF assms(1)]
  by blast

theorem vested_curve_witness:
  "vested_at v_schedule 150 = Inr (vested v_schedule 150)
   \<and> vested v_schedule 150 \<le> vested v_schedule 199"
  using vested_curve [of v_schedule 150 199]
  by (simp add: schedule_ok_def v_schedule_def i128_max_def word_less_def word_le_def)

section \<open>The vesting schedule over time\<close>



text \<open>
  What a claim does in a reachable state: it succeeds only with the owner's authorisation,
  returns exactly the vested amount not yet paid, moves that amount of the schedule's token from the
  contract to the given address, and leaves the claimed amount equal to the vested amount; with
  nothing to release it moves nothing.
\<close>

theorem vesting_claim_exact:
  assumes "vesting_reachable transfer others self c0 c" "vesting_started d c0"
    and "claim transfer e to (vs c) (vw c) = Inr (r, s', w')" "ledger_sequence e = vnow c"
  shows "authorized e (owner d) \<and> r = vested d (vnow c) - paid c \<and> 0 \<le> r
     \<and> schedule s' = Some (d\<lparr>claimed_amount := vested d (vnow c)\<rparr>)
     \<and> (if 0 < r then transfer (token d) (current_contract_address e) to r (vw c) = Some w'
        else w' = vw c)"
proof -
  from reachable_vesting_inv [OF assms(1,2)] have inv: "vesting_inv d c" .
  then have sch: "schedule (vs c) = Some (d\<lparr>claimed_amount := paid c\<rparr>)"
    by (simp add: vesting_inv_def)
  note ci = claim_Inr [OF sch inv_schedule_ok [OF inv], of transfer e to "vw c" r s' w']
  show ?thesis
    using claim_inv [OF inv assms(3,4)] ci assms(3,4) inv by (auto simp: vesting_inv_def)
qed




theorem vesting_claim_exact_witness:
  "\<exists>r s' w'. claim v_transfer (v_env 150) (Addr 11) (vs (v_system 150)) (vw (v_system 150)) = Inr (r, s', w')
     \<and> r = vested v_schedule 150 - 0"
proof -
  let ?c = "claim v_transfer (v_env 150) (Addr 11) (vs (v_system 150)) (vw (v_system 150))"
  have "\<not> isl ?c" by code_simp
  then obtain r s' w' where c: "?c = Inr (r, s', w')" by (cases ?c) auto
  from vesting_claim_exact [OF v_reached v_started c] c show ?thesis
    by (auto simp: v_env_def v_system_def)
qed




section \<open>The timelock vault\<close>

definition vault_demo :: "u32 \<Rightarrow> mock_ledger vault_system" where
  "vault_demo l = \<lparr>vault = \<lparr>vault_owner = Some (Addr 11), unlock_ledger = Some 1000, vault_log = []\<rparr>,
     world = v_funds 500, vault_now = l\<rparr>"

abbreviation strict_transfer :: "mock_ledger token_transfer" where
  "strict_transfer \<equiv> nonneg_transfer (mock_transfer (\<lambda>_. True))"

lemma vault_demo_cfg: "vault_cfg (vault (vault_demo l)) (Addr 11) 1000"
  by (simp add: vault_cfg_def vault_demo_def)

lemma vault_demo_reached: "vault_reachable strict_transfer quiet (Addr 9) (vault_demo 100) (vault_demo 999)"
proof (rule vault_reachable.r_next [OF vault_reachable.r_start])
  have "vault_step strict_transfer quiet (Addr 9) (vault_demo 100) ((vault_demo 100)\<lparr>vault_now := 999\<rparr>)"
    by (rule vault_step.s_time) (simp add: vault_demo_def word_le_def)
  then show "vault_step strict_transfer quiet (Addr 9) (vault_demo 100) (vault_demo 999)"
    by (simp add: vault_demo_def)
qed

text \<open>
  C19: Nothing leaves a locked vault.  With a token that follows SEP-41 (refusing negative amounts)
  and is not debited behind the vault's back, as long as the current ledger is before the unlock ledger
  the vault's balance of every such token is at least what it was at any earlier point, whoever
  calls the vault, with whatever authorisations, including the owner's.
\<close>

theorem vault_locked:
  assumes "sep41_strict transfer balance" "vault_reachable transfer others self c0 c"
    and "vault_cfg (vault c0) ow unlock" "vault_now c < unlock"
    and "\<And>w w'. others w w' \<Longrightarrow> balance tk self w \<le> balance tk self w'"
  shows "balance tk self (world c0) \<le> balance tk self (world c)"
  using sep41_strict.vault_reachable_balance [OF assms] .

theorem vault_locked_witness:
  "mock_balance (Addr 5) (Addr 9) (world (vault_demo 100)) \<le> mock_balance (Addr 5) (Addr 9) (world (vault_demo 999))"
  by (rule vault_locked [OF strict_mock.sep41_strict_axioms vault_demo_reached vault_demo_cfg])
    (simp_all add: vault_demo_def word_less_def quiet_def)

text \<open>
  The terms of a vault.  The owner and the unlock ledger of a deployed vault never change, and the clock never
  goes back, in any reachable state.
\<close>

theorem vault_terms_fixed:
  assumes "vault_constructor e ow unlock s0 = Inr (vault c0)"
    and "vault_reachable transfer others self c0 c"
  shows "get_owner (vault c) = Inr ow \<and> get_unlock_ledger (vault c) = Inr unlock
     \<and> vault_now c0 \<le> vault_now c"
  using vault_constructor_Inr [OF assms(1)] reachable_cfg [OF assms(2), of ow unlock]
  by (simp add: vault_cfg_def get_owner_def get_unlock_ledger_def)

theorem vault_terms_fixed_witness:
  "\<exists>c :: mock_ledger vault_system. vault_constructor (v_env 100) (Addr 11) 1000 \<lparr>vault_owner = None, unlock_ledger = None, vault_log = []\<rparr>
         = Inr (vault c) \<and> get_owner (vault c) = Inr (Addr 11)"
proof -
  let ?s0 = "\<lparr>vault_owner = None, unlock_ledger = None, vault_log = []\<rparr>"
  obtain s where s: "vault_constructor (v_env 100) (Addr 11) 1000 ?s0 = Inr s"
    by (simp add: vault_constructor_def extend_state_ttl_def v_env_def)
  let ?c = "\<lparr>vault = s, world = v_funds 0, vault_now = 100\<rparr> :: mock_ledger vault_system"
  have c: "vault_constructor (v_env 100) (Addr 11) 1000 ?s0 = Inr (vault ?c)" using s by simp
  from vault_terms_fixed [OF c vault_reachable.r_start [of strict_transfer quiet "Addr 9"]] c
  show ?thesis by blast
qed

text \<open>
  C21: A withdrawal from a configured vault succeeds exactly when the owner authorised it, the
  unlock ledger has been reached and the token accepts the transfer from the vault to the given
  address; without the owner's authorisation, and before the unlock ledger, it ends with the
  corresponding error.
\<close>

theorem vault_withdraw_exact:
  assumes "vault_cfg s ow unlock"
  shows "((\<exists>s'. withdraw transfer e tk amount to s w = Inr (s', w')) \<longleftrightarrow>
       authorized e ow \<and> unlock \<le> ledger_sequence e
       \<and> transfer tk (current_contract_address e) to amount w = Some w')
     \<and> (\<not> authorized e ow \<longrightarrow> withdraw transfer e tk amount to s w = Inl (AuthFailed ow))
     \<and> (authorized e ow \<and> ledger_sequence e < unlock \<longrightarrow>
          withdraw transfer e tk amount to s w = Inl (Panic StillLocked))"
proof (intro conjI impI)
  show "(\<exists>s'. withdraw transfer e tk amount to s w = Inr (s', w')) \<longleftrightarrow>
       authorized e ow \<and> unlock \<le> ledger_sequence e
       \<and> transfer tk (current_contract_address e) to amount w = Some w'"
    using assms by (auto simp: withdraw_Inr result_simps vault_cfg_def)
qed (use assms in \<open>simp_all add: withdraw_errors\<close>)

theorem vault_withdraw_exact_witness:
  "withdraw strict_transfer (v_env 999) (Addr 5) 100 (Addr 11) (vault (vault_demo 999)) (v_funds 500)
     = Inl (Panic StillLocked)"
  using vault_withdraw_exact [OF vault_demo_cfg, of strict_transfer "v_env 999" "Addr 5" 100 "Addr 11" 999 "v_funds 500"]
  by (simp add: v_env_def word_less_def)

end
