(* ===== verification/Signer_Order.thy ===== *)
theory Signer_Order
  imports Soroban_Env "HOL-Library.List_Lexorder" "HOL-Library.Multiset"
begin

text \<open>
  The factory's signer descriptions and their canonical order,
  \<open>src/account-factory/contracts/factory-contract/src/lib.rs\<close>: the comparison, the shape check and
  the insertion loop.  The locale \<open>comparator\<close> is what the loop relies on of a comparison
  function; \<open>compare_signers\<close> interprets it.
\<close>

section \<open>Comparison functions\<close>

datatype ordering = Less | Equal | Greater

definition cmp :: "'a::linorder \<Rightarrow> 'a \<Rightarrow> ordering" where
  "cmp x y = (if x < y then Less else if x = y then Equal else Greater)"

definition then_with :: "ordering \<Rightarrow> ordering \<Rightarrow> ordering" where
  "then_with c d = (case c of Equal \<Rightarrow> d | _ \<Rightarrow> c)"

lemma cmp_simps [simp]:
  "cmp x y = Less \<longleftrightarrow> x < y" "cmp x y = Equal \<longleftrightarrow> x = y" "cmp x y = Greater \<longleftrightarrow> y < x"
  by (auto simp: cmp_def)

lemma then_with_simps [simp]:
  "then_with c d = Less \<longleftrightarrow> c = Less \<or> c = Equal \<and> d = Less"
  "then_with c d = Equal \<longleftrightarrow> c = Equal \<and> d = Equal"
  "then_with c d = Greater \<longleftrightarrow> c = Greater \<or> c = Equal \<and> d = Greater"
  by (cases c; auto simp: then_with_def)+

section \<open>Data\<close>

datatype SignerKind = Ed25519 | WebAuthn

record ExternalSignerInit =
  signer_kind :: SignerKind
  key_data :: bytes

datatype AccountSignerInit = Delegated address | External ExternalSignerInit

datatype FactoryError = AlreadyInitialized | MissingConfig | NoSigners | DuplicateSigner
  | MissingThreshold | InvalidThreshold | InvalidEd25519Key | InvalidWebAuthnKey
  | InvalidEd25519Verifier | InvalidWebAuthnVerifier | InvalidThresholdPolicy

section \<open>The program\<close>

fun signer_kind_code :: "SignerKind \<Rightarrow> u8" where
  "signer_kind_code Ed25519 = 1"
| "signer_kind_code WebAuthn = 2"

fun account_signer_code :: "AccountSignerInit \<Rightarrow> u8" where
  "account_signer_code (Delegated _) = 0"
| "account_signer_code (External x) = signer_kind_code (signer_kind x)"

definition compare_signers :: "AccountSignerInit \<Rightarrow> AccountSignerInit \<Rightarrow> ordering" where
  "compare_signers left right =
     then_with (cmp (account_signer_code left) (account_signer_code right))
       (case (left, right) of
          (Delegated left_addr, Delegated right_addr) \<Rightarrow> cmp left_addr right_addr
        | (External left_external, External right_external) \<Rightarrow>
            then_with (cmp (signer_kind_code (signer_kind left_external))
                           (signer_kind_code (signer_kind right_external)))
              (cmp (key_data left_external) (key_data right_external))
        | _ \<Rightarrow> Equal)"

definition validate_signer_shape :: "AccountSignerInit \<Rightarrow> (FactoryError, unit) result" where
  "validate_signer_shape signer =
     (case signer of
        Delegated _ \<Rightarrow> Inr ()
      | External x \<Rightarrow>
          (case signer_kind x of
             Ed25519 \<Rightarrow> guard (\<not> length (key_data x) \<noteq> 32) (Panic InvalidEd25519Key)
           | WebAuthn \<Rightarrow>
               guard (\<not> (length (key_data x) \<le> 65
                        \<or> (case vec_get (key_data x) 0 of Some b \<Rightarrow> b | None \<Rightarrow> 0) \<noteq> 4))
                 (Panic InvalidWebAuthnKey)))"

text \<open>
  The inner \<open>while\<close> loop, from the current index on: an equal element is a duplicate, the first
  greater one is where the signer goes, and at the end it is pushed back.
\<close>

fun insert_loop ::
  "('a \<Rightarrow> 'a \<Rightarrow> ordering) \<Rightarrow> 'a \<Rightarrow> 'a list \<Rightarrow> (FactoryError, 'a list) result" where
  "insert_loop compare x [] = Inr [x]"
| "insert_loop compare x (y # ys) =
     (case compare y x of
        Equal \<Rightarrow> Inl (Panic DuplicateSigner)
      | Greater \<Rightarrow> Inr (x # y # ys)
      | Less \<Rightarrow> res_bind (insert_loop compare x ys) (\<lambda>zs. Inr (y # zs)))"

fun canonical_loop ::
  "('a \<Rightarrow> 'a \<Rightarrow> ordering) \<Rightarrow> ('a \<Rightarrow> (FactoryError, unit) result) \<Rightarrow> 'a list \<Rightarrow> 'a list
   \<Rightarrow> (FactoryError, 'a list) result" where
  "canonical_loop compare validate canonical [] = Inr canonical"
| "canonical_loop compare validate canonical (x # xs) =
     res_bind (validate x) (\<lambda>_.
     res_bind (insert_loop compare x canonical) (\<lambda>canonical'.
     canonical_loop compare validate canonical' xs))"

definition canonicalize_signers ::
  "AccountSignerInit list \<Rightarrow> (FactoryError, AccountSignerInit list) result" where
  "canonicalize_signers signers = canonical_loop compare_signers validate_signer_shape [] signers"

section \<open>What the loop needs of a comparison\<close>

locale comparator =
  fixes compare :: "'a \<Rightarrow> 'a \<Rightarrow> ordering"
  assumes compare_Equal: "compare x y = Equal \<longleftrightarrow> x = y"
    and compare_flip: "compare x y = Less \<longleftrightarrow> compare y x = Greater"
    and compare_trans: "compare x y = Less \<Longrightarrow> compare y z = Less \<Longrightarrow> compare x z = Less"
begin

definition ascending :: "'a list \<Rightarrow> bool" where
  "ascending xs \<longleftrightarrow> sorted_wrt (\<lambda>x y. compare x y = Less) xs"

lemma ascending_distinct: "ascending xs \<Longrightarrow> distinct xs"
  unfolding ascending_def
  by (induction xs) (use compare_Equal in \<open>auto, metis ordering.distinct(1)\<close>)

lemma compare_cases:
  obtains "compare x y = Less" "compare y x = Greater" | "x = y"
  | "compare x y = Greater" "compare y x = Less"
  using compare_Equal [of x y] compare_flip [of x y] compare_flip [of y x]
  by (cases "compare x y") auto

lemma insert_loop_sound:
  assumes "insert_loop compare x ys = Inr zs" "ascending ys"
  shows "x \<notin> set ys \<and> ascending zs \<and> mset zs = mset (x # ys)"
  using assms
proof (induction ys arbitrary: zs)
  case Nil
  then show ?case by (auto simp: ascending_def)
next
  case (Cons y ys)
  have tail: "ascending ys" "\<And>z. z \<in> set ys \<Longrightarrow> compare y z = Less"
    using Cons.prems(2) by (auto simp: ascending_def)
  show ?case
  proof (cases rule: compare_cases [of y x])
    case 1
    with Cons.prems(1) obtain zs' where zs': "insert_loop compare x ys = Inr zs'" "zs = y # zs'"
      by (auto simp: result_simps)
    note IH = Cons.IH [OF zs'(1) tail(1)]
    then have "set zs' = insert x (set ys)" by (metis set_mset_mset list.simps(15))
    with IH tail 1 zs'(2) compare_Equal [of y x] show ?thesis by (auto simp: ascending_def)
  next
    case 2
    with Cons.prems(1) compare_Equal [of y y] show ?thesis by simp
  next
    case 3
    then have "compare x z = Less" if "z \<in> set ys" for z
      using that tail(2) compare_trans by blast
    moreover have "x \<notin> set ys" using calculation compare_Equal [of x x] by fastforce
    ultimately show ?thesis
      using 3 Cons.prems compare_Equal [of y x] by (auto simp: ascending_def)
  qed
qed

lemma insert_loop_total:
  "x \<notin> set ys \<Longrightarrow> \<exists>zs. insert_loop compare x ys = Inr zs"
proof (induction ys)
  case (Cons y ys)
  then show ?case by (cases rule: compare_cases [of y x]) (auto simp: result_simps)
qed simp

lemma insert_loop_error: "insert_loop compare x ys = Inl f \<Longrightarrow> f = Panic DuplicateSigner \<and> x \<in> set ys"
proof (induction ys)
  case (Cons y ys)
  then show ?case
    using compare_Equal [of y y] by (cases rule: compare_cases [of y x]) (auto simp: result_simps)
qed simp

lemma canonical_loop_Inr:
  assumes "ascending ys"
  shows "canonical_loop compare validate ys xs = Inr zs \<Longrightarrow>
     (\<forall>x \<in> set xs. validate x = Inr ()) \<and> distinct xs \<and> set xs \<inter> set ys = {}
     \<and> ascending zs \<and> mset zs = mset ys + mset xs"
  using assms
proof (induction xs arbitrary: ys)
  case Nil
  then show ?case by simp
next
  case (Cons x xs)
  then obtain ys' where ok: "validate x = Inr ()" "insert_loop compare x ys = Inr ys'"
    "canonical_loop compare validate ys' xs = Inr zs"
    by (auto simp: result_simps)
  note ins = insert_loop_sound [OF ok(2) Cons.prems(2)]
  then have set': "set ys' = insert x (set ys)" by (metis set_mset_mset list.simps(15))
  from Cons.IH [OF ok(3)] ins ok(1) set' show ?case by auto
qed

lemma canonical_loop_total:
  assumes "\<forall>x \<in> set xs. validate x = Inr ()" "distinct xs" "set xs \<inter> set ys = {}" "ascending ys"
  shows "\<exists>zs. canonical_loop compare validate ys xs = Inr zs"
  using assms
proof (induction xs arbitrary: ys)
  case Nil
  then show ?case by simp
next
  case (Cons x xs)
  then obtain ys' where ys': "insert_loop compare x ys = Inr ys'"
    using insert_loop_total [of x ys] by auto
  note ins = insert_loop_sound [OF ys' Cons.prems(4)]
  then have "set ys' = insert x (set ys)" by (metis set_mset_mset list.simps(15))
  with Cons ins ys' show ?case by auto
qed

lemma canonical_loop_error:
  assumes "canonical_loop compare validate ys xs = Inl f" "ascending ys"
  shows "f = Panic DuplicateSigner \<and> \<not> (distinct xs \<and> set xs \<inter> set ys = {})
         \<or> (\<exists>x \<in> set xs. validate x = Inl f)"
  using assms
proof (induction xs arbitrary: ys)
  case Nil
  then show ?case by simp
next
  case (Cons x xs)
  show ?case
  proof (cases "\<exists>ys'. validate x = Inr () \<and> insert_loop compare x ys = Inr ys'")
    case True
    then obtain ys' where ok: "validate x = Inr ()" "insert_loop compare x ys = Inr ys'" by blast
    note ins = insert_loop_sound [OF ok(2) Cons.prems(2)]
    then have "set ys' = insert x (set ys)" by (metis set_mset_mset list.simps(15))
    with Cons.IH [of ys'] Cons.prems(1) ok ins show ?thesis by auto
  next
    case False
    with Cons.prems(1) show ?thesis
      by (auto simp: result_simps dest: insert_loop_error)
  qed
qed

text \<open>The canonical form is unique: it depends on the signers, not on their order.\<close>

lemma ascending_unique:
  assumes "ascending xs" "ascending ys" "set xs = set ys"
  shows "xs = ys"
  using assms
proof (induction xs arbitrary: ys)
  case Nil
  then show ?case by simp
next
  case (Cons x xs)
  then obtain y ys' where ys: "ys = y # ys'" by (cases ys) auto
  have least: "compare x z = Less" if "z \<in> set xs" for z
    using Cons.prems(1) that by (auto simp: ascending_def)
  have least': "compare y z = Less" if "z \<in> set ys'" for z
    using Cons.prems(2) ys that by (auto simp: ascending_def)
  have "x = y"
  proof (rule ccontr)
    assume "x \<noteq> y"
    with Cons.prems(3) ys have "y \<in> set xs" "x \<in> set ys'" by auto
    with least least' compare_flip [of x y] show False by fastforce
  qed
  moreover have "x \<notin> set xs" "x \<notin> set ys'"
    using ascending_distinct [OF Cons.prems(1)] ascending_distinct [OF Cons.prems(2)] ys \<open>x = y\<close> by auto
  then have "set xs = set ys'" using Cons.prems(3) ys \<open>x = y\<close> by auto
  then have "xs = ys'" using Cons.IH [of ys'] Cons.prems(1,2) ys by (auto simp: ascending_def)
  ultimately show ?case using ys by simp
qed

lemma canonical_order_independent:
  assumes "mset xs = mset xs'" "canonical_loop compare validate [] xs = Inr zs"
  shows "canonical_loop compare validate [] xs' = Inr zs"
proof -
  have nil: "ascending []" by (simp add: ascending_def)
  note zs = canonical_loop_Inr [OF nil assms(2)]
  have sets: "set xs = set xs'" "distinct xs'"
    using assms(1) zs mset_eq_setD mset_eq_imp_distinct_iff by blast+
  with zs obtain zs' where zs': "canonical_loop compare validate [] xs' = Inr zs'"
    using canonical_loop_total [of xs' validate "[]"] nil by auto
  note zs2 = canonical_loop_Inr [OF nil zs']
  with zs assms(1) have "mset zs' = mset zs" by simp
  then have "set zs' = set zs" by (rule mset_eq_setD)
  with zs zs2 have "zs' = zs" by (auto intro: ascending_unique)
  with zs' show ?thesis by simp
qed

end

section \<open>The signer comparison\<close>

lemma compare_signers_simps [simp]:
  "compare_signers (Delegated a) (Delegated b) = cmp a b"
  "compare_signers (Delegated a) (External y) = Less"
  "compare_signers (External x) (Delegated b) = Greater"
  "compare_signers (External x) (External y) =
     then_with (cmp (signer_kind_code (signer_kind x)) (signer_kind_code (signer_kind y)))
       (cmp (key_data x) (key_data y))"
proof -
  have pos: "0 < signer_kind_code k" for k by (cases k) (simp_all add: word_less_def)
  show "compare_signers (Delegated a) (External y) = Less"
    "compare_signers (External x) (Delegated b) = Greater"
    using pos by (auto simp: compare_signers_def)
  show "compare_signers (Delegated a) (Delegated b) = cmp a b"
    by (simp add: compare_signers_def then_with_def cmp_def)
  show "compare_signers (External x) (External y) =
     then_with (cmp (signer_kind_code (signer_kind x)) (signer_kind_code (signer_kind y)))
       (cmp (key_data x) (key_data y))"
    by (auto simp: compare_signers_def then_with_def cmp_def split: ordering.splits)
qed

lemma signer_kind_code_inject [simp]: "signer_kind_code k = signer_kind_code k' \<longleftrightarrow> k = k'"
  by (cases k; cases k') auto

interpretation signer_cmp: comparator compare_signers
proof unfold_locales
  fix x y z :: AccountSignerInit
  show "compare_signers x y = Equal \<longleftrightarrow> x = y"
    by (cases x; cases y) auto
  show "compare_signers x y = Less \<longleftrightarrow> compare_signers y x = Greater"
    by (cases x; cases y) auto
  show "compare_signers x y = Less \<Longrightarrow> compare_signers y z = Less \<Longrightarrow> compare_signers x z = Less"
    by (cases x; cases y; cases z) auto
qed

text \<open>The order it defines, so that the library's sorting applies to signers.\<close>

instantiation AccountSignerInit :: linorder
begin
definition less_eq_AccountSignerInit :: "AccountSignerInit \<Rightarrow> AccountSignerInit \<Rightarrow> bool" where
  "less_eq_AccountSignerInit x y \<longleftrightarrow> compare_signers x y \<noteq> Greater"
definition less_AccountSignerInit :: "AccountSignerInit \<Rightarrow> AccountSignerInit \<Rightarrow> bool" where
  "less_AccountSignerInit x y \<longleftrightarrow> compare_signers x y = Less"
instance
proof
  fix x y z :: AccountSignerInit
  have refl: "compare_signers u u = Equal" for u by (simp add: signer_cmp.compare_Equal)
  note defs = less_eq_AccountSignerInit_def less_AccountSignerInit_def refl
  show "x < y \<longleftrightarrow> x \<le> y \<and> \<not> y \<le> x"
    by (cases rule: signer_cmp.compare_cases [of x y]) (auto simp: defs)
  show "x \<le> x" by (simp add: defs)
  show "x \<le> y \<Longrightarrow> y \<le> z \<Longrightarrow> x \<le> z"
    by (cases rule: signer_cmp.compare_cases [of x y]; cases rule: signer_cmp.compare_cases [of y z])
      (auto simp: defs dest: signer_cmp.compare_trans)
  show "x \<le> y \<Longrightarrow> y \<le> x \<Longrightarrow> x = y"
    by (cases rule: signer_cmp.compare_cases [of x y]) (auto simp: defs)
  show "x \<le> y \<or> y \<le> x"
    by (cases rule: signer_cmp.compare_cases [of x y]) (auto simp: defs)
qed
end

lemma ascending_strict: "signer_cmp.ascending xs \<longleftrightarrow> sorted xs \<and> distinct xs"
  by (simp add: signer_cmp.ascending_def strict_sorted_iff flip: less_AccountSignerInit_def)

lemma canonicalize_signers_Inr:
  "canonicalize_signers ss = Inr cs \<longleftrightarrow>
     (\<forall>x \<in> set ss. validate_signer_shape x = Inr ()) \<and> distinct ss \<and> cs = sort ss"
proof -
  have nil: "signer_cmp.ascending []" by (simp add: ascending_strict)
  have sound: "(\<forall>x \<in> set ss. validate_signer_shape x = Inr ()) \<and> distinct ss \<and> zs = sort ss"
    if "canonicalize_signers ss = Inr zs" for zs
    using signer_cmp.canonical_loop_Inr [OF nil that [unfolded canonicalize_signers_def]]
    by (auto simp: ascending_strict intro!: properties_for_sort [symmetric])
  moreover have "\<exists>zs. canonicalize_signers ss = Inr zs"
    if "\<forall>x \<in> set ss. validate_signer_shape x = Inr ()" "distinct ss"
    using signer_cmp.canonical_loop_total [OF that _ nil] by (simp add: canonicalize_signers_def)
  ultimately show ?thesis by blast
qed

lemma canonicalize_signers_Inl:
  assumes "canonicalize_signers ss = Inl f"
  shows "f = Panic DuplicateSigner \<and> \<not> distinct ss \<or> (\<exists>x \<in> set ss. validate_signer_shape x = Inl f)"
proof -
  have nil: "signer_cmp.ascending []" by (simp add: ascending_strict)
  from signer_cmp.canonical_loop_error [OF assms [unfolded canonicalize_signers_def] nil]
  show ?thesis by auto
qed

end
