(* ===== verification/Account_Factory.thy ===== *)
theory Account_Factory
  imports Signer_Order
begin

unbundle bit_operations_syntax

text \<open>
  The account factory, \<open>src/account-factory/contracts/factory-contract/src/lib.rs\<close>: normalisation of
  the parameters, the deployment salt and its preimage, account creation and address prediction.
  Hashing, XDR encoding of addresses and contract deployment are host functions and parameters of
  the model (the record \<open>factory_host\<close>).
\<close>

section \<open>Data\<close>

record FactoryConfig =
  smart_account_wasm_hash :: bytes
  ed25519_verifier :: address
  webauthn_verifier :: address
  threshold_policy :: address

record AccountInitParams =
  signers :: "AccountSignerInit list"
  threshold :: "u32 option"
  account_salt :: bytes

record NormalizedParams =
  n_signers :: "AccountSignerInit list"
  effective_threshold :: u32
  n_account_salt :: bytes

record SimpleThresholdAccountParams =
  simple_threshold :: u32

datatype factory_event = AccountCreated address

record factory_state =
  config :: "FactoryConfig option"
  factory_log :: "(unit, factory_event) effect list"

text \<open>
  The host: \<open>sha256\<close>, the XDR encoding of an address, the address derived from a deployer and a
  salt, whether an address has code in a world \<open>'w\<close>, and deployment with constructor arguments
  (\<open>None\<close>: the host or the new contract's constructor failed).
\<close>

record 'w factory_host =
  sha256 :: "bytes \<Rightarrow> bytes"
  to_xdr :: "address \<Rightarrow> bytes"
  deployed_address :: "address \<Rightarrow> bytes \<Rightarrow> address"
  executable :: "'w \<Rightarrow> address \<Rightarrow> bool"
  deploy_v2 :: "address \<Rightarrow> bytes \<Rightarrow> bytes \<Rightarrow> Signer list
     \<Rightarrow> (address \<times> SimpleThresholdAccountParams) list \<Rightarrow> 'w \<Rightarrow> 'w option"

section \<open>Normalisation\<close>

definition normalize_params :: "AccountInitParams \<Rightarrow> (FactoryError, NormalizedParams) result" where
  "normalize_params params =
     res_bind (guard (signers params \<noteq> []) (Panic NoSigners)) (\<lambda>_.
     res_bind (canonicalize_signers (signers params)) (\<lambda>canonical_signers.
     let signer_count = of_nat (length canonical_signers) :: u32 in
     res_bind
       (if signer_count = 1 then
          (case threshold params of
             None \<Rightarrow> Inr 1
           | Some t \<Rightarrow> if t = 1 then Inr 1 else Inl (Panic InvalidThreshold))
        else
          (case threshold params of
             Some t \<Rightarrow> if t \<ge> 1 \<and> t \<le> signer_count then Inr t else Inl (Panic InvalidThreshold)
           | None \<Rightarrow> Inl (Panic MissingThreshold))) (\<lambda>t.
     Inr \<lparr>n_signers = canonical_signers, effective_threshold = t,
          n_account_salt = account_salt params\<rparr>)))"

section \<open>The deployment salt\<close>

text \<open>\<open>u32::to_be_bytes\<close>.\<close>

definition to_be_bytes :: "u32 \<Rightarrow> bytes" where
  "to_be_bytes x = [ucast (drop_bit 24 x), ucast (drop_bit 16 x), ucast (drop_bit 8 x), ucast x]"

text \<open>The domain separator \<open>latch.factory.account.v2\<close>.\<close>

definition SALT_DOMAIN :: bytes where
  "SALT_DOMAIN = map (\<lambda>c. of_nat (of_char c)) ''latch.factory.account.v2''"

definition encode_signer :: "(address \<Rightarrow> bytes) \<Rightarrow> AccountSignerInit \<Rightarrow> bytes" where
  "encode_signer xdr signer =
     [account_signer_code signer]
     @ (case signer of
          AccountSignerInit.Delegated a \<Rightarrow>
            (let encoded = xdr a in to_be_bytes (of_nat (length encoded)) @ encoded)
        | AccountSignerInit.External x \<Rightarrow>
            to_be_bytes (of_nat (length (key_data x))) @ key_data x)"

definition salt_preimage :: "(address \<Rightarrow> bytes) \<Rightarrow> NormalizedParams \<Rightarrow> bytes" where
  "salt_preimage xdr params =
     SALT_DOMAIN @ n_account_salt params @ to_be_bytes (of_nat (length (n_signers params)))
     @ concat (map (encode_signer xdr) (n_signers params))
     @ to_be_bytes (effective_threshold params)"

definition compute_account_deploy_salt :: "'w factory_host \<Rightarrow> NormalizedParams \<Rightarrow> bytes" where
  "compute_account_deploy_salt h params = sha256 h (salt_preimage (to_xdr h) params)"

section \<open>Building the account\<close>

fun build_signer :: "FactoryConfig \<Rightarrow> AccountSignerInit \<Rightarrow> Signer" where
  "build_signer cfg (AccountSignerInit.Delegated a) = Signer.Delegated a"
| "build_signer cfg (AccountSignerInit.External x) =
     Signer.External
       (case signer_kind x of Ed25519 \<Rightarrow> ed25519_verifier cfg | WebAuthn \<Rightarrow> webauthn_verifier cfg)
       (key_data x)"

definition build_account_signers :: "FactoryConfig \<Rightarrow> AccountSignerInit list \<Rightarrow> Signer list" where
  "build_account_signers cfg ss = map (build_signer cfg) ss"

definition build_account_policies ::
  "FactoryConfig \<Rightarrow> u32 \<Rightarrow> u32 \<Rightarrow> (address \<times> SimpleThresholdAccountParams) list" where
  "build_account_policies cfg t signer_count =
     (if signer_count > 1 then [(threshold_policy cfg, \<lparr>simple_threshold = t\<rparr>)] else [])"

section \<open>Entry points\<close>

definition extend_factory_ttl :: "factory_state \<Rightarrow> factory_state" where
  "extend_factory_ttl s = s\<lparr>factory_log := factory_log s @ [ExtendTtl () 100 1555200]\<rparr>"

definition get_config :: "factory_state \<Rightarrow> (FactoryError, FactoryConfig \<times> factory_state) result" where
  "get_config s =
     (let s' = extend_factory_ttl s in
      res_bind (unwrap_or (config s') (Panic MissingConfig)) (\<lambda>cfg. Inr (cfg, s')))"

definition validate_singleton_address ::
  "'w factory_host \<Rightarrow> 'w \<Rightarrow> address \<Rightarrow> FactoryError \<Rightarrow> (FactoryError, unit) result" where
  "validate_singleton_address h w a err = guard (executable h w a) (Panic err)"

definition factory_constructor ::
  "'w factory_host \<Rightarrow> 'w \<Rightarrow> bytes \<Rightarrow> address \<Rightarrow> address \<Rightarrow> address \<Rightarrow> factory_state
   \<Rightarrow> (FactoryError, factory_state) result" where
  "factory_constructor h w wasm_hash ed wa tp s =
     res_bind (guard (config s = None) (Panic AlreadyInitialized)) (\<lambda>_.
     res_bind (validate_singleton_address h w ed InvalidEd25519Verifier) (\<lambda>_.
     res_bind (validate_singleton_address h w wa InvalidWebAuthnVerifier) (\<lambda>_.
     res_bind (validate_singleton_address h w tp InvalidThresholdPolicy) (\<lambda>_.
     Inr (extend_factory_ttl (s\<lparr>config :=
           Some \<lparr>smart_account_wasm_hash = wasm_hash, ed25519_verifier = ed,
                 webauthn_verifier = wa, threshold_policy = tp\<rparr>\<rparr>))))))"

definition get_account_address ::
  "'w factory_host \<Rightarrow> env \<Rightarrow> AccountInitParams \<Rightarrow> (FactoryError, address) result" where
  "get_account_address h e params =
     res_bind (normalize_params params) (\<lambda>normalized.
     Inr (deployed_address h (current_contract_address e) (compute_account_deploy_salt h normalized)))"

definition create_account ::
  "'w factory_host \<Rightarrow> env \<Rightarrow> AccountInitParams \<Rightarrow> factory_state \<Rightarrow> 'w
   \<Rightarrow> (FactoryError, address \<times> factory_state \<times> 'w) result" where
  "create_account h e params s w =
     res_bind (get_config s) (\<lambda>(cfg, s1).
     res_bind (normalize_params params) (\<lambda>normalized.
     let salt = compute_account_deploy_salt h normalized;
         account_address = deployed_address h (current_contract_address e) salt in
     if executable h w account_address then Inr (account_address, s1, w)
     else
       let ss = build_account_signers cfg (n_signers normalized);
           ps = build_account_policies cfg (effective_threshold normalized) (of_nat (length ss)) in
       res_bind (unwrap_or
           (deploy_v2 h (current_contract_address e) salt (smart_account_wasm_hash cfg) ss ps w)
           (Trap DeployFailed)) (\<lambda>w'.
       Inr (account_address,
            s1\<lparr>factory_log := factory_log s1 @ [Publish (AccountCreated account_address)]\<rparr>, w'))))"

definition get_verifier ::
  "SignerKind \<Rightarrow> factory_state \<Rightarrow> (FactoryError, address \<times> factory_state) result" where
  "get_verifier kind s =
     res_bind (get_config s) (\<lambda>(cfg, s1).
     Inr (case kind of Ed25519 \<Rightarrow> ed25519_verifier cfg | WebAuthn \<Rightarrow> webauthn_verifier cfg, s1))"

definition get_threshold_policy ::
  "factory_state \<Rightarrow> (FactoryError, address \<times> factory_state) result" where
  "get_threshold_policy s =
     res_bind (get_config s) (\<lambda>(cfg, s1). Inr (threshold_policy cfg, s1))"

section \<open>Normalisation lemmas\<close>

definition threshold_rule :: "u32 option \<Rightarrow> nat \<Rightarrow> u32 \<Rightarrow> bool" where
  "threshold_rule given n t \<longleftrightarrow>
     (if n = 1 then t = 1 \<and> (given = None \<or> given = Some 1)
      else given = Some t \<and> 1 \<le> unat t \<and> unat t \<le> n)"

lemma of_nat_eq_1: "n < 2 ^ 32 \<Longrightarrow> (of_nat n :: u32) = 1 \<longleftrightarrow> n = 1"
  using of_nat_u32_inject [of n 1] by simp

lemma threshold_le: "n < 2 ^ 32 \<Longrightarrow> (1 \<le> t \<and> t \<le> (of_nat n :: u32)) \<longleftrightarrow> 1 \<le> unat t \<and> unat t \<le> n"
  by (simp add: word_le_nat_alt unat_of_nat_u32)

lemma normalize_params_Inr:
  assumes "length (signers p) < 2 ^ 32"
  shows "normalize_params p = Inr n \<longleftrightarrow>
     signers p \<noteq> [] \<and> distinct (signers p)
     \<and> (\<forall>x \<in> set (signers p). validate_signer_shape x = Inr ())
     \<and> threshold_rule (threshold p) (length (signers p)) (effective_threshold n)
     \<and> n_signers n = sort (signers p) \<and> n_account_salt n = account_salt p"
proof (cases "threshold p")
  case None
  then show ?thesis
    using assms
    by (cases n)
      (auto simp: normalize_params_def result_simps canonicalize_signers_Inr threshold_rule_def
        of_nat_eq_1 Let_def)
next
  case (Some t)
  then show ?thesis
    using assms threshold_le [OF assms, of t]
    by (cases n)
      (auto simp: normalize_params_def result_simps canonicalize_signers_Inr threshold_rule_def
        of_nat_eq_1 Let_def split: if_splits)
qed

text \<open>Normalisation does not depend on the order in which the signers are given.\<close>

lemma normalize_params_perm:
  assumes "mset (signers p) = mset (signers q)" "threshold p = threshold q"
    "account_salt p = account_salt q" "length (signers p) < 2 ^ 32" "normalize_params p = Inr n"
  shows "normalize_params q = Inr n"
proof -
  have len: "length (signers q) = length (signers p)" by (metis assms(1) size_mset)
  have "sort (signers q) = sort (signers p)"
    using assms(1) by (intro properties_for_sort) simp_all
  moreover have "set (signers q) = set (signers p)" "distinct (signers q) \<longleftrightarrow> distinct (signers p)"
    using assms(1) by (metis mset_eq_setD, metis mset_eq_imp_distinct_iff)
  moreover have "signers q = [] \<longleftrightarrow> signers p = []" using len by auto
  ultimately show ?thesis
    using assms(2-5) len by (simp add: normalize_params_Inr)
qed

section \<open>The preimage of the salt is injective\<close>

lemma to_be_bytes_length [simp]: "length (to_be_bytes x) = 4"
  by (simp add: to_be_bytes_def)

definition from_be_bytes :: "bytes \<Rightarrow> u32" where
  "from_be_bytes bs =
     push_bit 24 (ucast (bs ! 0)) OR push_bit 16 (ucast (bs ! 1)) OR push_bit 8 (ucast (bs ! 2))
     OR ucast (bs ! 3)"

lemma from_to_be_bytes: "from_be_bytes (to_be_bytes x) = x"
proof (rule bit_word_eqI)
  fix n assume "n < LENGTH(32)"
  then show "bit (from_be_bytes (to_be_bytes x)) n \<longleftrightarrow> bit x n"
    by (cases "n < 16"; cases "n < 24")
      (auto simp: from_be_bytes_def to_be_bytes_def bit_simps not_le not_less)
qed

lemma to_be_bytes_inject [simp]: "to_be_bytes x = to_be_bytes y \<longleftrightarrow> x = y"
  by (metis from_to_be_bytes)

text \<open>A length-prefixed field can be read off the front of the bytes.\<close>

lemma length_prefixed:
  assumes "to_be_bytes (of_nat (length xs)) @ xs @ us = to_be_bytes (of_nat (length ys)) @ ys @ vs"
    and "length xs < 2 ^ 32" "length ys < 2 ^ 32"
  shows "xs = ys \<and> us = vs"
proof -
  from assms(1) have "to_be_bytes (of_nat (length xs)) = to_be_bytes (of_nat (length ys))"
    "xs @ us = ys @ vs"
    by (simp_all add: append_eq_append_conv)
  moreover from this(1) have "length xs = length ys"
    using of_nat_u32_inject [OF assms(2,3)] by simp
  ultimately show ?thesis by simp
qed

text \<open>
  What the encoding relies on: on the addresses that exist (\<open>A\<close>), XDR encodings are distinct and of
  bounded size.  Key data is a host byte string, so shorter than \<open>2\<^sup>3\<^sup>2\<close>.
\<close>

definition xdr_ok :: "address set \<Rightarrow> (address \<Rightarrow> bytes) \<Rightarrow> bool" where
  "xdr_ok A xdr \<longleftrightarrow> inj_on xdr A \<and> (\<forall>a \<in> A. length (xdr a) < 2 ^ 32)"

definition encodable :: "address set \<Rightarrow> AccountSignerInit \<Rightarrow> bool" where
  "encodable A s \<longleftrightarrow> (case s of AccountSignerInit.Delegated a \<Rightarrow> a \<in> A
                       | AccountSignerInit.External x \<Rightarrow> length (key_data x) < 2 ^ 32)"

lemma encode_signer_prefix:
  assumes "encode_signer xdr s @ us = encode_signer xdr t @ vs" "xdr_ok A xdr"
    "encodable A s" "encodable A t"
  shows "s = t \<and> us = vs"
proof -
  have pos: "signer_kind_code k \<noteq> 0" for k by (cases k) simp_all
  show ?thesis
  proof (cases s)
    case s: (Delegated a)
    show ?thesis
    proof (cases t)
      case t: (Delegated b)
      from assms(1) s t have "xdr a = xdr b \<and> us = vs"
        using assms(2-4)
        by (intro length_prefixed) (simp_all add: encode_signer_def Let_def xdr_ok_def encodable_def)
      with s t assms(2-4) show ?thesis by (auto simp: xdr_ok_def encodable_def dest: inj_onD)
    next
      case (External y)
      with assms(1) s pos [of "signer_kind y"] show ?thesis by (simp add: encode_signer_def Let_def)
    qed
  next
    case s: (External x)
    show ?thesis
    proof (cases t)
      case (Delegated b)
      with assms(1) s pos [of "signer_kind x"] show ?thesis by (simp add: encode_signer_def Let_def)
    next
      case t: (External y)
      from assms(1) s t have "key_data x = key_data y \<and> us = vs"
        using assms(3,4) by (intro length_prefixed) (simp_all add: encode_signer_def encodable_def)
      moreover from assms(1) s t have "signer_kind x = signer_kind y" by (simp add: encode_signer_def)
      ultimately show ?thesis using s t by auto
    qed
  qed
qed

lemma encode_signers_prefix:
  assumes "length ss = length ts" "xdr_ok A xdr"
    "list_all (encodable A) ss" "list_all (encodable A) ts"
    and "concat (map (encode_signer xdr) ss) @ us = concat (map (encode_signer xdr) ts) @ vs"
  shows "ss = ts \<and> us = vs"
  using assms
proof (induction ss ts rule: list_induct2)
  case Nil
  then show ?case by simp
next
  case (Cons s ss t ts)
  from Cons.prems(4) have
    "encode_signer xdr s @ (concat (map (encode_signer xdr) ss) @ us)
     = encode_signer xdr t @ (concat (map (encode_signer xdr) ts) @ vs)"
    by simp
  then have "s = t \<and> concat (map (encode_signer xdr) ss) @ us = concat (map (encode_signer xdr) ts) @ vs"
    using Cons.prems(1-3) by (intro encode_signer_prefix) auto
  with Cons show ?case by simp
qed

definition normalized_ok :: "address set \<Rightarrow> NormalizedParams \<Rightarrow> bool" where
  "normalized_ok A n \<longleftrightarrow>
     length (n_account_salt n) = 32 \<and> length (n_signers n) < 2 ^ 32
     \<and> list_all (encodable A) (n_signers n)"

lemma salt_preimage_inject:
  assumes "salt_preimage xdr m = salt_preimage xdr n" "xdr_ok A xdr"
    "normalized_ok A m" "normalized_ok A n"
  shows "m = n"
proof -
  have salts: "n_account_salt m = n_account_salt n"
    and rest: "to_be_bytes (of_nat (length (n_signers m)))
        @ concat (map (encode_signer xdr) (n_signers m)) @ to_be_bytes (effective_threshold m)
      = to_be_bytes (of_nat (length (n_signers n)))
        @ concat (map (encode_signer xdr) (n_signers n)) @ to_be_bytes (effective_threshold n)"
    using assms(1,3,4) by (simp_all add: salt_preimage_def normalized_ok_def append_eq_append_conv)
  then have len: "length (n_signers m) = length (n_signers n)"
    using assms(3,4)
    by (simp add: append_eq_append_conv normalized_ok_def of_nat_u32_inject)
  from rest have "concat (map (encode_signer xdr) (n_signers m)) @ to_be_bytes (effective_threshold m)
      = concat (map (encode_signer xdr) (n_signers n)) @ to_be_bytes (effective_threshold n)"
    by (simp add: append_eq_append_conv)
  with len have "n_signers m = n_signers n \<and>
      to_be_bytes (effective_threshold m) = to_be_bytes (effective_threshold n)"
    using assms(2-4) by (intro encode_signers_prefix) (auto simp: normalized_ok_def)
  with salts show ?thesis by (cases m; cases n) simp
qed

section \<open>Creating accounts\<close>

lemma create_account_Inr:
  "create_account h e p s w = Inr (a, s', w') \<longleftrightarrow>
     (\<exists>cfg n. config s = Some cfg \<and> normalize_params p = Inr n
        \<and> a = deployed_address h (current_contract_address e) (compute_account_deploy_salt h n)
        \<and> (if executable h w a then w' = w \<and> s' = extend_factory_ttl s
           else deploy_v2 h (current_contract_address e) (compute_account_deploy_salt h n)
                  (smart_account_wasm_hash cfg) (build_account_signers cfg (n_signers n))
                  (build_account_policies cfg (effective_threshold n)
                     (of_nat (length (n_signers n)))) w = Some w'
             \<and> s' = (extend_factory_ttl s)\<lparr>factory_log :=
                      factory_log (extend_factory_ttl s) @ [Publish (AccountCreated a)]\<rparr>))"
  by (auto simp: create_account_def get_config_def extend_factory_ttl_def result_simps Let_def
      build_account_signers_def)

lemma get_account_address_Inr:
  "get_account_address h e p = Inr a \<longleftrightarrow>
     (\<exists>n. normalize_params p = Inr n
        \<and> a = deployed_address h (current_contract_address e) (compute_account_deploy_salt h n))"
  by (auto simp: get_account_address_def result_simps)

lemma create_account_config:
  "create_account h e p s w = Inr (a, s', w') \<Longrightarrow> config s' = config s"
  by (auto simp: create_account_Inr extend_factory_ttl_def split: if_splits)

text \<open>
  What the factory relies on of deployment: a deployed address has code, code never disappears, and
  the host refuses to deploy over existing code.
\<close>

definition deployer_ok :: "'w factory_host \<Rightarrow> bool" where
  "deployer_ok h \<longleftrightarrow>
     (\<forall>d salt hash ss ps w w'. deploy_v2 h d salt hash ss ps w = Some w' \<longrightarrow>
        \<not> executable h w (deployed_address h d salt)
        \<and> executable h w' (deployed_address h d salt)
        \<and> (\<forall>a. executable h w a \<longrightarrow> executable h w' a))"

lemma deployer_okD:
  assumes "deployer_ok h" "deploy_v2 h d salt hash ss ps w = Some w'"
  shows "executable h w' (deployed_address h d salt)" "executable h w a \<Longrightarrow> executable h w' a"
  using assms unfolding deployer_ok_def by blast+

lemma create_account_executable:
  assumes "create_account h e p s w = Inr (a, s', w')" "deployer_ok h"
  shows "executable h w' a"
proof (cases "executable h w a")
  case True
  with assms(1) show ?thesis by (auto simp: create_account_Inr)
next
  case False
  with assms(1) deployer_okD(1) [OF assms(2)] show ?thesis by (auto simp: create_account_Inr)
qed

lemma build_signers_distinct:
  assumes "distinct ss" "ed25519_verifier cfg \<noteq> webauthn_verifier cfg"
  shows "distinct (build_account_signers cfg ss)"
proof -
  have "inj (build_signer cfg)"
  proof
    fix x y assume "build_signer cfg x = build_signer cfg y"
    with assms(2) show "x = y"
      by (cases x; cases y) (auto split: SignerKind.splits)
  qed
  with assms(1) show ?thesis
    by (simp add: build_account_signers_def distinct_map inj_on_subset [of _ UNIV])
qed

text \<open>The threshold policy is attached exactly when there are several signers.\<close>

lemma normalized_policies:
  assumes "normalize_params p = Inr n" "length (signers p) < 2 ^ 32"
  shows "build_account_policies cfg (effective_threshold n) (of_nat (length (n_signers n)))
      = (if length (signers p) = 1 then []
         else [(threshold_policy cfg, \<lparr>simple_threshold = effective_threshold n\<rparr>)])"
proof -
  have "signers p \<noteq> []" "n_signers n = sort (signers p)"
    using assms by (simp_all add: normalize_params_Inr)
  moreover from this(1) have "(1 :: u32) < of_nat (length (signers p)) \<longleftrightarrow> length (signers p) \<noteq> 1"
    using unat_of_nat_u32 [OF assms(2)] by (auto simp: word_less_nat_alt intro: Suc_lessI)
  ultimately show ?thesis by (simp add: build_account_policies_def)
qed

end
