(* ===== verification/Smart_Account.thy ===== *)
theory Smart_Account
  imports Soroban_Env
begin

text \<open>
  The smart account, \<open>src/latch-smart-account/src/lib.rs\<close>: its own state is the registry of the
  contracts it has deployed; signers, rules, authorisation and upgrade are library code, called
  through the record \<open>account_lib\<close>.  The registry refines an append-only list.
\<close>

section \<open>Data\<close>

record DeployedContract =
  dc_address :: address
  dc_wasm_hash :: bytes

datatype LatchSmartAccountStorageKey = DeployedContractCount | DeployedContract u32

datatype LatchSmartAccountError = DeployedContractNotFound | MathOverflow

datatype account_event = ContractDeployed address bytes

record account_state =
  deployed_count :: "u32 option"
  deployed :: "u32 \<Rightarrow> DeployedContract option"
  account_log :: "(LatchSmartAccountStorageKey, account_event) effect list"

text \<open>
  Library and host calls.  \<open>'w\<close> is everything outside the registry, including the library's own
  storage; \<open>'v\<close> are values, \<open>'ap\<close> the authorisation payload, \<open>'er\<close> the library's errors.
  A call that fails answers \<open>None\<close>.
\<close>

record ('w, 'v, 'ap, 'er) account_lib =
  account_deploy_v2 :: "address \<Rightarrow> bytes \<Rightarrow> bytes \<Rightarrow> 'v list \<Rightarrow> 'w \<Rightarrow> (address \<times> 'w) option"
  add_context_rule :: "ContextRuleType \<Rightarrow> string \<Rightarrow> u32 option \<Rightarrow> Signer list
     \<Rightarrow> (address \<times> 'v) list \<Rightarrow> 'w \<Rightarrow> 'w option"
  lib_batch_add_signer :: "u32 \<Rightarrow> Signer list \<Rightarrow> 'w \<Rightarrow> 'w option"
  lib_upgrade :: "bytes \<Rightarrow> 'w \<Rightarrow> 'w option"
  do_check_auth :: "bytes \<Rightarrow> 'ap \<Rightarrow> Context list \<Rightarrow> 'w \<Rightarrow> 'er + 'w"
  SMART_ACCOUNT_TTL_THRESHOLD :: u32
  SMART_ACCOUNT_EXTEND_AMOUNT :: u32

section \<open>Entry points\<close>

definition account_constructor ::
  "('w, 'v, 'ap, 'er) account_lib \<Rightarrow> Signer list \<Rightarrow> (address \<times> 'v) list \<Rightarrow> 'w
   \<Rightarrow> (LatchSmartAccountError, 'w) result" where
  "account_constructor lib ss ps w =
     unwrap_or (add_context_rule lib Default ''default'' None ss ps w) (Trap CallReverted)"

definition account_batch_add_signer ::
  "('w, 'v, 'ap, 'er) account_lib \<Rightarrow> env \<Rightarrow> u32 \<Rightarrow> Signer list \<Rightarrow> 'w
   \<Rightarrow> (LatchSmartAccountError, 'w) result" where
  "account_batch_add_signer lib e context_rule_id ss w =
     res_bind (require_auth e (current_contract_address e)) (\<lambda>_.
     unwrap_or (lib_batch_add_signer lib context_rule_id ss w) (Trap CallReverted))"

definition get_deployed_contract_count :: "account_state \<Rightarrow> u32" where
  "get_deployed_contract_count s = (case deployed_count s of Some n \<Rightarrow> n | None \<Rightarrow> 0)"

text \<open>The storage part of \<open>deploy_contract\<close>: counter, entry, TTL and event.\<close>

definition record_deployed ::
  "('w, 'v, 'ap, 'er) account_lib \<Rightarrow> DeployedContract \<Rightarrow> account_state
   \<Rightarrow> (LatchSmartAccountError, account_state) result" where
  "record_deployed lib rec s =
     (let index = get_deployed_contract_count s in
      res_bind (unwrap_or (checked_add_word index 1) (Panic MathOverflow)) (\<lambda>next_count.
      let s1 = s\<lparr>deployed_count := Some next_count\<rparr>;
          s2 = s1\<lparr>deployed := (deployed s1)(index := Some rec)\<rparr> in
      Inr (s2\<lparr>account_log := account_log s2
              @ [ExtendTtl (DeployedContract index) (SMART_ACCOUNT_TTL_THRESHOLD lib)
                   (SMART_ACCOUNT_EXTEND_AMOUNT lib),
                 Publish (ContractDeployed (dc_address rec) (dc_wasm_hash rec))]\<rparr>)))"

definition deploy_contract ::
  "('w, 'v, 'ap, 'er) account_lib \<Rightarrow> env \<Rightarrow> bytes \<Rightarrow> bytes \<Rightarrow> 'v list \<Rightarrow> account_state \<Rightarrow> 'w
   \<Rightarrow> (LatchSmartAccountError, address \<times> account_state \<times> 'w) result" where
  "deploy_contract lib e wasm_hash salt constructor_args s w =
     res_bind (unwrap_or
         (account_deploy_v2 lib (current_contract_address e) salt wasm_hash constructor_args w)
         (Trap DeployFailed)) (\<lambda>(addr, w').
     res_bind (record_deployed lib \<lparr>dc_address = addr, dc_wasm_hash = wasm_hash\<rparr> s) (\<lambda>s'.
     Inr (addr, s', w')))"

definition get_deployed_contract ::
  "('w, 'v, 'ap, 'er) account_lib \<Rightarrow> u32 \<Rightarrow> account_state
   \<Rightarrow> (LatchSmartAccountError, DeployedContract \<times> account_state) result" where
  "get_deployed_contract lib index s =
     res_bind (unwrap_or (deployed s index) (Panic DeployedContractNotFound)) (\<lambda>d.
     Inr (d, s\<lparr>account_log := account_log s
               @ [ExtendTtl (DeployedContract index) (SMART_ACCOUNT_TTL_THRESHOLD lib)
                    (SMART_ACCOUNT_EXTEND_AMOUNT lib)]\<rparr>))"

definition check_auth ::
  "('w, 'v, 'ap, 'er) account_lib \<Rightarrow> bytes \<Rightarrow> 'ap \<Rightarrow> Context list \<Rightarrow> 'w \<Rightarrow> 'er + 'w" where
  "check_auth lib signature_payload signatures auth_contexts w =
     do_check_auth lib signature_payload signatures auth_contexts w"

definition account_upgrade ::
  "('w, 'v, 'ap, 'er) account_lib \<Rightarrow> env \<Rightarrow> bytes \<Rightarrow> address \<Rightarrow> 'w
   \<Rightarrow> (LatchSmartAccountError, 'w) result" where
  "account_upgrade lib e new_wasm_hash operator w =
     res_bind (require_auth e (current_contract_address e)) (\<lambda>_.
     unwrap_or (lib_upgrade lib new_wasm_hash w) (Trap CallReverted))"

section \<open>The registry as an append-only list\<close>

definition init_account_state :: account_state where
  "init_account_state = \<lparr>deployed_count = None, deployed = (\<lambda>_. None), account_log = []\<rparr>"

text \<open>\<open>registry s xs\<close>: the stored entries are exactly the list \<open>xs\<close>.\<close>

definition registry :: "account_state \<Rightarrow> DeployedContract list \<Rightarrow> bool" where
  "registry s xs \<longleftrightarrow>
     length xs < 2 ^ 32 \<and> get_deployed_contract_count s = of_nat (length xs)
     \<and> (\<forall>i. deployed s i = (if unat i < length xs then Some (xs ! unat i) else None))"

text \<open>
  The interface a client of such a registry uses: appending at the end and reading by position.
\<close>

fun record_all :: "('x \<Rightarrow> 's \<Rightarrow> ('e, 's) result) \<Rightarrow> 'x list \<Rightarrow> 's \<Rightarrow> ('e, 's) result" where
  "record_all add [] s = Inr s"
| "record_all add (x # xs) s = res_bind (add x s) (record_all add xs)"

locale append_registry =
  fixes rep :: "'s \<Rightarrow> 'x list \<Rightarrow> bool"
    and add :: "'x \<Rightarrow> 's \<Rightarrow> ('e, 's) result"
    and get :: "u32 \<Rightarrow> 's \<Rightarrow> ('e, 'x \<times> 's) result"
  assumes add_rep: "rep s xs \<Longrightarrow> add x s = Inr s' \<Longrightarrow> rep s' (xs @ [x])"
    and add_room: "rep s xs \<Longrightarrow> (\<exists>s'. add x s = Inr s') \<longleftrightarrow> Suc (length xs) < 2 ^ 32"
    and get_rep: "rep s xs \<Longrightarrow> (\<exists>s'. get i s = Inr (x, s')) \<longleftrightarrow> unat i < length xs \<and> x = xs ! unat i"
    and get_keeps: "rep s xs \<Longrightarrow> get i s = Inr (x, s') \<Longrightarrow> rep s' xs"
begin

lemma add_all_rep: "rep s xs \<Longrightarrow> record_all add ys s = Inr s' \<Longrightarrow> rep s' (xs @ ys)"
proof (induction ys arbitrary: s xs)
  case Nil
  then show ?case by simp
next
  case (Cons y ys)
  then obtain s1 where s1: "add y s = Inr s1" "record_all add ys s1 = Inr s'"
    by (auto simp: result_simps)
  from Cons.IH [OF add_rep [OF Cons.prems(1) s1(1)] s1(2)] show ?case by simp
qed

lemma add_all_total:
  "rep s xs \<Longrightarrow> length xs + length ys < 2 ^ 32 \<Longrightarrow> \<exists>s'. record_all add ys s = Inr s'"
proof (induction ys arbitrary: s xs)
  case Nil
  then show ?case by simp
next
  case (Cons y ys)
  then obtain s1 where s1: "add y s = Inr s1"
    using add_room [OF Cons.prems(1), of y] by auto
  with Cons.IH [OF add_rep [OF Cons.prems(1) s1]] Cons.prems(2) show ?case by simp
qed

lemma get_stable:
  assumes "rep s xs" "get i s = Inr (x, t)" "record_all add ys s = Inr s'"
  shows "\<exists>t'. get i s' = Inr (x, t')"
proof -
  from get_rep [OF assms(1), of i x] assms(2) have "unat i < length xs \<and> x = xs ! unat i" by blast
  then show ?thesis
    using get_rep [OF add_all_rep [OF assms(1,3)], of i x] by (simp add: nth_append)
qed

end

lemma next_index:
  assumes "n < 2 ^ 32"
  shows "checked_add_word (of_nat n :: u32) 1 = (if Suc n < 2 ^ 32 then Some (of_nat (Suc n)) else None)"
proof -
  have "uint (of_nat n :: u32) = int n"
    using assms by (simp add: unsigned_of_nat take_bit_nat_eq_self)
  then show ?thesis by (auto simp: checked_add_word_def)
qed

lemma record_deployed_registry:
  assumes reg: "registry s xs"
  shows "record_deployed lib d s = Inr s' \<Longrightarrow> registry s' (xs @ [d])"
    and "(\<exists>s'. record_deployed lib d s = Inr s') \<longleftrightarrow> Suc (length xs) < 2 ^ 32"
proof -
  have len: "length xs < 2 ^ 32" and cnt: "get_deployed_contract_count s = of_nat (length xs)"
    and ent: "deployed s i = (if unat i < length xs then Some (xs ! unat i) else None)" for i
    using reg by (simp_all add: registry_def)
  note add = next_index [OF len]
  show "(\<exists>s'. record_deployed lib d s = Inr s') \<longleftrightarrow> Suc (length xs) < 2 ^ 32"
    by (simp add: record_deployed_def cnt add Let_def)
  assume "record_deployed lib d s = Inr s'"
  then have lt: "Suc (length xs) < 2 ^ 32"
    and s': "deployed_count s' = Some (of_nat (Suc (length xs)))"
      "deployed s' = (deployed s)(of_nat (length xs) := Some d)"
    by (auto simp: record_deployed_def cnt add Let_def split: if_splits)
  have "deployed s' i = (if unat i < length (xs @ [d]) then Some ((xs @ [d]) ! unat i) else None)" for i
  proof (cases "i = of_nat (length xs)")
    case True
    then show ?thesis using s'(2) len by (simp add: unat_of_nat_u32)
  next
    case False
    then have "unat i \<noteq> length xs" using len by (metis unat_of_nat_u32 word_unat_eq_iff)
    with False show ?thesis using s'(2) ent [of i] by (simp add: nth_append)
  qed
  with lt s'(1) show "registry s' (xs @ [d])"
    by (simp add: registry_def get_deployed_contract_count_def)
qed

lemma get_deployed_registry:
  assumes "registry s xs"
  shows "(\<exists>s'. get_deployed_contract lib i s = Inr (x, s')) \<longleftrightarrow> unat i < length xs \<and> x = xs ! unat i"
    and "get_deployed_contract lib i s = Inr (x, s') \<Longrightarrow> registry s' xs"
  using assms
  by (auto simp: get_deployed_contract_def registry_def get_deployed_contract_count_def result_simps)

interpretation deployments: append_registry registry "record_deployed lib" "get_deployed_contract lib"
  for lib :: "('w, 'v, 'ap, 'er) account_lib"
  by unfold_locales (erule record_deployed_registry get_deployed_registry, assumption?)+

lemma init_registry: "registry init_account_state []"
  by (simp add: registry_def init_account_state_def get_deployed_contract_count_def)

end
