(* ===== verification/Signature_Verifiers.thy ===== *)
theory Signature_Verifiers
  imports Soroban_Env
begin

text \<open>
  The signature verifiers: P-256 and secp256k1 (\<open>src/latch-verifiers/p256-verifier\<close>,
  \<open>secp256k1-verifier\<close>), the Ed25519 and WebAuthn shells around the \<open>stellar-accounts\<close> crate, and
  the demonstration verifier that checks a signature over a hex-encoded message
  (\<open>src/demo/modified-ed25519-verifier\<close>).  The curve operations are host functions and the shells'
  callees are library code; both are parameters.  The locale \<open>signature_verifier\<close> is what a smart account
  relies on of any of them.
\<close>

unbundle bit_operations_syntax

section \<open>The verifier interface\<close>

text \<open>
  A verifier accepts or fails, it never answers \<open>false\<close>; canonicalisation is idempotent and
  the batch operation canonicalises each key in order; only keys that canonicalise verify, and a key
  verifies the same signatures as its canonical form.
\<close>

locale signature_verifier =
  fixes verify :: "bytes \<Rightarrow> bytes \<Rightarrow> 'sig \<Rightarrow> ('e, bool) result"
    and canonicalize_key :: "bytes \<Rightarrow> ('e, bytes) result"
    and batch_canonicalize_key :: "bytes list \<Rightarrow> ('e, bytes list) result"
  assumes verify_not_False: "verify hash key sig \<noteq> Inr False"
    and verify_canonical: "verify hash key sig = Inr True \<Longrightarrow>
      \<exists>ck. canonicalize_key key = Inr ck \<and> verify hash ck sig = Inr True"
    and canonical_idem: "canonicalize_key key = Inr ck \<Longrightarrow> canonicalize_key ck = Inr ck"
    and batch_eq: "batch_canonicalize_key keys = res_map canonicalize_key keys"
begin

text \<open>
  The signatures of a message that were accepted, one per registered key: what an M-of-N check
  counts.
\<close>

definition accepted :: "bytes \<Rightarrow> (bytes \<times> 'sig) list \<Rightarrow> bool" where
  "accepted hash ks \<longleftrightarrow> (\<forall>(k, sg) \<in> set ks. verify hash k sg = Inr True)"

lemma verify_cases:
  obtains "verify hash key sig = Inr True" | f where "verify hash key sig = Inl f"
  using verify_not_False [of hash key sig] by (cases "verify hash key sig") auto

lemma accepted_batch:
  assumes "accepted hash ks"
  shows "\<exists>cks. batch_canonicalize_key (map fst ks) = Inr cks
           \<and> accepted hash (zip cks (map snd ks)) \<and> length cks = length ks"
  using assms
proof (induction ks)
  case Nil
  then show ?case by (simp add: batch_eq accepted_def)
next
  case (Cons x ks)
  obtain k sg where x: "x = (k, sg)" by (cases x)
  from Cons.prems x obtain ck where ck: "canonicalize_key k = Inr ck" "verify hash ck sg = Inr True"
    using verify_canonical [of hash k sg] by (auto simp: accepted_def)
  from Cons obtain cks where "batch_canonicalize_key (map fst ks) = Inr cks"
    "accepted hash (zip cks (map snd ks))" "length cks = length ks"
    by (auto simp: accepted_def)
  with x ck show ?case by (auto simp: batch_eq accepted_def)
qed

lemma batch_idem:
  assumes "batch_canonicalize_key keys = Inr cks"
  shows "batch_canonicalize_key cks = Inr cks"
  using assms by (auto simp: batch_eq result_simps list_all2_conv_all_nth canonical_idem)

end

section \<open>P-256\<close>

datatype P256VerifierError = InvalidHashLength | InvalidKeyEncoding

definition p256_validate_key_encoding :: "bytes \<Rightarrow> (P256VerifierError, unit) result" where
  "p256_validate_key_encoding key_data =
     guard (\<not> vec_get key_data 0 \<noteq> Some 4) (Panic InvalidKeyEncoding)"

text \<open>\<open>secp256r1_verify\<close> traps unless the signature is valid for the key and the digest.\<close>

definition p256_verify ::
  "(bytes \<Rightarrow> bytes \<Rightarrow> bytes \<Rightarrow> bool) \<Rightarrow> bytes \<Rightarrow> bytes \<Rightarrow> bytes \<Rightarrow> (P256VerifierError, bool) result"
  where
  "p256_verify secp256r1_verify hash key_data sig_data =
     res_bind (guard (\<not> length hash \<noteq> 32) (Panic InvalidHashLength)) (\<lambda>_.
     res_bind (p256_validate_key_encoding key_data) (\<lambda>_.
     res_bind (if length hash = 32 then Inr hash else Inl (Panic InvalidHashLength)) (\<lambda>hash_n.
     res_bind (guard (secp256r1_verify key_data hash_n sig_data) (Trap CryptoInvalid)) (\<lambda>_.
     Inr True))))"

definition p256_canonicalize_key :: "bytes \<Rightarrow> (P256VerifierError, bytes) result" where
  "p256_canonicalize_key key_data =
     res_bind (p256_validate_key_encoding key_data) (\<lambda>_. Inr key_data)"

definition p256_batch_canonicalize_key :: "bytes list \<Rightarrow> (P256VerifierError, bytes list) result" where
  "p256_batch_canonicalize_key keys = res_map p256_canonicalize_key keys"

lemma p256_verify_iff:
  "p256_verify host hash key sig = Inr b \<longleftrightarrow>
     b \<and> length hash = 32 \<and> vec_get key 0 = Some 4 \<and> host key hash sig"
  by (auto simp: p256_verify_def p256_validate_key_encoding_def res_bind_Inr_iff guard_Inr_iff)

lemma p256_canonicalize_Inr:
  "p256_canonicalize_key key = Inr ck \<longleftrightarrow> ck = key \<and> vec_get key 0 = Some 4"
  by (auto simp: p256_canonicalize_key_def p256_validate_key_encoding_def res_bind_Inr_iff
      guard_Inr_iff)

interpretation p256: signature_verifier "p256_verify host" p256_canonicalize_key
  p256_batch_canonicalize_key for host
  by unfold_locales
    (auto simp: p256_verify_iff p256_canonicalize_Inr p256_batch_canonicalize_key_def)

section \<open>secp256k1\<close>

datatype Secp256k1VerifierError = InvalidHashLength | InvalidKeyEncoding | KeyMismatch
  | InvalidRecoveryId

definition k1_validate_key_encoding :: "bytes \<Rightarrow> (Secp256k1VerifierError, unit) result" where
  "k1_validate_key_encoding key_data =
     guard (\<not> vec_get key_data 0 \<noteq> Some 4) (Panic InvalidKeyEncoding)"

text \<open>\<open>secp256k1_recover\<close> answers the public key, or traps.  \<open>sig_data\<close> is a \<open>BytesN<65>\<close>.\<close>

definition k1_verify ::
  "(bytes \<Rightarrow> bytes \<Rightarrow> u32 \<Rightarrow> bytes option) \<Rightarrow> bytes \<Rightarrow> bytes \<Rightarrow> bytes
   \<Rightarrow> (Secp256k1VerifierError, bool) result" where
  "k1_verify secp256k1_recover hash key_data sig_data =
     res_bind (guard (\<not> length hash \<noteq> 32) (Panic InvalidHashLength)) (\<lambda>_.
     res_bind (k1_validate_key_encoding key_data) (\<lambda>_.
     res_bind (if length hash = 32 then Inr hash else Inl (Panic InvalidHashLength)) (\<lambda>hash_n.
     res_bind (unwrap_or (vec_get sig_data 64) (Trap IndexOutOfBounds)) (\<lambda>last_byte.
     let recovery_id = ucast last_byte :: u32 in
     res_bind (guard (\<not> recovery_id > 1) (Panic InvalidRecoveryId)) (\<lambda>_.
     let signature = take 64 sig_data in
     res_bind (unwrap_or (secp256k1_recover hash_n signature recovery_id) (Trap CryptoInvalid))
       (\<lambda>recovered.
     res_bind (guard (\<not> recovered \<noteq> key_data) (Panic KeyMismatch)) (\<lambda>_.
     Inr True)))))))"

definition k1_canonicalize_key :: "bytes \<Rightarrow> (Secp256k1VerifierError, bytes) result" where
  "k1_canonicalize_key key_data =
     res_bind (k1_validate_key_encoding key_data) (\<lambda>_. Inr key_data)"

definition k1_batch_canonicalize_key :: "bytes list \<Rightarrow> (Secp256k1VerifierError, bytes list) result"
  where
  "k1_batch_canonicalize_key keys = res_map k1_canonicalize_key keys"

lemma recovery_id_le: "\<not> (ucast (b :: u8) :: u32) > 1 \<longleftrightarrow> b = 0 \<or> b = 1"
proof -
  have "uint (ucast b :: u32) = uint b"
    using uint_lt2p [of b] by (simp add: unsigned_ucast_eq unsigned_take_bit_eq take_bit_eq_mod)
  then have "\<not> (ucast b :: u32) > 1 \<longleftrightarrow> uint b \<le> 1" by (simp add: word_less_def not_less)
  also have "\<dots> \<longleftrightarrow> uint b = uint (0 :: u8) \<or> uint b = uint (1 :: u8)"
  proof -
    have "0 \<le> uint b" by (rule uint_ge_0)
    then have "uint b \<le> 1 \<longleftrightarrow> uint b = 0 \<or> uint b = 1" by arith
    then show ?thesis by simp
  qed
  finally show ?thesis by (simp only: word_uint_eq_iff)
qed

lemma k1_verify_iff:
  "k1_verify host hash key sig = Inr b \<longleftrightarrow>
     b \<and> length hash = 32 \<and> vec_get key 0 = Some 4 \<and> 64 < length sig
     \<and> (sig ! 64 = 0 \<or> sig ! 64 = 1)
     \<and> host hash (take 64 sig) (ucast (sig ! 64)) = Some key"
  using recovery_id_le [of "sig ! 64"]
  by (auto simp: k1_verify_def k1_validate_key_encoding_def res_bind_Inr_iff guard_Inr_iff
      unwrap_or_Inr_iff vec_get_Some Let_def)

lemma k1_canonicalize_Inr:
  "k1_canonicalize_key key = Inr ck \<longleftrightarrow> ck = key \<and> vec_get key 0 = Some 4"
  by (auto simp: k1_canonicalize_key_def k1_validate_key_encoding_def res_bind_Inr_iff
      guard_Inr_iff)

interpretation k1: signature_verifier "k1_verify host" k1_canonicalize_key
  k1_batch_canonicalize_key for host
  by unfold_locales
    (auto simp: k1_verify_iff k1_canonicalize_Inr k1_batch_canonicalize_key_def)

section \<open>The library shells\<close>

text \<open>
  The Ed25519 contract forwards each call to the library; the WebAuthn contract first decodes the
  signature data and takes the public key from the front of the key data.
\<close>

record 'e ed25519_lib =
  lib_verify :: "bytes \<Rightarrow> bytes \<Rightarrow> bytes \<Rightarrow> ('e, bool) result"
  lib_canonicalize_key :: "bytes \<Rightarrow> ('e, bytes) result"
  lib_batch_canonicalize_key :: "bytes list \<Rightarrow> ('e, bytes list) result"

definition ed25519_contract_verify ::
  "'e ed25519_lib \<Rightarrow> bytes \<Rightarrow> bytes \<Rightarrow> bytes \<Rightarrow> ('e, bool) result" where
  "ed25519_contract_verify lib hash key_data sig_data = lib_verify lib hash key_data sig_data"

definition ed25519_contract_canonicalize_key :: "'e ed25519_lib \<Rightarrow> bytes \<Rightarrow> ('e, bytes) result" where
  "ed25519_contract_canonicalize_key lib key_data = lib_canonicalize_key lib key_data"

definition ed25519_contract_batch_canonicalize_key ::
  "'e ed25519_lib \<Rightarrow> bytes list \<Rightarrow> ('e, bytes list) result" where
  "ed25519_contract_batch_canonicalize_key lib keys = lib_batch_canonicalize_key lib keys"

record ('e, 'sd) webauthn_lib =
  sig_from_xdr :: "bytes \<Rightarrow> 'sd option"
  extract_from_bytes :: "bytes \<Rightarrow> nat \<Rightarrow> nat \<Rightarrow> bytes option"
  webauthn_lib_verify :: "bytes \<Rightarrow> bytes \<Rightarrow> 'sd \<Rightarrow> ('e, bool) result"
  webauthn_lib_canonicalize_key :: "bytes \<Rightarrow> ('e, bytes) result"
  webauthn_lib_batch_canonicalize_key :: "bytes list \<Rightarrow> ('e, bytes list) result"

definition webauthn_contract_verify ::
  "('e, 'sd) webauthn_lib \<Rightarrow> bytes \<Rightarrow> bytes \<Rightarrow> bytes \<Rightarrow> ('e, bool) result" where
  "webauthn_contract_verify lib hash key_data sig_data =
     res_bind (unwrap_or (sig_from_xdr lib sig_data) (Trap UnwrapNone)) (\<lambda>sig_struct.
     res_bind (unwrap_or (extract_from_bytes lib key_data 0 65) (Trap UnwrapNone)) (\<lambda>pub_key.
     webauthn_lib_verify lib hash pub_key sig_struct))"

definition webauthn_contract_canonicalize_key ::
  "('e, 'sd) webauthn_lib \<Rightarrow> bytes \<Rightarrow> ('e, bytes) result" where
  "webauthn_contract_canonicalize_key lib key_data = webauthn_lib_canonicalize_key lib key_data"

definition webauthn_contract_batch_canonicalize_key ::
  "('e, 'sd) webauthn_lib \<Rightarrow> bytes list \<Rightarrow> ('e, bytes list) result" where
  "webauthn_contract_batch_canonicalize_key lib keys = webauthn_lib_batch_canonicalize_key lib keys"

text \<open>
  The documented behaviour of the helper \<open>extract_from_bytes\<close> and of the library's
  canonicalisation: the bytes of the range if the input is long enough, and the first 65 bytes.
\<close>

definition extracts :: "('e, 'sd) webauthn_lib \<Rightarrow> bool" where
  "extracts lib \<longleftrightarrow>
     (\<forall>bs a b. extract_from_bytes lib bs a b =
        (if b \<le> length bs then Some (take (b - a) (drop a bs)) else None))"

lemma webauthn_contract_verify_eq:
  assumes "extracts lib"
  shows "webauthn_contract_verify lib hash key sig =
     (case sig_from_xdr lib sig of
        None \<Rightarrow> Inl (Trap UnwrapNone)
      | Some sd \<Rightarrow> if 65 \<le> length key then webauthn_lib_verify lib hash (take 65 key) sd
                  else Inl (Trap UnwrapNone))"
  using assms by (auto simp: webauthn_contract_verify_def extracts_def split: option.splits)

end
