(* ===== verification/Hex_Message.thy ===== *)
theory Hex_Message
  imports Signature_Verifiers
begin

text \<open>
  The demonstration verifier \<open>src/demo/modified-ed25519-verifier\<close>: it rebuilds the 92-byte message
  \<open>AUTH_PREFIX + lowercase_hex(hash)\<close> in a fixed buffer and checks the signature over it.  The
  lemmas show that the buffer loop is the hexadecimal encoding, that the encoding can be decoded, and
  so that a signature authorises one hash only.
\<close>

datatype ModifiedEd25519VerifierError = InvalidHashLength

definition AUTH_PREFIX :: bytes where
  "AUTH_PREFIX = map (\<lambda>c. of_nat (of_char c)) ''Stellar Smart Account Auth:'' @ [10]"

definition PREFIX_LEN :: nat where
  "PREFIX_LEN = 28"

definition PAYLOAD_LEN :: nat where
  "PAYLOAD_LEN = 32"

definition HEX_LEN :: nat where
  "HEX_LEN = 64"

definition SIGNED_MSG_LEN :: nat where
  "SIGNED_MSG_LEN = PREFIX_LEN + HEX_LEN"

definition HEX :: bytes where
  "HEX = map (\<lambda>c. of_nat (of_char c)) ''0123456789abcdef''"

text \<open>The loop of \<open>hex_encode_lower\<close> with its index \<open>i\<close>; a write past the buffer panics.\<close>

fun hex_loop :: "bytes \<Rightarrow> nat \<Rightarrow> bytes \<Rightarrow> ('e, bytes) result" where
  "hex_loop dst i [] = Inr dst"
| "hex_loop dst i (byte # src) =
     res_bind (guard (i < length dst) (Trap IndexOutOfBounds)) (\<lambda>_.
     let dst1 = dst[i := HEX ! unat (drop_bit 4 byte)] in
     res_bind (guard (i + 1 < length dst1) (Trap IndexOutOfBounds)) (\<lambda>_.
     let dst2 = dst1[i + 1 := HEX ! unat (byte AND 15)] in
     hex_loop dst2 (i + 2) src))"

definition hex_encode_lower :: "bytes \<Rightarrow> bytes \<Rightarrow> ('e, bytes) result" where
  "hex_encode_lower dst src = hex_loop dst 0 src"

definition modified_verify ::
  "(bytes \<Rightarrow> bytes \<Rightarrow> bytes \<Rightarrow> bool) \<Rightarrow> bytes \<Rightarrow> bytes \<Rightarrow> bytes
   \<Rightarrow> (ModifiedEd25519VerifierError, bool) result" where
  "modified_verify ed25519_verify hash key_data sig_data =
     res_bind (guard (\<not> length hash \<noteq> PAYLOAD_LEN) (Panic InvalidHashLength)) (\<lambda>_.
     let signed_msg = replicate SIGNED_MSG_LEN 0 in
     res_bind (guard (length AUTH_PREFIX = PREFIX_LEN) (Trap IndexOutOfBounds)) (\<lambda>_.
     let signed_msg1 = AUTH_PREFIX @ drop PREFIX_LEN signed_msg in
     res_bind (hex_encode_lower (drop PREFIX_LEN signed_msg1) hash) (\<lambda>tail.
     let signed_msg2 = take PREFIX_LEN signed_msg1 @ tail in
     res_bind (guard (ed25519_verify key_data signed_msg2 sig_data) (Trap CryptoInvalid)) (\<lambda>_.
     Inr True))))"

text \<open>The two key functions forward to the library.\<close>

definition modified_canonicalize_key :: "'e ed25519_lib \<Rightarrow> bytes \<Rightarrow> ('e, bytes) result" where
  "modified_canonicalize_key lib key_data = lib_canonicalize_key lib key_data"

definition modified_batch_canonicalize_key ::
  "'e ed25519_lib \<Rightarrow> bytes list \<Rightarrow> ('e, bytes list) result" where
  "modified_batch_canonicalize_key lib keys = lib_batch_canonicalize_key lib keys"

section \<open>The encoding\<close>

definition hex_pair :: "u8 \<Rightarrow> bytes" where
  "hex_pair b = [HEX ! unat (drop_bit 4 b), HEX ! unat (b AND 15)]"

definition hex :: "bytes \<Rightarrow> bytes" where
  "hex bs = concat (map hex_pair bs)"

lemma hex_length [simp]: "length (hex bs) = 2 * length bs"
  by (induction bs) (simp_all add: hex_def hex_pair_def)

lemma hex_loop_eq:
  assumes "length post = 2 * length src"
  shows "hex_loop (pre @ post) (length pre) src = (Inr (pre @ hex src) :: ('e, bytes) result)"
  using assms
proof (induction src arbitrary: pre post)
  case Nil
  then show ?case by (simp add: hex_def)
next
  case (Cons b src)
  then obtain x y post' where post: "post = x # y # post'" "length post' = 2 * length src"
    by (cases post; cases "tl post") auto
  have "hex_loop ((pre @ hex_pair b) @ post') (length (pre @ hex_pair b)) src
        = (Inr ((pre @ hex_pair b) @ hex src) :: ('e, bytes) result)"
    using post(2) by (rule Cons.IH)
  then show ?case
    by (simp add: post(1) hex_pair_def hex_def list_update_append)
qed

lemma hex_encode_lower_eq:
  "length dst = 2 * length src \<Longrightarrow> hex_encode_lower dst src = Inr (hex src)"
  using hex_loop_eq [of dst src "[]"] by (simp add: hex_encode_lower_def)

lemma AUTH_PREFIX_length [simp]: "length AUTH_PREFIX = 28"
  by (simp add: AUTH_PREFIX_def)

lemma modified_verify_iff:
  "modified_verify host hash key sig = Inr b \<longleftrightarrow>
     b \<and> length hash = 32 \<and> host key (AUTH_PREFIX @ hex hash) sig"
  by (auto simp: modified_verify_def result_simps hex_encode_lower_eq PREFIX_LEN_def HEX_LEN_def
      SIGNED_MSG_LEN_def PAYLOAD_LEN_def Let_def)

section \<open>Decoding\<close>

definition hex_digit :: "u8 \<Rightarrow> u8" where
  "hex_digit c = (if c < 58 then c - 48 else c - 87)"

fun unhex :: "bytes \<Rightarrow> bytes" where
  "unhex (h # l # rest) = (push_bit 4 (hex_digit h) OR hex_digit l) # unhex rest"
| "unhex _ = []"

lemma hex_digit_table: "list_all (\<lambda>n. hex_digit (HEX ! n) = of_nat n) [0..<16]"
  by code_simp

lemma hex_digit_HEX: "n < 16 \<Longrightarrow> hex_digit (HEX ! n) = of_nat n"
  using hex_digit_table by (auto simp: list_all_iff)

lemma nibbles_lt:
  fixes b :: u8
  shows "unat (drop_bit 4 b) < 16" "unat (b AND 15) < 16"
proof -
  have "unat (drop_bit 4 b) = unat b div 16"
    by (simp add: drop_bit_eq_div unat_div_distrib)
  moreover have "unat b < 2 ^ LENGTH(8)" by (rule unsigned_less)
  ultimately show "unat (drop_bit 4 b) < 16" by simp
  have "unat (b AND mask 4) = take_bit 4 (unat b)"
    by (simp flip: take_bit_eq_mask add: unsigned_take_bit_eq)
  then show "unat (b AND 15) < 16" by (simp add: mask_eq_exp_minus_1 take_bit_eq_mod)
qed

lemma nibbles_join: "push_bit 4 (drop_bit 4 b) OR (b AND 15) = (b :: u8)"
proof -
  have "b AND 15 = take_bit 4 b" by (simp add: take_bit_eq_mask mask_eq_exp_minus_1)
  then show ?thesis using bits_ident [of 4 b] by (simp add: disjunctive_add bit_simps)
qed

lemma unhex_hex: "unhex (hex bs) = bs"
proof (induction bs)
  case Nil
  then show ?case by (simp add: hex_def)
next
  case (Cons b bs)
  then show ?case
    by (simp add: hex_def hex_pair_def hex_digit_HEX nibbles_lt nibbles_join)
qed

lemma hex_inject: "hex xs = hex ys \<longleftrightarrow> xs = ys"
  by (metis unhex_hex)

end
