(* ===== verification/Fee_Forwarder.thy ===== *)
theory Fee_Forwarder
  imports Soroban_Env
begin

text \<open>
  The permissioned fee forwarder, \<open>src/fee-forwarder/src/lib.rs\<close>: role set-up in the constructor
  and the role-gated entry points.  Access control and fee collection are library code, called
  through the record \<open>fee_lib\<close>; the laws the contract relies on are \<open>role_laws\<close>.
\<close>

text \<open>The contract only ever passes \<open>Lazy\<close>.\<close>

datatype FeeAbstractionApproval = Lazy | OtherApproval

definition MANAGER_ROLE :: symbol where
  "MANAGER_ROLE = ''manager''"

definition EXECUTOR_ROLE :: symbol where
  "EXECUTOR_ROLE = ''executor''"

record ('w, 'e, 'v) fee_lib =
  set_admin :: "address \<Rightarrow> 'w \<Rightarrow> 'w"
  grant_role_no_auth :: "address \<Rightarrow> symbol \<Rightarrow> address \<Rightarrow> 'w \<Rightarrow> 'w"
  has_role :: "'w \<Rightarrow> address \<Rightarrow> symbol \<Rightarrow> bool"
  only_role :: "env \<Rightarrow> address \<Rightarrow> symbol \<Rightarrow> 'w \<Rightarrow> ('e, unit) result"
  collect_fee_and_invoke :: "env \<Rightarrow> address \<Rightarrow> i128 \<Rightarrow> i128 \<Rightarrow> u32 \<Rightarrow> address \<Rightarrow> symbol \<Rightarrow> 'v list
     \<Rightarrow> address \<Rightarrow> address \<Rightarrow> FeeAbstractionApproval \<Rightarrow> 'w \<Rightarrow> ('e, 'v \<times> 'w) result"
  set_allowed_fee_token :: "address \<Rightarrow> bool \<Rightarrow> 'w \<Rightarrow> ('e, 'w) result"
  sweep_token :: "env \<Rightarrow> address \<Rightarrow> address \<Rightarrow> 'w \<Rightarrow> ('e, i128 \<times> 'w) result"

section \<open>Entry points\<close>

definition forwarder_constructor ::
  "('w, 'e, 'v) fee_lib \<Rightarrow> address \<Rightarrow> address \<Rightarrow> address list \<Rightarrow> 'w \<Rightarrow> 'w" where
  "forwarder_constructor lib admin manager executors w =
     fold (\<lambda>executor. grant_role_no_auth lib executor EXECUTOR_ROLE admin) executors
       (grant_role_no_auth lib manager MANAGER_ROLE admin (set_admin lib admin w))"

definition forward ::
  "('w, 'e, 'v) fee_lib \<Rightarrow> env \<Rightarrow> address \<Rightarrow> i128 \<Rightarrow> i128 \<Rightarrow> u32 \<Rightarrow> address \<Rightarrow> symbol \<Rightarrow> 'v list
   \<Rightarrow> address \<Rightarrow> address \<Rightarrow> 'w \<Rightarrow> ('e, 'v \<times> 'w) result" where
  "forward lib e fee_token fee_amount max_fee_amount expiration_ledger target_contract target_fn
     target_args user relayer w =
     res_bind (only_role lib e relayer ''executor'' w) (\<lambda>_.
     collect_fee_and_invoke lib e fee_token fee_amount max_fee_amount expiration_ledger
       target_contract target_fn target_args user (current_contract_address e) Lazy w)"

definition enable_fee_token ::
  "('w, 'e, 'v) fee_lib \<Rightarrow> env \<Rightarrow> address \<Rightarrow> address \<Rightarrow> 'w \<Rightarrow> ('e, 'w) result" where
  "enable_fee_token lib e tk operator w =
     res_bind (only_role lib e operator ''manager'' w) (\<lambda>_. set_allowed_fee_token lib tk True w)"

definition disable_fee_token ::
  "('w, 'e, 'v) fee_lib \<Rightarrow> env \<Rightarrow> address \<Rightarrow> address \<Rightarrow> 'w \<Rightarrow> ('e, 'w) result" where
  "disable_fee_token lib e tk operator w =
     res_bind (only_role lib e operator ''manager'' w) (\<lambda>_. set_allowed_fee_token lib tk False w)"

definition sweep_tokens ::
  "('w, 'e, 'v) fee_lib \<Rightarrow> env \<Rightarrow> address \<Rightarrow> address \<Rightarrow> address \<Rightarrow> 'w \<Rightarrow> ('e, i128 \<times> 'w) result" where
  "sweep_tokens lib e tk recipient operator w =
     res_bind (only_role lib e operator ''manager'' w) (\<lambda>_. sweep_token lib e tk recipient w)"

section \<open>Roles\<close>

text \<open>
  What the access-control library documents: granting a role adds exactly that member,
  setting the admin touches no role, and the \<open>only_role\<close> gate passes exactly the members that
  authorised the call.
\<close>

definition role_laws :: "('w, 'e, 'v) fee_lib \<Rightarrow> bool" where
  "role_laws lib \<longleftrightarrow>
     (\<forall>w a r c b q. has_role lib (grant_role_no_auth lib a r c w) b q
        \<longleftrightarrow> has_role lib w b q \<or> (b = a \<and> q = r))
     \<and> (\<forall>w a b q. has_role lib (set_admin lib a w) b q \<longleftrightarrow> has_role lib w b q)
     \<and> (\<forall>e a r w. only_role lib e a r w = Inr () \<longleftrightarrow> has_role lib w a r \<and> authorized e a)"

lemma grant_all_roles:
  assumes "role_laws lib"
  shows "has_role lib (fold (\<lambda>x. grant_role_no_auth lib x r c) xs w) b q
         \<longleftrightarrow> has_role lib w b q \<or> (b \<in> set xs \<and> q = r)"
  using assms by (induction xs arbitrary: w) (auto simp: role_laws_def)

lemma constructor_roles:
  assumes "role_laws lib"
  shows "has_role lib (forwarder_constructor lib admin manager executors w) a r \<longleftrightarrow>
           has_role lib w a r \<or> (a = manager \<and> r = MANAGER_ROLE)
           \<or> (a \<in> set executors \<and> r = EXECUTOR_ROLE)"
  using assms
  by (auto simp: forwarder_constructor_def grant_all_roles [OF assms] role_laws_def)

lemma role_gate:
  assumes "role_laws lib" "only_role lib e a r w = Inr u"
  shows "has_role lib w a r \<and> authorized e a"
  using assms by (cases u) (auto simp: role_laws_def)

end
