(* ===== verification/Forwarder_History.thy ===== *)
theory Forwarder_History
  imports Fee_Forwarder
begin

text \<open>
  The fee forwarder over time (\<open>src/fee-forwarder/src/lib.rs\<close>).  Beside its own entry points the
  contract exposes the methods of the library's \<open>AccessControl\<close> trait, through which roles change after
  the deployment.  They are library code: the record \<open>access_lib\<close> has the part of the state they work
  on and their successful calls as a relation, and \<open>access_laws\<close> states what the library documents
  about them.  The lemmas follow the roles through any history of calls.
\<close>

section \<open>The access-control methods\<close>

text \<open>
  The admin, the address an admin transfer is pending for, the role that administers a role, and one
  successful call of a trait method (granting, revoking and renouncing roles, moving or
  renouncing the admin, choosing the admin of a role).
\<close>

record 'w access_lib =
  admin_of :: "'w \<Rightarrow> address option"
  pending_admin :: "'w \<Rightarrow> address option"
  role_admin :: "'w \<Rightarrow> symbol \<Rightarrow> symbol option"
  access_step :: "env \<Rightarrow> 'w \<Rightarrow> 'w \<Rightarrow> bool"

text \<open>Two worlds in which the forwarder's access-control storage is the same.\<close>

definition same_access :: "('w, 'e, 'v) fee_lib \<Rightarrow> 'w access_lib \<Rightarrow> 'w \<Rightarrow> 'w \<Rightarrow> bool" where
  "same_access lib ac w w' \<longleftrightarrow>
     (\<forall>a r. has_role lib w' a r = has_role lib w a r) \<and> admin_of ac w' = admin_of ac w
     \<and> pending_admin ac w' = pending_admin ac w \<and> role_admin ac w' = role_admin ac w"

definition admin_signs :: "'w access_lib \<Rightarrow> env \<Rightarrow> 'w \<Rightarrow> bool" where
  "admin_signs ac e w \<longleftrightarrow> (\<exists>ad. admin_of ac w = Some ad \<and> authorized e ad)"

text \<open>
  What the library documents of a trait method: a new member of a role needs the admin or a member of
  the role's admin role; the admin role of a role, and the address a transfer is pending for, are
  chosen by the admin; and the admin changes only to the address the transfer is pending for.
\<close>

definition access_step_laws :: "('w, 'e, 'v) fee_lib \<Rightarrow> 'w access_lib \<Rightarrow> bool" where
  "access_step_laws lib ac \<longleftrightarrow>
     (\<forall>e w w'. access_step ac e w w' \<longrightarrow>
        (\<forall>a r. has_role lib w' a r \<and> \<not> has_role lib w a r \<longrightarrow>
           admin_signs ac e w
           \<or> (\<exists>q b. role_admin ac w r = Some q \<and> has_role lib w b q \<and> authorized e b))
        \<and> (role_admin ac w' \<noteq> role_admin ac w \<longrightarrow> admin_signs ac e w)
        \<and> (\<forall>p. pending_admin ac w' = Some p \<and> pending_admin ac w \<noteq> Some p \<longrightarrow> admin_signs ac e w)
        \<and> (\<forall>ad. admin_of ac w' = Some ad \<and> admin_of ac w \<noteq> Some ad \<longrightarrow> pending_admin ac w = Some ad))"

text \<open>
  The rest: the constructor's two calls do what they say, and collecting a fee, changing the
  fee-token list and sweeping do not touch access control (a called contract cannot re-enter).
\<close>

definition access_laws :: "('w, 'e, 'v) fee_lib \<Rightarrow> 'w access_lib \<Rightarrow> bool" where
  "access_laws lib ac \<longleftrightarrow>
     access_step_laws lib ac
     \<and> (\<forall>a w. admin_of ac (set_admin lib a w) = Some a
          \<and> pending_admin ac (set_admin lib a w) = pending_admin ac w
          \<and> role_admin ac (set_admin lib a w) = role_admin ac w)
     \<and> (\<forall>a r c w. admin_of ac (grant_role_no_auth lib a r c w) = admin_of ac w
          \<and> pending_admin ac (grant_role_no_auth lib a r c w) = pending_admin ac w
          \<and> role_admin ac (grant_role_no_auth lib a r c w) = role_admin ac w)
     \<and> (\<forall>e tk fee mx ex tc tf args user self ap w v w'.
          collect_fee_and_invoke lib e tk fee mx ex tc tf args user self ap w = Inr (v, w')
          \<longrightarrow> same_access lib ac w w')
     \<and> (\<forall>tk b w w'. set_allowed_fee_token lib tk b w = Inr w' \<longrightarrow> same_access lib ac w w')
     \<and> (\<forall>e tk to w x w'. sweep_token lib e tk to w = Inr (x, w') \<longrightarrow> same_access lib ac w w')"

section \<open>Histories\<close>

text \<open>
  The worlds that calls with environments in \<open>E\<close> lead to: the forwarder's own entry points, the trait
  methods, and whatever other contracts do, which cannot reach the forwarder's storage.
\<close>

inductive forwarder_reachable ::
  "('w, 'e, 'v) fee_lib \<Rightarrow> 'w access_lib \<Rightarrow> (env \<Rightarrow> bool) \<Rightarrow> 'w \<Rightarrow> 'w \<Rightarrow> bool"
  for lib ac E w0 where
  Constructed: "forwarder_reachable lib ac E w0 w0"
| Forwarded: "forwarder_reachable lib ac E w0 w \<Longrightarrow> E e
     \<Longrightarrow> forward lib e tk fee mx ex tc tf args user relayer w = Inr (v, w')
     \<Longrightarrow> forwarder_reachable lib ac E w0 w'"
| Enabled: "forwarder_reachable lib ac E w0 w \<Longrightarrow> E e \<Longrightarrow> enable_fee_token lib e tk op w = Inr w'
     \<Longrightarrow> forwarder_reachable lib ac E w0 w'"
| Disabled: "forwarder_reachable lib ac E w0 w \<Longrightarrow> E e \<Longrightarrow> disable_fee_token lib e tk op w = Inr w'
     \<Longrightarrow> forwarder_reachable lib ac E w0 w'"
| Swept: "forwarder_reachable lib ac E w0 w \<Longrightarrow> E e \<Longrightarrow> sweep_tokens lib e tk to op w = Inr (x, w')
     \<Longrightarrow> forwarder_reachable lib ac E w0 w'"
| Managed: "forwarder_reachable lib ac E w0 w \<Longrightarrow> E e \<Longrightarrow> access_step ac e w w'
     \<Longrightarrow> forwarder_reachable lib ac E w0 w'"
| Elsewhere: "forwarder_reachable lib ac E w0 w \<Longrightarrow> same_access lib ac w w'
     \<Longrightarrow> forwarder_reachable lib ac E w0 w'"

section \<open>Roles without the admin\<close>

text \<open>
  The roles are among the given ones, nobody else administers them, no transfer of the admin is
  pending, and the admin is the given one or has renounced.
\<close>

definition roles_within ::
  "('w, 'e, 'v) fee_lib \<Rightarrow> 'w access_lib \<Rightarrow> (address \<Rightarrow> symbol \<Rightarrow> bool) \<Rightarrow> address \<Rightarrow> 'w \<Rightarrow> bool" where
  "roles_within lib ac R admin w \<longleftrightarrow>
     (\<forall>a r. has_role lib w a r \<longrightarrow> R a r) \<and> (\<forall>r. role_admin ac w r = None)
     \<and> pending_admin ac w = None \<and> (admin_of ac w = None \<or> admin_of ac w = Some admin)"

lemma same_access_roles_within:
  "same_access lib ac w w' \<Longrightarrow> roles_within lib ac R admin w \<Longrightarrow> roles_within lib ac R admin w'"
  by (simp add: same_access_def roles_within_def)

lemma access_step_roles_within:
  assumes "access_step_laws lib ac" "access_step ac e w w'" "roles_within lib ac R admin w"
    and "\<not> authorized e admin"
  shows "roles_within lib ac R admin w'"
proof -
  have no: "\<not> admin_signs ac e w"
    using assms(3,4) by (auto simp: admin_signs_def roles_within_def)
  have roles: "has_role lib w' a r \<Longrightarrow> has_role lib w a r" for a r
    using assms(1-3) no unfolding access_step_laws_def roles_within_def
    by (metis option.distinct(1))
  have same: "role_admin ac w' = role_admin ac w"
    using assms(1,2) no unfolding access_step_laws_def by blast
  have pending: "pending_admin ac w' = None"
    using assms(1-3) no unfolding access_step_laws_def roles_within_def
    by (metis option.distinct(1) option.exhaust)
  have "admin_of ac w' = None \<or> admin_of ac w' = admin_of ac w"
    using assms(1-3) unfolding access_step_laws_def roles_within_def
    by (metis option.distinct(1) option.exhaust)
  with roles same pending assms(3) show ?thesis unfolding roles_within_def by auto
qed

lemma reachable_roles_within:
  assumes "forwarder_reachable lib ac (\<lambda>e. \<not> authorized e admin) w0 w" "access_laws lib ac"
    and "roles_within lib ac R admin w0"
  shows "roles_within lib ac R admin w"
  using assms(1)
proof (induction rule: forwarder_reachable.induct)
  case Constructed
  show ?case by (fact assms(3))
next
  case (Forwarded w e tk fee mx ex tc tf args user relayer v w')
  then have "same_access lib ac w w'"
    using assms(2) by (fastforce simp: forward_def access_laws_def result_simps)
  then show ?case using Forwarded.IH by (rule same_access_roles_within)
next
  case (Enabled w e tk op w')
  then have "same_access lib ac w w'"
    using assms(2) by (auto simp: enable_fee_token_def access_laws_def result_simps)
  then show ?case using Enabled.IH by (rule same_access_roles_within)
next
  case (Disabled w e tk op w')
  then have "same_access lib ac w w'"
    using assms(2) by (auto simp: disable_fee_token_def access_laws_def result_simps)
  then show ?case using Disabled.IH by (rule same_access_roles_within)
next
  case (Swept w e tk to op x w')
  then have "same_access lib ac w w'"
    using assms(2) by (fastforce simp: sweep_tokens_def access_laws_def result_simps)
  then show ?case using Swept.IH by (rule same_access_roles_within)
next
  case (Managed w e w')
  with assms(2) show ?case by (auto simp: access_laws_def intro: access_step_roles_within)
next
  case (Elsewhere w w')
  show ?case using Elsewhere.hyps(2) Elsewhere.IH by (rule same_access_roles_within)
qed

text \<open>The constructor's roles.\<close>

definition initial_role :: "address \<Rightarrow> address list \<Rightarrow> address \<Rightarrow> symbol \<Rightarrow> bool" where
  "initial_role manager executors a r \<longleftrightarrow>
     (a = manager \<and> r = MANAGER_ROLE) \<or> (a \<in> set executors \<and> r = EXECUTOR_ROLE)"

lemma grant_all_access:
  assumes "access_laws lib ac"
  shows "admin_of ac (fold (\<lambda>x. grant_role_no_auth lib x r c) xs w) = admin_of ac w
     \<and> pending_admin ac (fold (\<lambda>x. grant_role_no_auth lib x r c) xs w) = pending_admin ac w
     \<and> role_admin ac (fold (\<lambda>x. grant_role_no_auth lib x r c) xs w) = role_admin ac w"
  using assms by (induction xs arbitrary: w) (simp_all add: access_laws_def)

text \<open>A world in which nothing was ever stored for the forwarder.\<close>

definition untouched :: "('w, 'e, 'v) fee_lib \<Rightarrow> 'w access_lib \<Rightarrow> 'w \<Rightarrow> bool" where
  "untouched lib ac w \<longleftrightarrow>
     (\<forall>a r. \<not> has_role lib w a r) \<and> (\<forall>r. role_admin ac w r = None) \<and> pending_admin ac w = None"

lemma constructed_roles_within:
  assumes "role_laws lib" "access_laws lib ac" "untouched lib ac w0"
  shows "roles_within lib ac (initial_role manager executors) admin
     (forwarder_constructor lib admin manager executors w0)"
proof -
  have "admin_of ac (forwarder_constructor lib admin manager executors w0) = Some admin
      \<and> pending_admin ac (forwarder_constructor lib admin manager executors w0) = None
      \<and> (\<forall>r. role_admin ac (forwarder_constructor lib admin manager executors w0) r = None)"
    using assms(2,3) grant_all_access [OF assms(2)]
    by (simp add: forwarder_constructor_def access_laws_def untouched_def)
  then show ?thesis
    using assms(3) constructor_roles [OF assms(1)]
    by (auto simp: roles_within_def initial_role_def untouched_def)
qed

end
