(* ===== verification/Account_Properties.thy ===== *)
theory Account_Properties
  imports Account_Factory Smart_Account Hex_Message Forwarder_History
begin

text \<open>
  The properties of the account factory, the smart account, the signature verifiers and the fee
  forwarder.
\<close>

section \<open>Concrete data\<close>

definition f_env :: env where
  "f_env = \<lparr>ledger_sequence = 1, ledger_timestamp = 1000,
     current_contract_address = Addr 9, authorized = (\<lambda>a. a = Addr 9)\<rparr>"

text \<open>A host whose world is the list of addresses that have code.\<close>

definition f_host :: "address list factory_host" where
  "f_host = \<lparr>sha256 = (\<lambda>x. x), to_xdr = (\<lambda>a. [of_nat (addr_index a)]),
     deployed_address = (\<lambda>d salt. Addr (1000 + foldr (\<lambda>b n. unat b + 256 * n) salt 0)),
     executable = (\<lambda>w a. a \<in> set w),
     deploy_v2 = (\<lambda>d salt hash ss ps w.
        let a = Addr (1000 + foldr (\<lambda>b n. unat b + 256 * n) salt 0) in
        if a \<in> set w then None else Some (a # w))\<rparr>"

definition f_key :: AccountSignerInit where
  "f_key = AccountSignerInit.External \<lparr>signer_kind = Ed25519, key_data = replicate 32 7\<rparr>"

definition f_params :: AccountInitParams where
  "f_params = \<lparr>signers = [f_key, AccountSignerInit.Delegated (Addr 3)], threshold = Some 2,
     account_salt = replicate 32 1\<rparr>"

definition f_params' :: AccountInitParams where
  "f_params' = f_params\<lparr>signers := [AccountSignerInit.Delegated (Addr 3), f_key]\<rparr>"

definition f_state :: factory_state where
  "f_state = \<lparr>config = Some \<lparr>smart_account_wasm_hash = [1], ed25519_verifier = Addr 21,
     webauthn_verifier = Addr 22, threshold_policy = Addr 23\<rparr>, factory_log = []\<rparr>"

definition f_normal :: NormalizedParams where
  "f_normal = \<lparr>n_signers = [AccountSignerInit.Delegated (Addr 3), f_key], effective_threshold = 2,
     n_account_salt = replicate 32 1\<rparr>"

lemma f_deployer: "deployer_ok f_host"
  by (auto simp: deployer_ok_def f_host_def Let_def split: if_splits)

lemma f_normalized: "normalize_params f_params = Inr f_normal"
  by code_simp

section \<open>Account factory: parameters\<close>

text \<open>
  Canonical signers.  The factory's insertion loop succeeds exactly when every signer has a
  valid shape and no signer occurs twice, and then returns the signers sorted by their
  comparison.
\<close>

theorem canonicalize_sorts:
  "canonicalize_signers ss = Inr cs \<longleftrightarrow>
     (\<forall>x \<in> set ss. validate_signer_shape x = Inr ()) \<and> distinct ss \<and> cs = sort ss"
  by (rule canonicalize_signers_Inr)

theorem canonicalize_sorts_witness:
  "canonicalize_signers [f_key, AccountSignerInit.Delegated (Addr 3)]
     = Inr [AccountSignerInit.Delegated (Addr 3), f_key]"
  using canonicalize_sorts [of "[f_key, AccountSignerInit.Delegated (Addr 3)]"
      "[AccountSignerInit.Delegated (Addr 3), f_key]"]
  by (simp add: f_key_def validate_signer_shape_def less_eq_AccountSignerInit_def)

text \<open>
  C23: Normalisation is sorting, with the threshold rules.  The factory's insertion loop returns the sorted
  signers exactly when every signer has a valid shape and none occurs twice.  Normalisation accepts at
  least one signer, valid distinct signers; a single signer with no threshold or threshold one (the
  effective threshold is one), several signers with an explicit threshold between one and their number.
  The result is the sorted signers, that threshold and the salt.
\<close>

theorem normalize_exact:
  assumes "length (signers p) < 2 ^ 32"
  shows "(canonicalize_signers (signers p) = Inr cs \<longleftrightarrow>
       (\<forall>x \<in> set (signers p). validate_signer_shape x = Inr ()) \<and> distinct (signers p) \<and> cs = sort (signers p))
     \<and> (normalize_params p = Inr n \<longleftrightarrow>
       signers p \<noteq> [] \<and> distinct (signers p)
       \<and> (\<forall>x \<in> set (signers p). validate_signer_shape x = Inr ())
       \<and> threshold_rule (threshold p) (length (signers p)) (effective_threshold n)
       \<and> n_signers n = sort (signers p) \<and> n_account_salt n = account_salt p)"
  using normalize_params_Inr [OF assms] canonicalize_signers_Inr by blast

theorem normalize_exact_witness: "n_signers f_normal = sort (signers f_params)"
  using normalize_exact [of f_params "[]" f_normal] f_normalized by (simp add: f_params_def)

text \<open>
  The account address does not depend on the order in which the signers are listed: two
  parameter sets that differ only in that order get the same address from every factory.
\<close>

theorem address_order_independent:
  assumes "mset (signers p) = mset (signers q)" "threshold p = threshold q"
    and "account_salt p = account_salt q" "length (signers p) < 2 ^ 32"
    and "get_account_address h e p = Inr a"
  shows "get_account_address h e q = Inr a"
  using assms normalize_params_perm [OF assms(1-4)] by (auto simp: get_account_address_Inr)

theorem address_order_independent_witness:
  "\<exists>a. get_account_address f_host f_env f_params = Inr a \<and> get_account_address f_host f_env f_params' = Inr a"
proof -
  obtain a where a: "get_account_address f_host f_env f_params = Inr a"
    using f_normalized by (auto simp: get_account_address_def)
  with address_order_independent [OF _ _ _ _ a, of f_params'] show ?thesis
    by (simp add: f_params'_def f_params_def)
qed

text \<open>
  C25: Accounts are bound to their parameters.  The byte string that is hashed determines the
  normalised parameters: two different normalised parameter sets with the same deployment salt
  exhibit a collision of the hash function, at those two byte strings.
\<close>

theorem salt_binds_parameters:
  assumes "xdr_ok A (to_xdr h)" "normalized_ok A m" "normalized_ok A n"
    and "compute_account_deploy_salt h m = compute_account_deploy_salt h n" "m \<noteq> n"
  shows "salt_preimage (to_xdr h) m \<noteq> salt_preimage (to_xdr h) n
     \<and> sha256 h (salt_preimage (to_xdr h) m) = sha256 h (salt_preimage (to_xdr h) n)"
  using assms salt_preimage_inject [OF _ assms(1-3)] by (auto simp: compute_account_deploy_salt_def)

theorem salt_binds_parameters_witness:
  "salt_preimage (to_xdr f_host) f_normal
     \<noteq> salt_preimage (to_xdr f_host) (f_normal\<lparr>effective_threshold := 1\<rparr>)"
proof -
  let ?h = "f_host\<lparr>sha256 := \<lambda>_. []\<rparr>"
  have "salt_preimage (to_xdr ?h) f_normal \<noteq> salt_preimage (to_xdr ?h) (f_normal\<lparr>effective_threshold := 1\<rparr>)
     \<and> sha256 ?h (salt_preimage (to_xdr ?h) f_normal)
       = sha256 ?h (salt_preimage (to_xdr ?h) (f_normal\<lparr>effective_threshold := 1\<rparr>))"
    by (rule salt_binds_parameters [of "{Addr 3}"])
      (simp_all add: xdr_ok_def normalized_ok_def encodable_def f_host_def f_normal_def f_key_def
        compute_account_deploy_salt_def)
  then show ?thesis by simp
qed

section \<open>Account factory: creation\<close>

text \<open>
  C26: Creation matches prediction and is idempotent.  A successful \<open>create_account\<close> returns
  the address \<open>get_account_address\<close> predicts, that address then has code, and creating again, with
  the signers in any order, returns the same address and leaves the world as it is.
\<close>

theorem create_account_idempotent:
  assumes "create_account h e p s w = Inr (a, s', w')" "deployer_ok h"
    and "mset (signers p) = mset (signers q)" "threshold p = threshold q"
    and "account_salt p = account_salt q" "length (signers p) < 2 ^ 32"
  shows "get_account_address h e p = Inr a \<and> executable h w' a
     \<and> (\<exists>s''. create_account h e q s' w' = Inr (a, s'', w'))"
proof -
  have ex: "executable h w' a" by (rule create_account_executable [OF assms(1,2)])
  from assms(1) obtain cfg n where n: "config s = Some cfg" "normalize_params p = Inr n"
    "a = deployed_address h (current_contract_address e) (compute_account_deploy_salt h n)"
    by (auto simp: create_account_Inr)
  then have "normalize_params q = Inr n" using normalize_params_perm [OF assms(3-6)] by simp
  with n ex create_account_config [OF assms(1)] show ?thesis
    by (auto simp: create_account_Inr get_account_address_Inr)
qed

theorem create_account_idempotent_witness:
  "\<exists>a s' w' s''. create_account f_host f_env f_params f_state [] = Inr (a, s', w')
     \<and> create_account f_host f_env f_params' s' w' = Inr (a, s'', w')"
proof -
  obtain a s' w' where c: "create_account f_host f_env f_params f_state [] = Inr (a, s', w')"
    using f_normalized
    by (simp add: create_account_def get_config_def extend_factory_ttl_def f_state_def f_host_def Let_def)
  from create_account_idempotent [OF c f_deployer, of f_params'] c show ?thesis
    by (auto simp: f_params'_def f_params_def)
qed

text \<open>
  What a newly created account is given.  When creation deploys, the account's constructor
  receives one signer per canonical signer, external ones bound to the configured verifier of their
  kind, and the threshold policy with the effective threshold exactly when there is more than one
  signer; with distinct verifiers the signers are distinct.
\<close>

theorem create_account_wiring:
  assumes "create_account h e p s w = Inr (a, s', w')" "\<not> executable h w a"
    and "length (signers p) < 2 ^ 32"
  shows "\<exists>cfg n. config s = Some cfg \<and> normalize_params p = Inr n
     \<and> a = deployed_address h (current_contract_address e) (compute_account_deploy_salt h n)
     \<and> threshold_rule (threshold p) (length (signers p)) (effective_threshold n)
     \<and> deploy_v2 h (current_contract_address e) (compute_account_deploy_salt h n)
         (smart_account_wasm_hash cfg) (map (build_signer cfg) (sort (signers p)))
         (if length (signers p) = 1 then []
          else [(threshold_policy cfg, \<lparr>simple_threshold = effective_threshold n\<rparr>)]) w = Some w'
     \<and> (ed25519_verifier cfg \<noteq> webauthn_verifier cfg
          \<longrightarrow> distinct (map (build_signer cfg) (sort (signers p))))"
proof -
  from assms(1,2) obtain cfg n where n: "config s = Some cfg" "normalize_params p = Inr n"
    "a = deployed_address h (current_contract_address e) (compute_account_deploy_salt h n)"
    "deploy_v2 h (current_contract_address e) (compute_account_deploy_salt h n)
       (smart_account_wasm_hash cfg) (build_account_signers cfg (n_signers n))
       (build_account_policies cfg (effective_threshold n) (of_nat (length (n_signers n)))) w = Some w'"
    by (auto simp: create_account_Inr)
  from n(2) have norm: "signers p \<noteq> []" "distinct (signers p)" "n_signers n = sort (signers p)"
    "threshold_rule (threshold p) (length (signers p)) (effective_threshold n)"
    by (simp_all add: normalize_params_Inr [OF assms(3)])
  have "ed25519_verifier cfg \<noteq> webauthn_verifier cfg \<longrightarrow>
      distinct (map (build_signer cfg) (sort (signers p)))"
    using build_signers_distinct [of "sort (signers p)" cfg] norm(2) by (simp add: build_account_signers_def)
  with n norm(3,4) show ?thesis
    unfolding normalized_policies [OF n(2) assms(3)] by (auto simp: build_account_signers_def)
qed

theorem create_account_wiring_witness:
  "\<exists>a s' w'. create_account f_host f_env f_params f_state [] = Inr (a, s', w')
     \<and> (\<exists>cfg. config f_state = Some cfg)"
proof -
  obtain a s' w' where c: "create_account f_host f_env f_params f_state [] = Inr (a, s', w')"
    using f_normalized
    by (simp add: create_account_def get_config_def extend_factory_ttl_def f_state_def f_host_def Let_def)
  have "\<not> executable f_host [] a" by (simp add: f_host_def)
  from create_account_wiring [OF c this] c show ?thesis by (auto simp: f_params_def)
qed

text \<open>
  The factory is configured once, with live singletons.  The constructor succeeds exactly on an
  unconfigured factory when the two verifiers and the threshold policy have code, and stores them; no account
  creation changes the configuration; and an unconfigured factory creates nothing.
\<close>

theorem factory_configured_once:
  "((\<exists>s'. factory_constructor h w hash ed wa tp s = Inr s'
        \<and> config s' = Some \<lparr>smart_account_wasm_hash = hash, ed25519_verifier = ed,
                           webauthn_verifier = wa, threshold_policy = tp\<rparr>) \<longleftrightarrow>
      config s = None \<and> executable h w ed \<and> executable h w wa \<and> executable h w tp)
   \<and> (config s = None \<longrightarrow> create_account h e p s w = Inl (Panic MissingConfig))
   \<and> (create_account h e p s w = Inr (a, s', w') \<longrightarrow> config s' = config s)"
proof (intro conjI impI)
  show "(\<exists>s'. factory_constructor h w hash ed wa tp s = Inr s'
        \<and> config s' = Some \<lparr>smart_account_wasm_hash = hash, ed25519_verifier = ed,
                           webauthn_verifier = wa, threshold_policy = tp\<rparr>) \<longleftrightarrow>
      config s = None \<and> executable h w ed \<and> executable h w wa \<and> executable h w tp"
    by (auto simp: factory_constructor_def validate_singleton_address_def result_simps
        extend_factory_ttl_def)
  show "config s = None \<Longrightarrow> create_account h e p s w = Inl (Panic MissingConfig)"
    by (simp add: create_account_def get_config_def extend_factory_ttl_def Let_def)
qed (rule create_account_config)

theorem factory_configured_once_witness:
  "create_account f_host f_env f_params (f_state\<lparr>config := None\<rparr>) [] = Inl (Panic MissingConfig)"
  using factory_configured_once [of f_host "[]" "[]" "Addr 1" "Addr 2" "Addr 3" "f_state\<lparr>config := None\<rparr>"
      f_env f_params] by simp

section \<open>Smart account\<close>

definition s_lib :: "(nat, unit, unit, unit) account_lib" where
  "s_lib = \<lparr>account_deploy_v2 = (\<lambda>d salt hash args w. Some (Addr w, w + 1)),
     add_context_rule = (\<lambda>t name until ss ps w. Some w), lib_batch_add_signer = (\<lambda>i ss w. Some w),
     lib_upgrade = (\<lambda>hash w. Some w), do_check_auth = (\<lambda>p sg cs w. Inr w),
     SMART_ACCOUNT_TTL_THRESHOLD = 10, SMART_ACCOUNT_EXTEND_AMOUNT = 20\<rparr>"

text \<open>
  C29: The deployment registry refines an append-only list.  In a state that represents the list
  \<open>xs\<close>, \<open>deploy_contract\<close> succeeds exactly when the host deploys and the counter has room, and then
  the new state represents \<open>xs\<close> with the deployed address and code hash appended; reading
  index \<open>i\<close> gives the \<open>i\<close>-th element and fails exactly beyond the end.
\<close>

theorem deploy_contract_refines:
  assumes "registry s xs"
  shows "(deploy_contract lib e hash salt args s w = Inr (a, s', w') \<longrightarrow>
            registry s' (xs @ [\<lparr>dc_address = a, dc_wasm_hash = hash\<rparr>])
            \<and> account_deploy_v2 lib (current_contract_address e) salt hash args w = Some (a, w'))
     \<and> ((\<exists>r. deploy_contract lib e hash salt args s w = Inr r) \<longleftrightarrow>
          account_deploy_v2 lib (current_contract_address e) salt hash args w \<noteq> None
          \<and> Suc (length xs) < 2 ^ 32)
     \<and> ((\<exists>t. get_deployed_contract lib i s = Inr (x, t)) \<longleftrightarrow> unat i < length xs \<and> x = xs ! unat i)"
proof (intro conjI impI)
  assume "deploy_contract lib e hash salt args s w = Inr (a, s', w')"
  then show "registry s' (xs @ [\<lparr>dc_address = a, dc_wasm_hash = hash\<rparr>])"
    "account_deploy_v2 lib (current_contract_address e) salt hash args w = Some (a, w')"
    by (auto simp: deploy_contract_def result_simps intro: deployments.add_rep [OF assms])
next
  show "(\<exists>r. deploy_contract lib e hash salt args s w = Inr r) \<longleftrightarrow>
          account_deploy_v2 lib (current_contract_address e) salt hash args w \<noteq> None
          \<and> Suc (length xs) < 2 ^ 32"
    using deployments.add_room [OF assms, of lib]
    by (auto simp: deploy_contract_def result_simps)
next
  show "(\<exists>t. get_deployed_contract lib i s = Inr (x, t)) \<longleftrightarrow> unat i < length xs \<and> x = xs ! unat i"
    by (rule deployments.get_rep [OF assms])
qed

theorem deploy_contract_refines_witness:
  "\<exists>s'. deploy_contract s_lib f_env [1] [2] [] init_account_state 40 = Inr (Addr 40, s', 41)
     \<and> registry s' [\<lparr>dc_address = Addr 40, dc_wasm_hash = [1]\<rparr>]"
proof -
  have "\<exists>s'. deploy_contract s_lib f_env [1] [2] [] init_account_state 40 = Inr (Addr 40, s', 41)"
    by (simp add: deploy_contract_def record_deployed_def s_lib_def init_account_state_def
        get_deployed_contract_count_def checked_add_word_def Let_def)
  with deploy_contract_refines [OF init_registry, of s_lib f_env "[1]" "[2]" "[]" 40 "Addr 40" _ 41]
  show ?thesis by auto
qed

text \<open>
  Deployment records are permanent.  An index that was readable stays readable and
  names the same contract after any further deployments, and from an empty registry any list of
  fewer than \<open>2\<^sup>3\<^sup>2\<close> deployments can be recorded.
\<close>

theorem deployments_permanent:
  assumes "registry s xs" "get_deployed_contract lib i s = Inr (x, t)"
    and "record_all (record_deployed lib) ys s = Inr s'"
  shows "\<exists>t'. get_deployed_contract lib i s' = Inr (x, t')"
  using assms by (rule deployments.get_stable)

theorem deployments_permanent_witness:
  "\<exists>s s' t'. record_deployed s_lib \<lparr>dc_address = Addr 40, dc_wasm_hash = [1]\<rparr> init_account_state = Inr s
     \<and> record_all (record_deployed s_lib) [\<lparr>dc_address = Addr 41, dc_wasm_hash = [2]\<rparr>] s = Inr s'
     \<and> get_deployed_contract s_lib 0 s' = Inr (\<lparr>dc_address = Addr 40, dc_wasm_hash = [1]\<rparr>, t')"
proof -
  let ?x = "\<lparr>dc_address = Addr 40, dc_wasm_hash = [1]\<rparr>" and ?y = "\<lparr>dc_address = Addr 41, dc_wasm_hash = [2]\<rparr>"
  obtain s where s: "record_deployed s_lib ?x init_account_state = Inr s"
    using deployments.add_room [OF init_registry] by auto
  have reg: "registry s [?x]" using deployments.add_rep [OF init_registry s] by simp
  obtain s' where s': "record_all (record_deployed s_lib) [?y] s = Inr s'"
    using deployments.add_all_total [OF reg, of "[?y]"] by auto
  obtain t where "get_deployed_contract s_lib 0 s = Inr (?x, t)"
    using deployments.get_rep [OF reg, of s_lib 0 ?x] by auto
  from deployments_permanent [OF reg this s'] s s' show ?thesis by blast
qed

text \<open>
  C33: What the account's entry points ask for.  In an environment that nobody authorised, adding signers
  and upgrading fail with a refused authorisation of the account, and with the account's authorisation
  they are the library's calls.  \<open>deploy_contract\<close> asks for nothing itself: in the same environment it
  deploys from the account's address whenever the host does, with code and arguments of the
  caller's choice, and records the result in the account's registry.  Its only protection is what the host
  demands of a contract that deploys from its own address.
\<close>

theorem account_entry_gates:
  assumes "\<forall>x. \<not> authorized e x" "registry s xs" "Suc (length xs) < 2 ^ 32"
    and "account_deploy_v2 lib (current_contract_address e) salt hash args w = Some (a, w')"
  shows "account_batch_add_signer lib e i ss w = Inl (AuthFailed (current_contract_address e))
     \<and> account_upgrade lib e hash op w = Inl (AuthFailed (current_contract_address e))
     \<and> (\<forall>e'. authorized e' (current_contract_address e') \<longrightarrow>
          account_batch_add_signer lib e' i ss w
            = unwrap_or (lib_batch_add_signer lib i ss w) (Trap CallReverted)
          \<and> account_upgrade lib e' hash op w = unwrap_or (lib_upgrade lib hash w) (Trap CallReverted))
     \<and> (\<exists>s'. deploy_contract lib e hash salt args s w = Inr (a, s', w')
          \<and> registry s' (xs @ [\<lparr>dc_address = a, dc_wasm_hash = hash\<rparr>]))"
proof -
  obtain s' where s': "record_deployed lib \<lparr>dc_address = a, dc_wasm_hash = hash\<rparr> s = Inr s'"
    using deployments.add_room [OF assms(2)] assms(3) by blast
  from deployments.add_rep [OF assms(2) s'] s' assms(1,4) show ?thesis
    by (simp add: account_batch_add_signer_def account_upgrade_def deploy_contract_def)
qed

theorem account_entry_gates_witness:
  "\<exists>s'. deploy_contract s_lib (f_env\<lparr>authorized := (\<lambda>_. False)\<rparr>) [1] [2] [] init_account_state 40
       = Inr (Addr 40, s', 41)
     \<and> registry s' [\<lparr>dc_address = Addr 40, dc_wasm_hash = [1]\<rparr>]"
  using account_entry_gates [OF _ init_registry, of "f_env\<lparr>authorized := (\<lambda>_. False)\<rparr>" s_lib "[2]" "[1]" "[]"
      40 "Addr 40" 41]
  by (simp add: s_lib_def)

section \<open>Signature verifiers\<close>

text \<open>
  C34: Accepted signatures stay accepted under canonical keys.  For each of the two curve verifiers, if every
  signature of a list verifies under its key, the batch canonicalisation of the keys succeeds, keeps
  their number and order, is idempotent, and every signature verifies under its canonical key.
\<close>

theorem batch_canonical_stable:
  "((\<forall>(k, sg) \<in> set ps. p256_verify host hash k sg = Inr True) \<longrightarrow>
      (\<exists>cks. p256_batch_canonicalize_key (map fst ps) = Inr cks \<and> length cks = length ps
        \<and> p256_batch_canonicalize_key cks = Inr cks
        \<and> (\<forall>(k, sg) \<in> set (zip cks (map snd ps)). p256_verify host hash k sg = Inr True)))
   \<and> ((\<forall>(k, sg) \<in> set ks. k1_verify recover hash k sg = Inr True) \<longrightarrow>
      (\<exists>cks. k1_batch_canonicalize_key (map fst ks) = Inr cks \<and> length cks = length ks
        \<and> k1_batch_canonicalize_key cks = Inr cks
        \<and> (\<forall>(k, sg) \<in> set (zip cks (map snd ks)). k1_verify recover hash k sg = Inr True)))"
  using p256.accepted_batch [of host hash ps] p256.batch_idem
    k1.accepted_batch [of recover hash ks] k1.batch_idem
  unfolding p256.accepted_def k1.accepted_def by blast

theorem batch_canonical_stable_witness:
  "\<exists>cks. k1_batch_canonicalize_key [4 # replicate 64 0] = Inr cks \<and> length cks = 1"
proof -
  let ?key = "4 # replicate 64 0 :: bytes"
  have "k1_verify (\<lambda>_ _ _. Some ?key) (replicate 32 0) ?key (replicate 65 0) = Inr True"
    by (simp add: k1_verify_iff vec_get_def)
  with batch_canonical_stable [of "[]" "\<lambda>_ _ _. True" "replicate 32 0" "[(?key, replicate 65 0)]"
      "\<lambda>_ _ _. Some ?key"]
  show ?thesis by auto
qed

text \<open>
  The WebAuthn verifier depends on the first 65 bytes of the key data only: registrations of
  one public key with different credential identifiers verify the same assertions, and key
  data shorter than 65 bytes verifies nothing.
\<close>

theorem webauthn_ignores_credential_id:
  assumes "extracts lib" "length key = 65"
  shows "webauthn_contract_verify lib hash (key @ credential) sig = webauthn_contract_verify lib hash key sig
     \<and> (length short < 65 \<longrightarrow> webauthn_contract_verify lib hash short sig = Inl (Trap UnwrapNone))"
  using assms by (auto simp: webauthn_contract_verify_eq split: option.splits)

definition w_lib :: "(unit, bytes) webauthn_lib" where
  "w_lib = \<lparr>sig_from_xdr = Some,
     extract_from_bytes = (\<lambda>bs a b. if b \<le> length bs then Some (take (b - a) (drop a bs)) else None),
     webauthn_lib_verify = (\<lambda>hash key sd. Inr True),
     webauthn_lib_canonicalize_key = (\<lambda>k. Inr (take 65 k)),
     webauthn_lib_batch_canonicalize_key = (\<lambda>ks. Inr (map (take 65) ks))\<rparr>"

theorem webauthn_ignores_credential_id_witness:
  "webauthn_contract_verify w_lib [1] (replicate 65 4 @ [9, 9]) [2]
   = webauthn_contract_verify w_lib [1] (replicate 65 4) [2]"
  using webauthn_ignores_credential_id [of w_lib "replicate 65 4" "[1]" "[9, 9]" "[2]" "[]"]
  by (simp add: extracts_def w_lib_def)

text \<open>
  C36: The hexadecimal message of the demonstration verifier.  The buffer loop never writes out of
  bounds for a 32-byte hash, the verifier accepts exactly the signatures the host accepts over the
  fixed prefix followed by the hash in hexadecimal, that message has 92 bytes, and it determines the
  hash: decoding the tail gives it back.
\<close>

theorem modified_accepts:
  "(modified_verify host hash key sig = Inr b \<longleftrightarrow>
      b \<and> length hash = 32 \<and> host key (AUTH_PREFIX @ hex hash) sig)
   \<and> unhex (drop 28 (AUTH_PREFIX @ hex hash)) = hash
   \<and> hex_encode_lower (replicate (2 * length hash) 0) hash = (Inr (hex hash) :: ('e, bytes) result)"
  by (simp add: modified_verify_iff unhex_hex hex_encode_lower_eq)

section \<open>Fee forwarder\<close>

text \<open>
  A small library: the world is the set of role members and the admin; members may renounce and
  the admin may grant.
\<close>

definition r_lib :: "((address \<times> symbol) set \<times> address option, unit, unit) fee_lib" where
  "r_lib = \<lparr>set_admin = (\<lambda>a (R, ad). (R, Some a)), grant_role_no_auth = (\<lambda>a r c (R, ad). (insert (a, r) R, ad)),
     has_role = (\<lambda>(R, ad) a r. (a, r) \<in> R),
     only_role = (\<lambda>e a r (R, ad). if (a, r) \<in> R \<and> authorized e a then Inr () else Inl (AuthFailed a)),
     collect_fee_and_invoke = (\<lambda>e tk f m x tc tf args u rc ap w. Inr ((), w)),
     set_allowed_fee_token = (\<lambda>tk b w. Inr w), sweep_token = (\<lambda>e tk to w. Inr (0, w))\<rparr>"

definition r_access :: "((address \<times> symbol) set \<times> address option) access_lib" where
  "r_access = \<lparr>admin_of = snd, pending_admin = (\<lambda>_. None), role_admin = (\<lambda>_ _. None),
     access_step = (\<lambda>e (R, ad) (R', ad'). ad' = ad \<and>
        ((\<exists>a r. authorized e a \<and> R' = R - {(a, r)})
         \<or> (\<exists>x a r. ad = Some x \<and> authorized e x \<and> R' = insert (a, r) R)))\<rparr>"

lemma r_laws: "role_laws r_lib"
  by (auto simp: role_laws_def r_lib_def)

lemma r_access_laws: "access_laws r_lib r_access"
  by (auto simp: access_laws_def access_step_laws_def same_access_def admin_signs_def r_lib_def r_access_def)

text \<open>
  C37: Who can use the forwarder, over its whole life.  Take any history of forwards, fee-token
  changes, sweeps, access-control calls and activity of other contracts in which no call carries the
  admin's authorisation.  At its end every role member is one the constructor named; \<open>forward\<close> succeeds
  only for a relayer among the executors that authorised the call, and then it is the fee collection
  with the forwarder itself as the recipient; enabling, disabling and sweeping fee tokens succeed only
  for the constructor's manager, authorised.
\<close>

theorem forwarder_history:
  assumes "role_laws lib" "access_laws lib ac" "untouched lib ac w0"
    and "forwarder_reachable lib ac (\<lambda>e. \<not> authorized e admin)
           (forwarder_constructor lib admin manager executors w0) w"
  shows "(has_role lib w a r \<longrightarrow> (a = manager \<and> r = ''manager'') \<or> (a \<in> set executors \<and> r = ''executor''))
     \<and> (forward lib e tk fee max_fee expiry tc tf args user relayer w = Inr x \<longrightarrow>
            relayer \<in> set executors \<and> authorized e relayer
            \<and> collect_fee_and_invoke lib e tk fee max_fee expiry tc tf args user
                (current_contract_address e) Lazy w = Inr x)
     \<and> (enable_fee_token lib e tk op w = Inr w' \<longrightarrow> op = manager \<and> authorized e op)
     \<and> (disable_fee_token lib e tk op w = Inr w' \<longrightarrow> op = manager \<and> authorized e op)
     \<and> (sweep_tokens lib e tk to op w = Inr y \<longrightarrow> op = manager \<and> authorized e op)"
proof -
  have gate: "has_role lib w a r \<longrightarrow>
      (a = manager \<and> r = ''manager'') \<or> (a \<in> set executors \<and> r = ''executor'')" for a r
    using reachable_roles_within [OF assms(4,2) constructed_roles_within [OF assms(1-3)]]
    by (auto simp: roles_within_def initial_role_def MANAGER_ROLE_def EXECUTOR_ROLE_def)
  show ?thesis
    using gate
    by (auto simp: forward_def enable_fee_token_def disable_fee_token_def sweep_tokens_def result_simps
        dest!: role_gate [OF assms(1)])
qed

text \<open>One of two executors renounces its role; the other still forwards.\<close>

definition r_start :: "(address \<times> symbol) set \<times> address option" where
  "r_start = forwarder_constructor r_lib (Addr 1) (Addr 2) [Addr 9, Addr 8] ({}, None)"

definition r_end :: "(address \<times> symbol) set \<times> address option" where
  "r_end = ({(Addr 2, ''manager''), (Addr 9, ''executor'')}, Some (Addr 1))"

theorem forwarder_history_witness:
  "forward r_lib f_env (Addr 5) 1 2 3 (Addr 6) ''f'' [] (Addr 7) (Addr 9) r_end = Inr ((), r_end)
   \<and> Addr 9 \<in> set [Addr 9, Addr 8]"
proof -
  have start: "r_start = ({(Addr 2, ''manager''), (Addr 9, ''executor''), (Addr 8, ''executor'')}, Some (Addr 1))"
    by (auto simp: r_start_def forwarder_constructor_def r_lib_def MANAGER_ROLE_def EXECUTOR_ROLE_def)
  have "access_step r_access (f_env\<lparr>authorized := (\<lambda>a. a = Addr 8)\<rparr>) r_start r_end"
    unfolding start
    by (auto simp: r_access_def r_end_def intro!: exI [of _ "Addr 8"] exI [of _ "''executor''"])
  from forwarder_reachable.Managed [where lib = r_lib and E = "\<lambda>e. \<not> authorized e (Addr 1)",
      OF forwarder_reachable.Constructed _ this]
  have r: "forwarder_reachable r_lib r_access (\<lambda>e. \<not> authorized e (Addr 1))
      (forwarder_constructor r_lib (Addr 1) (Addr 2) [Addr 9, Addr 8] ({}, None)) r_end"
    by (simp add: r_start_def)
  have "untouched r_lib r_access ({}, None)" by (simp add: untouched_def r_lib_def r_access_def)
  note used = forwarder_history [OF r_laws r_access_laws this r, THEN conjunct2, THEN conjunct1, rule_format]
  have f: "forward r_lib f_env (Addr 5) 1 2 3 (Addr 6) ''f'' [] (Addr 7) (Addr 9) r_end = Inr ((), r_end)"
    by (simp add: forward_def r_lib_def r_end_def f_env_def)
  with used [OF f] show ?thesis by blast
qed

end
