(* ===== verification/Policy_Shells.thy ===== *)
theory Policy_Shells
  imports Policy_Store
begin

text \<open>
  The three policy contracts that only wrap library policies: \<open>src/policies/threshold-policy\<close>,
  \<open>weighted-threshold-policy\<close> and \<open>spending-limit-policy\<close>.  Each entry point is one call into the
  \<open>stellar-accounts\<close> crate, so the model is the delegation, over the library as a parameter.  The
  lemmas say what the shells add and what they do not: a history of calls to a shell is the same
  history of calls to the library, so every law the library policy satisfies holds of the shell.
\<close>

record ('p, 's, 'e) policy_lib =
  lib_enforce :: "env \<Rightarrow> Context \<Rightarrow> Signer list \<Rightarrow> ContextRule \<Rightarrow> address \<Rightarrow> 's \<Rightarrow> ('e, 's) result"
  lib_install :: "env \<Rightarrow> 'p \<Rightarrow> ContextRule \<Rightarrow> address \<Rightarrow> 's \<Rightarrow> ('e, 's) result"
  lib_uninstall :: "env \<Rightarrow> ContextRule \<Rightarrow> address \<Rightarrow> 's \<Rightarrow> ('e, 's) result"

record ('p, 's, 'e) threshold_lib = "('p, 's, 'e) policy_lib" +
  lib_get_threshold :: "u32 \<Rightarrow> address \<Rightarrow> 's \<Rightarrow> ('e, u32 \<times> 's) result"
  lib_set_threshold :: "env \<Rightarrow> u32 \<Rightarrow> ContextRule \<Rightarrow> address \<Rightarrow> 's \<Rightarrow> ('e, 's) result"

record ('p, 's, 'e) weighted_lib = "('p, 's, 'e) threshold_lib" +
  lib_get_signer_weights :: "ContextRule \<Rightarrow> address \<Rightarrow> 's \<Rightarrow> ('e, (Signer \<times> u32) list \<times> 's) result"
  lib_set_signer_weight :: "env \<Rightarrow> Signer \<Rightarrow> u32 \<Rightarrow> ContextRule \<Rightarrow> address \<Rightarrow> 's \<Rightarrow> ('e, 's) result"

record ('p, 's, 'e, 'd) spending_lib = "('p, 's, 'e) policy_lib" +
  lib_get_spending_limit_data :: "u32 \<Rightarrow> address \<Rightarrow> 's \<Rightarrow> ('e, 'd \<times> 's) result"
  lib_set_spending_limit :: "env \<Rightarrow> i128 \<Rightarrow> ContextRule \<Rightarrow> address \<Rightarrow> 's \<Rightarrow> ('e, 's) result"

section \<open>Threshold policy\<close>

definition threshold_enforce ::
  "('p, 's, 'e) threshold_lib \<Rightarrow> env \<Rightarrow> Context \<Rightarrow> Signer list \<Rightarrow> ContextRule \<Rightarrow> address \<Rightarrow> 's
   \<Rightarrow> ('e, 's) result" where
  "threshold_enforce lib e ctx authenticated_signers context_rule smart_account s =
     lib_enforce lib e ctx authenticated_signers context_rule smart_account s"

definition threshold_install ::
  "('p, 's, 'e) threshold_lib \<Rightarrow> env \<Rightarrow> 'p \<Rightarrow> ContextRule \<Rightarrow> address \<Rightarrow> 's \<Rightarrow> ('e, 's) result" where
  "threshold_install lib e install_params context_rule smart_account s =
     lib_install lib e install_params context_rule smart_account s"

definition threshold_uninstall ::
  "('p, 's, 'e) threshold_lib \<Rightarrow> env \<Rightarrow> ContextRule \<Rightarrow> address \<Rightarrow> 's \<Rightarrow> ('e, 's) result" where
  "threshold_uninstall lib e context_rule smart_account s =
     lib_uninstall lib e context_rule smart_account s"

definition threshold_get_threshold ::
  "('p, 's, 'e) threshold_lib \<Rightarrow> u32 \<Rightarrow> address \<Rightarrow> 's \<Rightarrow> ('e, u32 \<times> 's) result" where
  "threshold_get_threshold lib context_rule_id smart_account s =
     lib_get_threshold lib context_rule_id smart_account s"

definition threshold_set_threshold ::
  "('p, 's, 'e) threshold_lib \<Rightarrow> env \<Rightarrow> u32 \<Rightarrow> ContextRule \<Rightarrow> address \<Rightarrow> 's \<Rightarrow> ('e, 's) result" where
  "threshold_set_threshold lib e t context_rule smart_account s =
     lib_set_threshold lib e t context_rule smart_account s"

section \<open>Weighted threshold policy\<close>

definition weighted_enforce ::
  "('p, 's, 'e) weighted_lib \<Rightarrow> env \<Rightarrow> Context \<Rightarrow> Signer list \<Rightarrow> ContextRule \<Rightarrow> address \<Rightarrow> 's
   \<Rightarrow> ('e, 's) result" where
  "weighted_enforce lib e ctx authenticated_signers context_rule smart_account s =
     lib_enforce lib e ctx authenticated_signers context_rule smart_account s"

definition weighted_install ::
  "('p, 's, 'e) weighted_lib \<Rightarrow> env \<Rightarrow> 'p \<Rightarrow> ContextRule \<Rightarrow> address \<Rightarrow> 's \<Rightarrow> ('e, 's) result" where
  "weighted_install lib e install_params context_rule smart_account s =
     lib_install lib e install_params context_rule smart_account s"

definition weighted_uninstall ::
  "('p, 's, 'e) weighted_lib \<Rightarrow> env \<Rightarrow> ContextRule \<Rightarrow> address \<Rightarrow> 's \<Rightarrow> ('e, 's) result" where
  "weighted_uninstall lib e context_rule smart_account s =
     lib_uninstall lib e context_rule smart_account s"

definition weighted_get_threshold ::
  "('p, 's, 'e) weighted_lib \<Rightarrow> u32 \<Rightarrow> address \<Rightarrow> 's \<Rightarrow> ('e, u32 \<times> 's) result" where
  "weighted_get_threshold lib context_rule_id smart_account s =
     lib_get_threshold lib context_rule_id smart_account s"

definition weighted_get_signer_weights ::
  "('p, 's, 'e) weighted_lib \<Rightarrow> ContextRule \<Rightarrow> address \<Rightarrow> 's
   \<Rightarrow> ('e, (Signer \<times> u32) list \<times> 's) result" where
  "weighted_get_signer_weights lib context_rule smart_account s =
     lib_get_signer_weights lib context_rule smart_account s"

definition weighted_set_threshold ::
  "('p, 's, 'e) weighted_lib \<Rightarrow> env \<Rightarrow> u32 \<Rightarrow> ContextRule \<Rightarrow> address \<Rightarrow> 's \<Rightarrow> ('e, 's) result" where
  "weighted_set_threshold lib e t context_rule smart_account s =
     lib_set_threshold lib e t context_rule smart_account s"

definition weighted_set_signer_weight ::
  "('p, 's, 'e) weighted_lib \<Rightarrow> env \<Rightarrow> Signer \<Rightarrow> u32 \<Rightarrow> ContextRule \<Rightarrow> address \<Rightarrow> 's
   \<Rightarrow> ('e, 's) result" where
  "weighted_set_signer_weight lib e signer weight context_rule smart_account s =
     lib_set_signer_weight lib e signer weight context_rule smart_account s"

section \<open>Spending limit policy\<close>

definition spending_enforce ::
  "('p, 's, 'e, 'd) spending_lib \<Rightarrow> env \<Rightarrow> Context \<Rightarrow> Signer list \<Rightarrow> ContextRule \<Rightarrow> address \<Rightarrow> 's
   \<Rightarrow> ('e, 's) result" where
  "spending_enforce lib e ctx authenticated_signers context_rule smart_account s =
     lib_enforce lib e ctx authenticated_signers context_rule smart_account s"

definition spending_install ::
  "('p, 's, 'e, 'd) spending_lib \<Rightarrow> env \<Rightarrow> 'p \<Rightarrow> ContextRule \<Rightarrow> address \<Rightarrow> 's \<Rightarrow> ('e, 's) result" where
  "spending_install lib e install_params context_rule smart_account s =
     lib_install lib e install_params context_rule smart_account s"

definition spending_uninstall ::
  "('p, 's, 'e, 'd) spending_lib \<Rightarrow> env \<Rightarrow> ContextRule \<Rightarrow> address \<Rightarrow> 's \<Rightarrow> ('e, 's) result" where
  "spending_uninstall lib e context_rule smart_account s =
     lib_uninstall lib e context_rule smart_account s"

definition get_spending_limit_data ::
  "('p, 's, 'e, 'd) spending_lib \<Rightarrow> u32 \<Rightarrow> address \<Rightarrow> 's \<Rightarrow> ('e, 'd \<times> 's) result" where
  "get_spending_limit_data lib context_rule_id smart_account s =
     lib_get_spending_limit_data lib context_rule_id smart_account s"

definition set_spending_limit ::
  "('p, 's, 'e, 'd) spending_lib \<Rightarrow> env \<Rightarrow> i128 \<Rightarrow> ContextRule \<Rightarrow> address \<Rightarrow> 's \<Rightarrow> ('e, 's) result" where
  "set_spending_limit lib e limit context_rule smart_account s =
     lib_set_spending_limit lib e limit context_rule smart_account s"

section \<open>Histories of shell calls\<close>

lemma policy_run_cong:
  assumes "\<And>e p r a s. ins e p r a s = ins' e p r a s" "\<And>e r a s. uns e r a s = uns' e r a s"
    "\<And>e c sg r a s. enf e c sg r a s = enf' e c sg r a s"
  shows "policy_run ins uns enf cs s = policy_run ins' uns' enf' cs s"
proof -
  have "policy_step ins uns enf c s = policy_step ins' uns' enf' c s" for c s
    by (cases c) (simp_all add: assms)
  then show ?thesis by (induction cs arbitrary: s) simp_all
qed

lemma threshold_history:
  "policy_run (threshold_install lib) (threshold_uninstall lib) (threshold_enforce lib) cs s
   = policy_run (lib_install lib) (lib_uninstall lib) (lib_enforce lib) cs s"
  by (rule policy_run_cong)
    (simp_all add: threshold_install_def threshold_uninstall_def threshold_enforce_def)

lemma weighted_history:
  "policy_run (weighted_install lib) (weighted_uninstall lib) (weighted_enforce lib) cs s
   = policy_run (lib_install lib) (lib_uninstall lib) (lib_enforce lib) cs s"
  by (rule policy_run_cong)
    (simp_all add: weighted_install_def weighted_uninstall_def weighted_enforce_def)

lemma spending_history_shell:
  "policy_run (spending_install lib) (spending_uninstall lib) (spending_enforce lib) cs s
   = policy_run (lib_install lib) (lib_uninstall lib) (lib_enforce lib) cs s"
  by (rule policy_run_cong)
    (simp_all add: spending_install_def spending_uninstall_def spending_enforce_def)

end
