(* ===== verification/Storage_Life.thy ===== *)
theory Storage_Life
  imports Soroban_Env
begin

text \<open>
  How long stored entries live.  Every persistent or instance entry carries the last ledger at
  which it can be used; after that it is archived and a call that touches it fails until it is
  restored out of band.  The contracts ask for extensions through \<open>extend_ttl(threshold, extend_to)\<close>,
  logged as \<open>ExtendTtl\<close> effects; this theory gives those effects their documented meaning and shows,
  once for every pair of constants a contract uses, how often an entry has to be used to stay alive.
  The network's own limits are parameters.
\<close>

record network =
  min_persistent_ttl :: int
  max_entry_ttl :: int

text \<open>Ledger numbers end at \<open>u32::MAX\<close>; the host saturates there.\<close>

definition last_ledger :: int where
  "last_ledger = 2 ^ 32 - 1"

definition until :: "u32 \<Rightarrow> int \<Rightarrow> int" where
  "until now ttl = min (uint now + ttl) last_ledger"

type_synonym 'k lifetimes = "'k \<Rightarrow> int option"

definition is_live :: "u32 \<Rightarrow> 'k lifetimes \<Rightarrow> 'k \<Rightarrow> bool" where
  "is_live now m k = (case m k of None \<Rightarrow> False | Some u \<Rightarrow> uint now \<le> u)"

definition get_ttl :: "u32 \<Rightarrow> 'k lifetimes \<Rightarrow> 'k \<Rightarrow> int option" where
  "get_ttl now m k = map_option (\<lambda>u. u - uint now) (m k)"

text \<open>
  \<open>extend_ttl\<close>: when at most \<open>threshold\<close> ledgers are left, the entry lives \<open>extend_to\<close> ledgers from now,
  as far as the network allows; it never shortens a life.
\<close>

definition extend_ttl :: "network \<Rightarrow> u32 \<Rightarrow> u32 \<Rightarrow> u32 \<Rightarrow> int \<Rightarrow> int" where
  "extend_ttl net now threshold extend_to u =
     (if u - uint now \<le> uint threshold
      then max u (until now (min (uint extend_to) (max_entry_ttl net - 1)))
      else u)"

text \<open>A new entry starts with the network's minimum.\<close>

definition fresh_until :: "network \<Rightarrow> u32 \<Rightarrow> int" where
  "fresh_until net now = until now (min_persistent_ttl net - 1)"

fun apply_effect :: "network \<Rightarrow> u32 \<Rightarrow> ('k, 'ev) effect \<Rightarrow> 'k lifetimes \<Rightarrow> 'k lifetimes" where
  "apply_effect net now (ExtendTtl k t x) m = m(k := map_option (extend_ttl net now t x) (m k))"
| "apply_effect net now (Publish ev) m = m"

definition apply_effects ::
  "network \<Rightarrow> u32 \<Rightarrow> ('k, 'ev) effect list \<Rightarrow> 'k lifetimes \<Rightarrow> 'k lifetimes" where
  "apply_effects net now xs m = fold (apply_effect net now) xs m"

text \<open>The effects an invocation added to a log.\<close>

definition new_effects :: "'x list \<Rightarrow> 'x list \<Rightarrow> 'x list" where
  "new_effects old new = drop (length old) new"

lemma new_effects_append [simp]: "new_effects xs (xs @ ys) = ys"
  by (simp add: new_effects_def)

lemma apply_effects_simps [simp]:
  "apply_effects net now [] m = m"
  "apply_effects net now (ExtendTtl k t x # xs) m =
     apply_effects net now xs (m(k := map_option (extend_ttl net now t x) (m k)))"
  "apply_effects net now (Publish ev # xs) m = apply_effects net now xs m"
  by (simp_all add: apply_effects_def)

lemma apply_effects_publish [simp]: "apply_effects net now (map Publish evs) m = m"
  by (induction evs) simp_all

lemma extend_ttl_ge: "u \<le> extend_ttl net now t x u"
  by (simp add: extend_ttl_def)

text \<open>No request shortens a life.\<close>

lemma apply_effects_longer:
  "m k = Some u \<Longrightarrow> \<exists>u' \<ge> u. apply_effects net now xs m k = Some u'"
proof (induction xs arbitrary: m u)
  case Nil
  then show ?case by simp
next
  case (Cons x xs)
  show ?case
  proof (cases x)
    case (ExtendTtl k' t y)
    let ?m = "m(k' := map_option (extend_ttl net now t y) (m k'))"
    obtain v where v: "?m k = Some v" "u \<le> v"
      using Cons.prems extend_ttl_ge [of u net now t y] by (cases "k = k'") auto
    from Cons.IH [of ?m v, OF v(1)] obtain u' where "v \<le> u'" "apply_effects net now xs ?m k = Some u'"
      by blast
    with v(2) ExtendTtl show ?thesis by (intro exI [of _ u']) simp
  next
    case (Publish ev)
    with Cons show ?thesis by simp
  qed
qed

lemma apply_effects_live: "is_live now m k \<Longrightarrow> is_live now (apply_effects net now xs m) k"
  using apply_effects_longer [of m k _ net now xs]
  by (fastforce simp: is_live_def split: option.splits)

section \<open>Staying alive\<close>

lemma uint_le_last: "uint (w :: u32) \<le> last_ledger"
  using uint_lt2p [of w] by (simp add: last_ledger_def)

lemma until_reaches:
  fixes now :: u32
  shows "until t n \<le> u \<Longrightarrow> uint now \<le> uint t + n \<Longrightarrow> uint now \<le> u"
  using uint_le_last [of now] by (auto simp: until_def min_def split: if_splits)

text \<open>The ledgers \<open>ts\<close> follow each other, from \<open>t\<close> on, at distances of at most \<open>n\<close>.\<close>

fun gaps_within :: "int \<Rightarrow> u32 \<Rightarrow> u32 list \<Rightarrow> bool" where
  "gaps_within n t [] = True"
| "gaps_within n t (t' # ts) \<longleftrightarrow> t \<le> t' \<and> uint t' \<le> uint t + n \<and> gaps_within n t' ts"

text \<open>The life of one entry that is refreshed at each of the ledgers \<open>ts\<close>.\<close>

definition refresh_all :: "network \<Rightarrow> u32 \<Rightarrow> u32 \<Rightarrow> u32 list \<Rightarrow> int \<Rightarrow> int" where
  "refresh_all net threshold extend_to ts u = fold (\<lambda>t. extend_ttl net t threshold extend_to) ts u"

text \<open>
  A contract's pair of constants.  The threshold is below the extension, and the network admits the
  extension.
\<close>

locale ttl_constants =
  fixes threshold extend_to :: u32
  assumes threshold_below: "threshold < extend_to"
begin

lemma extend_lives:
  assumes "uint extend_to < max_entry_ttl net"
  shows "until now (uint threshold + 1) \<le> extend_ttl net now threshold extend_to u"
proof -
  have lt: "uint threshold < uint extend_to" using threshold_below by (simp add: word_less_def)
  show ?thesis
  proof (cases "u - uint now \<le> uint threshold")
    case True
    have "until now (uint threshold + 1) \<le> until now (uint extend_to)"
      using lt by (simp add: until_def)
    with True assms show ?thesis by (simp add: extend_ttl_def min_absorb1 le_max_iff_disj)
  next
    case False
    then show ?thesis by (simp add: extend_ttl_def until_def)
  qed
qed

lemma refreshed_live:
  fixes now :: u32
  assumes "uint extend_to < max_entry_ttl net"
    and "until t (uint threshold + 1) \<le> u" "gaps_within (uint threshold + 1) t ts"
    and "uint now \<le> uint (last (t # ts)) + uint threshold + 1"
  shows "uint now \<le> refresh_all net threshold extend_to ts u"
  using assms(2-)
proof (induction ts arbitrary: t u)
  case Nil
  with until_reaches [of t _ u now] show ?case by (simp add: refresh_all_def algebra_simps)
next
  case (Cons t' ts)
  let ?u = "extend_ttl net t' threshold extend_to u"
  have "uint now \<le> refresh_all net threshold extend_to ts ?u"
    using Cons.IH [OF extend_lives [OF assms(1)]] Cons.prems by simp
  then show ?case by (simp add: refresh_all_def)
qed

end

end
