(* ===== verification/Vault_Life.thy ===== *)
theory Vault_Life
  imports Timelock_Vault Storage_Life
begin

text \<open>
  The timelock vault with the lives of its two stored entries.  Deposits, withdrawals and the
  permissionless \<open>bump_ttl\<close> refresh both entries; a call at a ledger where one of them is archived
  fails before it runs.  The lemmas show how often the vault has to be used so that the owner can
  still withdraw after an arbitrarily long lock.
\<close>

section \<open>Calls\<close>

datatype vault_call =
    CallDeposit address address i128
  | CallWithdraw address i128 address
  | CallBump

fun vault_exec ::
  "'w token_transfer \<Rightarrow> env \<Rightarrow> vault_call \<Rightarrow> vault_state \<Rightarrow> 'w
   \<Rightarrow> (VaultError, vault_state \<times> 'w) result" where
  "vault_exec transfer e (CallDeposit depositor tk amount) s w = deposit transfer e depositor tk amount s w"
| "vault_exec transfer e (CallWithdraw tk amount recipient) s w =
     withdraw transfer e tk amount recipient s w"
| "vault_exec transfer e CallBump s w = res_bind (bump_ttl s) (\<lambda>s'. Inr (s', w))"

record 'w living_vault =
  lv_state :: vault_state
  lv_world :: 'w
  lv_life :: "vault_key lifetimes"

text \<open>A vault right after its constructor ran.\<close>

definition vault_born :: "network \<Rightarrow> env \<Rightarrow> vault_state \<Rightarrow> 'w \<Rightarrow> 'w living_vault" where
  "vault_born net e s w =
     \<lparr>lv_state = s, lv_world = w,
      lv_life = apply_effects net (ledger_sequence e) (vault_log s)
        (\<lambda>_. Some (fresh_until net (ledger_sequence e)))\<rparr>"

definition living_call ::
  "network \<Rightarrow> 'w token_transfer \<Rightarrow> env \<Rightarrow> vault_call \<Rightarrow> 'w living_vault
   \<Rightarrow> (VaultError, 'w living_vault) result" where
  "living_call net transfer e c v =
     res_bind (guard (is_live (ledger_sequence e) (lv_life v) Owner
                      \<and> is_live (ledger_sequence e) (lv_life v) UnlockLedger)
                (Trap EntryArchived)) (\<lambda>_.
     res_bind (vault_exec transfer e c (lv_state v) (lv_world v)) (\<lambda>(s', w').
     Inr \<lparr>lv_state = s', lv_world = w',
          lv_life = apply_effects net (ledger_sequence e)
            (new_effects (vault_log (lv_state v)) (vault_log s')) (lv_life v)\<rparr>))"

fun living_run ::
  "network \<Rightarrow> 'w token_transfer \<Rightarrow> (env \<times> vault_call) list \<Rightarrow> 'w living_vault \<Rightarrow> 'w living_vault" where
  "living_run net transfer [] v = v"
| "living_run net transfer ((e, c) # cs) v =
     living_run net transfer cs (commit v (living_call net transfer e c v))"

section \<open>Every successful call refreshes both entries\<close>

lemma vault_key_cases: "(\<forall>k :: vault_key. P k) \<longleftrightarrow> P Owner \<and> P UnlockLedger"
  by (metis vault_key.exhaust)

lemma refresh_both:
  assumes "vault_log s' = vault_log s
     @ ExtendTtl Owner TTL_THRESHOLD EXTEND_AMOUNT # ExtendTtl UnlockLedger TTL_THRESHOLD EXTEND_AMOUNT
     # map Publish evs"
  shows "apply_effects net now (new_effects (vault_log s) (vault_log s')) m
         = (\<lambda>k. map_option (extend_ttl net now TTL_THRESHOLD EXTEND_AMOUNT) (m k))"
proof
  fix k
  show "apply_effects net now (new_effects (vault_log s) (vault_log s')) m k
        = map_option (extend_ttl net now TTL_THRESHOLD EXTEND_AMOUNT) (m k)"
    unfolding assms by (cases k) simp_all
qed

lemma vault_exec_log:
  assumes "vault_exec transfer e c s w = Inr (s', w')"
  shows "\<exists>evs. vault_log s' = vault_log s
     @ ExtendTtl Owner TTL_THRESHOLD EXTEND_AMOUNT # ExtendTtl UnlockLedger TTL_THRESHOLD EXTEND_AMOUNT
     # map Publish evs"
proof (cases c)
  case (CallDeposit a b x)
  with assms show ?thesis
    by (auto simp: deposit_Inr result_simps vault_publish_def intro: exI [of _ "[_]"])
next
  case (CallWithdraw a x b)
  with assms show ?thesis
    by (auto simp: withdraw_Inr result_simps vault_publish_def intro: exI [of _ "[_]"])
next
  case CallBump
  with assms show ?thesis
    by (auto simp: bump_ttl_def result_simps intro: exI [of _ "[]"])
qed

lemma vault_exec_cfg:
  "vault_exec transfer e c s w = Inr (s', w') \<Longrightarrow> vault_cfg s' ow u \<longleftrightarrow> vault_cfg s ow u"
  by (cases c) (auto simp: bump_ttl_def result_simps deposit_cfg withdraw_cfg)

lemma living_call_Inr:
  "living_call net transfer e c v = Inr v' \<longleftrightarrow>
     (\<forall>k. is_live (ledger_sequence e) (lv_life v) k)
     \<and> vault_exec transfer e c (lv_state v) (lv_world v) = Inr (lv_state v', lv_world v')
     \<and> lv_life v' = (\<lambda>k. map_option
          (extend_ttl net (ledger_sequence e) TTL_THRESHOLD EXTEND_AMOUNT) (lv_life v k))"
  (is "?l \<longleftrightarrow> ?r")
proof -
  have life: "apply_effects net (ledger_sequence e)
      (new_effects (vault_log (lv_state v)) (vault_log s')) (lv_life v)
    = (\<lambda>k. map_option (extend_ttl net (ledger_sequence e) TTL_THRESHOLD EXTEND_AMOUNT) (lv_life v k))"
    if "vault_exec transfer e c (lv_state v) (lv_world v) = Inr (s', w')" for s' w'
    using vault_exec_log [OF that] refresh_both by blast
  show ?thesis
    by (cases v') (auto simp: living_call_def result_simps vault_key_cases life)
qed

section \<open>Staying alive\<close>

interpretation vault_ttl: ttl_constants TTL_THRESHOLD EXTEND_AMOUNT
  by unfold_locales (simp add: TTL_THRESHOLD_def EXTEND_AMOUNT_def DAY_IN_LEDGERS_def word_less_def)

text \<open>What one refresh is good for: one ledger more than the threshold.\<close>

definition KEEP_ALIVE :: int where
  "KEEP_ALIVE = uint TTL_THRESHOLD + 1"

definition kept :: "u32 \<Rightarrow> 'w living_vault \<Rightarrow> bool" where
  "kept t v \<longleftrightarrow> (\<forall>k. \<exists>u. lv_life v k = Some u \<and> until t KEEP_ALIVE \<le> u)"

text \<open>
  A history in which \<open>bump_ttl\<close> is called often enough: every call, and the end, comes at most
  \<open>KEEP_ALIVE\<close> ledgers after the last bump.
\<close>

fun bumped :: "u32 \<Rightarrow> (env \<times> vault_call) list \<Rightarrow> bool" where
  "bumped t [] = True"
| "bumped t ((e, c) # cs) \<longleftrightarrow>
     t \<le> ledger_sequence e \<and> uint (ledger_sequence e) \<le> uint t + KEEP_ALIVE
     \<and> bumped (if c = CallBump then ledger_sequence e else t) cs"

fun last_bump :: "u32 \<Rightarrow> (env \<times> vault_call) list \<Rightarrow> u32" where
  "last_bump t [] = t"
| "last_bump t ((e, c) # cs) = last_bump (if c = CallBump then ledger_sequence e else t) cs"

lemma kept_live:
  assumes "kept t v" "uint now \<le> uint t + KEEP_ALIVE"
  shows "is_live now (lv_life v) k"
proof -
  obtain u where "lv_life v k = Some u" "until t KEEP_ALIVE \<le> u" using assms(1) by (auto simp: kept_def)
  with assms(2) until_reaches show ?thesis by (simp add: is_live_def)
qed

lemma refreshed_kept:
  assumes "living_call net transfer e c v = Inr v'" "uint EXTEND_AMOUNT < max_entry_ttl net"
  shows "kept (ledger_sequence e) v'"
  unfolding kept_def
proof
  fix k
  obtain u where "lv_life v k = Some u"
    using assms(1) by (auto simp: living_call_Inr is_live_def split: option.splits)
  with assms vault_ttl.extend_lives [OF assms(2), of "ledger_sequence e" u]
  show "\<exists>u. lv_life v' k = Some u \<and> until (ledger_sequence e) KEEP_ALIVE \<le> u"
    by (simp add: living_call_Inr KEEP_ALIVE_def)
qed

lemma kept_after:
  assumes "kept t v" "living_call net transfer e c v = Inr v'"
  shows "kept t v'"
  unfolding kept_def
proof
  fix k
  obtain u where u: "lv_life v k = Some u" "until t KEEP_ALIVE \<le> u" using assms(1) by (auto simp: kept_def)
  with assms(2) extend_ttl_ge [of u net "ledger_sequence e" TTL_THRESHOLD EXTEND_AMOUNT]
  show "\<exists>u. lv_life v' k = Some u \<and> until t KEEP_ALIVE \<le> u" by (simp add: living_call_Inr)
qed

lemma bump_succeeds:
  assumes "kept t v" "uint (ledger_sequence e) \<le> uint t + KEEP_ALIVE"
    and "vault_cfg (lv_state v) ow unlock"
  shows "\<exists>v'. living_call net transfer e CallBump v = Inr v'"
proof -
  obtain s' where "bump_ttl (lv_state v) = Inr s'"
    using assms(3) by (auto simp: bump_ttl_def result_simps)
  then show ?thesis
    using kept_live [OF assms(1,2)] by (simp add: living_call_def)
qed

lemma living_run_kept:
  assumes "uint EXTEND_AMOUNT < max_entry_ttl net"
    and "kept t v" "vault_cfg (lv_state v) ow unlock" "bumped t cs"
  shows "kept (last_bump t cs) (living_run net transfer cs v)
     \<and> vault_cfg (lv_state (living_run net transfer cs v)) ow unlock"
  using assms(2-)
proof (induction cs arbitrary: t v)
  case Nil
  then show ?case by simp
next
  case (Cons x cs)
  obtain e c where x: "x = (e, c)" by (cases x)
  show ?case
  proof (cases "living_call net transfer e c v")
    case (Inl f)
    with bump_succeeds [OF Cons.prems(1) _ Cons.prems(2), of e net transfer] Cons.prems(3) x
    have "c \<noteq> CallBump" by auto
    with Cons Inl x show ?thesis by simp
  next
    case (Inr v')
    then have "vault_cfg (lv_state v') ow unlock"
      using Cons.prems(2) by (auto simp: living_call_Inr vault_exec_cfg)
    with Cons.IH [of "if c = CallBump then ledger_sequence e else t" v'] Cons.prems Inr x
      refreshed_kept [OF Inr assms(1)] kept_after [OF Cons.prems(1) Inr]
    show ?thesis by auto
  qed
qed

lemma born_kept:
  assumes "vault_constructor e ow unlock s0 = Inr s" "vault_log s0 = []"
    and "uint EXTEND_AMOUNT < max_entry_ttl net"
  shows "kept (ledger_sequence e) (vault_born net e s w)"
proof -
  have log: "vault_log s = [ExtendTtl Owner TTL_THRESHOLD EXTEND_AMOUNT,
      ExtendTtl UnlockLedger TTL_THRESHOLD EXTEND_AMOUNT]"
    using assms(1,2) by (auto simp: vault_constructor_def result_simps)
  show ?thesis
    unfolding kept_def vault_born_def log
    using vault_ttl.extend_lives [OF assms(3), of "ledger_sequence e"
        "fresh_until net (ledger_sequence e)"]
    by (simp add: vault_key_cases KEEP_ALIVE_def)
qed

end
