(* ===== verification/Vesting_Life.thy ===== *)
theory Vesting_Life
  imports Vesting_Machine Storage_Life
begin

text \<open>
  The vesting schedule with the life of its instance entry.  Every entry point of the contract asks
  for an extension before anything else, the queries too, but the host keeps that request only when
  the call succeeds.  The lemmas show how often a schedule has to be read so that the owner can still
  claim, however long the schedule runs.
\<close>

section \<open>Calls\<close>

datatype 'w vesting_call =
    CallClaim address
  | CallGetSchedule
  | CallVestedAmount
  | CallClaimableAmount
  | CallClaimedAmount
  | CallOwner
  | CallToken
  | Traffic "'w \<Rightarrow> 'w"

text \<open>
  One call: what it pays, the schedule's new state and the new world.  \<open>Traffic\<close> is whatever happens
  elsewhere on the network.
\<close>

fun vesting_exec ::
  "'w token_transfer \<Rightarrow> env \<Rightarrow> 'w vesting_call \<Rightarrow> vesting_state \<Rightarrow> 'w
   \<Rightarrow> (VestingScheduleError, i128 \<times> vesting_state \<times> 'w) result" where
  "vesting_exec transfer e (CallClaim to) s w = claim transfer e to s w"
| "vesting_exec transfer e CallGetSchedule s w =
     res_bind (get_schedule s) (\<lambda>(_, s'). Inr (0, s', w))"
| "vesting_exec transfer e CallVestedAmount s w =
     res_bind (vested_amount e s) (\<lambda>(_, s'). Inr (0, s', w))"
| "vesting_exec transfer e CallClaimableAmount s w =
     res_bind (claimable_amount e s) (\<lambda>(_, s'). Inr (0, s', w))"
| "vesting_exec transfer e CallClaimedAmount s w =
     res_bind (get_claimed_amount s) (\<lambda>(_, s'). Inr (0, s', w))"
| "vesting_exec transfer e CallOwner s w = res_bind (vesting_owner s) (\<lambda>(_, s'). Inr (0, s', w))"
| "vesting_exec transfer e CallToken s w = res_bind (vesting_token s) (\<lambda>(_, s'). Inr (0, s', w))"
| "vesting_exec transfer e (Traffic f) s w = Inr (0, s, f w)"

fun is_query :: "'w vesting_call \<Rightarrow> bool" where
  "is_query (CallClaim to) = False"
| "is_query (Traffic f) = False"
| "is_query c = True"

record 'w living_vesting =
  lv_system :: "'w vesting_system"
  lv_entry :: "unit lifetimes"

text \<open>A schedule right after its constructor ran.\<close>

definition vesting_born :: "network \<Rightarrow> env \<Rightarrow> vesting_state \<Rightarrow> 'w \<Rightarrow> 'w living_vesting" where
  "vesting_born net e s w =
     \<lparr>lv_system = \<lparr>vs = s, vw = w, vnow = ledger_sequence e, paid = 0\<rparr>,
      lv_entry = apply_effects net (ledger_sequence e) (vesting_log s)
        (\<lambda>_. Some (fresh_until net (ledger_sequence e)))\<rparr>"

definition touches :: "'w vesting_call \<Rightarrow> bool" where
  "touches c = (case c of Traffic f \<Rightarrow> False | _ \<Rightarrow> True)"

definition vesting_live_call ::
  "network \<Rightarrow> 'w token_transfer \<Rightarrow> env \<Rightarrow> 'w vesting_call \<Rightarrow> 'w living_vesting
   \<Rightarrow> (VestingScheduleError, 'w living_vesting) result" where
  "vesting_live_call net transfer e c v =
     res_bind (guard (touches c \<longrightarrow> is_live (ledger_sequence e) (lv_entry v) ()) (Trap EntryArchived)) (\<lambda>_.
     let y = lv_system v in
     res_bind (vesting_exec transfer e c (vs y) (vw y)) (\<lambda>(r, s', w').
     Inr \<lparr>lv_system = \<lparr>vs = s', vw = w', vnow = ledger_sequence e, paid = paid y + r\<rparr>,
          lv_entry = apply_effects net (ledger_sequence e)
            (new_effects (vesting_log (vs y)) (vesting_log s')) (lv_entry v)\<rparr>))"

fun vesting_live_run ::
  "network \<Rightarrow> 'w token_transfer \<Rightarrow> (env \<times> 'w vesting_call) list \<Rightarrow> 'w living_vesting
   \<Rightarrow> 'w living_vesting" where
  "vesting_live_run net transfer [] v = v"
| "vesting_live_run net transfer ((e, c) # cs) v =
     vesting_live_run net transfer cs (commit v (vesting_live_call net transfer e c v))"

section \<open>Every successful call refreshes the entry\<close>

lemma vesting_log_extend [simp]:
  "vesting_log (extend_instance_ttl s)
   = vesting_log s @ [ExtendTtl () INSTANCE_TTL_THRESHOLD INSTANCE_EXTEND_AMOUNT]"
  by (simp add: extend_instance_ttl_def)

text \<open>On a well-formed schedule every query answers and leaves the extension as its only trace.\<close>

lemma query_exec:
  assumes "schedule s = Some d" "schedule_ok d" "is_query c"
  shows "vesting_exec transfer e c s w = Inr (0, extend_instance_ttl s, w)"
  using assms
  by (cases c)
    (simp_all add: get_schedule_def vested_amount_def claimable_amount_def get_claimed_amount_def
      vesting_owner_def vesting_token_def get_schedule_data_def vested_at_eq Let_def)

lemma vesting_exec_log:
  assumes "schedule s = Some d" "schedule_ok d" "touches c"
    and "vesting_exec transfer e c s w = Inr (r, s', w')"
  shows "\<exists>evs. vesting_log s' = vesting_log s
     @ ExtendTtl () INSTANCE_TTL_THRESHOLD INSTANCE_EXTEND_AMOUNT # map Publish evs"
proof (cases c)
  case (CallClaim to)
  with assms show ?thesis
    by (auto simp: claim_Inr [OF assms(1,2)] emit_claimed_def vesting_publish_def
        intro: exI [of _ "[_]"] exI [of _ "[]"] split: if_splits)
qed (use assms query_exec [OF assms(1,2), of c transfer e w] in
    \<open>auto simp: touches_def simp del: vesting_exec.simps intro!: exI [of _ "[]"]\<close>)

lemma vesting_live_call_life:
  assumes "schedule (vs (lv_system v)) = Some d" "schedule_ok d"
    and "vesting_live_call net transfer e c v = Inr v'"
  shows "if touches c
     then is_live (ledger_sequence e) (lv_entry v) ()
       \<and> lv_entry v' = map_option (extend_ttl net (ledger_sequence e) INSTANCE_TTL_THRESHOLD
            INSTANCE_EXTEND_AMOUNT) \<circ> lv_entry v
     else lv_entry v' = lv_entry v"
proof (cases "touches c")
  case True
  from assms(3) obtain r s' w' where
    ex: "vesting_exec transfer e c (vs (lv_system v)) (vw (lv_system v)) = Inr (r, s', w')"
    and v': "lv_entry v' = apply_effects net (ledger_sequence e)
        (new_effects (vesting_log (vs (lv_system v))) (vesting_log s')) (lv_entry v)"
    and live: "is_live (ledger_sequence e) (lv_entry v) ()"
    using True by (auto simp: vesting_live_call_def result_simps Let_def)
  obtain evs where evs: "vesting_log s' = vesting_log (vs (lv_system v))
      @ ExtendTtl () INSTANCE_TTL_THRESHOLD INSTANCE_EXTEND_AMOUNT # map Publish evs"
    using vesting_exec_log [OF assms(1,2) True ex] by blast
  show ?thesis using True live by (simp add: v' evs fun_eq_iff)
next
  case False
  then obtain f where "c = Traffic f" by (cases c) (simp_all add: touches_def)
  with assms(3) show ?thesis
    by (auto simp: vesting_live_call_def touches_def result_simps Let_def new_effects_def)
qed

section \<open>A live call is a step of the schedule\<close>

lemma vesting_live_call_inv:
  assumes "vesting_live_call net transfer e c v = Inr v'" "vesting_inv d (lv_system v)"
    and "vnow (lv_system v) \<le> ledger_sequence e"
  shows "vesting_inv d (lv_system v') \<and> vnow (lv_system v') = ledger_sequence e"
proof -
  define y where "y = (lv_system v)\<lparr>vnow := ledger_sequence e\<rparr>"
  have "vesting_step transfer (\<lambda>_ _. True) (current_contract_address e) (lv_system v) y"
    unfolding y_def by (rule vesting_step.v_time [OF assms(3)])
  from vesting_step_inv [OF this assms(2)] have inv: "vesting_inv d y" .
  then have sch: "schedule (vs y) = Some (d\<lparr>claimed_amount := paid y\<rparr>)" by (simp add: vesting_inv_def)
  note ok = inv_schedule_ok [OF inv]
  from assms(1) obtain r s' w' where ex: "vesting_exec transfer e c (vs y) (vw y) = Inr (r, s', w')"
    and v': "lv_system v' = \<lparr>vs = s', vw = w', vnow = ledger_sequence e, paid = paid y + r\<rparr>"
    by (auto simp: vesting_live_call_def result_simps Let_def y_def)
  have "vesting_inv d (y\<lparr>vs := s', vw := w', paid := paid y + r\<rparr>)"
  proof (cases "is_query c")
    case True
    with ex query_exec [OF sch ok True, of transfer e "vw y"] inv show ?thesis
      by (auto simp: vesting_inv_def)
  next
    case False
    show ?thesis
    proof (cases c)
      case (CallClaim to)
      with ex have "vesting_step transfer (\<lambda>_ _. True) (current_contract_address e) y
          (y\<lparr>vs := s', vw := w', paid := paid y + r\<rparr>)"
        by (intro vesting_step.v_claim) (simp_all add: y_def)
      then show ?thesis using inv by (rule vesting_step_inv)
    next
      case (Traffic f)
      with ex inv show ?thesis by (auto simp: vesting_inv_def)
    qed (use False in simp_all)
  qed
  moreover have "lv_system v' = y\<lparr>vs := s', vw := w', paid := paid y + r\<rparr>"
    by (simp add: v' y_def)
  ultimately show ?thesis by (simp add: y_def)
qed

section \<open>Staying alive\<close>

interpretation vesting_ttl: ttl_constants INSTANCE_TTL_THRESHOLD INSTANCE_EXTEND_AMOUNT
  by unfold_locales
    (simp add: INSTANCE_TTL_THRESHOLD_def INSTANCE_EXTEND_AMOUNT_def DAY_IN_LEDGERS_def word_less_def)

text \<open>What one refresh is good for: one ledger more than the threshold.\<close>

definition INSTANCE_KEEP_ALIVE :: int where
  "INSTANCE_KEEP_ALIVE = uint INSTANCE_TTL_THRESHOLD + 1"

definition entry_kept :: "u32 \<Rightarrow> 'w living_vesting \<Rightarrow> bool" where
  "entry_kept t v \<longleftrightarrow> (\<exists>u. lv_entry v () = Some u \<and> until t INSTANCE_KEEP_ALIVE \<le> u)"

text \<open>
  A history in order of ledgers (the last call at \<open>now\<close>) in which the schedule is read often enough:
  every call comes at most \<open>INSTANCE_KEEP_ALIVE\<close> ledgers after the last query, at \<open>t\<close>.  Claims may be
  refused, so they do not count.
\<close>

fun read_often :: "u32 \<Rightarrow> u32 \<Rightarrow> (env \<times> 'w vesting_call) list \<Rightarrow> bool" where
  "read_often t now [] = True"
| "read_often t now ((e, c) # cs) \<longleftrightarrow>
     now \<le> ledger_sequence e \<and> uint (ledger_sequence e) \<le> uint t + INSTANCE_KEEP_ALIVE
     \<and> read_often (if is_query c then ledger_sequence e else t) (ledger_sequence e) cs"

lemma entry_kept_live:
  "entry_kept t v \<Longrightarrow> uint now \<le> uint t + INSTANCE_KEEP_ALIVE \<Longrightarrow> is_live now (lv_entry v) ()"
  using until_reaches by (fastforce simp: entry_kept_def is_live_def)

lemma entry_kept_after:
  assumes "entry_kept t v" "schedule (vs (lv_system v)) = Some d" "schedule_ok d"
    and "vesting_live_call net transfer e c v = Inr v'"
  shows "entry_kept t v'"
proof -
  obtain u where "lv_entry v () = Some u" "until t INSTANCE_KEEP_ALIVE \<le> u"
    using assms(1) by (auto simp: entry_kept_def)
  with vesting_live_call_life [OF assms(2-4)]
    extend_ttl_ge [of u net "ledger_sequence e" INSTANCE_TTL_THRESHOLD INSTANCE_EXTEND_AMOUNT]
  show ?thesis by (auto simp: entry_kept_def split: if_splits)
qed

lemma query_refreshes:
  assumes "entry_kept t v" "schedule (vs (lv_system v)) = Some d" "schedule_ok d" "is_query c"
    and "uint (ledger_sequence e) \<le> uint t + INSTANCE_KEEP_ALIVE"
    and "uint INSTANCE_EXTEND_AMOUNT < max_entry_ttl net"
  shows "\<exists>v'. vesting_live_call net transfer e c v = Inr v' \<and> entry_kept (ledger_sequence e) v'"
proof -
  obtain v' where v': "vesting_live_call net transfer e c v = Inr v'"
    using query_exec [OF assms(2,3,4)] entry_kept_live [OF assms(1,5)]
    by (simp add: vesting_live_call_def Let_def)
  have "touches c" using assms(4) by (cases c) (simp_all add: touches_def)
  moreover obtain u where "lv_entry v () = Some u" using assms(1) by (auto simp: entry_kept_def)
  ultimately have "entry_kept (ledger_sequence e) v'"
    using vesting_live_call_life [OF assms(2,3) v']
      vesting_ttl.extend_lives [OF assms(6), of "ledger_sequence e" u]
    by (simp add: entry_kept_def INSTANCE_KEEP_ALIVE_def)
  with v' show ?thesis by blast
qed

text \<open>The state at the end of a history that was read often enough and in which \<open>e\<close> comes next.\<close>

lemma vesting_live_run_kept:
  assumes "uint INSTANCE_EXTEND_AMOUNT < max_entry_ttl net"
    and "entry_kept t v" "vesting_inv d (lv_system v)" "vnow (lv_system v) \<le> now"
    and "read_often t now (cs @ [(e, c)])"
  shows "is_live (ledger_sequence e) (lv_entry (vesting_live_run net transfer cs v)) ()
     \<and> vesting_inv d (lv_system (vesting_live_run net transfer cs v))
     \<and> vnow (lv_system (vesting_live_run net transfer cs v)) \<le> ledger_sequence e"
  using assms(2-)
proof (induction cs arbitrary: t now v)
  case Nil
  then show ?case by (auto intro: entry_kept_live order_trans)
next
  case (Cons x cs)
  obtain e' c' where x: "x = (e', c')" by (cases x)
  from Cons.prems(4) have now: "now \<le> ledger_sequence e'"
    and near: "uint (ledger_sequence e') \<le> uint t + INSTANCE_KEEP_ALIVE"
    and rest: "read_often (if is_query c' then ledger_sequence e' else t) (ledger_sequence e') (cs @ [(e, c)])"
    by (simp_all add: x)
  have le: "vnow (lv_system v) \<le> ledger_sequence e'" using Cons.prems(3) now by (rule order_trans)
  have sch: "schedule (vs (lv_system v)) = Some (d\<lparr>claimed_amount := paid (lv_system v)\<rparr>)"
    using Cons.prems(2) by (simp add: vesting_inv_def)
  note ok = inv_schedule_ok [OF Cons.prems(2)]
  note query = query_refreshes [OF Cons.prems(1) sch ok _ near assms(1), of c' transfer]
  show ?case
  proof (cases "vesting_live_call net transfer e' c' v")
    case (Inl f)
    with query have "\<not> is_query c'" by fastforce
    with Inl x Cons.IH [OF Cons.prems(1,2) le] rest show ?thesis by simp
  next
    case (Inr v')
    from Inr query entry_kept_after [OF Cons.prems(1) sch ok Inr]
    have "entry_kept (if is_query c' then ledger_sequence e' else t) v'" by auto
    with Cons.IH [OF _ _ _ rest] vesting_live_call_inv [OF Inr Cons.prems(2) le] x Inr show ?thesis by simp
  qed
qed

lemma vesting_born_kept:
  assumes "vesting_constructor ow tk tot st cl en s0 = Inr s" "vesting_log s0 = []"
    and "uint INSTANCE_EXTEND_AMOUNT < max_entry_ttl net"
  shows "entry_kept (ledger_sequence e) (vesting_born net e s w)"
proof -
  have log: "vesting_log s = [ExtendTtl () INSTANCE_TTL_THRESHOLD INSTANCE_EXTEND_AMOUNT,
      Publish (ScheduleCreated ow tk tot st cl en)]"
    using assms(1,2)
    by (simp add: vesting_constructor_Inr emit_schedule_created_def vesting_publish_def)
  show ?thesis
    using vesting_ttl.extend_lives [OF assms(3), of "ledger_sequence e"
        "fresh_until net (ledger_sequence e)"]
    by (simp add: entry_kept_def vesting_born_def log INSTANCE_KEEP_ALIVE_def)
qed

end
