(* ===== verification/Factory_Life.thy ===== *)
theory Factory_Life
  imports Account_Factory Storage_Life
begin

text \<open>
  The account factory with the life of its instance entry.  The constructor and every read of the
  configuration call \<open>extend_ttl(100, 1_555_200)\<close>
  (\<open>src/account-factory/contracts/factory-contract/src/lib.rs\<close>): the request has an effect only in the last
  hundred ledgers of the entry's life, about eight minutes.  The lemmas give the life of a factory
  in closed form.
\<close>

section \<open>Calls\<close>

datatype factory_call =
    CallCreate AccountInitParams
  | CallVerifier SignerKind
  | CallPolicy
  | CallAddress AccountInitParams

fun factory_exec ::
  "'w factory_host \<Rightarrow> env \<Rightarrow> factory_call \<Rightarrow> factory_state \<Rightarrow> 'w
   \<Rightarrow> (FactoryError, address \<times> factory_state \<times> 'w) result" where
  "factory_exec h e (CallCreate p) s w = create_account h e p s w"
| "factory_exec h e (CallVerifier k) s w = res_bind (get_verifier k s) (\<lambda>(a, s'). Inr (a, s', w))"
| "factory_exec h e CallPolicy s w = res_bind (get_threshold_policy s) (\<lambda>(a, s'). Inr (a, s', w))"
| "factory_exec h e (CallAddress p) s w = res_bind (get_account_address h e p) (\<lambda>a. Inr (a, s, w))"

text \<open>Prediction of an address is the one entry point that does not read the configuration.\<close>

fun reads_config :: "factory_call \<Rightarrow> bool" where
  "reads_config (CallAddress p) = False"
| "reads_config c = True"

record 'w living_factory =
  lf_state :: factory_state
  lf_world :: 'w
  lf_life :: "unit lifetimes"

text \<open>A factory right after its constructor ran.\<close>

definition factory_born :: "network \<Rightarrow> env \<Rightarrow> factory_state \<Rightarrow> 'w \<Rightarrow> 'w living_factory" where
  "factory_born net e s w =
     \<lparr>lf_state = s, lf_world = w,
      lf_life = apply_effects net (ledger_sequence e) (factory_log s)
        (\<lambda>_. Some (fresh_until net (ledger_sequence e)))\<rparr>"

text \<open>
  Every invocation loads the contract's instance, so all four entry points need it live.  The answer
  is the address returned.
\<close>

definition factory_live_call ::
  "network \<Rightarrow> 'w factory_host \<Rightarrow> env \<Rightarrow> factory_call \<Rightarrow> 'w living_factory
   \<Rightarrow> (FactoryError, address \<times> 'w living_factory) result" where
  "factory_live_call net h e c v =
     res_bind (guard (is_live (ledger_sequence e) (lf_life v) ()) (Trap EntryArchived)) (\<lambda>_.
     res_bind (factory_exec h e c (lf_state v) (lf_world v)) (\<lambda>(a, s', w').
     Inr (a, \<lparr>lf_state = s', lf_world = w',
          lf_life = apply_effects net (ledger_sequence e)
            (new_effects (factory_log (lf_state v)) (factory_log s')) (lf_life v)\<rparr>)))"

fun factory_live_run ::
  "network \<Rightarrow> 'w factory_host \<Rightarrow> (env \<times> factory_call) list \<Rightarrow> 'w living_factory
   \<Rightarrow> 'w living_factory" where
  "factory_live_run net h [] v = v"
| "factory_live_run net h ((e, c) # cs) v =
     factory_live_run net h cs
       (case factory_live_call net h e c v of Inl f \<Rightarrow> v | Inr (a, v') \<Rightarrow> v')"

section \<open>What a call does to the life\<close>

lemma factory_exec_log:
  assumes "factory_exec h e c s w = Inr (a, s', w')"
  shows "\<exists>evs. factory_log s' = factory_log s
     @ (if reads_config c then ExtendTtl () 100 1555200 # map Publish evs else [])"
proof (cases c)
  case (CallCreate p)
  with assms show ?thesis
    by (auto simp: create_account_def get_config_def extend_factory_ttl_def result_simps Let_def
        intro: exI [of _ "[_]"] exI [of _ "[]"] split: if_splits)
qed (use assms in \<open>auto simp: get_verifier_def get_threshold_policy_def get_config_def
    extend_factory_ttl_def result_simps Let_def intro!: exI [of _ "[]"]\<close>)

lemma factory_live_call_life:
  assumes "factory_live_call net h e c v = Inr (a, v')" "lf_life v () = Some u"
  shows "uint (ledger_sequence e) \<le> u
     \<and> lf_life v' () = Some (if reads_config c
          then extend_ttl net (ledger_sequence e) 100 1555200 u else u)"
proof -
  from assms obtain s' w' where
    ex: "factory_exec h e c (lf_state v) (lf_world v) = Inr (a, s', w')"
    and v': "lf_life v' = apply_effects net (ledger_sequence e)
        (new_effects (factory_log (lf_state v)) (factory_log s')) (lf_life v)"
    and live: "uint (ledger_sequence e) \<le> u"
    by (auto simp: factory_live_call_def is_live_def result_simps)
  from factory_exec_log [OF ex] live assms(2) show ?thesis by (auto simp: v' new_effects_def)
qed

text \<open>The ledgers at which a read of the configuration extends a life that ends at \<open>u\<close>.\<close>

definition last_minutes :: "int \<Rightarrow> u32 \<Rightarrow> bool" where
  "last_minutes u l \<longleftrightarrow> u - 100 \<le> uint l \<and> uint l \<le> u"

lemma factory_live_run_life:
  assumes "lf_life v () = Some u"
    and "\<forall>(e, c) \<in> set cs. reads_config c \<longrightarrow> \<not> last_minutes u (ledger_sequence e)"
  shows "lf_life (factory_live_run net h cs v) () = Some u"
  using assms
proof (induction cs arbitrary: v)
  case (Cons x cs)
  obtain e c where x: "x = (e, c)" by (cases x)
  show ?case
  proof (cases "factory_live_call net h e c v")
    case (Inr y)
    obtain a v' where y: "y = (a, v')" by (cases y)
    have "lf_life v' () = Some u"
      using factory_live_call_life [OF Inr [unfolded y] Cons.prems(1)] Cons.prems(2)
      by (auto simp: x last_minutes_def extend_ttl_def)
    with Cons Inr y x show ?thesis by simp
  qed (use Cons x in simp)
qed simp

text \<open>
  The constructor's own request does nothing either, on a network whose new entries live longer
  than a hundred ledgers.
\<close>

lemma factory_born_life:
  assumes "factory_constructor h w wasm_hash ed wa tp s0 = Inr s" "factory_log s0 = []"
    and "uint (ledger_sequence e) + 100 < fresh_until net (ledger_sequence e)"
  shows "lf_life (factory_born net e s w') () = Some (fresh_until net (ledger_sequence e))"
proof -
  have "factory_log s = [ExtendTtl () 100 1555200]"
    using assms(1,2) by (auto simp: factory_constructor_def extend_factory_ttl_def result_simps)
  with assms(3) show ?thesis by (simp add: factory_born_def extend_ttl_def)
qed

lemma factory_live_call_archived:
  assumes "lf_life v () = Some u" "u < uint (ledger_sequence e)"
  shows "factory_live_call net h e c v = Inl (Trap EntryArchived)"
  using assms by (simp add: factory_live_call_def is_live_def guard_def)

lemma factory_live_call_late:
  assumes "lf_life v () = Some u" "last_minutes u (ledger_sequence e)" "reads_config c"
    and "factory_exec h e c (lf_state v) (lf_world v) = Inr (a, s', w')"
    and "1555200 < max_entry_ttl net"
  shows "\<exists>v'. factory_live_call net h e c v = Inr (a, v')
     \<and> lf_life v' () = Some (max u (until (ledger_sequence e) 1555200))"
proof -
  obtain v' where v': "factory_live_call net h e c v = Inr (a, v')"
    using assms(1,2,4) by (simp add: factory_live_call_def is_live_def last_minutes_def guard_def)
  from factory_live_call_life [OF v' assms(1)] assms(2,3,5)
  have "lf_life v' () = Some (max u (until (ledger_sequence e) 1555200))"
    by (simp add: last_minutes_def extend_ttl_def)
  with v' show ?thesis by blast
qed

end
