(* ===== verification/Registry_Life.thy ===== *)
theory Registry_Life
  imports Smart_Account Storage_Life
begin

text \<open>
  The deployment records of the smart account (\<open>src/latch-smart-account/src/lib.rs\<close>) with their lives.
  Each record is a persistent entry of its own: \<open>deploy_contract\<close> asks for an extension of the record it
  writes, \<open>get_deployed_contract\<close> for the record it reads, and nothing else touches them.  The
  constants come from the library and are parameters.  The counter is part of the contract's instance,
  which the library keeps alive, and is not followed here.
\<close>

section \<open>Calls\<close>

record 'w living_account =
  la_state :: account_state
  la_world :: 'w
  la_life :: "LatchSmartAccountStorageKey lifetimes"

text \<open>A record that is written for the first time starts with the network's minimum.\<close>

definition account_live_deploy ::
  "network \<Rightarrow> ('w, 'v, 'ap, 'er) account_lib \<Rightarrow> env \<Rightarrow> bytes \<Rightarrow> bytes \<Rightarrow> 'v list \<Rightarrow> 'w living_account
   \<Rightarrow> (LatchSmartAccountError, address \<times> 'w living_account) result" where
  "account_live_deploy net lib e hash salt args v =
     res_bind (deploy_contract lib e hash salt args (la_state v) (la_world v)) (\<lambda>(a, s', w').
     let k = DeployedContract (get_deployed_contract_count (la_state v)) in
     Inr (a, \<lparr>la_state = s', la_world = w',
       la_life = apply_effects net (ledger_sequence e)
         (new_effects (account_log (la_state v)) (account_log s'))
         ((la_life v)(k \<mapsto> fresh_until net (ledger_sequence e)))\<rparr>))"

text \<open>Reading a record that is stored but archived fails.\<close>

definition account_live_get ::
  "network \<Rightarrow> ('w, 'v, 'ap, 'er) account_lib \<Rightarrow> env \<Rightarrow> u32 \<Rightarrow> 'w living_account
   \<Rightarrow> (LatchSmartAccountError, DeployedContract \<times> 'w living_account) result" where
  "account_live_get net lib e i v =
     res_bind (guard (deployed (la_state v) i \<noteq> None \<longrightarrow>
                      is_live (ledger_sequence e) (la_life v) (DeployedContract i))
                (Trap EntryArchived)) (\<lambda>_.
     res_bind (get_deployed_contract lib i (la_state v)) (\<lambda>(d, s').
     Inr (d, v\<lparr>la_state := s',
       la_life := apply_effects net (ledger_sequence e)
         (new_effects (account_log (la_state v)) (account_log s')) (la_life v)\<rparr>)))"

datatype 'v account_call = CallDeploy bytes bytes "'v list" | CallGetRecord u32

fun account_live_step ::
  "network \<Rightarrow> ('w, 'v, 'ap, 'er) account_lib \<Rightarrow> env \<Rightarrow> 'v account_call \<Rightarrow> 'w living_account
   \<Rightarrow> 'w living_account" where
  "account_live_step net lib e (CallDeploy hash salt args) v =
     (case account_live_deploy net lib e hash salt args v of Inl _ \<Rightarrow> v | Inr (a, v') \<Rightarrow> v')"
| "account_live_step net lib e (CallGetRecord i) v =
     (case account_live_get net lib e i v of Inl _ \<Rightarrow> v | Inr (d, v') \<Rightarrow> v')"

fun account_live_run ::
  "network \<Rightarrow> ('w, 'v, 'ap, 'er) account_lib \<Rightarrow> (env \<times> 'v account_call) list \<Rightarrow> 'w living_account
   \<Rightarrow> 'w living_account" where
  "account_live_run net lib [] v = v"
| "account_live_run net lib ((e, c) # cs) v = account_live_run net lib cs (account_live_step net lib e c v)"

text \<open>The ledgers at which a history tries to read record \<open>i\<close>.\<close>

fun reads_of :: "u32 \<Rightarrow> (env \<times> 'v account_call) list \<Rightarrow> u32 list" where
  "reads_of i [] = []"
| "reads_of i ((e, CallDeploy hash salt args) # cs) = reads_of i cs"
| "reads_of i ((e, CallGetRecord j) # cs) = (if j = i then [ledger_sequence e] else []) @ reads_of i cs"

section \<open>A record lives by its own reads\<close>

text \<open>What a read at ledger \<open>t\<close> makes of a life that ends at \<open>u\<close>; an archived record cannot be read.\<close>

definition read_at :: "network \<Rightarrow> ('w, 'v, 'ap, 'er) account_lib \<Rightarrow> u32 \<Rightarrow> int \<Rightarrow> int" where
  "read_at net lib t u =
     (if uint t \<le> u
      then extend_ttl net t (SMART_ACCOUNT_TTL_THRESHOLD lib) (SMART_ACCOUNT_EXTEND_AMOUNT lib) u
      else u)"

lemma live_deploy_effect:
  assumes "account_live_deploy net lib e hash salt args v = Inr (a, v')"
    and "n = get_deployed_contract_count (la_state v)"
  shows "record_deployed lib \<lparr>dc_address = a, dc_wasm_hash = hash\<rparr> (la_state v) = Inr (la_state v')
     \<and> la_life v' = (la_life v)(DeployedContract n \<mapsto>
          extend_ttl net (ledger_sequence e) (SMART_ACCOUNT_TTL_THRESHOLD lib)
            (SMART_ACCOUNT_EXTEND_AMOUNT lib) (fresh_until net (ledger_sequence e)))"
  using assms
  by (auto simp: account_live_deploy_def deploy_contract_def record_deployed_def result_simps Let_def)

lemma live_get_eq:
  assumes "deployed (la_state v) i = Some x" "la_life v (DeployedContract i) = Some u"
  shows "account_live_get net lib e i v =
     (if uint (ledger_sequence e) \<le> u
      then Inr (x, v\<lparr>la_state := (la_state v)\<lparr>account_log := account_log (la_state v)
               @ [ExtendTtl (DeployedContract i) (SMART_ACCOUNT_TTL_THRESHOLD lib)
                    (SMART_ACCOUNT_EXTEND_AMOUNT lib)]\<rparr>,
             la_life := (la_life v)(DeployedContract i \<mapsto> read_at net lib (ledger_sequence e) u)\<rparr>)
      else Inl (Trap EntryArchived))"
  using assms by (simp add: account_live_get_def get_deployed_contract_def is_live_def guard_def read_at_def)

lemma live_get_other:
  assumes "account_live_get net lib e j v = Inr (d, v')"
  shows "deployed (la_state v') = deployed (la_state v)
     \<and> get_deployed_contract_count (la_state v') = get_deployed_contract_count (la_state v)
     \<and> (j \<noteq> i \<longrightarrow> la_life v' (DeployedContract i) = la_life v (DeployedContract i))"
  using assms
  by (auto simp: account_live_get_def get_deployed_contract_def get_deployed_contract_count_def result_simps)

text \<open>A state in which record \<open>i\<close> is \<open>x\<close> and ends at \<open>u\<close>.\<close>

definition record_at :: "u32 \<Rightarrow> DeployedContract \<Rightarrow> int \<Rightarrow> 'w living_account \<Rightarrow> bool" where
  "record_at i x u v \<longleftrightarrow>
     (\<exists>xs. registry (la_state v) xs \<and> unat i < length xs \<and> xs ! unat i = x)
     \<and> la_life v (DeployedContract i) = Some u"

lemma record_at_deployed: "record_at i x u v \<Longrightarrow> deployed (la_state v) i = Some x"
  by (auto simp: record_at_def registry_def)

lemma live_deploy_record:
  assumes "account_live_deploy net lib e hash salt args v = Inr (a, v')" "record_at i x u v"
  shows "record_at i x u v'"
proof -
  from assms(2) obtain xs where xs: "registry (la_state v) xs" "unat i < length xs" "xs ! unat i = x"
    and u: "la_life v (DeployedContract i) = Some u"
    by (auto simp: record_at_def)
  note eff = live_deploy_effect [OF assms(1) refl]
  from deployments.add_rep [OF xs(1)] eff
  have reg: "registry (la_state v') (xs @ [\<lparr>dc_address = a, dc_wasm_hash = hash\<rparr>])" by blast
  have "unat (get_deployed_contract_count (la_state v)) = length xs"
    using xs(1) by (simp add: registry_def unat_of_nat_u32)
  with xs(2) have "i \<noteq> get_deployed_contract_count (la_state v)" by auto
  then have life: "la_life v' (DeployedContract i) = Some u" using eff u by simp
  have "unat i < length (xs @ [\<lparr>dc_address = a, dc_wasm_hash = hash\<rparr>])
      \<and> (xs @ [\<lparr>dc_address = a, dc_wasm_hash = hash\<rparr>]) ! unat i = x"
    using xs(2,3) by (simp add: nth_append)
  with reg life show ?thesis unfolding record_at_def by blast
qed

lemma live_get_record:
  assumes "account_live_get net lib e j v = Inr (d, v')" "record_at i x u v"
  shows "record_at i x (if j = i then read_at net lib (ledger_sequence e) u else u) v'"
proof -
  from assms(2) obtain xs where xs: "registry (la_state v) xs" "unat i < length xs" "xs ! unat i = x"
    and u: "la_life v (DeployedContract i) = Some u"
    by (auto simp: record_at_def)
  note same = live_get_other [OF assms(1), of i]
  have reg: "registry (la_state v') xs" using xs(1) same by (simp add: registry_def)
  have "la_life v' (DeployedContract i) = Some (if j = i then read_at net lib (ledger_sequence e) u else u)"
    using same u assms(1) live_get_eq [OF record_at_deployed [OF assms(2)] u, of net lib e]
    by (auto split: if_splits)
  with reg xs show ?thesis unfolding record_at_def by blast
qed

lemma live_get_archived:
  assumes "account_live_get net lib e i v = Inl f" "record_at i x u v"
  shows "read_at net lib (ledger_sequence e) u = u"
proof -
  from assms(2) have "la_life v (DeployedContract i) = Some u" by (simp add: record_at_def)
  from live_get_eq [OF record_at_deployed [OF assms(2)] this, of net lib e] assms(1) show ?thesis
    by (auto simp: read_at_def split: if_splits)
qed

text \<open>Whatever else happens, the life of a record is decided by the reads of that record.\<close>

lemma account_live_run_record:
  assumes "record_at i x u v"
  shows "record_at i x (fold (read_at net lib) (reads_of i cs) u) (account_live_run net lib cs v)"
  using assms
proof (induction cs arbitrary: u v)
  case Nil
  then show ?case by simp
next
  case (Cons y cs)
  obtain e c where y: "y = (e, c)" by (cases y)
  show ?case
  proof (cases c)
    case (CallDeploy hash salt args)
    with Cons y show ?thesis
      by (cases "account_live_deploy net lib e hash salt args v") (auto dest: live_deploy_record)
  next
    case (CallGetRecord j)
    show ?thesis
    proof (cases "account_live_get net lib e j v")
      case (Inl f)
      with Cons y CallGetRecord live_get_archived [OF _ Cons.prems, of net lib e] show ?thesis by auto
    next
      case (Inr z)
      then obtain d v' where z: "account_live_get net lib e j v = Inr (d, v')" by (cases z) auto
      from Cons.IH [OF live_get_record [OF z Cons.prems]] z y CallGetRecord show ?thesis
        by (cases "j = i") auto
    qed
  qed
qed

section \<open>Staying readable\<close>

lemma read_often_live:
  fixes lib :: "('w, 'v, 'ap, 'er) account_lib" and now :: u32
  assumes "ttl_constants (SMART_ACCOUNT_TTL_THRESHOLD lib) (SMART_ACCOUNT_EXTEND_AMOUNT lib)"
    and "uint (SMART_ACCOUNT_EXTEND_AMOUNT lib) < max_entry_ttl net"
    and "until t (uint (SMART_ACCOUNT_TTL_THRESHOLD lib) + 1) \<le> u"
    and "gaps_within (uint (SMART_ACCOUNT_TTL_THRESHOLD lib) + 1) t (ts @ [now])"
  shows "uint now \<le> fold (read_at net lib) ts u"
  using assms(3,4)
proof (induction ts arbitrary: t u)
  case Nil
  then show ?case using until_reaches by simp
next
  case (Cons t' ts)
  have "uint t' \<le> u" by (rule until_reaches [OF Cons.prems(1)]) (use Cons.prems(2) in simp)
  then have "read_at net lib t' u = extend_ttl net t' (SMART_ACCOUNT_TTL_THRESHOLD lib)
      (SMART_ACCOUNT_EXTEND_AMOUNT lib) u"
    by (simp add: read_at_def)
  with Cons.IH [OF ttl_constants.extend_lives [OF assms(1,2), of t' u]] Cons.prems(2) show ?case by simp
qed

lemma deployed_record:
  assumes "registry (la_state v) xs" "account_live_deploy net lib e hash salt args v = Inr (a, v')"
  shows "record_at (of_nat (length xs)) \<lparr>dc_address = a, dc_wasm_hash = hash\<rparr>
     (extend_ttl net (ledger_sequence e) (SMART_ACCOUNT_TTL_THRESHOLD lib)
        (SMART_ACCOUNT_EXTEND_AMOUNT lib) (fresh_until net (ledger_sequence e))) v'"
proof -
  have n: "get_deployed_contract_count (la_state v) = of_nat (length xs)" "length xs < 2 ^ 32"
    using assms(1) by (simp_all add: registry_def)
  note eff = live_deploy_effect [OF assms(2) n(1) [symmetric]]
  from deployments.add_rep [OF assms(1)] eff
  have "registry (la_state v') (xs @ [\<lparr>dc_address = a, dc_wasm_hash = hash\<rparr>])" by blast
  moreover have "unat (of_nat (length xs) :: u32) = length xs" using n(2) by (rule unat_of_nat_u32)
  ultimately show ?thesis
    using eff unfolding record_at_def
    by (intro conjI exI [of _ "xs @ [\<lparr>dc_address = a, dc_wasm_hash = hash\<rparr>]"]) simp_all
qed

end
