(* ===== verification/Policy_Life.thy ===== *)
theory Policy_Life
  imports Session_Policy Recipient_Policy Parameter_Policy Multi_Token_Policy Storage_Life
begin

text \<open>
  The lives of the policies' entries.  Every policy of \<open>src/policies\<close> refreshes the entry it reads on
  each enforcement, and only that entry; none refreshes it at installation.  The locale
  \<open>refreshing_policy\<close> turns this into how often an installed policy has to be used to stay usable,
  and the four policies interpret it with their own constants.
\<close>

section \<open>Enforcement with archival\<close>

type_synonym ('h, 'd, 'ev, 'e) enforcement =
  "'h \<Rightarrow> env \<Rightarrow> Context \<Rightarrow> Signer list \<Rightarrow> ContextRule \<Rightarrow> address \<Rightarrow> ('d, 'ev) policy_state
   \<Rightarrow> ('e, ('d, 'ev) policy_state) result"

text \<open>
  One use of a policy.  \<open>'h\<close> is what the contracts the policy calls answer at that moment: for the
  multi-token policy the oracle, which has a new price at each use.
\<close>

type_synonym 'h request = "'h \<times> env \<times> Context \<times> Signer list"

abbreviation request_ledger :: "'h request \<Rightarrow> u32" where
  "request_ledger q \<equiv> ledger_sequence (fst (snd q))"

text \<open>A sequence of enforcements of one rule, each of which has to succeed.\<close>

fun enforce_all ::
  "('h, 'd, 'ev, 'e) enforcement \<Rightarrow> ContextRule \<Rightarrow> address \<Rightarrow> 'h request list \<Rightarrow> ('d, 'ev) policy_state
   \<Rightarrow> ('e, ('d, 'ev) policy_state) result" where
  "enforce_all enforce r a [] s = Inr s"
| "enforce_all enforce r a ((h, e, c, sg) # qs) s =
     res_bind (enforce h e c sg r a s) (enforce_all enforce r a qs)"

text \<open>The same with the lives of the entries: an archived entry fails the call.\<close>

fun living_enforce_all ::
  "network \<Rightarrow> ('h, 'd, 'ev, 'e) enforcement \<Rightarrow> ContextRule \<Rightarrow> address \<Rightarrow> 'h request list
   \<Rightarrow> ('d, 'ev) policy_state \<times> storage_key lifetimes
   \<Rightarrow> ('e, ('d, 'ev) policy_state \<times> storage_key lifetimes) result" where
  "living_enforce_all net enforce r a [] sm = Inr sm"
| "living_enforce_all net enforce r a ((h, e, c, sg) # qs) (s, m) =
     res_bind (guard (is_live (ledger_sequence e) m (AccountContext a (rule_id r))) (Trap EntryArchived)) (\<lambda>_.
     res_bind (enforce h e c sg r a s) (\<lambda>s'.
     living_enforce_all net enforce r a qs
       (s', apply_effects net (ledger_sequence e) (new_effects (effects s) (effects s')) m)))"

locale refreshing_policy = ttl_constants threshold extend_to for threshold extend_to :: u32 +
  fixes enforce :: "('h, 'd, 'ev, 'e) enforcement"
  assumes enforce_refreshes: "enforce h e c sg r a s = Inr s' \<Longrightarrow>
     \<exists>evs. effects s' = effects s
       @ ExtendTtl (AccountContext a (rule_id r)) threshold extend_to # map Publish evs"
begin

lemma enforce_life:
  assumes "enforce h e c sg r a s = Inr s'"
  shows "apply_effects net now (new_effects (effects s) (effects s')) m
         = m(AccountContext a (rule_id r) :=
               map_option (extend_ttl net now threshold extend_to) (m (AccountContext a (rule_id r))))"
  using enforce_refreshes [OF assms] by auto

lemma used_stays_alive:
  assumes "uint extend_to < max_entry_ttl net"
    and "enforce_all enforce r a qs s = Inr s'"
    and "m (AccountContext a (rule_id r)) = Some u" "until t (uint threshold + 1) \<le> u"
    and "gaps_within (uint threshold + 1) t (map request_ledger qs)"
  shows "\<exists>m'. living_enforce_all net enforce r a qs (s, m) = Inr (s', m')
           \<and> (\<exists>u'. m' (AccountContext a (rule_id r)) = Some u'
                 \<and> until (last (t # map request_ledger qs)) (uint threshold + 1) \<le> u')"
  using assms(2-)
proof (induction qs arbitrary: s m u t)
  case Nil
  then show ?case by simp
next
  case (Cons q qs)
  obtain h e c sg where q: "q = (h, e, c, sg)" by (cases q)
  from Cons.prems(1) q obtain s1 where s1: "enforce h e c sg r a s = Inr s1" "enforce_all enforce r a qs s1 = Inr s'"
    by (auto simp: result_simps)
  let ?k = "AccountContext a (rule_id r)"
  let ?m = "m(?k := map_option (extend_ttl net (ledger_sequence e) threshold extend_to) (m ?k))"
  have live: "is_live (ledger_sequence e) m ?k"
    using Cons.prems(2-) q uint_le_last [of "ledger_sequence e"]
    by (auto simp: is_live_def until_def min_le_iff_disj)
  have "?m ?k = Some (extend_ttl net (ledger_sequence e) threshold extend_to u)"
    using Cons.prems(2) by simp
  then have "\<exists>m'. living_enforce_all net enforce r a qs (s1, ?m) = Inr (s', m')
      \<and> (\<exists>u'. m' ?k = Some u'
            \<and> until (last (ledger_sequence e # map request_ledger qs)) (uint threshold + 1) \<le> u')"
    using Cons.prems(4) q by (intro Cons.IH [OF s1(2) _ extend_lives [OF assms(1)]]) simp_all
  with q live s1(1) enforce_life [OF s1(1)] show ?case by (simp del: fun_upd_apply)
qed

text \<open>From the installation on: the first use has to come while the network's first lease lasts.\<close>

lemma first_use_then_regular:
  assumes "uint extend_to < max_entry_ttl net"
    and "enforce_all enforce r a ((h, e, c, sg) # qs) s = Inr s'"
    and "m (AccountContext a (rule_id r)) = Some u" "uint (ledger_sequence e) \<le> u"
    and "gaps_within (uint threshold + 1) (ledger_sequence e) (map request_ledger qs)"
  shows "\<exists>m'. living_enforce_all net enforce r a ((h, e, c, sg) # qs) (s, m) = Inr (s', m')"
proof -
  let ?k = "AccountContext a (rule_id r)"
  from assms(2) obtain s1 where s1: "enforce h e c sg r a s = Inr s1" "enforce_all enforce r a qs s1 = Inr s'"
    by (auto simp: result_simps)
  let ?m = "m(?k := map_option (extend_ttl net (ledger_sequence e) threshold extend_to) (m ?k))"
  have "?m ?k = Some (extend_ttl net (ledger_sequence e) threshold extend_to u)"
    using assms(3) by simp
  then have "\<exists>m'. living_enforce_all net enforce r a qs (s1, ?m) = Inr (s', m')"
    using used_stays_alive [OF assms(1) s1(2) _ extend_lives [OF assms(1)] assms(5)] by blast
  with assms(3,4) s1(1) enforce_life [OF s1(1)]
  show ?thesis by (auto simp: is_live_def)
qed

end

section \<open>The four policies\<close>

lemmas policy_ttl_defs = SESSION_TTL_THRESHOLD_def SESSION_EXTEND_AMOUNT_def
  RECIPIENT_TTL_THRESHOLD_def RECIPIENT_EXTEND_AMOUNT_def PARAMETER_SCOPED_TTL_THRESHOLD_def
  PARAMETER_SCOPED_EXTEND_AMOUNT_def POLICY_TTL_THRESHOLD_def POLICY_EXTEND_AMOUNT_def
  DAY_IN_LEDGERS_def

text \<open>The four pairs of constants have the same values: 29 and 30 days.\<close>

lemma policy_ttl_values:
  "SESSION_TTL_THRESHOLD = 501120" "SESSION_EXTEND_AMOUNT = 518400"
  "RECIPIENT_TTL_THRESHOLD = 501120" "RECIPIENT_EXTEND_AMOUNT = 518400"
  "PARAMETER_SCOPED_TTL_THRESHOLD = 501120" "PARAMETER_SCOPED_EXTEND_AMOUNT = 518400"
  "POLICY_TTL_THRESHOLD = 501120" "POLICY_EXTEND_AMOUNT = 518400"
  by (simp_all add: policy_ttl_defs)

lemma policy_ttl_constants:
  "SESSION_TTL_THRESHOLD < SESSION_EXTEND_AMOUNT"
  "RECIPIENT_TTL_THRESHOLD < RECIPIENT_EXTEND_AMOUNT"
  "PARAMETER_SCOPED_TTL_THRESHOLD < PARAMETER_SCOPED_EXTEND_AMOUNT"
  "POLICY_TTL_THRESHOLD < POLICY_EXTEND_AMOUNT"
  by (simp_all add: policy_ttl_values word_less_def)

interpretation session_life: refreshing_policy SESSION_TTL_THRESHOLD SESSION_EXTEND_AMOUNT
  "\<lambda>_ :: oracle_host. session_enforce"
  by unfold_locales
    (auto simp: policy_ttl_constants session_enforce_Inr intro: exI [of _ "[_]"])

interpretation recipient_life: refreshing_policy RECIPIENT_TTL_THRESHOLD RECIPIENT_EXTEND_AMOUNT
  "\<lambda>_ :: oracle_host. recipient_enforce"
  by unfold_locales
    (auto simp: policy_ttl_constants recipient_enforce_Inr emit_recipient_enforced_def
      intro: exI [of _ "[_]"])

interpretation parameter_life: refreshing_policy PARAMETER_SCOPED_TTL_THRESHOLD
  PARAMETER_SCOPED_EXTEND_AMOUNT "\<lambda>_ :: oracle_host. parameter_enforce"
  by unfold_locales
    (auto simp: policy_ttl_constants parameter_enforce_Inr emit_conditions_enforced_def
      intro: exI [of _ "[_]"])

interpretation multi_life: refreshing_policy POLICY_TTL_THRESHOLD POLICY_EXTEND_AMOUNT multi_enforce
  by unfold_locales
    (auto simp: policy_ttl_constants multi_enforce_Inr intro: exI [of _ "[]"])

end
