(* ===== verification/Life_Properties.thy ===== *)
theory Life_Properties
  imports Vault_Life Vesting_Life Factory_Life Registry_Life Policy_Life
begin

text \<open>
  The properties of stored entries over time, each with a concrete instance: a vault that is bumped
  often enough can always be withdrawn from after its lock, a schedule that is read often enough pays
  out to its end, a factory is archived on a fixed date unless it is used in its last minutes, an account's
  deployment record lives by its own reads, and a policy that is used often enough
  never becomes unusable.  The definitions of the first section are the data of the instances.
\<close>

section \<open>Concrete data\<close>

definition demo_net :: network where
  "demo_net = \<lparr>min_persistent_ttl = 120960, max_entry_ttl = 3110400\<rparr>"

definition life_env :: "u32 \<Rightarrow> env" where
  "life_env l = \<lparr>ledger_sequence = l, ledger_timestamp = 0,
     current_contract_address = Addr 9, authorized = (\<lambda>a. a = Addr 11)\<rparr>"

definition life_vault :: vault_state where
  "life_vault = \<lparr>vault_owner = Some (Addr 11), unlock_ledger = Some 4000000,
     vault_log = [ExtendTtl Owner TTL_THRESHOLD EXTEND_AMOUNT,
                  ExtendTtl UnlockLedger TTL_THRESHOLD EXTEND_AMOUNT]\<rparr>"

definition life_funds :: mock_ledger where
  "life_funds = mock_set (Addr 5) (Addr 9) 500 (\<lambda>_ _. None)"

abbreviation life_transfer :: "mock_ledger token_transfer" where
  "life_transfer \<equiv> nonneg_transfer (mock_transfer (\<lambda>_. True))"




lemma demo_net_vesting: "uint INSTANCE_EXTEND_AMOUNT < max_entry_ttl demo_net"
  by (simp add: demo_net_def INSTANCE_EXTEND_AMOUNT_def DAY_IN_LEDGERS_def)

section \<open>The vault\<close>




text \<open>
  The interval matters: the module documentation asks for one \<open>bump_ttl\<close> per \<open>EXTEND_AMOUNT\<close> window,
  but a bump that comes within the first day after a refresh extends nothing, and the next bump
  \<open>EXTEND_AMOUNT\<close> ledgers later finds the entries archived.
\<close>

definition spaced_calls :: "(env \<times> vault_call) list" where
  "spaced_calls = [(life_env 17379, CallBump), (life_env (17379 + EXTEND_AMOUNT), CallBump)]"

theorem bump_per_extend_amount_is_not_enough:
  "living_call demo_net life_transfer (life_env 4000000) (CallWithdraw (Addr 5) 500 (Addr 11))
      (living_run demo_net life_transfer spaced_calls
        (vault_born demo_net (life_env 100) life_vault life_funds)) = Inl (Trap EntryArchived)"
proof -
  let ?v = "living_run demo_net life_transfer spaced_calls
        (vault_born demo_net (life_env 100) life_vault life_funds)"
  have "\<not> is_live (ledger_sequence (life_env 4000000)) (lv_life ?v) Owner" by code_simp
  then show ?thesis by (simp add: living_call_def guard_def)
qed

section \<open>The vesting schedule\<close>

text \<open>
  C17: A schedule can be kept alive to its end, however long it runs, by reading it.  From the
  constructor on, let every call, the owner's claim included, come at most
  \<open>INSTANCE_TTL_THRESHOLD + 1\<close> ledgers after the last query (or the constructor), with any other claims,
  accepted or refused, and any other traffic of the network in between.  Then the stored schedule is
  never archived, its terms are the constructor's and its claimed amount is what was paid; and a claim
  the owner authorised, with a token that accepts the transfer, succeeds, moves exactly what has
  vested and was not paid, and brings the amount paid to the vested amount, the total from the end
  ledger on.
\<close>

theorem vesting_kept_alive:
  assumes "vesting_constructor (owner d) (token d) (total_amount d) (start_ledger d) (cliff_ledger d)
      (end_ledger d) s0 = Inr s" "vesting_log s0 = []"
    and "total_amount d \<le> i128_max" "claimed_amount d = 0"
    and "uint INSTANCE_EXTEND_AMOUNT < max_entry_ttl net"
    and "read_often (ledger_sequence e0) (ledger_sequence e0) (cs @ [(e, CallClaim to)])"
    and "v = vesting_live_run net transfer cs (vesting_born net e0 s w0)" "y = lv_system v"
    and "authorized e (owner d)"
    and "due = vested d (ledger_sequence e) - paid y"
    and "0 < due \<Longrightarrow> transfer (token d) (current_contract_address e) to due (vw y) = Some w'"
    and "due \<le> 0 \<Longrightarrow> w' = vw y"
  shows "is_live (ledger_sequence e) (lv_entry v) ()
     \<and> schedule (vs y) = Some (d\<lparr>claimed_amount := paid y\<rparr>) \<and> 0 \<le> due
     \<and> (\<exists>v'. vesting_live_call net transfer e (CallClaim to) v = Inr v'
          \<and> vw (lv_system v') = w' \<and> paid (lv_system v') = vested d (ledger_sequence e)
          \<and> (end_ledger d \<le> ledger_sequence e \<longrightarrow> paid (lv_system v') = total_amount d))"
proof -
  have "vesting_started d (lv_system (vesting_born net e0 s w0))"
    using assms(1,3,4) by (auto simp: vesting_started_def vesting_born_def)
  from vesting_live_run_kept [OF assms(5) vesting_born_kept [OF assms(1,2,5)] started_inv [OF this] _
      assms(6), of transfer]
  have live: "is_live (ledger_sequence e) (lv_entry v) ()" and inv: "vesting_inv d y"
    and le: "vnow y \<le> ledger_sequence e"
    by (simp_all add: assms(7,8) vesting_born_def)
  from inv have sch: "schedule (vs y) = Some (d\<lparr>claimed_amount := paid y\<rparr>)" and ok: "schedule_ok d"
    by (simp_all add: vesting_inv_def)
  have due: "0 \<le> due"
    using vested_monotone [OF ok le] inv by (simp add: assms(10) vesting_inv_def)
  obtain s' where "claim transfer e to (vs y) (vw y) = Inr (due, s', w')"
    using assms(9-12) by (cases "0 < due") (auto simp: claim_Inr [OF sch inv_schedule_ok [OF inv]])
  with live have "\<exists>v'. vesting_live_call net transfer e (CallClaim to) v = Inr v'
      \<and> vw (lv_system v') = w' \<and> paid (lv_system v') = paid y + due"
    by (simp add: vesting_live_call_def Let_def assms(8))
  with live sch due vested_complete [OF ok] show ?thesis by (auto simp: assms(10))
qed

definition life_schedule :: ScheduleData where
  "life_schedule = \<lparr>owner = Addr 11, token = Addr 5, total_amount = 500, start_ledger = 100,
     cliff_ledger = Some 120, end_ledger = 200, claimed_amount = 0\<rparr>"

definition life_vesting :: vesting_state where
  "life_vesting = emit_schedule_created (Addr 11) (Addr 5) 500 100 (Some 120) 200
     (extend_instance_ttl \<lparr>schedule = Some life_schedule, vesting_log = []\<rparr>)"

text \<open>A claim before the cliff, one halfway, and two reads long after the end.\<close>

definition life_reads :: "(env \<times> mock_ledger vesting_call) list" where
  "life_reads = [(life_env 110, CallClaim (Addr 11)), (life_env 150, CallClaim (Addr 11)),
     (life_env 151, Traffic id), (life_env 500000, CallVestedAmount), (life_env 900000, CallOwner)]"

theorem vesting_kept_alive_witness:
  "\<exists>v'. vesting_live_call demo_net life_transfer (life_env 1400000) (CallClaim (Addr 11))
      (vesting_live_run demo_net life_transfer life_reads
        (vesting_born demo_net (life_env 100) life_vesting life_funds)) = Inr v'
     \<and> paid (lv_system v') = 500"
proof -
  let ?y = "lv_system (vesting_live_run demo_net life_transfer life_reads
        (vesting_born demo_net (life_env 100) life_vesting life_funds))"
  have c: "vesting_constructor (owner life_schedule) (token life_schedule) (total_amount life_schedule)
      (start_ledger life_schedule) (cliff_ledger life_schedule) (end_ledger life_schedule)
      \<lparr>schedule = None, vesting_log = []\<rparr> = Inr life_vesting"
    by (simp add: vesting_constructor_Inr life_vesting_def life_schedule_def)
  have r: "read_often (ledger_sequence (life_env 100)) (ledger_sequence (life_env 100))
      (life_reads @ [(life_env 1400000, CallClaim (Addr 11))])"
    by code_simp
  have p: "paid ?y = 250" by code_simp
  have "vested life_schedule (ledger_sequence (life_env 1400000)) = 500"
    by (simp add: vested_def vested_spec_def life_schedule_def life_env_def word_less_def)
  with p have due: "vested life_schedule (ledger_sequence (life_env 1400000)) - paid ?y = 250" by simp
  have "life_transfer (Addr 5) (Addr 9) (Addr 11) 250 (vw ?y) \<noteq> None" by code_simp
  then obtain w' where w': "life_transfer (token life_schedule)
      (current_contract_address (life_env 1400000)) (Addr 11) 250 (vw ?y) = Some w'"
    by (auto simp: life_env_def life_schedule_def)
  have "authorized (life_env 1400000) (owner life_schedule)" "total_amount life_schedule \<le> i128_max"
    "end_ledger life_schedule \<le> ledger_sequence (life_env 1400000)" "claimed_amount life_schedule = 0"
    by (simp_all add: life_env_def life_schedule_def i128_max_def word_le_def)
  with vesting_kept_alive [where w' = w', OF c _ _ _ demo_net_vesting r refl refl _ due [symmetric] w'] show ?thesis
    by (auto simp: life_schedule_def)
qed

section \<open>The factory\<close>

text \<open>
  C11: How long a factory lives.  The requests of the constructor and of the configuration reads
  take effect only in the last hundred ledgers of the entry's life, so on a network whose new entries
  live longer than that, let \<open>u\<close> be the last ledger the network gave the entry at the
  constructor.  Whatever calls were made, as long as none of those that read the configuration fell
  into the last hundred ledgers before \<open>u\<close>, the entry still ends at \<open>u\<close>: every call after \<open>u\<close> fails
  because the factory is archived, however often it was used before.  A configuration read in those
  last hundred ledgers renews it for 1,555,200 ledgers from there.
\<close>

theorem factory_lifespan:
  assumes "factory_constructor h w0 wasm_hash ed wa tp s0 = Inr s" "factory_log s0 = []"
    and "u = fresh_until net (ledger_sequence e0)" "uint (ledger_sequence e0) + 100 < u"
    and "\<forall>(e, c) \<in> set cs. reads_config c \<longrightarrow> \<not> last_minutes u (ledger_sequence e)"
    and "v = factory_live_run net h cs (factory_born net e0 s w0)"
  shows "(\<forall>e c. u < uint (ledger_sequence e)
            \<longrightarrow> factory_live_call net h e c v = Inl (Trap EntryArchived))
     \<and> (\<forall>e c a s' w'. 1555200 < max_entry_ttl net \<and> last_minutes u (ledger_sequence e) \<and> reads_config c
            \<and> factory_exec h e c (lf_state v) (lf_world v) = Inr (a, s', w')
            \<longrightarrow> (\<exists>v'. factory_live_call net h e c v = Inr (a, v')
                 \<and> lf_life v' () = Some (max u (until (ledger_sequence e) 1555200))))"
proof -
  have u: "lf_life v () = Some u"
    using factory_live_run_life [OF factory_born_life [OF assms(1,2)], of e0 net cs] assms(3-6) by simp
  show ?thesis
    by (intro conjI allI impI)
      (use factory_live_call_archived [OF u] factory_live_call_late [OF u] in \<open>auto\<close>)
qed

definition life_host :: "unit factory_host" where
  "life_host = \<lparr>sha256 = id, to_xdr = (\<lambda>_. []), deployed_address = (\<lambda>a salt. Addr 77),
     executable = (\<lambda>w a. True), deploy_v2 = (\<lambda>d salt hash ss ps w. Some w)\<rparr>"

definition life_factory :: factory_state where
  "life_factory = extend_factory_ttl
     \<lparr>config = Some \<lparr>smart_account_wasm_hash = [], ed25519_verifier = Addr 1, webauthn_verifier = Addr 2,
        threshold_policy = Addr 3\<rparr>, factory_log = []\<rparr>"

text \<open>A factory used until a day before its end, and then again a day after it.\<close>

definition life_lookups :: "(env \<times> factory_call) list" where
  "life_lookups = map (\<lambda>l. (life_env l, CallPolicy)) [200, 5000, 50000, 100000, 103000]"

theorem factory_lifespan_witness:
  "factory_live_call demo_net life_host (life_env 140000) CallPolicy
      (factory_live_run demo_net life_host life_lookups
        (factory_born demo_net (life_env 100) life_factory ())) = Inl (Trap EntryArchived)"
proof -
  have c: "factory_constructor life_host () [] (Addr 1) (Addr 2) (Addr 3) \<lparr>config = None, factory_log = []\<rparr>
      = Inr life_factory"
    by (simp add: factory_constructor_def validate_singleton_address_def life_host_def life_factory_def)
  have u: "fresh_until demo_net (ledger_sequence (life_env 100)) = 121059" by code_simp
  have l: "\<forall>(e, c) \<in> set life_lookups. reads_config c \<longrightarrow> \<not> last_minutes 121059 (ledger_sequence e)"
    by code_simp
  from factory_lifespan [OF c _ u [symmetric] _ l refl] show ?thesis
    by (simp add: life_env_def)
qed

section \<open>The deployment records\<close>

text \<open>
  C22: Each deployment record of an account has a life of its own.  Let a contract be deployed through the
  account and any calls follow, further deployments and reads of any records by anyone.  If the reads of
  this record, and the one in question, follow each other at distances of at most the threshold plus one
  ledgers, reading it gives the deployed address and code hash.  Nothing but reads of the record itself
  keeps it: if there were none since the deployment, it is archived once its first life is over, however
  busy the account was.
\<close>

theorem records_live_apart:
  fixes lib :: "('w, 'v, 'ap, 'er) account_lib"
  assumes "SMART_ACCOUNT_TTL_THRESHOLD lib < SMART_ACCOUNT_EXTEND_AMOUNT lib"
    and "uint (SMART_ACCOUNT_EXTEND_AMOUNT lib) < max_entry_ttl net"
    and "registry (la_state v0) xs" "account_live_deploy net lib e0 hash salt args v0 = Inr (a, v1)"
    and "i = of_nat (length xs)" "v = account_live_run net lib cs v1"
  shows "(gaps_within (uint (SMART_ACCOUNT_TTL_THRESHOLD lib) + 1) (ledger_sequence e0)
            (reads_of i cs @ [ledger_sequence e]) \<longrightarrow>
          (\<exists>v'. account_live_get net lib e i v = Inr (\<lparr>dc_address = a, dc_wasm_hash = hash\<rparr>, v')))
     \<and> (\<forall>u. la_life v1 (DeployedContract i) = Some u \<and> reads_of i cs = [] \<and> u < uint (ledger_sequence e)
          \<longrightarrow> account_live_get net lib e i v = Inl (Trap EntryArchived))"
proof -
  let ?T = "SMART_ACCOUNT_TTL_THRESHOLD lib" and ?X = "SMART_ACCOUNT_EXTEND_AMOUNT lib"
  let ?u = "extend_ttl net (ledger_sequence e0) ?T ?X (fresh_until net (ledger_sequence e0))"
  have ttl: "ttl_constants ?T ?X" using assms(1) by (rule ttl_constants.intro)
  have start: "record_at i \<lparr>dc_address = a, dc_wasm_hash = hash\<rparr> ?u v1"
    using deployed_record [OF assms(3,4)] by (simp add: assms(5))
  then have rec: "record_at i \<lparr>dc_address = a, dc_wasm_hash = hash\<rparr> (fold (read_at net lib) (reads_of i cs) ?u) v"
    unfolding assms(6) by (rule account_live_run_record)
  then have life: "la_life v (DeployedContract i) = Some (fold (read_at net lib) (reads_of i cs) ?u)"
    by (simp add: record_at_def)
  note get = live_get_eq [OF record_at_deployed [OF rec] life, of net lib e]
  have "until (ledger_sequence e0) (uint ?T + 1) \<le> ?u" by (rule ttl_constants.extend_lives [OF ttl assms(2)])
  from read_often_live [OF ttl assms(2) this, of "reads_of i cs" "ledger_sequence e"] get start
  show ?thesis by (auto simp: record_at_def)
qed

definition life_account_lib :: "(nat, unit, unit, unit) account_lib" where
  "life_account_lib = \<lparr>account_deploy_v2 = (\<lambda>d salt hash args w. Some (Addr w, w + 1)),
     add_context_rule = (\<lambda>t name until ss ps w. Some w), lib_batch_add_signer = (\<lambda>i ss w. Some w),
     lib_upgrade = (\<lambda>hash w. Some w), do_check_auth = (\<lambda>p sg cs w. Inr w),
     SMART_ACCOUNT_TTL_THRESHOLD = 501120, SMART_ACCOUNT_EXTEND_AMOUNT = 518400\<rparr>"

definition life_account :: "nat living_account" where
  "life_account = \<lparr>la_state = init_account_state, la_world = 3, la_life = (\<lambda>_. None)\<rparr>"

text \<open>Record 0 is read twice, record 1 never.\<close>

definition life_account_calls :: "(env \<times> unit account_call) list" where
  "life_account_calls = [(life_env 200, CallDeploy [2] [8] []), (life_env 400000, CallGetRecord 0),
     (life_env 900000, CallGetRecord 0)]"

theorem records_live_apart_witness:
  "\<exists>v1 v'. account_live_deploy demo_net life_account_lib (life_env 100) [1] [7] [] life_account = Inr (Addr 3, v1)
     \<and> account_live_get demo_net life_account_lib (life_env 1400000) 0
         (account_live_run demo_net life_account_lib life_account_calls v1)
         = Inr (\<lparr>dc_address = Addr 3, dc_wasm_hash = [1]\<rparr>, v')"
proof -
  obtain v1 where v1: "account_live_deploy demo_net life_account_lib (life_env 100) [1] [7] [] life_account
      = Inr (Addr 3, v1)"
    by (simp add: account_live_deploy_def deploy_contract_def record_deployed_def life_account_lib_def
        life_account_def init_account_state_def get_deployed_contract_count_def checked_add_word_def Let_def)
  have reg: "registry (la_state life_account) []" by (simp add: life_account_def init_registry)
  have gaps: "gaps_within (uint (SMART_ACCOUNT_TTL_THRESHOLD life_account_lib) + 1) (ledger_sequence (life_env 100))
      (reads_of 0 life_account_calls @ [ledger_sequence (life_env 1400000)])"
    by code_simp
  have c: "SMART_ACCOUNT_TTL_THRESHOLD life_account_lib < SMART_ACCOUNT_EXTEND_AMOUNT life_account_lib"
    "uint (SMART_ACCOUNT_EXTEND_AMOUNT life_account_lib) < max_entry_ttl demo_net"
    by (simp_all add: life_account_lib_def demo_net_def word_less_def)
  have "(0 :: u32) = of_nat (length ([] :: DeployedContract list))" by simp
  from records_live_apart [OF c reg v1 this refl, THEN conjunct1, rule_format, OF gaps] v1
  show ?thesis by blast
qed

section \<open>The policies\<close>

text \<open>
  C30: A policy stays usable as long as it is used.  For each of the session, recipient, parameter
  and multi-token policies: a sequence of enforcements of an installed rule, the first while the
  entry is live and each next one at most the policy's threshold plus one ledgers (29 days) later,
  each with what the oracle answers at that moment, that the policy approves when archival is ignored is
  also approved, with the same final state, when archived entries fail the call.
\<close>

theorem policy_used_stays_alive:
  assumes "uint SESSION_EXTEND_AMOUNT < max_entry_ttl net"
    and "m (AccountContext a (rule_id r)) = Some u" "uint (ledger_sequence e) \<le> u"
    and "gaps_within (uint SESSION_TTL_THRESHOLD + 1) (ledger_sequence e) (map request_ledger qs)"
    and "us = (h, e, c, sg) # qs"
  shows "(\<forall>s s'. enforce_all (\<lambda>_. session_enforce) r a us s = Inr s' \<longrightarrow>
            (\<exists>m'. living_enforce_all net (\<lambda>_. session_enforce) r a us (s, m) = Inr (s', m')))
       \<and> (\<forall>s s'. enforce_all (\<lambda>_. recipient_enforce) r a us s = Inr s' \<longrightarrow>
            (\<exists>m'. living_enforce_all net (\<lambda>_. recipient_enforce) r a us (s, m) = Inr (s', m')))
       \<and> (\<forall>s s'. enforce_all (\<lambda>_. parameter_enforce) r a us s = Inr s' \<longrightarrow>
            (\<exists>m'. living_enforce_all net (\<lambda>_. parameter_enforce) r a us (s, m) = Inr (s', m')))
       \<and> (\<forall>s s'. enforce_all multi_enforce r a us s = Inr s' \<longrightarrow>
            (\<exists>m'. living_enforce_all net multi_enforce r a us (s, m) = Inr (s', m')))"
proof -
  have same:
    "RECIPIENT_EXTEND_AMOUNT = SESSION_EXTEND_AMOUNT" "RECIPIENT_TTL_THRESHOLD = SESSION_TTL_THRESHOLD"
    "PARAMETER_SCOPED_EXTEND_AMOUNT = SESSION_EXTEND_AMOUNT"
    "PARAMETER_SCOPED_TTL_THRESHOLD = SESSION_TTL_THRESHOLD"
    "POLICY_EXTEND_AMOUNT = SESSION_EXTEND_AMOUNT" "POLICY_TTL_THRESHOLD = SESSION_TTL_THRESHOLD"
    by (simp_all add: policy_ttl_values)
  note alive = session_life.first_use_then_regular [where m = m, OF assms(1) _ assms(2,3,4)]
    recipient_life.first_use_then_regular [where m = m, unfolded same, OF assms(1) _ assms(2,3,4)]
    parameter_life.first_use_then_regular [where m = m, unfolded same, OF assms(1) _ assms(2,3,4)]
    multi_life.first_use_then_regular [where m = m, unfolded same, OF assms(1) _ assms(2,3,4)]
  show ?thesis
    unfolding assms(5) by (intro conjI allI impI) (elim alive)+
qed

text \<open>
  One rule with all four policies, used three times in 58 days, each time to transfer 60 dollars at a
  price quoted 100 seconds before.
\<close>

definition life_rule :: ContextRule where
  "life_rule = \<lparr>rule_id = 1, context_type = CallContract (Addr 5)\<rparr>"

definition life_session :: session_state where
  "life_session = store_set (AccountContext (Addr 11) 1) \<lparr>allowed_fns = [''transfer'']\<rparr> init_policy_state"

definition life_recipients :: recipient_state where
  "life_recipients = store_set (AccountContext (Addr 11) 1) \<lparr>allowed_recipients = [Addr 2]\<rparr> init_policy_state"

definition life_conditions :: parameter_state where
  "life_conditions = store_set (AccountContext (Addr 11) 1) \<lparr>conditions = [(''transfer'', [])]\<rparr> init_policy_state"

definition life_limit :: multi_state where
  "life_limit = store_set (AccountContext (Addr 11) 1)
     \<lparr>spending_limit_usd = 100, period_ledgers = 10, oracle_address = Addr 4,
      usd_divisor = 10, allowed_tokens = [Addr 5], token_divisors = [10],
      spending_history = [], cached_total_spent_usd = 0\<rparr> init_policy_state"

definition life_request :: "u32 \<Rightarrow> oracle_host request" where
  "life_request l =
     (\<lparr>decimals = (\<lambda>_. Some 1), lastprice = (\<lambda>_ _. Some (Some \<lparr>price = 10, timestamp = 5 * ucast l - 100\<rparr>))\<rparr>,
      (life_env l)\<lparr>ledger_timestamp := 5 * ucast l\<rparr>,
      Contract \<lparr>ctx_contract = Addr 5, ctx_fn_name = ''transfer'',
        ctx_args = [AddressVal (Addr 11), AddressVal (Addr 2), I128Val 600]\<rparr>,
      [Signer.Delegated (Addr 12)])"

theorem policy_used_stays_alive_witness:
  "\<exists>x1 x2 x3 x4.
     living_enforce_all demo_net (\<lambda>_. session_enforce) life_rule (Addr 11)
       (map life_request [100000, 600000, 1100000]) (life_session, \<lambda>_. Some (fresh_until demo_net 1)) = Inr x1
   \<and> living_enforce_all demo_net (\<lambda>_. recipient_enforce) life_rule (Addr 11)
       (map life_request [100000, 600000, 1100000]) (life_recipients, \<lambda>_. Some (fresh_until demo_net 1)) = Inr x2
   \<and> living_enforce_all demo_net (\<lambda>_. parameter_enforce) life_rule (Addr 11)
       (map life_request [100000, 600000, 1100000]) (life_conditions, \<lambda>_. Some (fresh_until demo_net 1)) = Inr x3
   \<and> living_enforce_all demo_net multi_enforce life_rule (Addr 11)
       (map life_request [100000, 600000, 1100000]) (life_limit, \<lambda>_. Some (fresh_until demo_net 1)) = Inr x4"
proof -
  let ?us = "map life_request [100000, 600000, 1100000]" and ?m = "\<lambda>_. Some (fresh_until demo_net 1)"
  obtain h e c sg where q: "life_request 100000 = (h, e, c, sg)" and e: "ledger_sequence e = 100000"
    by (simp add: life_request_def life_env_def)
  have gaps: "gaps_within (uint SESSION_TTL_THRESHOLD + 1) 100000
      (map request_ledger (map life_request [600000, 1100000]))" by code_simp
  have live: "uint (100000 :: u32) \<le> fresh_until demo_net 1" by code_simp
  have room: "uint SESSION_EXTEND_AMOUNT < max_entry_ttl demo_net"
    by (simp add: demo_net_def SESSION_EXTEND_AMOUNT_def DAY_IN_LEDGERS_def)
  have us: "?us = (h, e, c, sg) # map life_request [600000, 1100000]" using q by simp
  note alive = policy_used_stays_alive [of demo_net ?m "Addr 11" life_rule, OF room refl
      live [folded e] gaps [folded e] us]
  have ok: "\<not> isl (enforce_all (\<lambda>_. session_enforce) life_rule (Addr 11) ?us life_session)"
    "\<not> isl (enforce_all (\<lambda>_. recipient_enforce) life_rule (Addr 11) ?us life_recipients)"
    "\<not> isl (enforce_all (\<lambda>_. parameter_enforce) life_rule (Addr 11) ?us life_conditions)"
    "\<not> isl (enforce_all multi_enforce life_rule (Addr 11) ?us life_limit)"
    by code_simp+
  have right: "\<exists>s. x = Inr s" if "\<not> isl x" for x :: "'l + 'r" using that by (cases x) simp_all
  from right [OF ok(1)] right [OF ok(2)] right [OF ok(3)] right [OF ok(4)] alive show ?thesis by blast
qed

end
