(* ===== verification/Account_Templates.thy ===== *)
theory Account_Templates
  imports Smart_Account Vesting_Machine Timelock_Vault
begin

text \<open>
  A smart account deploying one of the templates: \<open>deploy_contract\<close> of
  \<open>src/latch-smart-account/src/lib.rs\<close> composed with the constructors and the later life of
  \<open>src/templates/vesting-schedule\<close> and \<open>src/templates/timelock-vault\<close>.  Creating a contract is a host
  function and stays a parameter; \<open>runs_templates\<close> states what its documentation promises.
\<close>

section \<open>Constructing a template from its arguments\<close>

datatype template = VestingTemplate | VaultTemplate

datatype template_instance = VestingInstance vesting_state | VaultInstance vault_state

text \<open>The constructor arguments as the host passes them; a value of the wrong type fails the call.\<close>

fun vesting_args ::
  "val list \<Rightarrow> (address \<times> address \<times> i128 \<times> u32 \<times> u32 option \<times> u32) option" where
  "vesting_args [a, b, c, d, x, f] =
     (case (address_try_from_val a, address_try_from_val b, i128_try_from_val c, u32_try_from_val d,
            opt_u32_try_from_val x, u32_try_from_val f) of
        (Some ow, Some tk, Some tot, Some st, Some cl, Some en) \<Rightarrow> Some (ow, tk, tot, st, cl, en)
      | _ \<Rightarrow> None)"
| "vesting_args _ = None"

fun vault_args :: "val list \<Rightarrow> (address \<times> u32) option" where
  "vault_args [a, b] =
     (case (address_try_from_val a, u32_try_from_val b) of
        (Some ow, Some unlock) \<Rightarrow> Some (ow, unlock)
      | _ \<Rightarrow> None)"
| "vault_args _ = None"

fun construct_template :: "template \<Rightarrow> env \<Rightarrow> val list \<Rightarrow> template_instance option" where
  "construct_template VestingTemplate e args =
     (case vesting_args args of
        None \<Rightarrow> None
      | Some (ow, tk, tot, st, cl, en) \<Rightarrow>
          (case vesting_constructor ow tk tot st cl en \<lparr>schedule = None, vesting_log = []\<rparr> of
             Inl _ \<Rightarrow> None
           | Inr s \<Rightarrow> Some (VestingInstance s)))"
| "construct_template VaultTemplate e args =
     (case vault_args args of
        None \<Rightarrow> None
      | Some (ow, unlock) \<Rightarrow>
          (case vault_constructor e ow unlock \<lparr>vault_owner = None, unlock_ledger = None, vault_log = []\<rparr> of
             Inl _ \<Rightarrow> None
           | Inr s \<Rightarrow> Some (VaultInstance s)))"

text \<open>
  What the host promises of creating a contract: it refuses an address that is taken, runs the
  constructor of the uploaded code with the given arguments, and leaves every other contract alone.
  Nothing is assumed about authorisation: a contract that deploys from its own address counts as having
  authorised it.  \<open>code\<close> says which hashes are those of the templates, \<open>inst\<close> reads the template contracts
  out of the world.
\<close>

definition runs_templates ::
  "('w, val, 'ap, 'er) account_lib \<Rightarrow> env \<Rightarrow> (bytes \<Rightarrow> template option)
   \<Rightarrow> ('w \<Rightarrow> address \<Rightarrow> template_instance option) \<Rightarrow> bool" where
  "runs_templates lib e code inst \<longleftrightarrow>
     (\<forall>d salt wasm args w a w'. account_deploy_v2 lib d salt wasm args w = Some (a, w') \<longrightarrow>
        inst w a = None \<and> (\<forall>b. b \<noteq> a \<longrightarrow> inst w' b = inst w b)
        \<and> (\<forall>t. code wasm = Some t \<longrightarrow>
             (\<exists>i. construct_template t (e\<lparr>current_contract_address := a\<rparr>) args = Some i
                  \<and> inst w' a = Some i)))"

text \<open>The address of a new contract is derived from the deployer and the salt.\<close>

definition derives_addresses ::
  "('w, 'v, 'ap, 'er) account_lib \<Rightarrow> (address \<Rightarrow> bytes \<Rightarrow> address) \<Rightarrow> bool" where
  "derives_addresses lib addr_of \<longleftrightarrow>
     (\<forall>d salt wasm args w a w'. account_deploy_v2 lib d salt wasm args w = Some (a, w') \<longrightarrow> a = addr_of d salt)"

section \<open>Deployments by an account\<close>

lemma deploy_contract_Inr:
  "deploy_contract lib e wasm salt args s w = Inr (addr, s', w') \<longleftrightarrow>
     account_deploy_v2 lib (current_contract_address e) salt wasm args w = Some (addr, w')
     \<and> record_deployed lib \<lparr>dc_address = addr, dc_wasm_hash = wasm\<rparr> s = Inr s'"
  by (auto simp: deploy_contract_def result_simps)

text \<open>A salt is used up: as long as the contract is there, no deployment with its salt succeeds.\<close>

lemma salt_used_up:
  assumes "deploy_contract lib e wasm salt args s w = Inr (addr, s', w')" "derives_addresses lib addr_of"
    and "derives_addresses lib2 addr_of" "runs_templates lib2 e2 code inst"
    and "current_contract_address e2 = current_contract_address e" "inst w2 addr \<noteq> None"
  shows "deploy_contract lib2 e2 wasm2 salt args2 s2 w2 = Inl (Trap DeployFailed)"
proof (cases "account_deploy_v2 lib2 (current_contract_address e2) salt wasm2 args2 w2")
  case None
  then show ?thesis by (simp add: deploy_contract_def)
next
  case (Some aw)
  obtain a2 w2' where aw: "aw = (a2, w2')" by (cases aw)
  have "a2 = addr"
    using assms(1-3,5) Some aw unfolding deploy_contract_Inr derives_addresses_def by metis
  moreover have "inst w2 a2 = None" using assms(4) Some aw by (auto simp: runs_templates_def)
  ultimately show ?thesis using assms(6) by simp
qed

lemma deploy_template:
  assumes "runs_templates lib e code inst" "code wasm = Some t"
    and "deploy_contract lib e wasm salt args s w = Inr (addr, s', w')" "registry s xs"
  obtains i where "construct_template t (e\<lparr>current_contract_address := addr\<rparr>) args = Some i"
    "inst w' addr = Some i"
    "registry s' (xs @ [\<lparr>dc_address = addr, dc_wasm_hash = wasm\<rparr>])"
proof -
  from assms(3) have dep: "account_deploy_v2 lib (current_contract_address e) salt wasm args w = Some (addr, w')"
    and reg: "record_deployed lib \<lparr>dc_address = addr, dc_wasm_hash = wasm\<rparr> s = Inr s'"
    by (auto simp: deploy_contract_Inr)
  from assms(1,2) dep have
    "\<exists>i. construct_template t (e\<lparr>current_contract_address := addr\<rparr>) args = Some i \<and> inst w' addr = Some i"
    unfolding runs_templates_def by blast
  with deployments.add_rep [OF assms(4) reg] that show ?thesis by blast
qed

lemma vesting_constructed:
  assumes "vesting_constructor ow tk tot st cl en s0 = Inr (vs c)" "tot \<le> i128_max" "paid c = 0"
  shows "vesting_started \<lparr>owner = ow, token = tk, total_amount = tot, start_ledger = st,
           cliff_ledger = cl, end_ledger = en, claimed_amount = 0\<rparr> c"
  using assms by (auto simp: vesting_started_def)

text \<open>
  A vesting contract constructed for an owner: at any later time only calls the owner authorised
  release anything, and never more than the total.
\<close>

lemma constructed_vesting_claims:
  assumes "vesting_constructor ow tk tot st cl en s0 = Inr (vs c0)" "tot \<le> i128_max" "paid c0 = 0"
    and "vesting_reachable transfer others self c0 c"
    and "claim transfer e to (vs c) (vw c) = Inr (r, s', w')" "ledger_sequence e = vnow c"
  shows "authorized e ow \<and> 0 \<le> r \<and> paid c + r \<le> tot"
proof -
  let ?d = "\<lparr>owner = ow, token = tk, total_amount = tot, start_ledger = st,
           cliff_ledger = cl, end_ledger = en, claimed_amount = 0\<rparr>"
  have inv: "vesting_inv ?d c"
    using reachable_vesting_inv [OF assms(4) vesting_constructed [OF assms(1-3)]] .
  then have "schedule_ok ?d" "paid c \<le> vested ?d (vnow c)" by (simp_all add: vesting_inv_def)
  with claim_inv [OF inv assms(5,6)] vested_range [of ?d "vnow c"] show ?thesis by simp
qed

lemma deployed_vesting:
  assumes "runs_templates lib e code inst" "code wasm = Some VestingTemplate"
    and "deploy_contract lib e wasm salt args s w = Inr (addr, s', w')" "registry s xs"
  obtains ow tk tot st cl en vst where "vesting_args args = Some (ow, tk, tot, st, cl, en)"
    "inst w' addr = Some (VestingInstance vst)"
    "vesting_constructor ow tk tot st cl en \<lparr>schedule = None, vesting_log = []\<rparr> = Inr vst"
proof -
  obtain i where "construct_template VestingTemplate (e\<lparr>current_contract_address := addr\<rparr>) args = Some i"
    "inst w' addr = Some i"
    using deploy_template [OF assms(1-4)] .
  with that show ?thesis by (auto split: option.splits sum.splits)
qed

text \<open>The same for a vault.\<close>

lemma constructed_vault_withdrawals:
  assumes "vault_constructor e0 ow unlock s0 = Inr (vault c0)"
    and "vault_reachable transfer others self c0 c"
    and "withdraw transfer e tk amount to (vault c) (world c) = Inr (s', w')"
  shows "authorized e ow \<and> unlock \<le> ledger_sequence e"
proof -
  from vault_constructor_Inr [OF assms(1)] reachable_cfg [OF assms(2)]
  have "vault_cfg (vault c) ow unlock" by simp
  with assms(3) show ?thesis by (auto simp: withdraw_Inr vault_cfg_def)
qed

lemma deployed_vault:
  assumes "runs_templates lib e code inst" "code wasm = Some VaultTemplate"
    and "deploy_contract lib e wasm salt args s w = Inr (addr, s', w')" "registry s xs"
  obtains ow unlock vst where "vault_args args = Some (ow, unlock)"
    "inst w' addr = Some (VaultInstance vst)"
    "vault_constructor (e\<lparr>current_contract_address := addr\<rparr>) ow unlock
       \<lparr>vault_owner = None, unlock_ledger = None, vault_log = []\<rparr> = Inr vst"
proof -
  obtain i where "construct_template VaultTemplate (e\<lparr>current_contract_address := addr\<rparr>) args = Some i"
    "inst w' addr = Some i"
    using deploy_template [OF assms(1-4)] .
  with that show ?thesis by (auto split: option.splits sum.splits)
qed

section \<open>A concrete host\<close>

text \<open>
  A host that keeps the template contracts by address and derives the address of a contract from the
  first byte of its salt.
\<close>

type_synonym template_world = "address \<Rightarrow> template_instance option"

definition salt_address :: "address \<Rightarrow> bytes \<Rightarrow> address" where
  "salt_address d salt = Addr (40 + (case salt of [] \<Rightarrow> 0 | b # _ \<Rightarrow> unat b))"

definition template_deploy ::
  "env \<Rightarrow> (bytes \<Rightarrow> template option) \<Rightarrow> address \<Rightarrow> bytes \<Rightarrow> bytes \<Rightarrow> val list \<Rightarrow> template_world
   \<Rightarrow> (address \<times> template_world) option" where
  "template_deploy e code d salt wasm args w =
     (let a = salt_address d salt in
      if w a \<noteq> None then None
      else
        (case code wasm of
           None \<Rightarrow> None
         | Some t \<Rightarrow> map_option (\<lambda>i. (a, w(a := Some i)))
             (construct_template t (e\<lparr>current_contract_address := a\<rparr>) args)))"

definition template_lib ::
  "env \<Rightarrow> (bytes \<Rightarrow> template option) \<Rightarrow> (template_world, val, unit, unit) account_lib" where
  "template_lib e code = \<lparr>account_deploy_v2 = template_deploy e code, add_context_rule = (\<lambda>_ _ _ _ _ w. Some w),
     lib_batch_add_signer = (\<lambda>_ _ w. Some w), lib_upgrade = (\<lambda>_ w. Some w),
     do_check_auth = (\<lambda>_ _ _ w. Inr w), SMART_ACCOUNT_TTL_THRESHOLD = 100,
     SMART_ACCOUNT_EXTEND_AMOUNT = 200\<rparr>"

lemma template_lib_runs: "runs_templates (template_lib e code) e code (\<lambda>w. w)"
  by (auto simp: runs_templates_def template_lib_def template_deploy_def Let_def
      split: if_splits option.splits)

lemma template_lib_derives: "derives_addresses (template_lib e code) salt_address"
  by (auto simp: derives_addresses_def template_lib_def template_deploy_def Let_def
      split: if_splits option.splits)

end
