(* ===== verification/Factory_History.thy ===== *)
theory Factory_History
  imports Account_Factory
begin

text \<open>
  The factory over time (\<open>src/account-factory/contracts/factory-contract/src/lib.rs\<close>).  Anybody may call
  \<open>create_account\<close> with anybody's parameters, and everything else on the network goes on in between.  The
  host is instrumented to remember what each deployment was given, so that the theory can say with
  which code, signers and policies the account at an address was constructed.
\<close>

section \<open>Remembering constructor arguments\<close>

type_synonym birth = "bytes \<times> Signer list \<times> (address \<times> SimpleThresholdAccountParams) list"

type_synonym births = "address \<Rightarrow> birth option"

definition recording :: "'w factory_host \<Rightarrow> ('w \<times> births) factory_host" where
  "recording h =
     \<lparr>sha256 = sha256 h, to_xdr = to_xdr h, deployed_address = deployed_address h,
      executable = (\<lambda>(w, b). executable h w),
      deploy_v2 = (\<lambda>d salt hash ss ps (w, b).
        map_option (\<lambda>w'. (w', b(deployed_address h d salt \<mapsto> (hash, ss, ps))))
          (deploy_v2 h d salt hash ss ps w))\<rparr>"

lemma recording_simps [simp]:
  "sha256 (recording h) = sha256 h" "to_xdr (recording h) = to_xdr h"
  "deployed_address (recording h) = deployed_address h"
  "executable (recording h) (w, b) = executable h w"
  "deploy_v2 (recording h) d salt hash ss ps (w, b) =
     map_option (\<lambda>w'. (w', b(deployed_address h d salt \<mapsto> (hash, ss, ps))))
       (deploy_v2 h d salt hash ss ps w)"
  "compute_account_deploy_salt (recording h) n = compute_account_deploy_salt h n"
  by (simp_all add: recording_def compute_account_deploy_salt_def)

section \<open>Histories\<close>

text \<open>
  The states of a factory at the address \<open>self\<close>, with the creation calls that succeeded so far: calls
  by anyone with any parameters, the two getters (which extend the TTL), and whatever else
  happens in the world.
\<close>

inductive factory_reachable ::
  "'w factory_host \<Rightarrow> ('w \<Rightarrow> 'w \<Rightarrow> bool) \<Rightarrow> address \<Rightarrow> factory_state \<times> 'w
   \<Rightarrow> factory_state \<Rightarrow> 'w \<Rightarrow> births \<Rightarrow> AccountInitParams list \<Rightarrow> bool"
  for h others self c0 where
  Deployed: "c0 = (s, w) \<Longrightarrow> factory_reachable h others self c0 s w (\<lambda>_. None) []"
| Created: "factory_reachable h others self c0 s w b ps \<Longrightarrow> current_contract_address e = self
     \<Longrightarrow> create_account (recording h) e p s (w, b) = Inr (a, s', w', b')
     \<Longrightarrow> factory_reachable h others self c0 s' w' b' (ps @ [p])"
| AskedVerifier: "factory_reachable h others self c0 s w b ps \<Longrightarrow> get_verifier kind s = Inr (v, s')
     \<Longrightarrow> factory_reachable h others self c0 s' w b ps"
| AskedPolicy: "factory_reachable h others self c0 s w b ps \<Longrightarrow> get_threshold_policy s = Inr (v, s')
     \<Longrightarrow> factory_reachable h others self c0 s' w b ps"
| Elsewhere: "factory_reachable h others self c0 s w b ps \<Longrightarrow> others w w'
     \<Longrightarrow> factory_reachable h others self c0 s w' b ps"

text \<open>
  What the host promises about addresses derived from the factory: only the factory's own deployment
  at that salt puts code there, and code does not disappear.
\<close>

definition own_addresses :: "'w factory_host \<Rightarrow> ('w \<Rightarrow> 'w \<Rightarrow> bool) \<Rightarrow> address \<Rightarrow> bool" where
  "own_addresses h others self \<longleftrightarrow>
     (\<forall>w w' salt. others w w' \<longrightarrow>
        executable h w' (deployed_address h self salt) = executable h w (deployed_address h self salt))
     \<and> (\<forall>w w' salt salt' hash ss ps.
          deploy_v2 h self salt hash ss ps w = Some w'
          \<and> deployed_address h self salt' \<noteq> deployed_address h self salt \<longrightarrow>
          executable h w' (deployed_address h self salt') = executable h w (deployed_address h self salt'))"

lemma own_deploy:
  assumes "own_addresses h others self" "deploy_v2 h self salt hash ss ps w = Some w'"
    and "deployed_address h self salt' \<noteq> deployed_address h self salt"
  shows "executable h w' (deployed_address h self salt') = executable h w (deployed_address h self salt')"
  using assms unfolding own_addresses_def by blast

text \<open>The constructor arguments that belong to a set of parameters.\<close>

definition birth_of :: "FactoryConfig \<Rightarrow> NormalizedParams \<Rightarrow> birth" where
  "birth_of cfg n =
     (smart_account_wasm_hash cfg, build_account_signers cfg (n_signers n),
      build_account_policies cfg (effective_threshold n) (of_nat (length (n_signers n))))"

definition account_of :: "'w factory_host \<Rightarrow> address \<Rightarrow> NormalizedParams \<Rightarrow> address" where
  "account_of h self n = deployed_address h self (compute_account_deploy_salt h n)"

text \<open>Every account that appeared was constructed for the parameters of one of the calls.\<close>

definition births_explained ::
  "'w factory_host \<Rightarrow> address \<Rightarrow> FactoryConfig \<Rightarrow> 'w \<Rightarrow> 'w \<Rightarrow> births \<Rightarrow> AccountInitParams list \<Rightarrow> bool" where
  "births_explained h self cfg w0 w b ps \<longleftrightarrow>
     (\<forall>salt. let a = deployed_address h self salt in
        executable h w a \<and> \<not> executable h w0 a \<longrightarrow>
        (\<exists>p \<in> set ps. \<exists>n. normalize_params p = Inr n \<and> a = account_of h self n
           \<and> b a = Some (birth_of cfg n)))"

lemma create_recorded:
  "create_account (recording h) e p s (w, b) = Inr (a, s', w', b') \<longleftrightarrow>
     (\<exists>cfg n. config s = Some cfg \<and> normalize_params p = Inr n
        \<and> a = account_of h (current_contract_address e) n
        \<and> (if executable h w a then w' = w \<and> b' = b \<and> s' = extend_factory_ttl s
           else deploy_v2 h (current_contract_address e) (compute_account_deploy_salt h n)
                  (smart_account_wasm_hash cfg) (build_account_signers cfg (n_signers n))
                  (build_account_policies cfg (effective_threshold n)
                     (of_nat (length (n_signers n)))) w = Some w'
             \<and> b' = b(a \<mapsto> birth_of cfg n)
             \<and> s' = (extend_factory_ttl s)\<lparr>factory_log :=
                      factory_log (extend_factory_ttl s) @ [Publish (AccountCreated a)]\<rparr>))"
  by (rule iffI) (auto simp: create_account_Inr account_of_def birth_of_def split: if_splits)

lemma factory_history:
  assumes "factory_reachable h others self (s0, w0) s w b ps"
    and "own_addresses h others self" "config s0 = Some cfg"
  shows "config s = Some cfg \<and> births_explained h self cfg w0 w b ps"
  using assms(1)
proof (induction rule: factory_reachable.induct)
  case (Deployed s w)
  with assms(3) show ?case by (simp add: births_explained_def Let_def)
next
  case (Created s w b ps e p a s' w' b')
  from Created obtain n where n: "normalize_params p = Inr n" "a = account_of h self n"
    and ex: "executable h w a \<Longrightarrow> w' = w \<and> b' = b"
    and dep: "\<not> executable h w a \<Longrightarrow>
      deploy_v2 h self (compute_account_deploy_salt h n)
        (smart_account_wasm_hash cfg) (build_account_signers cfg (n_signers n))
        (build_account_policies cfg (effective_threshold n) (of_nat (length (n_signers n)))) w = Some w'
      \<and> b' = b(a \<mapsto> birth_of cfg n)"
    and cfg: "config s' = Some cfg"
    by (auto simp: create_recorded extend_factory_ttl_def split: if_splits)
  have "births_explained h self cfg w0 w' b' (ps @ [p])"
    unfolding births_explained_def Let_def
  proof (intro allI impI)
    fix salt
    let ?x = "deployed_address h self salt"
    assume x: "executable h w' ?x \<and> \<not> executable h w0 ?x"
    show "\<exists>p' \<in> set (ps @ [p]). \<exists>n. normalize_params p' = Inr n \<and> ?x = account_of h self n
        \<and> b' ?x = Some (birth_of cfg n)"
    proof (cases "executable h w a \<or> ?x \<noteq> a")
      case True
      have "executable h w ?x \<and> b' ?x = b ?x"
      proof (cases "executable h w a")
        case True
        with ex x show ?thesis by simp
      next
        case False
        with True have "?x \<noteq> a" by simp
        with dep [OF False] own_deploy [OF assms(2)] x n(2) show ?thesis by (auto simp: account_of_def)
      qed
      with Created.IH x show ?thesis by (fastforce simp: births_explained_def Let_def)
    next
      case False
      with dep n show ?thesis by auto
    qed
  qed
  with cfg show ?case by simp
next
  case (Elsewhere s w b ps w')
  with assms(2) show ?case by (simp add: births_explained_def own_addresses_def Let_def)
qed (auto simp: get_verifier_def get_threshold_policy_def get_config_def extend_factory_ttl_def
    result_simps Let_def)

section \<open>Whose account it is\<close>

definition params_ok :: "address set \<Rightarrow> AccountInitParams \<Rightarrow> bool" where
  "params_ok A p \<longleftrightarrow>
     length (account_salt p) = 32 \<and> length (signers p) < 2 ^ 32 \<and> list_all (encodable A) (signers p)"

lemma params_ok_normalized:
  "params_ok A p \<Longrightarrow> normalize_params p = Inr n \<Longrightarrow> normalized_ok A n"
  by (auto simp: params_ok_def normalized_ok_def normalize_params_Inr list_all_iff)

text \<open>Two parameter sets with one address exhibit a collision, of the hash or of the address derivation.\<close>

definition collision :: "'w factory_host \<Rightarrow> address \<Rightarrow> NormalizedParams \<Rightarrow> NormalizedParams \<Rightarrow> bool" where
  "collision h self m n \<longleftrightarrow>
     (let x = salt_preimage (to_xdr h) m; y = salt_preimage (to_xdr h) n in
      x \<noteq> y \<and> (sha256 h x = sha256 h y
               \<or> deployed_address h self (sha256 h x) = deployed_address h self (sha256 h y)
                 \<and> sha256 h x \<noteq> sha256 h y))"

lemma account_of_collision:
  assumes "account_of h self m = account_of h self n" "m \<noteq> n"
    and "xdr_ok A (to_xdr h)" "normalized_ok A m" "normalized_ok A n"
  shows "collision h self m n"
  using assms salt_preimage_inject [OF _ assms(3-5)]
  by (auto simp: collision_def account_of_def compute_account_deploy_salt_def Let_def)

end
