(* ===== verification/Source_Loops.thy ===== *)
theory Source_Loops
  imports Multi_Token_Policy Signer_Order "HOL-Library.While_Combinator"
begin

text \<open>
  The two loops of the program whose number of iterations is not that of a \<open>for\<close> loop, as they are
  written: the \<open>while let\<close> that pops expired spending entries
  (\<open>src/policies/multi-token-spending-limit-policy/src/lib.rs\<close>) and the indexed \<open>while\<close> that looks for a
  signer's place (\<open>src/account-factory/contracts/factory-contract/src/lib.rs\<close>).  The component
  theories use recursive functions in their place; here both loops are shown to stop, without
  trapping, with the value of those functions.
\<close>

lemma while_stop: "\<not> b st \<Longrightarrow> while_option b c st = Some st"
  by (subst while_option_unfold) simp

lemma while_go: "b st \<Longrightarrow> while_option b c st = while_option b c (c st)"
  by (subst while_option_unfold) simp

section \<open>Popping expired entries\<close>

record cleanup_state =
  cl_history :: "SpendingEntry list"
  cl_removed :: i128
  cl_break :: bool

definition cleanup_guard :: "cleanup_state \<Rightarrow> bool" where
  "cleanup_guard st \<longleftrightarrow> \<not> cl_break st \<and> vec_get (cl_history st) 0 \<noteq> None"

definition cleanup_body :: "u32 \<Rightarrow> cleanup_state \<Rightarrow> cleanup_state" where
  "cleanup_body cutoff st =
     (case vec_get (cl_history st) 0 of
        None \<Rightarrow> st
      | Some entry \<Rightarrow>
          if spent_ledger entry \<le> cutoff
          then st\<lparr>cl_removed := saturating_add_i128 (cl_removed st) (amount_usd entry),
                  cl_history := tl (cl_history st)\<rparr>
          else st\<lparr>cl_break := True\<rparr>)"

definition cleanup_while :: "u32 \<Rightarrow> SpendingEntry list \<Rightarrow> (SpendingEntry list \<times> i128) option" where
  "cleanup_while cutoff history =
     map_option (\<lambda>st. (cl_history st, cl_removed st))
       (while_option cleanup_guard (cleanup_body cutoff)
         \<lparr>cl_history = history, cl_removed = 0, cl_break = False\<rparr>)"

lemma vec_get_first [simp]: "vec_get [] 0 = None" "vec_get (x # xs) 0 = Some x"
  by (simp_all add: vec_get_def)

lemma cleanup_guard_simps [simp]:
  "\<not> cleanup_guard \<lparr>cl_history = [], cl_removed = t, cl_break = b\<rparr>"
  "cleanup_guard \<lparr>cl_history = x # xs, cl_removed = t, cl_break = b\<rparr> \<longleftrightarrow> \<not> b"
  by (simp_all add: cleanup_guard_def)

lemma cleanup_while_from:
  "map_option (\<lambda>st. (cl_history st, cl_removed st))
     (while_option cleanup_guard (cleanup_body cutoff)
       \<lparr>cl_history = history, cl_removed = t, cl_break = False\<rparr>)
   = Some (cleanup_loop cutoff history t)"
proof (induction history arbitrary: t)
  case Nil
  show ?case by (simp add: while_stop)
next
  case (Cons x xs)
  let ?st = "\<lparr>cl_history = x # xs, cl_removed = t, cl_break = False\<rparr>"
  have go: "while_option cleanup_guard (cleanup_body cutoff) ?st
      = while_option cleanup_guard (cleanup_body cutoff) (cleanup_body cutoff ?st)"
    by (rule while_go) simp
  have body: "cleanup_body cutoff ?st =
      (if spent_ledger x \<le> cutoff
       then \<lparr>cl_history = xs, cl_removed = saturating_add_i128 t (amount_usd x), cl_break = False\<rparr>
       else ?st\<lparr>cl_break := True\<rparr>)"
    by (simp add: cleanup_body_def)
  show ?case
  proof (cases "spent_ledger x \<le> cutoff")
    case True
    then show ?thesis using Cons.IH by (simp add: go body)
  next
    case False
    then show ?thesis by (simp add: go body while_stop)
  qed
qed

lemma cleanup_while_eq: "cleanup_while cutoff history = Some (cleanup_loop cutoff history 0)"
  by (simp add: cleanup_while_def cleanup_while_from)

section \<open>Finding a signer's place\<close>

record 'a insert_state =
  in_canonical :: "'a list"
  in_idx :: u32
  in_inserted :: bool
  in_failed :: "FactoryError fault option"

text \<open>\<open>Vec::len\<close> is a \<open>u32\<close>; \<open>panic_with_error!\<close>, \<open>unwrap\<close> and an overflowing \<open>idx += 1\<close> leave the loop.\<close>

definition insert_guard :: "'a insert_state \<Rightarrow> bool" where
  "insert_guard st \<longleftrightarrow>
     in_failed st = None \<and> \<not> in_inserted st \<and> in_idx st < of_nat (length (in_canonical st))"

definition insert_body ::
  "('a \<Rightarrow> 'a \<Rightarrow> ordering) \<Rightarrow> 'a \<Rightarrow> 'a insert_state \<Rightarrow> 'a insert_state" where
  "insert_body compare signer st =
     (case vec_get (in_canonical st) (in_idx st) of
        None \<Rightarrow> st\<lparr>in_failed := Some (Trap UnwrapNone)\<rparr>
      | Some existing \<Rightarrow>
          (case compare existing signer of
             Equal \<Rightarrow> st\<lparr>in_failed := Some (Panic DuplicateSigner)\<rparr>
           | Greater \<Rightarrow>
               st\<lparr>in_canonical := take (unat (in_idx st)) (in_canonical st)
                    @ signer # drop (unat (in_idx st)) (in_canonical st),
                  in_inserted := True\<rparr>
           | Less \<Rightarrow>
               (case checked_add_word (in_idx st) 1 of
                  None \<Rightarrow> st\<lparr>in_failed := Some (Trap ArithmeticOverflow)\<rparr>
                | Some i \<Rightarrow> st\<lparr>in_idx := i\<rparr>)))"

definition insert_finish :: "'a \<Rightarrow> 'a insert_state \<Rightarrow> (FactoryError, 'a list) result" where
  "insert_finish signer st =
     (case in_failed st of
        Some f \<Rightarrow> Inl f
      | None \<Rightarrow> Inr (if \<not> in_inserted st then in_canonical st @ [signer] else in_canonical st))"

definition insert_while ::
  "('a \<Rightarrow> 'a \<Rightarrow> ordering) \<Rightarrow> 'a \<Rightarrow> 'a list \<Rightarrow> (FactoryError, 'a list) result option" where
  "insert_while compare signer canonical =
     map_option (insert_finish signer)
       (while_option insert_guard (insert_body compare signer)
         \<lparr>in_canonical = canonical, in_idx = 0, in_inserted = False, in_failed = None\<rparr>)"

lemma index_word:
  assumes "n < 2 ^ 32"
  shows "unat (of_nat n :: u32) = n" "uint (of_nat n :: u32) = int n"
  using assms by (simp_all add: unsigned_of_nat take_bit_nat_eq_self)

lemma insert_guard_simps [simp]:
  "\<not> insert_guard \<lparr>in_canonical = xs, in_idx = i, in_inserted = b, in_failed = Some f\<rparr>"
  "\<not> insert_guard \<lparr>in_canonical = xs, in_idx = i, in_inserted = True, in_failed = g\<rparr>"
  "\<not> insert_guard \<lparr>in_canonical = xs, in_idx = of_nat (length xs), in_inserted = b, in_failed = g\<rparr>"
  by (simp_all add: insert_guard_def)

lemma insert_while_from:
  assumes "length pre + length post < 2 ^ 32"
  shows "map_option (insert_finish x)
     (while_option insert_guard (insert_body compare x)
       \<lparr>in_canonical = pre @ post, in_idx = of_nat (length pre), in_inserted = False, in_failed = None\<rparr>)
   = Some (res_bind (insert_loop compare x post) (\<lambda>zs. Inr (pre @ zs)))"
  using assms
proof (induction post arbitrary: pre)
  case Nil
  then show ?case by (simp add: while_stop insert_finish_def)
next
  case (Cons y post)
  let ?st = "\<lparr>in_canonical = pre @ y # post, in_idx = of_nat (length pre), in_inserted = False,
      in_failed = None\<rparr>"
  have n: "length pre < 2 ^ 32" "length (pre @ y # post) < 2 ^ 32" "Suc (length pre) < 2 ^ 32"
    using Cons.prems by simp_all
  have guard: "insert_guard ?st"
    using n by (simp add: insert_guard_def word_less_nat_alt index_word del: of_nat_Suc of_nat_add)
  have get: "vec_get (pre @ y # post) (of_nat (length pre) :: u32) = Some y"
    using n by (simp add: vec_get_def index_word)
  have next': "checked_add_word (of_nat (length pre) :: u32) 1 = Some (of_nat (length (pre @ [y])))"
    using n by (simp add: checked_add_word_def index_word)
  have go: "while_option insert_guard (insert_body compare x) ?st
      = while_option insert_guard (insert_body compare x) (insert_body compare x ?st)"
    using guard by (rule while_go)
  have body: "insert_body compare x ?st =
     (case compare y x of
        Equal \<Rightarrow> ?st\<lparr>in_failed := Some (Panic DuplicateSigner)\<rparr>
      | Greater \<Rightarrow> ?st\<lparr>in_canonical := pre @ x # y # post, in_inserted := True\<rparr>
      | Less \<Rightarrow> ?st\<lparr>in_idx := of_nat (length (pre @ [y]))\<rparr>)"
    using n by (simp add: insert_body_def get next' index_word split: ordering.splits)
  show ?case
  proof (cases "compare y x")
    case Less
    have "map_option (insert_finish x)
       (while_option insert_guard (insert_body compare x)
         \<lparr>in_canonical = (pre @ [y]) @ post, in_idx = of_nat (length (pre @ [y])), in_inserted = False,
          in_failed = None\<rparr>)
     = Some (res_bind (insert_loop compare x post) (\<lambda>zs. Inr ((pre @ [y]) @ zs)))"
      using Cons.prems by (intro Cons.IH) simp
    then show ?thesis
      by (cases "insert_loop compare x post") (simp_all add: go body Less)
  next
    case Equal
    then show ?thesis
      by (simp add: go body while_stop insert_finish_def)
  next
    case Greater
    then show ?thesis
      by (simp add: go body while_stop insert_finish_def)
  qed
qed

lemma insert_while_eq:
  assumes "length canonical < 2 ^ 32"
  shows "insert_while compare x canonical = Some (insert_loop compare x canonical)"
  using insert_while_from [of "[]" canonical x compare] assms
  by (cases "insert_loop compare x canonical") (simp_all add: insert_while_def)

text \<open>The whole of \<open>canonicalize_signers\<close> around that loop.\<close>

fun canonical_while ::
  "AccountSignerInit list \<Rightarrow> AccountSignerInit list
   \<Rightarrow> (FactoryError, AccountSignerInit list) result option" where
  "canonical_while canonical [] = Some (Inr canonical)"
| "canonical_while canonical (x # xs) =
     (case validate_signer_shape x of
        Inl f \<Rightarrow> Some (Inl f)
      | Inr _ \<Rightarrow>
          (case insert_while compare_signers x canonical of
             None \<Rightarrow> None
           | Some (Inl f) \<Rightarrow> Some (Inl f)
           | Some (Inr canonical') \<Rightarrow> canonical_while canonical' xs))"

lemma insert_loop_length: "insert_loop compare x ys = Inr zs \<Longrightarrow> length zs = Suc (length ys)"
  by (induction ys arbitrary: zs) (auto simp: result_simps split: ordering.splits)

lemma canonical_while_eq:
  "length canonical + length xs < 2 ^ 32 \<Longrightarrow>
     canonical_while canonical xs = Some (canonical_loop compare_signers validate_signer_shape canonical xs)"
proof (induction xs arbitrary: canonical)
  case Nil
  then show ?case by simp
next
  case (Cons x xs)
  show ?case
  proof (cases "insert_loop compare_signers x canonical")
    case (Inl f)
    with Cons.prems show ?thesis
      by (cases "validate_signer_shape x") (simp_all add: insert_while_eq)
  next
    case (Inr ys)
    with Cons.prems insert_loop_length [OF Inr] show ?thesis
      by (cases "validate_signer_shape x") (simp_all add: insert_while_eq Cons.IH)
  qed
qed

end
