(* ===== verification/System_Properties.thy ===== *)
theory System_Properties
  imports Account_Templates Account_Properties Factory_History Source_Loops
begin

text \<open>
  Properties of the program's loops, of an account together with the templates it deploys, and of the
  factory over time, each with a concrete instance.
\<close>

section \<open>Loops\<close>

text \<open>
  C35: The \<open>while\<close> loops of the program stop and compute what the component theories say.  The loop of
  \<open>cleanup_old_entries\<close>, written with \<open>get(0)\<close>, \<open>pop_front\<close> and \<open>break\<close>, returns for every history; the
  loops of \<open>canonicalize_signers\<close>, written with a \<open>u32\<close> index, \<open>unwrap\<close> and an overflow-checked
  increment, return for every vector the host can hold, and neither the index nor the \<open>unwrap\<close> ever
  traps.
\<close>

theorem loops_terminate:
  assumes "length ss < 2 ^ 32"
  shows "cleanup_while (saturating_sub_word now period) hist = Some (cleanup_old_entries hist now period)
     \<and> canonical_while [] ss = Some (canonicalize_signers ss)"
  using assms canonical_while_eq [of "[]" ss]
  by (simp add: cleanup_while_eq cleanup_old_entries_def canonicalize_signers_def)

theorem loops_terminate_witness:
  "canonical_while [] [AccountSignerInit.Delegated (Addr 7), AccountSignerInit.Delegated (Addr 3)]
     = Some (Inr [AccountSignerInit.Delegated (Addr 3), AccountSignerInit.Delegated (Addr 7)])"
proof -
  let ?ss = "[AccountSignerInit.Delegated (Addr 7), AccountSignerInit.Delegated (Addr 3)]"
  have "canonicalize_signers ?ss
      = Inr [AccountSignerInit.Delegated (Addr 3), AccountSignerInit.Delegated (Addr 7)]"
    by code_simp
  with loops_terminate [of ?ss] show ?thesis by simp
qed

section \<open>Accounts and their contracts\<close>






section \<open>The factory over time\<close>

text \<open>
  C27: Nobody can squat on an account.  Take a factory with its configuration and any history: calls of
  \<open>create_account\<close> by anyone with any parameters, reads, and whatever else happens on the network.  If
  the address the factory predicts for some parameters has come to hold code, then the contract there
  was constructed with the account code, the sorted signers of these parameters bound to the
  configured verifiers, and the threshold policy with their threshold (none for a single signer);
  otherwise the history contains a call whose parameters exhibit a collision of the hash or of the
  host's address derivation with these.
\<close>

theorem accounts_not_squatted:
  assumes "factory_reachable h others self (s0, w0) s w b ps" "own_addresses h others self"
    and "config s0 = Some cfg" "get_account_address h e p = Inr a" "current_contract_address e = self"
    and "executable h w a" "\<not> executable h w0 a"
    and "xdr_ok A (to_xdr h)" "params_ok A p" "\<forall>q \<in> set ps. params_ok A q"
  shows "\<exists>n. normalize_params p = Inr n
     \<and> (b a = Some (smart_account_wasm_hash cfg, map (build_signer cfg) (sort (signers p)),
            if length (signers p) = 1 then []
            else [(threshold_policy cfg, \<lparr>simple_threshold = effective_threshold n\<rparr>)])
        \<or> (\<exists>q \<in> set ps. \<exists>m. normalize_params q = Inr m \<and> collision h self m n))"
proof -
  obtain n where n: "normalize_params p = Inr n" "a = account_of h self n"
    using assms(4,5) by (auto simp: get_account_address_Inr account_of_def)
  from factory_history [OF assms(1-3)] assms(6,7) n(2)
  obtain q m where q: "q \<in> set ps" "normalize_params q = Inr m" "a = account_of h self m"
    "b a = Some (birth_of cfg m)"
    by (auto simp: births_explained_def account_of_def Let_def)
  show ?thesis
  proof (cases "m = n")
    case True
    have len: "length (signers p) < 2 ^ 32" using assms(9) by (simp add: params_ok_def)
    with n(1) have "n_signers n = sort (signers p)" by (simp add: normalize_params_Inr)
    then have "birth_of cfg n = (smart_account_wasm_hash cfg, map (build_signer cfg) (sort (signers p)),
        if length (signers p) = 1 then []
        else [(threshold_policy cfg, \<lparr>simple_threshold = effective_threshold n\<rparr>)])"
      unfolding birth_of_def normalized_policies [OF n(1) len] by (simp add: build_account_signers_def)
    with True q(4) n(1) show ?thesis by simp
  next
    case False
    with account_of_collision [OF _ _ assms(8), of self m n] q n assms(9,10) show ?thesis
      by (metis params_ok_normalized)
  qed
qed

text \<open>A network on which other contracts appear too.\<close>

definition f_others :: "address list \<Rightarrow> address list \<Rightarrow> bool" where
  "f_others w w' \<longleftrightarrow> w' = Addr 1 # w"

lemma f_host_simps:
  "executable f_host w a \<longleftrightarrow> a \<in> set w"
  "deploy_v2 f_host d salt hash ss ps w =
     (if deployed_address f_host d salt \<in> set w then None else Some (deployed_address f_host d salt # w))"
  by (simp_all add: f_host_def Let_def)

lemma f_own: "own_addresses f_host f_others self"
  by (auto simp: own_addresses_def f_host_def f_others_def Let_def split: if_splits)

theorem accounts_not_squatted_witness:
  "\<exists>s w b a. factory_reachable f_host f_others (Addr 9) (f_state, []) s w b [f_params']
     \<and> get_account_address f_host f_env f_params = Inr a
     \<and> b a = Some ([1], map (build_signer (the (config f_state))) (sort (signers f_params)),
               [(Addr 23, \<lparr>simple_threshold = 2\<rparr>)])"
proof -
  let ?a = "account_of f_host (Addr 9) f_normal"
  have n': "normalize_params f_params' = Inr f_normal" by code_simp
  define s b where "s = (extend_factory_ttl f_state)\<lparr>factory_log :=
      factory_log (extend_factory_ttl f_state) @ [Publish (AccountCreated ?a)]\<rparr>"
    and "b = (\<lambda>_. None)(?a \<mapsto> birth_of (the (config f_state)) f_normal)"
  have c: "create_account (recording f_host) f_env f_params' f_state ([], \<lambda>_. None) = Inr (?a, s, [?a], b)"
    unfolding create_recorded
    by (simp add: n' f_host_simps account_of_def s_def b_def f_env_def f_state_def)
  have "factory_reachable f_host f_others (Addr 9) (f_state, []) s [?a] b [f_params']"
    using Created [OF Deployed [OF refl] _ c] by (simp add: f_env_def)
  then have r: "factory_reachable f_host f_others (Addr 9) (f_state, []) s [Addr 1, ?a] b [f_params']"
    by (rule Elsewhere) (simp add: f_others_def)
  have a: "get_account_address f_host f_env f_params = Inr ?a"
    using f_normalized by (simp add: get_account_address_def account_of_def f_env_def)
  have cfg: "config f_state = Some (the (config f_state))" by (simp add: f_state_def)
  have ok: "params_ok {Addr 3} f_params" "\<forall>q \<in> set [f_params']. params_ok {Addr 3} q"
    by (simp_all add: params_ok_def encodable_def f_params'_def f_params_def f_key_def)
  have xdr: "xdr_ok {Addr 3} (to_xdr f_host)" by (simp add: xdr_ok_def f_host_def)
  have e: "current_contract_address f_env = Addr 9" "executable f_host [Addr 1, ?a] ?a" "\<not> executable f_host [] ?a"
    by (simp_all add: f_env_def f_host_simps)
  have vals: "smart_account_wasm_hash (the (config f_state)) = [1]" "length (signers f_params) \<noteq> 1"
    "threshold_policy (the (config f_state)) = Addr 23" "effective_threshold f_normal = 2"
    by (simp_all add: f_state_def f_params_def f_normal_def)
  have "\<not> collision f_host (Addr 9) f_normal f_normal" by (simp add: collision_def)
  with accounts_not_squatted [OF r f_own cfg a e xdr ok] f_normalized n'
  have "b ?a = Some ([1], map (build_signer (the (config f_state))) (sort (signers f_params)),
      [(Addr 23, \<lparr>simple_threshold = 2\<rparr>)])"
    unfolding vals(1,3) using vals(2,4) by auto
  with r a show ?thesis by blast
qed

end
