(* ===== verification/Policy_Stack.thy ===== *)
theory Policy_Stack
  imports Session_Policy Recipient_Policy Parameter_Policy Window_Limiter "HOL-Library.Sublist"
begin

text \<open>
  Several policies of \<open>src/policies\<close> attached to one context rule.  How an account checks a call
  against a rule is library code (\<open>do_check_auth\<close> of \<open>stellar-accounts\<close>) and a parameter here; what is used
  of it is that a call it authorises under the rule has passed \<open>enforce\<close> of every attached policy, as
  \<open>src/latch-smart-account/src/test.rs\<close> expects of it (the two \<open>session_plus_spending_limit\<close> tests).  The
  theory follows such a rule over arbitrary histories, in which anyone may also call the policy
  contracts directly and the account may replace its list of recipients.
\<close>

section \<open>A rule with policies\<close>

datatype attached = Session | Recipient | Parameter | MultiToken

record policy_world =
  session_st :: session_state
  recipient_st :: recipient_state
  parameter_st :: parameter_state
  multi_st :: multi_state

text \<open>
  Every attached policy, enforced on its own storage, approves the call and takes the storage from
  \<open>w\<close> to \<open>w'\<close>; the storage of the others stays.
\<close>

definition pass_policies ::
  "attached list \<Rightarrow> ContextRule \<Rightarrow> address \<Rightarrow> oracle_host \<Rightarrow> env \<Rightarrow> Context \<Rightarrow> Signer list
   \<Rightarrow> policy_world \<Rightarrow> policy_world \<Rightarrow> bool" where
  "pass_policies ps r a h e ctx sg w w' \<longleftrightarrow>
     (if Session \<in> set ps then session_enforce e ctx sg r a (session_st w) = Inr (session_st w')
      else session_st w' = session_st w)
     \<and> (if Recipient \<in> set ps then recipient_enforce e ctx sg r a (recipient_st w) = Inr (recipient_st w')
        else recipient_st w' = recipient_st w)
     \<and> (if Parameter \<in> set ps then parameter_enforce e ctx sg r a (parameter_st w) = Inr (parameter_st w')
        else parameter_st w' = parameter_st w)
     \<and> (if MultiToken \<in> set ps then multi_enforce h e ctx sg r a (multi_st w) = Inr (multi_st w')
        else multi_st w' = multi_st w)"

text \<open>
  The account's check of a call under the rule: the new storage of the policies, or a refusal.  It
  \<open>requires\<close> the attached policies if it authorises nothing without them, and is \<open>decided\<close> by them if it
  also authorises whatever they all approve.
\<close>

type_synonym authorisation =
  "oracle_host \<Rightarrow> env \<Rightarrow> Context \<Rightarrow> Signer list \<Rightarrow> policy_world \<Rightarrow> policy_world option"

definition requires_policies :: "attached list \<Rightarrow> ContextRule \<Rightarrow> address \<Rightarrow> authorisation \<Rightarrow> bool" where
  "requires_policies ps r a auth \<longleftrightarrow>
     (\<forall>h e ctx sg w w'. auth h e ctx sg w = Some w' \<longrightarrow> pass_policies ps r a h e ctx sg w w')"

definition decided_by_policies :: "attached list \<Rightarrow> ContextRule \<Rightarrow> address \<Rightarrow> authorisation \<Rightarrow> bool" where
  "decided_by_policies ps r a auth \<longleftrightarrow>
     (\<forall>h e ctx sg w w'. auth h e ctx sg w = Some w' \<longleftrightarrow> pass_policies ps r a h e ctx sg w w')"

lemma decided_requires: "decided_by_policies ps r a auth \<Longrightarrow> requires_policies ps r a auth"
  by (simp add: decided_by_policies_def requires_policies_def)

text \<open>The three allowlist policies refuse a call without an authenticated signer.\<close>

lemma enforce_no_signer:
  "session_enforce e ctx [] r a s1 =
     (if authorized e a then Inl (Panic SessionError.MethodNotAllowed) else Inl (AuthFailed a))"
  "recipient_enforce e ctx [] r a s2 =
     (if authorized e a then Inl (Panic RecipientNotAllowed) else Inl (AuthFailed a))"
  "parameter_enforce e ctx [] r a s3 =
     (if authorized e a then Inl (Panic ParameterScopedError.MethodNotAllowed) else Inl (AuthFailed a))"
  by (simp_all add: session_enforce_def recipient_enforce_def parameter_enforce_def require_auth_def guard_def)

lemma pass_unsigned:
  assumes "pass_policies ps r a h e ctx [] w w'"
  shows "set ps \<subseteq> {MultiToken}"
proof
  fix p
  assume "p \<in> set ps"
  with assms show "p \<in> {MultiToken}"
    by (cases p) (auto simp: pass_policies_def enforce_no_signer split: if_splits)
qed

section \<open>Histories\<close>

datatype stack_call =
    Authorise oracle_host env Context "Signer list"
  | OnSession "SessionAccountParams policy_call"
  | OnRecipient "(RecipientAccountParams, address list) updatable_call"
  | OnParameter "ParameterScopedAccountParams policy_call"
  | OnMulti multi_call

fun stack_ledger :: "stack_call \<Rightarrow> u32" where
  "stack_ledger (Authorise h e ctx sg) = ledger_sequence e"
| "stack_ledger (OnSession c) = ledger_sequence (call_env c)"
| "stack_ledger (OnRecipient c) = ledger_sequence (ucall_env c)"
| "stack_ledger (OnParameter c) = ledger_sequence (call_env c)"
| "stack_ledger (OnMulti c) = call_ledger c"

fun stack_step :: "authorisation \<Rightarrow> stack_call \<Rightarrow> policy_world \<Rightarrow> policy_world" where
  "stack_step auth (Authorise h e ctx sg) w =
     (case auth h e ctx sg w of None \<Rightarrow> w | Some w' \<Rightarrow> w')"
| "stack_step auth (OnSession c) w =
     w\<lparr>session_st := policy_step session_install session_uninstall session_enforce c (session_st w)\<rparr>"
| "stack_step auth (OnRecipient c) w =
     w\<lparr>recipient_st := updatable_run (policy_step recipient_install recipient_uninstall recipient_enforce)
        set_allowed_recipients [c] (recipient_st w)\<rparr>"
| "stack_step auth (OnParameter c) w =
     w\<lparr>parameter_st := policy_step parameter_install parameter_uninstall parameter_enforce c (parameter_st w)\<rparr>"
| "stack_step auth (OnMulti c) w = w\<lparr>multi_st := multi_step c (multi_st w)\<rparr>"

fun stack_run :: "authorisation \<Rightarrow> stack_call list \<Rightarrow> policy_world \<Rightarrow> policy_world" where
  "stack_run auth [] w = w"
| "stack_run auth (c # cs) w = stack_run auth cs (stack_step auth c w)"

text \<open>The calls authorised under the rule, with the dollars the limit counted for each.\<close>

fun authorises ::
  "authorisation \<Rightarrow> storage_key \<Rightarrow> ContextRule \<Rightarrow> address \<Rightarrow> stack_call \<Rightarrow> policy_world
   \<Rightarrow> (ContractContext \<times> SpendingEntry) list" where
  "authorises auth k r a (Authorise h e (Contract cc) sg) w =
     (if auth h e (Contract cc) sg w = None then []
      else map (Pair cc) (approves k (h, CallEnforce e (Contract cc) sg r a) (multi_st w)))"
| "authorises auth k r a _ w = []"

fun authorised ::
  "authorisation \<Rightarrow> storage_key \<Rightarrow> ContextRule \<Rightarrow> address \<Rightarrow> stack_call list \<Rightarrow> policy_world
   \<Rightarrow> (ContractContext \<times> SpendingEntry) list" where
  "authorised auth k r a [] w = []"
| "authorised auth k r a (c # cs) w =
     authorises auth k r a c w @ authorised auth k r a cs (stack_step auth c w)"

text \<open>Every call but an uninstallation of \<open>k\<close> that the account authorised.\<close>

fun keeps_stack :: "storage_key \<Rightarrow> stack_call \<Rightarrow> bool" where
  "keeps_stack k (Authorise h e ctx sg) = True"
| "keeps_stack k (OnSession c) = (\<not> uninstalls k c)"
| "keeps_stack k (OnRecipient (PolicyCall c)) = (\<not> uninstalls k c)"
| "keeps_stack k (OnRecipient (CallUpdate e rs i b)) = True"
| "keeps_stack k (OnParameter c) = (\<not> uninstalls k c)"
| "keeps_stack k (OnMulti c) = keeps_installed k c"

text \<open>
  The list of recipients in force after a history, by the history alone: the last one the account
  itself put there with an acceptable size, or the one it started with.
\<close>

fun replaced_list :: "storage_key \<Rightarrow> stack_call \<Rightarrow> address list \<Rightarrow> address list" where
  "replaced_list k (OnRecipient (CallUpdate e rs i b)) old =
     (if k = AccountContext b i \<and> authorized e b \<and> rs \<noteq> [] \<and> length rs \<le> MAX_ALLOWED_RECIPIENTS
      then rs else old)"
| "replaced_list k _ old = old"

definition list_in_force :: "storage_key \<Rightarrow> stack_call list \<Rightarrow> address list \<Rightarrow> address list" where
  "list_in_force k cs rs = fold (replaced_list k) cs rs"

section \<open>What the rule as a whole lets through\<close>

definition installed_stack ::
  "attached list \<Rightarrow> storage_key \<Rightarrow> SessionData \<Rightarrow> address list \<Rightarrow> ParameterScopedData \<Rightarrow> policy_world \<Rightarrow> bool"
  where
  "installed_stack ps k sd rs pd w \<longleftrightarrow>
     (Session \<in> set ps \<longrightarrow> entries (session_st w) k = Some sd)
     \<and> (Recipient \<in> set ps \<longrightarrow> entries (recipient_st w) k = Some \<lparr>allowed_recipients = rs\<rparr>)
     \<and> (Parameter \<in> set ps \<longrightarrow> entries (parameter_st w) k = Some pd)"

lemma recipient_update_keeps:
  assumes "entries s k = Some \<lparr>allowed_recipients = rs\<rparr>" "keeps_stack k (OnRecipient c)"
  shows "entries (updatable_run (policy_step recipient_install recipient_uninstall recipient_enforce)
           set_allowed_recipients [c] s) k
         = Some \<lparr>allowed_recipients = replaced_list k (OnRecipient c) rs\<rparr>"
proof (cases c)
  case (PolicyCall x)
  with assms recipient_fixed.step_keeps [OF assms(1)] show ?thesis by simp
next
  case (CallUpdate e new i b)
  with assms(1) show ?thesis
    by (cases "set_allowed_recipients e new i b s")
      (auto simp: set_allowed_recipients_Inr recipient_valid_def,
       auto simp: set_allowed_recipients_def guard_def Let_def split: if_splits)
qed

lemma pass_policies_entries:
  assumes "pass_policies ps r a h e ctx sg w w'"
  shows "entries (session_st w') = entries (session_st w)"
    "entries (recipient_st w') = entries (recipient_st w)"
    "entries (parameter_st w') = entries (parameter_st w)"
  using assms unfolding pass_policies_def
  by (auto dest: session.enforce_keeps recipient_fixed.enforce_keeps parameter.enforce_keeps
      split: if_splits)

lemma stack_step_installed:
  assumes "requires_policies ps r a auth" "installed_stack ps k sd rs pd w" "keeps_stack k c"
  shows "installed_stack ps k sd (replaced_list k c rs) pd (stack_step auth c w)"
proof (cases c)
  case (Authorise h e ctx sg)
  show ?thesis
  proof (cases "auth h e ctx sg w")
    case None
    with Authorise assms(2) show ?thesis by simp
  next
    case (Some w')
    with assms(1) have "pass_policies ps r a h e ctx sg w w'" by (simp add: requires_policies_def)
    from pass_policies_entries [OF this] Some Authorise assms(2) show ?thesis
      by (simp add: installed_stack_def)
  qed
qed (use assms(2,3) session.step_keeps recipient_update_keeps parameter.step_keeps in
    \<open>auto simp: installed_stack_def simp del: updatable_run.simps replaced_list.simps(1)\<close>)

lemma stack_run_installed:
  assumes "requires_policies ps r a auth" "installed_stack ps k sd rs pd w"
    and "\<And>c. c \<in> set cs \<Longrightarrow> keeps_stack k c"
  shows "installed_stack ps k sd (list_in_force k cs rs) pd (stack_run auth cs w)"
  using assms(2,3)
proof (induction cs arbitrary: w rs)
  case Nil
  then show ?case by (simp add: list_in_force_def)
next
  case (Cons c cs)
  then show ?case using stack_step_installed [OF assms(1), of k sd rs pd w c] by (simp add: list_in_force_def)
qed

text \<open>What the attached allowlists say about a call.\<close>

definition listed_call ::
  "attached list \<Rightarrow> SessionData \<Rightarrow> address list \<Rightarrow> ParameterScopedData \<Rightarrow> ContractContext \<Rightarrow> bool" where
  "listed_call ps sd rs pd cc \<longleftrightarrow>
     (Session \<in> set ps \<longrightarrow> ctx_fn_name cc \<in> set (allowed_fns sd))
     \<and> (Recipient \<in> set ps \<longrightarrow> (\<exists>to. transfer_to_listed rs (Contract cc) to))
     \<and> (Parameter \<in> set ps \<longrightarrow>
          (\<exists>conds. map_of (conditions pd) (ctx_fn_name cc) = Some conds
             \<and> list_all (condition_holds (ctx_args cc)) conds))"

lemma pass_policies_listed:
  assumes "installed_stack ps (AccountContext a (rule_id r)) sd rs pd w"
    and "pass_policies ps r a h e (Contract cc) sg w w'"
  shows "listed_call ps sd rs pd cc"
  using assms
  by (auto simp: listed_call_def installed_stack_def pass_policies_def session_enforce_Inr
      recipient_enforce_Inr parameter_enforce_Inr split: if_splits)

text \<open>An authorised call satisfies the lists in force at that moment.\<close>

lemma authorised_listed:
  assumes "requires_policies ps r a auth"
    and "installed_stack ps (AccountContext a (rule_id r)) sd rs pd w"
    and "\<And>c. c \<in> set cs \<Longrightarrow> keeps_stack (AccountContext a (rule_id r)) c"
    and "auth h e (Contract cc) sg (stack_run auth cs w) = Some w'"
  shows "listed_call ps sd (list_in_force (AccountContext a (rule_id r)) cs rs) pd cc"
  using pass_policies_listed [OF stack_run_installed [OF assms(1-3)]] assms(1,4)
  unfolding requires_policies_def by blast

section \<open>The limit as the rule's part\<close>

text \<open>The calls that reach the multi-token policy's storage.\<close>

fun multi_call_of :: "authorisation \<Rightarrow> ContextRule \<Rightarrow> address \<Rightarrow> stack_call \<Rightarrow> policy_world \<Rightarrow> multi_call list" where
  "multi_call_of auth r a (Authorise h e ctx sg) w =
     (if auth h e ctx sg w = None then [] else [(h, CallEnforce e ctx sg r a)])"
| "multi_call_of auth r a (OnMulti c) w = [c]"
| "multi_call_of auth r a _ w = []"

fun multi_calls :: "authorisation \<Rightarrow> ContextRule \<Rightarrow> address \<Rightarrow> stack_call list \<Rightarrow> policy_world \<Rightarrow> multi_call list" where
  "multi_calls auth r a [] w = []"
| "multi_calls auth r a (c # cs) w = multi_call_of auth r a c w @ multi_calls auth r a cs (stack_step auth c w)"

lemma multi_run_append: "multi_run (xs @ ys) s = multi_run ys (multi_run xs s)"
  by (induction xs arbitrary: s) simp_all

lemma approved_append: "approved k (xs @ ys) s = approved k xs s @ approved k ys (multi_run xs s)"
  by (induction xs arbitrary: s) simp_all

lemma multi_call_of_step:
  assumes "requires_policies ps r a auth" "MultiToken \<in> set ps"
  shows "multi_run (multi_call_of auth r a c w) (multi_st w) = multi_st (stack_step auth c w)"
proof (cases c)
  case (Authorise h e ctx sg)
  show ?thesis
  proof (cases "auth h e ctx sg w")
    case (Some w')
    then have "multi_enforce h e ctx sg r a (multi_st w) = Inr (multi_st w')"
      using assms by (auto simp: requires_policies_def pass_policies_def split: if_splits)
    with Authorise Some show ?thesis by (simp add: multi_step_def)
  qed (simp add: Authorise)
qed simp_all

lemma authorised_subseq:
  assumes "requires_policies ps r a auth" "MultiToken \<in> set ps"
  shows "subseq (map snd (authorised auth k r a cs w)) (approved k (multi_calls auth r a cs w) (multi_st w))"
proof (induction cs arbitrary: w)
  case Nil
  show ?case by simp
next
  case (Cons c cs)
  have "subseq (map snd (authorises auth k r a c w)) (approved k (multi_call_of auth r a c w) (multi_st w))"
    by (cases "(auth, k, r, a, c, w)" rule: authorises.cases) (simp_all add: comp_def)
  with Cons.IH [of "stack_step auth c w"] show ?case
    by (simp add: approved_append multi_call_of_step [OF assms] list_emb_append_mono del: approved.simps)
qed

lemma multi_calls_ordered:
  assumes "sorted (t # map stack_ledger cs)"
  shows "sorted (t # map call_ledger (multi_calls auth r a cs w))"
  using assms
proof (induction cs arbitrary: t w)
  case Nil
  then show ?case by simp
next
  case (Cons c cs)
  let ?rest = "map call_ledger (multi_calls auth r a cs (stack_step auth c w))"
  have le: "t \<le> stack_ledger c" and rest: "sorted (stack_ledger c # ?rest)"
    using Cons.prems Cons.IH [of "stack_ledger c" "stack_step auth c w"] by simp_all
  then have "sorted (t # ?rest)" by (auto intro: order_trans)
  with le rest show ?case by (cases "(auth, r, a, c, w)" rule: multi_call_of.cases) auto
qed

lemma multi_calls_kept:
  assumes "\<And>c. c \<in> set cs \<Longrightarrow> keeps_stack k c" "x \<in> set (multi_calls auth r a cs w)"
  shows "keeps_installed k x"
  using assms
proof (induction cs arbitrary: w)
  case Nil
  then show ?case by simp
next
  case (Cons c cs)
  have "x \<in> set (multi_call_of auth r a c w) \<Longrightarrow> keeps_installed k x"
    using Cons.prems(1) [of c]
    by (cases "(auth, r, a, c, w)" rule: multi_call_of.cases) (auto split: if_splits)
  with Cons.IH Cons.prems show ?case by auto
qed

lemma usd_total_subseq:
  assumes "subseq xs ys" "\<And>y. y \<in> set ys \<Longrightarrow> 0 \<le> amount_usd y"
  shows "usd_total xs \<le> usd_total ys"
  using assms by (induction rule: list_emb.induct) (auto intro: add_increasing usd_total_nonneg)

lemma stack_within_limit:
  assumes "requires_policies ps r a auth" "MultiToken \<in> set ps"
    and "multi_install h e p r a s0 = Inr (multi_st w)" "p_spending_limit_usd p < i128_max"
    and "\<And>c. c \<in> set cs \<Longrightarrow> keeps_stack (AccountContext a (rule_id r)) c"
    and "sorted (map stack_ledger cs)"
  shows "usd_total (in_window (p_period_ledgers p) l
           (map snd (authorised auth (AccountContext a (rule_id r)) r a cs w))) \<le> p_spending_limit_usd p"
proof -
  let ?k = "AccountContext a (rule_id r)" and ?ms = "multi_calls auth r a cs w"
  let ?in = "in_window (p_period_ledgers p) l"
  have "sorted (map call_ledger ?ms)"
    using multi_calls_ordered [of 0 cs auth r a w] assms(6) by simp
  with assms(3,4) multi_calls_kept [OF assms(5)] obtain d d0 now where
    "installed_as h p d" "window_inv d0 (approved ?k ?ms (multi_st w)) now d"
    by (rule installed_run)
  then have total: "usd_total (?in (approved ?k ?ms (multi_st w))) \<le> p_spending_limit_usd p"
    and nonneg: "\<And>x. x \<in> set (approved ?k ?ms (multi_st w)) \<Longrightarrow> 0 \<le> amount_usd x"
    by (auto simp: window_inv_def installed_as_def)
  have "subseq (?in (map snd (authorised auth ?k r a cs w))) (?in (approved ?k ?ms (multi_st w)))"
    unfolding in_window_def using authorised_subseq [OF assms(1,2)] by (intro subseq_filter)
  then have "usd_total (?in (map snd (authorised auth ?k r a cs w)))
      \<le> usd_total (?in (approved ?k ?ms (multi_st w)))"
    by (rule usd_total_subseq) (use nonneg in \<open>auto simp: in_window_def\<close>)
  with total show ?thesis by simp
qed

section \<open>A concrete account\<close>

text \<open>
  An account that enforces the attached policies one after the other and gives up at the first
  refusal; it models no code of the repository and shows that the laws above can hold.
\<close>

fun enforce_attached ::
  "oracle_host \<Rightarrow> env \<Rightarrow> Context \<Rightarrow> Signer list \<Rightarrow> ContextRule \<Rightarrow> address \<Rightarrow> attached \<Rightarrow> policy_world
   \<Rightarrow> policy_world option" where
  "enforce_attached h e ctx sg r a Session w =
     (case session_enforce e ctx sg r a (session_st w) of
        Inl _ \<Rightarrow> None | Inr s \<Rightarrow> Some (w\<lparr>session_st := s\<rparr>))"
| "enforce_attached h e ctx sg r a Recipient w =
     (case recipient_enforce e ctx sg r a (recipient_st w) of
        Inl _ \<Rightarrow> None | Inr s \<Rightarrow> Some (w\<lparr>recipient_st := s\<rparr>))"
| "enforce_attached h e ctx sg r a Parameter w =
     (case parameter_enforce e ctx sg r a (parameter_st w) of
        Inl _ \<Rightarrow> None | Inr s \<Rightarrow> Some (w\<lparr>parameter_st := s\<rparr>))"
| "enforce_attached h e ctx sg r a MultiToken w =
     (case multi_enforce h e ctx sg r a (multi_st w) of
        Inl _ \<Rightarrow> None | Inr s \<Rightarrow> Some (w\<lparr>multi_st := s\<rparr>))"

fun sample_account :: "attached list \<Rightarrow> ContextRule \<Rightarrow> address \<Rightarrow> authorisation" where
  "sample_account [] r a h e ctx sg w = Some w"
| "sample_account (p # ps) r a h e ctx sg w =
     (case enforce_attached h e ctx sg r a p w of
        None \<Rightarrow> None | Some w' \<Rightarrow> sample_account ps r a h e ctx sg w')"

lemma sample_account_decided:
  assumes "distinct ps"
  shows "decided_by_policies ps r a (sample_account ps r a)"
proof -
  have "sample_account ps r a h e ctx sg w = Some w' \<longleftrightarrow> pass_policies ps r a h e ctx sg w w'"
    for h e ctx sg w w'
    using assms
  proof (induction ps arbitrary: w)
    case Nil
    show ?case by (cases w; cases w') (auto simp: pass_policies_def)
  next
    case (Cons p ps)
    then show ?case by (cases p) (auto simp: pass_policies_def split: sum.splits)
  qed
  then show ?thesis by (simp add: decided_by_policies_def)
qed

end
