(* ===== verification/Test_Script.thy ===== *)
theory Test_Script
  imports Latch_Prelude
begin

text \<open>
  The test suites of the repository as scripts over the model.  A test is a list of steps on the
  test's world; a step either hands the world on or stops the test, as a failed \<open>assert!\<close> or an
  unexpected panic does.  The theories that import this one translate the repository's tests with
  the calls and the expected values they contain, and prove that each passes: the model agrees
  with the program on every scenario its authors wrote down.
\<close>

type_synonym 's step = "'s \<Rightarrow> 's option"

primrec run_script :: "'s step list \<Rightarrow> 's \<Rightarrow> 's option" where
  "run_script [] w = Some w"
| "run_script (st # sts) w = (case st w of None \<Rightarrow> None | Some w' \<Rightarrow> run_script sts w')"

definition passes :: "'s option \<Rightarrow> 's step list \<Rightarrow> bool" where
  "passes fixture sts = (case fixture of None \<Rightarrow> False | Some w \<Rightarrow> run_script sts w \<noteq> None)"

text \<open>
  The steps: an assertion on the world, a call whose result is checked and whose new state is kept,
  and a call that must fail (which leaves the world as it was, as a reverted invocation does).
\<close>

definition expect :: "('s \<Rightarrow> bool) \<Rightarrow> 's step" where
  "expect P w = (if P w then Some w else None)"

definition call_ok :: "('s \<Rightarrow> ('e, 'r) result) \<Rightarrow> ('r \<Rightarrow> bool) \<Rightarrow> ('r \<Rightarrow> 's \<Rightarrow> 's) \<Rightarrow> 's step" where
  "call_ok f P put w = (case f w of Inl _ \<Rightarrow> None | Inr r \<Rightarrow> if P r then Some (put r w) else None)"

definition call_fails :: "('s \<Rightarrow> ('e, 'r) result) \<Rightarrow> ('e fault \<Rightarrow> bool) \<Rightarrow> 's step" where
  "call_fails f P w = (case f w of Inl x \<Rightarrow> if P x then Some w else None | Inr _ \<Rightarrow> None)"

lemma run_script_append:
  "run_script (xs @ ys) w = (case run_script xs w of None \<Rightarrow> None | Some w' \<Rightarrow> run_script ys w')"
  by (induction xs arbitrary: w) (auto split: option.splits)

lemma passes_prefix:
  assumes "passes fixture (xs @ ys)"
  shows "passes fixture xs"
  using assms by (auto simp: passes_def run_script_append split: option.splits)

end
