(* ===== verification/Vesting_Tests.thy ===== *)
theory Vesting_Tests
  imports Vesting_Schedule Test_Script
begin

text \<open>
  The tests of \<open>src/templates/vesting-schedule/src/test.rs\<close> on the model of the vesting schedule
  and of the mock token: linear release, cliff, end, repeated claims, authorisation, rounding, wide
  multiplication and the constructor's validations.
\<close>

record vesting_fixture =
  vf_env :: env
  vf_state :: vesting_state
  vf_tokens :: mock_ledger

definition vt_owner :: address where "vt_owner = Addr 11"
definition vt_token :: address where "vt_token = Addr 12"
definition vt_vesting :: address where "vt_vesting = Addr 13"
definition vt_beneficiary :: address where "vt_beneficiary = Addr 14"

definition vesting_empty :: vesting_state where
  "vesting_empty = \<lparr>schedule = None, vesting_log = []\<rparr>"

text \<open>\<open>Env::default\<close> (ledger 0) with the given authorisations mocked.\<close>

definition vt_env :: "(address \<Rightarrow> bool) \<Rightarrow> env" where
  "vt_env auth = \<lparr>ledger_sequence = 0, ledger_timestamp = 0,
     current_contract_address = vt_vesting, authorized = auth\<rparr>"

definition register_vesting ::
  "(address \<Rightarrow> bool) \<Rightarrow> u32 \<Rightarrow> u32 option \<Rightarrow> u32 \<Rightarrow> i128 \<Rightarrow> vesting_fixture option" where
  "register_vesting auth start cliff end_l tot =
     (case vesting_constructor vt_owner vt_token tot start cliff end_l vesting_empty of
        Inl _ \<Rightarrow> None
      | Inr s \<Rightarrow>
          (case mock_mint vt_token vt_vesting tot (\<lambda>_ _. None) of
             None \<Rightarrow> None
           | Some w \<Rightarrow> Some \<lparr>vf_env = vt_env auth, vf_state = s, vf_tokens = w\<rparr>))"

definition create_fixture :: "u32 \<Rightarrow> u32 option \<Rightarrow> u32 \<Rightarrow> i128 \<Rightarrow> vesting_fixture option" where
  "create_fixture start cliff end_l tot = register_vesting (\<lambda>_. True) start cliff end_l tot"

section \<open>Steps\<close>

definition set_sequence :: "u32 \<Rightarrow> vesting_fixture step" where
  "set_sequence l f = Some (f\<lparr>vf_env := (vf_env f)\<lparr>ledger_sequence := l\<rparr>\<rparr>)"

definition do_claim ::
  "vesting_fixture \<Rightarrow> (VestingScheduleError, i128 \<times> vesting_state \<times> mock_ledger) result" where
  "do_claim f = claim (mock_transfer (\<lambda>_. True)) (vf_env f) vt_beneficiary (vf_state f) (vf_tokens f)"

definition claim_releases :: "i128 \<Rightarrow> vesting_fixture step" where
  "claim_releases r = call_ok do_claim (\<lambda>(x, _). x = r)
     (\<lambda>(_, s, w) f. f\<lparr>vf_state := s, vf_tokens := w\<rparr>)"

definition query ::
  "(vesting_fixture \<Rightarrow> (VestingScheduleError, 'a \<times> vesting_state) result) \<Rightarrow> 'a
   \<Rightarrow> vesting_fixture step" where
  "query q x = call_ok q (\<lambda>(y, _). y = x) (\<lambda>(_, s) f. f\<lparr>vf_state := s\<rparr>)"

definition vested_is :: "i128 \<Rightarrow> vesting_fixture step" where
  "vested_is = query (\<lambda>f. vested_amount (vf_env f) (vf_state f))"

definition claimable_is :: "i128 \<Rightarrow> vesting_fixture step" where
  "claimable_is = query (\<lambda>f. claimable_amount (vf_env f) (vf_state f))"

definition claimed_is :: "i128 \<Rightarrow> vesting_fixture step" where
  "claimed_is = query (\<lambda>f. get_claimed_amount (vf_state f))"

definition balance_is :: "address \<Rightarrow> i128 \<Rightarrow> vesting_fixture step" where
  "balance_is a b = expect (\<lambda>f. mock_balance vt_token a (vf_tokens f) = b)"

section \<open>Claims\<close>

definition test_claim_before_start_ledger_releases_zero :: bool where
  "test_claim_before_start_ledger_releases_zero =
     passes (create_fixture 100 None 200 1000)
       [set_sequence 50, claim_releases 0,
        balance_is vt_beneficiary 0, balance_is vt_vesting 1000,
        claimed_is 0, claimable_is 0, vested_is 0]"

definition test_claim_before_cliff_ledger_releases_zero :: bool where
  "test_claim_before_cliff_ledger_releases_zero =
     passes (create_fixture 100 (Some 150) 200 1000)
       [set_sequence 140, claim_releases 0,
        balance_is vt_beneficiary 0, balance_is vt_vesting 1000,
        claimed_is 0, claimable_is 0, vested_is 0]"

definition test_claim_at_cliff_ledger_releases_vested_amount :: bool where
  "test_claim_at_cliff_ledger_releases_vested_amount =
     passes (create_fixture 100 (Some 150) 200 1000)
       [set_sequence 150, vested_is 500, claimable_is 500,
        claim_releases 500, balance_is vt_beneficiary 500, balance_is vt_vesting 500,
        claimed_is 500, claimable_is 0]"

definition test_claim_at_various_points_along_linear_range :: bool where
  "test_claim_at_various_points_along_linear_range =
     passes (create_fixture 100 None 200 1000)
       [set_sequence 125, vested_is 250, claimable_is 250,
        claim_releases 250, balance_is vt_beneficiary 250,
        set_sequence 150, vested_is 500, claimable_is 250,
        claim_releases 250, balance_is vt_beneficiary 500,
        set_sequence 175, vested_is 750, claimable_is 250,
        claim_releases 250, balance_is vt_beneficiary 750]"

definition test_claim_at_and_after_end_ledger_releases_exact_remaining_balance :: bool where
  "test_claim_at_and_after_end_ledger_releases_exact_remaining_balance =
     passes (create_fixture 100 None 200 1000)
       [set_sequence 140, claim_releases 400,
        set_sequence 200, vested_is 1000, claimable_is 600,
        claim_releases 600, balance_is vt_beneficiary 1000, balance_is vt_vesting 0,
        set_sequence 300, vested_is 1000, claimable_is 0,
        claim_releases 0, balance_is vt_beneficiary 1000, balance_is vt_vesting 0]"

definition test_repeated_claim_calls_never_double_release :: bool where
  "test_repeated_claim_calls_never_double_release =
     passes (create_fixture 100 None 200 1000)
       [set_sequence 150, claim_releases 500, claim_releases 0, claim_releases 0,
        balance_is vt_beneficiary 500, claimed_is 500]"

definition test_claim_from_non_owner_is_rejected :: bool where
  "test_claim_from_non_owner_is_rejected =
     passes (register_vesting (\<lambda>_. False) 100 None 200 1000)
       [set_sequence 150, call_fails do_claim (\<lambda>_. True)]"

lemma vesting_claim_tests_pass:
  shows "test_claim_before_start_ledger_releases_zero"
    and "test_claim_before_cliff_ledger_releases_zero"
    and "test_claim_at_cliff_ledger_releases_vested_amount"
    and "test_claim_at_various_points_along_linear_range"
    and "test_claim_at_and_after_end_ledger_releases_exact_remaining_balance"
    and "test_repeated_claim_calls_never_double_release"
    and "test_claim_from_non_owner_is_rejected"
  by code_simp+

section \<open>Rounding and wide multiplication\<close>

definition test_rounding_precision_no_dust_left_behind :: bool where
  "test_rounding_precision_no_dust_left_behind =
     passes (create_fixture 0 None 3 100)
       [set_sequence 1, claim_releases 33,
        set_sequence 2, claim_releases 33,
        set_sequence 3, claim_releases 34,
        balance_is vt_beneficiary 100, balance_is vt_vesting 0]"

text \<open>The loop over the ledgers 11 to 17 adds up what each claim released.\<close>

fun claim_each :: "u32 list \<Rightarrow> i128 \<Rightarrow> vesting_fixture \<Rightarrow> (i128 \<times> vesting_fixture) option" where
  "claim_each [] acc f = Some (acc, f)"
| "claim_each (l # ls) acc f =
     (let f' = f\<lparr>vf_env := (vf_env f)\<lparr>ledger_sequence := l\<rparr>\<rparr> in
      case do_claim f' of
        Inl _ \<Rightarrow> None
      | Inr (r, s, w) \<Rightarrow> claim_each ls (acc + r) (f'\<lparr>vf_state := s, vf_tokens := w\<rparr>))"

definition test_rounding_precision_prime_intervals :: bool where
  "test_rounding_precision_prime_intervals =
     passes (create_fixture 10 None 17 10000)
       [\<lambda>f. case claim_each [11, 12, 13, 14, 15, 16, 17] 0 f of
              None \<Rightarrow> None
            | Some (total_released, f') \<Rightarrow> if total_released = 10000 then Some f' else None,
        balance_is vt_beneficiary 10000, balance_is vt_vesting 0]"

definition compute_vested_is :: "i128 \<Rightarrow> u32 \<Rightarrow> u32 \<Rightarrow> u32 \<Rightarrow> i128 \<Rightarrow> bool" where
  "compute_vested_is tot start end_l now v =
     ((compute_vested tot start None end_l now :: (unit, i128) result) = Inr v)"

definition test_pure_math_wide_multiplication_large_values :: bool where
  "test_pure_math_wide_multiplication_large_values =
     (compute_vested_is (10 ^ 35) 1000000 2000000 1500000 (5 * 10 ^ 34)
      \<and> compute_vested_is i128_max 0 2 1 (i128_max div 2)
      \<and> compute_vested_is i128_max 0 100 100 i128_max)"

lemma vesting_rounding_tests_pass:
  shows "test_rounding_precision_no_dust_left_behind"
    and "test_rounding_precision_prime_intervals"
    and "test_pure_math_wide_multiplication_large_values"
  by code_simp+

section \<open>Constructor validations and queries\<close>

definition constructor_error ::
  "i128 \<Rightarrow> u32 \<Rightarrow> u32 option \<Rightarrow> u32 \<Rightarrow> VestingScheduleError \<Rightarrow> bool" where
  "constructor_error tot start cliff end_l err =
     (vesting_constructor vt_owner vt_token tot start cliff end_l vesting_empty = Inl (Panic err))"

definition test_constructor_rejects_zero_amount :: bool where
  "test_constructor_rejects_zero_amount = constructor_error 0 100 None 200 InvalidAmount"

definition test_constructor_rejects_negative_amount :: bool where
  "test_constructor_rejects_negative_amount = constructor_error (-500) 100 None 200 InvalidAmount"

definition test_constructor_rejects_start_equal_end :: bool where
  "test_constructor_rejects_start_equal_end = constructor_error 1000 100 None 100 InvalidLedgerRange"

definition test_constructor_rejects_start_greater_than_end :: bool where
  "test_constructor_rejects_start_greater_than_end =
     constructor_error 1000 200 None 100 InvalidLedgerRange"

definition test_constructor_rejects_cliff_before_start :: bool where
  "test_constructor_rejects_cliff_before_start =
     constructor_error 1000 100 (Some 90) 200 InvalidCliffLedger"

definition test_constructor_rejects_cliff_after_end :: bool where
  "test_constructor_rejects_cliff_after_end =
     constructor_error 1000 100 (Some 210) 200 InvalidCliffLedger"

definition test_getters_and_queries :: bool where
  "test_getters_and_queries =
     passes (create_fixture 100 (Some 150) 200 1000)
       [query (\<lambda>f. vesting_owner (vf_state f)) vt_owner,
        query (\<lambda>f. vesting_token (vf_state f)) vt_token,
        query (\<lambda>f. get_schedule (vf_state f))
          \<lparr>owner = vt_owner, token = vt_token, total_amount = 1000, start_ledger = 100,
           cliff_ledger = Some 150, end_ledger = 200, claimed_amount = 0\<rparr>]"

lemma vesting_constructor_tests_pass:
  shows "test_constructor_rejects_zero_amount"
    and "test_constructor_rejects_negative_amount"
    and "test_constructor_rejects_start_equal_end"
    and "test_constructor_rejects_start_greater_than_end"
    and "test_constructor_rejects_cliff_before_start"
    and "test_constructor_rejects_cliff_after_end"
    and "test_getters_and_queries"
  by code_simp+

end
