(* ===== verification/Vault_Tests.thy ===== *)
theory Vault_Tests
  imports Vault_Life Test_Script
begin

text \<open>
  The tests of \<open>src/templates/timelock-vault/src/test.rs\<close> on the model of the vault.  The tests
  deploy Stellar asset contracts, which are not part of this repository: the scenarios take the
  token's \<open>transfer\<close> and \<open>balance\<close> and its state after the mint as parameters, and are
  shown to pass with the mock token of the vesting tests in that place.  The tests that read the
  remaining TTL of an entry run on the vault with the lives of its entries, on a network with the
  test host's limits.
\<close>

record 'w vault_fixture =
  tv_env :: env
  tv_state :: vault_state
  tv_tokens :: 'w

definition tv_vault :: address where "tv_vault = Addr 21"
definition tv_owner :: address where "tv_owner = Addr 22"
definition tv_token_a :: address where "tv_token_a = Addr 23"
definition tv_token_b :: address where "tv_token_b = Addr 24"
definition tv_other_token :: address where "tv_other_token = Addr 25"
definition tv_non_owner :: address where "tv_non_owner = Addr 26"

definition UNLOCK_LEDGER :: u32 where
  "UNLOCK_LEDGER = 1000"

definition DEPOSIT_AMOUNT :: i128 where
  "DEPOSIT_AMOUNT = 10000000"

definition vault_empty :: vault_state where
  "vault_empty = \<lparr>vault_owner = None, unlock_ledger = None, vault_log = []\<rparr>"

definition tv_env_at :: "u32 \<Rightarrow> env" where
  "tv_env_at seq = \<lparr>ledger_sequence = seq, ledger_timestamp = 0,
     current_contract_address = tv_vault, authorized = (\<lambda>_. True)\<rparr>"

definition setup_env :: "'w \<Rightarrow> 'w vault_fixture option" where
  "setup_env minted =
     (case vault_constructor (tv_env_at 100) tv_owner UNLOCK_LEDGER vault_empty of
        Inl _ \<Rightarrow> None
      | Inr s \<Rightarrow> Some \<lparr>tv_env = tv_env_at 100, tv_state = s, tv_tokens = minted\<rparr>)"

section \<open>Steps\<close>

definition at_ledger :: "u32 \<Rightarrow> 'w vault_fixture step" where
  "at_ledger l f = Some (f\<lparr>tv_env := (tv_env f)\<lparr>ledger_sequence := l\<rparr>\<rparr>)"

definition mock_auths :: "(address \<Rightarrow> bool) \<Rightarrow> 'w vault_fixture step" where
  "mock_auths auth f = Some (f\<lparr>tv_env := (tv_env f)\<lparr>authorized := auth\<rparr>\<rparr>)"

definition do_deposit ::
  "'w token_transfer \<Rightarrow> address \<Rightarrow> address \<Rightarrow> i128 \<Rightarrow> 'w vault_fixture step" where
  "do_deposit transfer depositor tk amount =
     call_ok (\<lambda>f. deposit transfer (tv_env f) depositor tk amount (tv_state f) (tv_tokens f))
       (\<lambda>_. True) (\<lambda>(s, w) f. f\<lparr>tv_state := s, tv_tokens := w\<rparr>)"

definition try_withdraw ::
  "'w token_transfer \<Rightarrow> address \<Rightarrow> i128 \<Rightarrow> address \<Rightarrow> 'w vault_fixture
   \<Rightarrow> (VaultError, vault_state \<times> 'w) result" where
  "try_withdraw transfer tk amount recipient f =
     withdraw transfer (tv_env f) tk amount recipient (tv_state f) (tv_tokens f)"

definition do_withdraw ::
  "'w token_transfer \<Rightarrow> address \<Rightarrow> i128 \<Rightarrow> address \<Rightarrow> 'w vault_fixture step" where
  "do_withdraw transfer tk amount recipient =
     call_ok (try_withdraw transfer tk amount recipient)
       (\<lambda>_. True) (\<lambda>(s, w) f. f\<lparr>tv_state := s, tv_tokens := w\<rparr>)"

definition vault_holds ::
  "'w token_balance \<Rightarrow> address \<Rightarrow> i128 \<Rightarrow> 'w vault_fixture step" where
  "vault_holds balance tk b = expect (\<lambda>f. get_balance balance (tv_env f) tk (tv_tokens f) = b)"

fun is_publish :: "('k, 'ev) effect \<Rightarrow> bool" where
  "is_publish (Publish _) = True"
| "is_publish _ = False"

definition emitted :: "'w vault_fixture step" where
  "emitted = expect (\<lambda>f. list_ex is_publish (vault_log (tv_state f)))"

section \<open>The scenarios\<close>

definition constructor_stores_owner_and_unlock :: "'w token_balance \<Rightarrow> 'w \<Rightarrow> bool" where
  "constructor_stores_owner_and_unlock balance minted =
     passes (setup_env minted)
       [call_ok (\<lambda>f. get_owner (tv_state f)) (\<lambda>a. a = tv_owner) (\<lambda>_ f. f),
        call_ok (\<lambda>f. get_unlock_ledger (tv_state f)) (\<lambda>l. l = UNLOCK_LEDGER) (\<lambda>_ f. f),
        vault_holds balance tv_other_token 0]"

definition constructor_rejects_past_unlock :: bool where
  "constructor_rejects_past_unlock =
     (vault_constructor (tv_env_at 500) tv_owner 100 vault_empty = Inl (Panic InvalidUnlockLedger))"

definition constructor_rejects_equal_unlock :: bool where
  "constructor_rejects_equal_unlock =
     (vault_constructor (tv_env_at 500) tv_owner 500 vault_empty = Inl (Panic InvalidUnlockLedger))"

definition deposit_transfers_and_shows_balance ::
  "'w token_transfer \<Rightarrow> 'w token_balance \<Rightarrow> 'w \<Rightarrow> bool" where
  "deposit_transfers_and_shows_balance transfer balance minted =
     passes (setup_env minted)
       [do_deposit transfer tv_owner tv_token_a DEPOSIT_AMOUNT,
        vault_holds balance tv_token_a DEPOSIT_AMOUNT]"

definition withdraw_before_unlock_rejected :: "'w token_transfer \<Rightarrow> 'w \<Rightarrow> bool" where
  "withdraw_before_unlock_rejected transfer minted =
     passes (setup_env minted)
       [do_deposit transfer tv_owner tv_token_a DEPOSIT_AMOUNT,
        expect (\<lambda>f. ledger_sequence (tv_env f) < UNLOCK_LEDGER),
        call_fails (try_withdraw transfer tv_token_a DEPOSIT_AMOUNT tv_owner)
          (\<lambda>err. err = Panic StillLocked)]"

definition withdraw_after_unlock_succeeds ::
  "'w token_transfer \<Rightarrow> 'w token_balance \<Rightarrow> 'w \<Rightarrow> bool" where
  "withdraw_after_unlock_succeeds transfer balance minted =
     passes (setup_env minted)
       [do_deposit transfer tv_owner tv_token_a DEPOSIT_AMOUNT,
        at_ledger (UNLOCK_LEDGER + 1),
        do_withdraw transfer tv_token_a DEPOSIT_AMOUNT tv_owner,
        vault_holds balance tv_token_a 0,
        expect (\<lambda>f. balance tv_token_a tv_owner (tv_tokens f) = DEPOSIT_AMOUNT * 10)]"

definition withdraw_at_exact_unlock_ledger_succeeds ::
  "'w token_transfer \<Rightarrow> 'w token_balance \<Rightarrow> 'w \<Rightarrow> bool" where
  "withdraw_at_exact_unlock_ledger_succeeds transfer balance minted =
     passes (setup_env minted)
       [do_deposit transfer tv_owner tv_token_a DEPOSIT_AMOUNT,
        at_ledger UNLOCK_LEDGER,
        do_withdraw transfer tv_token_a DEPOSIT_AMOUNT tv_owner,
        vault_holds balance tv_token_a 0]"

definition withdraw_non_owner_rejected_before_unlock :: "'w token_transfer \<Rightarrow> 'w \<Rightarrow> bool" where
  "withdraw_non_owner_rejected_before_unlock transfer minted =
     passes (setup_env minted)
       [do_deposit transfer tv_owner tv_token_a DEPOSIT_AMOUNT,
        mock_auths (\<lambda>a. a = tv_non_owner),
        call_fails (try_withdraw transfer tv_token_a DEPOSIT_AMOUNT tv_non_owner) (\<lambda>_. True)]"

definition withdraw_non_owner_rejected_after_unlock :: "'w token_transfer \<Rightarrow> 'w \<Rightarrow> bool" where
  "withdraw_non_owner_rejected_after_unlock transfer minted =
     passes (setup_env minted)
       [do_deposit transfer tv_owner tv_token_a DEPOSIT_AMOUNT,
        at_ledger (UNLOCK_LEDGER + 1),
        mock_auths (\<lambda>a. a = tv_non_owner),
        call_fails (try_withdraw transfer tv_token_a DEPOSIT_AMOUNT tv_non_owner) (\<lambda>_. True)]"

definition works_with_multiple_tokens ::
  "'w token_transfer \<Rightarrow> 'w token_balance \<Rightarrow> 'w \<Rightarrow> bool" where
  "works_with_multiple_tokens transfer balance minted =
     passes (setup_env minted)
       [do_deposit transfer tv_owner tv_token_a DEPOSIT_AMOUNT,
        do_deposit transfer tv_owner tv_token_b (DEPOSIT_AMOUNT * 2),
        vault_holds balance tv_token_a DEPOSIT_AMOUNT,
        vault_holds balance tv_token_b (DEPOSIT_AMOUNT * 2),
        at_ledger (UNLOCK_LEDGER + 1),
        do_withdraw transfer tv_token_a DEPOSIT_AMOUNT tv_owner,
        do_withdraw transfer tv_token_b (DEPOSIT_AMOUNT * 2) tv_owner,
        vault_holds balance tv_token_a 0,
        vault_holds balance tv_token_b 0]"

definition deposit_emits_event :: "'w token_transfer \<Rightarrow> 'w \<Rightarrow> bool" where
  "deposit_emits_event transfer minted =
     passes (setup_env minted)
       [do_deposit transfer tv_owner tv_token_a DEPOSIT_AMOUNT, emitted]"

text \<open>The test host lists the events of the last invocation only, so the log starts afresh.\<close>

definition withdraw_emits_event :: "'w token_transfer \<Rightarrow> 'w \<Rightarrow> bool" where
  "withdraw_emits_event transfer minted =
     passes (setup_env minted)
       [do_deposit transfer tv_owner tv_token_a DEPOSIT_AMOUNT,
        at_ledger (UNLOCK_LEDGER + 1),
        (\<lambda>f. Some (f\<lparr>tv_state := (tv_state f)\<lparr>vault_log := []\<rparr>\<rparr>)),
        do_withdraw transfer tv_token_a DEPOSIT_AMOUNT tv_owner, emitted]"

definition partial_withdraw_leaves_remainder ::
  "'w token_transfer \<Rightarrow> 'w token_balance \<Rightarrow> 'w \<Rightarrow> bool" where
  "partial_withdraw_leaves_remainder transfer balance minted =
     (let half = DEPOSIT_AMOUNT div 2 in
      passes (setup_env minted)
       [do_deposit transfer tv_owner tv_token_a DEPOSIT_AMOUNT,
        at_ledger (UNLOCK_LEDGER + 1),
        do_withdraw transfer tv_token_a half tv_owner,
        vault_holds balance tv_token_a (DEPOSIT_AMOUNT - half),
        do_withdraw transfer tv_token_a (DEPOSIT_AMOUNT - half) tv_owner,
        vault_holds balance tv_token_a 0])"

definition bump_ttl_is_permissionless :: "'w \<Rightarrow> bool" where
  "bump_ttl_is_permissionless minted =
     passes (setup_env minted)
       [mock_auths (\<lambda>_. False),
        call_ok (\<lambda>f. bump_ttl (tv_state f)) (\<lambda>_. True) (\<lambda>s f. f\<lparr>tv_state := s\<rparr>)]"

section \<open>State lifetime\<close>

text \<open>The test world with the lives of the entries, right after \<open>setup_env\<close>.\<close>

definition setup_living :: "network \<Rightarrow> 'w \<Rightarrow> (env \<times> 'w living_vault) option" where
  "setup_living net minted =
     map_option (\<lambda>f. (tv_env f, vault_born net (tv_env f) (tv_state f) (tv_tokens f))) (setup_env minted)"

definition advance :: "u32 \<Rightarrow> (env \<times> 'w living_vault) step" where
  "advance n = (\<lambda>(e, v). Some (e\<lparr>ledger_sequence := ledger_sequence e + n\<rparr>, v))"

definition living_step ::
  "network \<Rightarrow> 'w token_transfer \<Rightarrow> vault_call \<Rightarrow> (env \<times> 'w living_vault) step" where
  "living_step net transfer c =
     call_ok (\<lambda>(e, v). living_call net transfer e c v) (\<lambda>_. True) (\<lambda>v (e, _). (e, v))"

definition state_ttl :: "vault_key \<Rightarrow> env \<times> 'w living_vault \<Rightarrow> int option" where
  "state_ttl key = (\<lambda>(e, v). get_ttl (ledger_sequence e) (lv_life v) key)"

definition ttl_expect :: "vault_key \<Rightarrow> (int \<Rightarrow> bool) \<Rightarrow> (env \<times> 'w living_vault) step" where
  "ttl_expect key P = expect (\<lambda>w. case state_ttl key w of None \<Rightarrow> False | Some t \<Rightarrow> P t)"

definition aged :: u32 where
  "aged = EXTEND_AMOUNT - 10 * DAY_IN_LEDGERS"

definition refreshed :: "int \<Rightarrow> bool" where
  "refreshed t \<longleftrightarrow> t \<ge> uint EXTEND_AMOUNT - uint DAY_IN_LEDGERS"

text \<open>The last assertion of the first test, \<open>after > before\<close>, follows from the bounds it checked on both.\<close>

definition bump_ttl_refreshes_state_before_unlock ::
  "network \<Rightarrow> 'w token_transfer \<Rightarrow> 'w \<Rightarrow> bool" where
  "bump_ttl_refreshes_state_before_unlock net transfer minted =
     passes (setup_living net minted)
       [advance aged,
        ttl_expect Owner (\<lambda>t. t < 20 * uint DAY_IN_LEDGERS),
        living_step net transfer CallBump,
        ttl_expect Owner refreshed,
        ttl_expect Owner (\<lambda>t. t > 20 * uint DAY_IN_LEDGERS),
        ttl_expect UnlockLedger refreshed]"

definition deposit_refreshes_state_ttl :: "network \<Rightarrow> 'w token_transfer \<Rightarrow> 'w \<Rightarrow> bool" where
  "deposit_refreshes_state_ttl net transfer minted =
     passes (setup_living net minted)
       [advance aged,
        living_step net transfer (CallDeposit tv_owner tv_token_a DEPOSIT_AMOUNT),
        ttl_expect Owner refreshed]"

section \<open>They pass\<close>

text \<open>The test host's limits.\<close>

definition tv_net :: network where
  "tv_net = \<lparr>min_persistent_ttl = 4096, max_entry_ttl = 6312000\<rparr>"

definition tv_transfer :: "mock_ledger token_transfer" where
  "tv_transfer = nonneg_transfer (mock_transfer (\<lambda>_. True))"

definition tv_minted :: mock_ledger where
  "tv_minted = mock_set tv_token_b tv_owner (DEPOSIT_AMOUNT * 10)
     (mock_set tv_token_a tv_owner (DEPOSIT_AMOUNT * 10) (\<lambda>_ _. None))"

lemma vault_gate_tests_pass:
  shows "constructor_rejects_past_unlock"
    and "constructor_rejects_equal_unlock"
    and "constructor_stores_owner_and_unlock mock_balance tv_minted"
    and "withdraw_before_unlock_rejected tv_transfer tv_minted"
    and "withdraw_non_owner_rejected_before_unlock tv_transfer tv_minted"
    and "withdraw_non_owner_rejected_after_unlock tv_transfer tv_minted"
    and "bump_ttl_is_permissionless tv_minted"
  by code_simp+

lemma vault_transfer_tests_pass:
  shows "deposit_transfers_and_shows_balance tv_transfer mock_balance tv_minted"
    and "withdraw_after_unlock_succeeds tv_transfer mock_balance tv_minted"
    and "withdraw_at_exact_unlock_ledger_succeeds tv_transfer mock_balance tv_minted"
    and "works_with_multiple_tokens tv_transfer mock_balance tv_minted"
    and "partial_withdraw_leaves_remainder tv_transfer mock_balance tv_minted"
    and "deposit_emits_event tv_transfer tv_minted"
    and "withdraw_emits_event tv_transfer tv_minted"
  by code_simp+

lemma vault_ttl_tests_pass:
  shows "bump_ttl_refreshes_state_before_unlock tv_net tv_transfer tv_minted"
    and "deposit_refreshes_state_ttl tv_net tv_transfer tv_minted"
  by code_simp+

end
