(* ===== verification/Session_Tests.thy ===== *)
theory Session_Tests
  imports Session_Policy Test_Script
begin

text \<open>
  The tests of \<open>src/policies/session-policy/src/test.rs\<close> on the model of the session policy.  The
  world of a test is the policy's storage; the test host lists the events of the last invocation
  only, so each call of a script starts with an empty effect log.
\<close>

definition st_account :: address where "st_account = Addr 31"
definition st_target :: address where "st_target = Addr 32"
definition st_signer :: Signer where "st_signer = Delegated (Addr 33)"

definition st_env :: env where
  "st_env = \<lparr>ledger_sequence = 0, ledger_timestamp = 0,
     current_contract_address = Addr 34, authorized = (\<lambda>_. True)\<rparr>"

definition create_context_rule :: "ContextRuleType \<Rightarrow> ContextRule" where
  "create_context_rule t = \<lparr>rule_id = 1, context_type = t\<rparr>"

definition st_rule :: ContextRule where
  "st_rule = create_context_rule (CallContract st_target)"

definition create_contract_context :: "symbol \<Rightarrow> Context" where
  "create_contract_context fn =
     Contract \<lparr>ctx_contract = Addr 35, ctx_fn_name = fn, ctx_args = []\<rparr>"

definition fresh_log :: "session_state \<Rightarrow> session_state" where
  "fresh_log s = s\<lparr>effects := []\<rparr>"

definition try_install :: "symbol list \<Rightarrow> ContextRule \<Rightarrow> session_state
   \<Rightarrow> (SessionError, session_state) result" where
  "try_install fns r s = session_install st_env \<lparr>param_allowed_fns = fns\<rparr> r st_account (fresh_log s)"

definition try_enforce :: "Context \<Rightarrow> Signer list \<Rightarrow> session_state
   \<Rightarrow> (SessionError, session_state) result" where
  "try_enforce ctx signers s = session_enforce st_env ctx signers st_rule st_account (fresh_log s)"

definition try_uninstall :: "session_state \<Rightarrow> (SessionError, session_state) result" where
  "try_uninstall s = session_uninstall st_env st_rule st_account (fresh_log s)"

definition session_call ::
  "(session_state \<Rightarrow> (SessionError, session_state) result) \<Rightarrow> session_state step" where
  "session_call f = call_ok f (\<lambda>_. True) (\<lambda>s _. s)"

definition session_panics ::
  "SessionError \<Rightarrow> (session_state \<Rightarrow> (SessionError, session_state) result)
   \<Rightarrow> session_state step" where
  "session_panics err f = call_fails f (\<lambda>x. x = Panic err)"

fun published :: "('k, 'ev) effect list \<Rightarrow> 'ev list" where
  "published [] = []"
| "published (Publish ev # xs) = ev # published xs"
| "published (ExtendTtl _ _ _ # xs) = published xs"

definition events_are :: "nat \<Rightarrow> session_state step" where
  "events_are n = expect (\<lambda>s. length (published (effects s)) = n)"

definition session_fixture :: "session_state option" where
  "session_fixture = Some init_policy_state"

section \<open>Install\<close>

definition install_success :: bool where
  "install_success = passes session_fixture
     [session_call (try_install [''set'', ''get''] st_rule),
      call_ok (session_get_allowed_fns 1 st_account)
        (\<lambda>(fns, _). length fns = 2 \<and> List.member fns ''set'') (\<lambda>(_, s) _. s),
      events_are 1]"

definition install_rejects_default_rule :: bool where
  "install_rejects_default_rule = passes session_fixture
     [session_panics OnlyCallContractAllowed (try_install [''set''] (create_context_rule Default))]"

definition install_rejects_create_contract_rule :: bool where
  "install_rejects_create_contract_rule = passes session_fixture
     [session_panics OnlyCallContractAllowed
        (try_install [''set''] (create_context_rule (CreateContract (replicate 32 0))))]"

definition install_rejects_empty_allowed_fns :: bool where
  "install_rejects_empty_allowed_fns = passes session_fixture
     [session_panics InvalidAllowedFns (try_install [] st_rule)]"

definition install_rejects_too_many_allowed_fns :: bool where
  "install_rejects_too_many_allowed_fns = passes session_fixture
     [session_panics InvalidAllowedFns
        (try_install [''fn0'', ''fn1'', ''fn2'', ''fn3'', ''fn4'', ''fn5'', ''fn6'', ''fn7'',
                      ''fn8'', ''fn9'', ''fn10''] st_rule)]"

definition install_rejects_already_installed :: bool where
  "install_rejects_already_installed = passes session_fixture
     [session_call (try_install [''set''] st_rule),
      session_panics AlreadyInstalled (try_install [''set''] st_rule)]"

lemma session_install_tests_pass:
  shows "install_success"
    and "install_rejects_default_rule"
    and "install_rejects_create_contract_rule"
    and "install_rejects_empty_allowed_fns"
    and "install_rejects_too_many_allowed_fns"
    and "install_rejects_already_installed"
  by code_simp+

section \<open>Enforce\<close>

definition enforce_allows_whitelisted_fn :: bool where
  "enforce_allows_whitelisted_fn = passes session_fixture
     [session_call (try_install [''set''] st_rule),
      session_call (try_enforce (create_contract_context ''set'') [st_signer]),
      expect (\<lambda>s. published (effects s) \<noteq> [])]"

definition enforce_rejects_non_whitelisted_fn :: bool where
  "enforce_rejects_non_whitelisted_fn = passes session_fixture
     [session_call (try_install [''set''] st_rule),
      session_panics MethodNotAllowed
        (try_enforce (create_contract_context ''delete'') [st_signer])]"

definition enforce_rejects_create_contract_context :: bool where
  "enforce_rejects_create_contract_context = passes session_fixture
     [session_call (try_install [''set''] st_rule),
      session_panics MethodNotAllowed
        (try_enforce (CreateContractHostFn (replicate 32 1)) [st_signer])]"

definition enforce_rejects_when_not_installed :: bool where
  "enforce_rejects_when_not_installed = passes session_fixture
     [session_panics SmartAccountNotInstalled
        (try_enforce (create_contract_context ''set'') [st_signer])]"

definition enforce_rejects_empty_authenticated_signers :: bool where
  "enforce_rejects_empty_authenticated_signers = passes session_fixture
     [session_call (try_install [''set''] st_rule),
      session_panics MethodNotAllowed (try_enforce (create_contract_context ''set'') [])]"

lemma session_enforce_tests_pass:
  shows "enforce_allows_whitelisted_fn"
    and "enforce_rejects_non_whitelisted_fn"
    and "enforce_rejects_create_contract_context"
    and "enforce_rejects_when_not_installed"
    and "enforce_rejects_empty_authenticated_signers"
  by code_simp+

section \<open>Uninstall and the query\<close>

definition uninstall_success :: bool where
  "uninstall_success = passes session_fixture
     [session_call (try_install [''set''] st_rule),
      session_call try_uninstall,
      events_are 1,
      expect (\<lambda>s. entries s (AccountContext st_account 1) = None)]"

definition uninstall_rejects_when_not_installed :: bool where
  "uninstall_rejects_when_not_installed = passes session_fixture
     [session_panics SmartAccountNotInstalled try_uninstall]"

definition get_allowed_fns_returns_installed_value :: bool where
  "get_allowed_fns_returns_installed_value = passes session_fixture
     [session_call (try_install [''set'', ''get''] st_rule),
      call_ok (session_get_allowed_fns 1 st_account)
        (\<lambda>(fns, _). fns = [''set'', ''get'']) (\<lambda>(_, s) _. s)]"

lemma session_uninstall_tests_pass:
  shows "uninstall_success"
    and "uninstall_rejects_when_not_installed"
    and "get_allowed_fns_returns_installed_value"
  by code_simp+

end
