(* ===== verification/Multi_Token_Tests.thy ===== *)
theory Multi_Token_Tests
  imports Multi_Token_Policy Test_Script
begin

text \<open>
  The tests of \<open>src/policies/multi-token-spending-limit-policy/src/test.rs\<close> on the model of the
  multi-token spending limit policy, with the mock oracle and mock tokens those tests register in
  the place of the called contracts.
\<close>

definition ONE_USD :: i128 where
  "ONE_USD = 100000000"

definition mt_account :: address where "mt_account = Addr 41"
definition mt_oracle :: address where "mt_oracle = Addr 42"
definition mt_token_a :: address where "mt_token_a = Addr 43"
definition mt_token_b :: address where "mt_token_b = Addr 44"
definition mt_other :: address where "mt_other = Addr 45"

section \<open>The mock contracts and the fixture\<close>

text \<open>
  The mock oracle stores one price for every asset and its decimals (8 unless set); the outer
  \<open>None\<close> of \<open>mo_price\<close> is the price never set, on which \<open>lastprice\<close> panics.  A mock token
  stores the decimals it was registered with.
\<close>

record mock_oracle =
  mo_price :: "PriceData option option"
  mo_decimals :: "u32 option"

definition mock_lastprice :: "mock_oracle \<Rightarrow> Asset \<Rightarrow> PriceData option option" where
  "mock_lastprice o1 asset = mo_price o1"

definition mock_oracle_decimals :: "mock_oracle \<Rightarrow> u32" where
  "mock_oracle_decimals o1 = (case mo_decimals o1 of None \<Rightarrow> 8 | Some d \<Rightarrow> d)"

record multi_fixture =
  mf_env :: env
  mf_state :: multi_state
  mf_oracle :: mock_oracle
  mf_decimals_a :: u32
  mf_decimals_b :: u32

text \<open>What a call from the policy to the registered contracts answers.\<close>

definition mf_host :: "multi_fixture \<Rightarrow> oracle_host" where
  "mf_host f =
     \<lparr>decimals = (\<lambda>a. if a = mt_oracle then Some (mock_oracle_decimals (mf_oracle f))
                      else if a = mt_token_a then Some (mf_decimals_a f)
                      else if a = mt_token_b then Some (mf_decimals_b f) else None),
      lastprice = (\<lambda>a asset. if a = mt_oracle then mock_lastprice (mf_oracle f) asset else None)\<rparr>"

definition mt_env :: env where
  "mt_env = \<lparr>ledger_sequence = 1000, ledger_timestamp = 1000000,
     current_contract_address = Addr 46, authorized = (\<lambda>_. True)\<rparr>"

definition set_price :: "PriceData option \<Rightarrow> multi_fixture step" where
  "set_price p f = Some (f\<lparr>mf_oracle := (mf_oracle f)\<lparr>mo_price := Some p\<rparr>\<rparr>)"

definition set_decimals :: "u32 \<Rightarrow> multi_fixture step" where
  "set_decimals d f = Some (f\<lparr>mf_oracle := (mf_oracle f)\<lparr>mo_decimals := Some d\<rparr>\<rparr>)"

definition setup_tokens :: "u32 \<Rightarrow> u32 \<Rightarrow> multi_fixture" where
  "setup_tokens da db = \<lparr>mf_env = mt_env, mf_state = init_policy_state,
     mf_oracle = \<lparr>mo_price = None, mo_decimals = None\<rparr>, mf_decimals_a = da, mf_decimals_b = db\<rparr>"

definition setup_oracle_with_decimals ::
  "i128 \<Rightarrow> u32 \<Rightarrow> multi_fixture \<Rightarrow> multi_fixture option" where
  "setup_oracle_with_decimals p d f =
     run_script [set_decimals d,
       set_price (Some \<lparr>price = p, timestamp = ledger_timestamp (mf_env f)\<rparr>)] f"

definition setup_oracle :: "i128 \<Rightarrow> multi_fixture \<Rightarrow> multi_fixture option" where
  "setup_oracle p f = setup_oracle_with_decimals p 8 f"

section \<open>Steps\<close>

definition mt_create_context_rule :: "address \<Rightarrow> ContextRule" where
  "mt_create_context_rule call_target = \<lparr>rule_id = 1, context_type = CallContract call_target\<rparr>"

definition mt_rule :: ContextRule where
  "mt_rule = mt_create_context_rule mt_token_a"

definition transfer_context :: "address \<Rightarrow> i128 \<Rightarrow> Context" where
  "transfer_context tk amount =
     Contract \<lparr>ctx_contract = tk, ctx_fn_name = ''transfer'',
       ctx_args = [AddressVal (Addr 47), AddressVal (Addr 48), I128Val amount]\<rparr>"

definition install_params ::
  "address list \<Rightarrow> i128 \<Rightarrow> u32 \<Rightarrow> MultiTokenSpendingLimitAccountParams" where
  "install_params tokens limit period =
     \<lparr>p_spending_limit_usd = limit, p_period_ledgers = period,
      p_oracle_address = mt_oracle, p_allowed_tokens = tokens\<rparr>"

definition mt_try_install ::
  "ContextRule \<Rightarrow> address list \<Rightarrow> i128 \<Rightarrow> u32 \<Rightarrow> multi_fixture
   \<Rightarrow> (MultiTokenError, multi_state) result" where
  "mt_try_install r tokens limit period f =
     multi_install (mf_host f) (mf_env f) (install_params tokens limit period) r mt_account
       (mf_state f)"

definition mt_try_enforce ::
  "Context \<Rightarrow> multi_fixture \<Rightarrow> (MultiTokenError, multi_state) result" where
  "mt_try_enforce ctx f = multi_enforce (mf_host f) (mf_env f) ctx [] mt_rule mt_account (mf_state f)"

definition mt_try_uninstall :: "multi_fixture \<Rightarrow> (MultiTokenError, multi_state) result" where
  "mt_try_uninstall f = multi_uninstall (mf_env f) mt_rule mt_account (mf_state f)"

definition mt_try_get_policy_data ::
  "multi_fixture \<Rightarrow> (MultiTokenError, PolicyData \<times> multi_state) result" where
  "mt_try_get_policy_data f =
     MultiTokenSpendingLimitPolicy_get_policy_data (rule_id mt_rule) mt_account (mf_state f)"

definition mt_call ::
  "(multi_fixture \<Rightarrow> (MultiTokenError, multi_state) result) \<Rightarrow> multi_fixture step" where
  "mt_call g = call_ok g (\<lambda>_. True) (\<lambda>s f. f\<lparr>mf_state := s\<rparr>)"

definition panics ::
  "MultiTokenError \<Rightarrow> (multi_fixture \<Rightarrow> (MultiTokenError, 'a) result) \<Rightarrow> multi_fixture step" where
  "panics err g = call_fails g (\<lambda>x. x = Panic err)"

definition policy_data :: "(PolicyData \<Rightarrow> bool) \<Rightarrow> multi_fixture step" where
  "policy_data P = call_ok mt_try_get_policy_data (\<lambda>(d, _). P d) (\<lambda>(_, s) f. f\<lparr>mf_state := s\<rparr>)"

definition install_policy :: "address list \<Rightarrow> i128 \<Rightarrow> u32 \<Rightarrow> multi_fixture step" where
  "install_policy tokens limit period = mt_call (mt_try_install mt_rule tokens limit period)"

definition enforce_transfer :: "address \<Rightarrow> i128 \<Rightarrow> multi_fixture step" where
  "enforce_transfer tk amount = mt_call (mt_try_enforce (transfer_context tk amount))"

section \<open>Install and uninstall\<close>

definition test_install_and_get_policy_data :: bool where
  "test_install_and_get_policy_data = passes (setup_oracle ONE_USD (setup_tokens 0 0))
     [install_policy [mt_token_a] 1000 100,
      policy_data (\<lambda>d. spending_limit_usd d = 1000 \<and> period_ledgers d = 100
        \<and> oracle_address d = mt_oracle \<and> allowed_tokens d = [mt_token_a]
        \<and> cached_total_spent_usd d = 0 \<and> usd_divisor d = ONE_USD \<and> token_divisors d = [1])]"

definition test_install_caches_non_standard_oracle_decimals :: bool where
  "test_install_caches_non_standard_oracle_decimals =
     passes (setup_oracle_with_decimals 1000000 6 (setup_tokens 0 0))
     [install_policy [mt_token_a] 1000 100,
      policy_data (\<lambda>d. usd_divisor d = 1000000)]"

definition test_install_rejects_non_call_contract :: bool where
  "test_install_rejects_non_call_contract = passes (setup_oracle ONE_USD (setup_tokens 0 0))
     [panics InvalidContextRule
        (mt_try_install (mt_rule\<lparr>context_type := Default\<rparr>) [mt_token_a] 1000 100)]"

definition test_install_rejects_non_positive_limit :: bool where
  "test_install_rejects_non_positive_limit = passes (setup_oracle ONE_USD (setup_tokens 0 0))
     [panics InvalidInstallParams (mt_try_install mt_rule [mt_token_a] 0 100)]"

definition test_install_rejects_zero_period :: bool where
  "test_install_rejects_zero_period = passes (setup_oracle ONE_USD (setup_tokens 0 0))
     [panics InvalidInstallParams (mt_try_install mt_rule [mt_token_a] 1000 0)]"

definition test_install_rejects_empty_allowed_tokens :: bool where
  "test_install_rejects_empty_allowed_tokens = passes (setup_oracle ONE_USD (setup_tokens 0 0))
     [panics InvalidInstallParams (mt_try_install (mt_create_context_rule mt_other) [] 1000 100)]"

definition test_install_rejects_double_install :: bool where
  "test_install_rejects_double_install = passes (setup_oracle ONE_USD (setup_tokens 0 0))
     [install_policy [mt_token_a] 1000 100,
      panics AlreadyInstalled (mt_try_install mt_rule [mt_token_a] 1000 100)]"

definition test_install_rejects_oracle_decimals_too_large :: bool where
  "test_install_rejects_oracle_decimals_too_large =
     passes (setup_oracle_with_decimals ONE_USD 31 (setup_tokens 0 0))
     [panics InvalidOracleResponse (mt_try_install mt_rule [mt_token_a] 1000 100)]"

definition test_uninstall_clears_state :: bool where
  "test_uninstall_clears_state = passes (setup_oracle ONE_USD (setup_tokens 0 0))
     [install_policy [mt_token_a] 1000 100,
      mt_call mt_try_uninstall,
      call_fails mt_try_get_policy_data (\<lambda>_. True)]"

definition test_uninstall_rejects_not_installed :: bool where
  "test_uninstall_rejects_not_installed =
     passes (Some (setup_tokens 0 0)) [panics NotInstalled mt_try_uninstall]"

lemma multi_install_tests_pass:
  shows "test_install_and_get_policy_data"
    and "test_install_caches_non_standard_oracle_decimals"
    and "test_install_rejects_non_call_contract"
    and "test_install_rejects_non_positive_limit"
    and "test_install_rejects_zero_period"
    and "test_install_rejects_empty_allowed_tokens"
    and "test_install_rejects_double_install"
    and "test_install_rejects_oracle_decimals_too_large"
    and "test_uninstall_clears_state"
    and "test_uninstall_rejects_not_installed"
  by code_simp+

section \<open>Enforce: the call and its arguments\<close>

definition test_enforce_accepts_within_limit :: bool where
  "test_enforce_accepts_within_limit = passes (setup_oracle ONE_USD (setup_tokens 0 0))
     [install_policy [mt_token_a] 1000 100,
      enforce_transfer mt_token_a 500,
      policy_data (\<lambda>d. cached_total_spent_usd d = 500 \<and> length (spending_history d) = 1)]"

definition test_enforce_converts_using_non_standard_oracle_decimals :: bool where
  "test_enforce_converts_using_non_standard_oracle_decimals =
     passes (setup_oracle_with_decimals 1000000 6 (setup_tokens 0 0))
     [install_policy [mt_token_a] 1000 100,
      enforce_transfer mt_token_a 500,
      policy_data (\<lambda>d. cached_total_spent_usd d = 500)]"

definition test_enforce_rejects_token_not_allowed :: bool where
  "test_enforce_rejects_token_not_allowed = passes (setup_oracle ONE_USD (setup_tokens 0 0))
     [install_policy [mt_token_a] 1000 100,
      panics TokenNotAllowed (mt_try_enforce (transfer_context mt_other 500))]"

definition test_enforce_rejects_non_transfer_call :: bool where
  "test_enforce_rejects_non_transfer_call = passes (setup_oracle ONE_USD (setup_tokens 0 0))
     [install_policy [mt_token_a] 1000 100,
      panics InvalidTransferArgs (mt_try_enforce
        (Contract \<lparr>ctx_contract = mt_token_a, ctx_fn_name = ''mint'',
           ctx_args = [AddressVal (Addr 47), AddressVal (Addr 48), I128Val 500]\<rparr>))]"

definition test_enforce_rejects_missing_amount_arg :: bool where
  "test_enforce_rejects_missing_amount_arg = passes (setup_oracle ONE_USD (setup_tokens 0 0))
     [install_policy [mt_token_a] 1000 100,
      panics InvalidTransferArgs (mt_try_enforce
        (Contract \<lparr>ctx_contract = mt_token_a, ctx_fn_name = ''transfer'',
           ctx_args = [AddressVal (Addr 47), AddressVal (Addr 48)]\<rparr>))]"

definition test_enforce_rejects_negative_amount :: bool where
  "test_enforce_rejects_negative_amount = passes (setup_oracle ONE_USD (setup_tokens 0 0))
     [install_policy [mt_token_a] 1000 100,
      panics InvalidTransferArgs (mt_try_enforce (transfer_context mt_token_a (-500)))]"

lemma multi_enforce_argument_tests_pass:
  shows "test_enforce_accepts_within_limit"
    and "test_enforce_converts_using_non_standard_oracle_decimals"
    and "test_enforce_rejects_token_not_allowed"
    and "test_enforce_rejects_non_transfer_call"
    and "test_enforce_rejects_missing_amount_arg"
    and "test_enforce_rejects_negative_amount"
  by code_simp+

section \<open>Enforce: the oracle's answers\<close>

definition mt_price_at :: "i128 \<Rightarrow> u64 \<Rightarrow> multi_fixture step" where
  "mt_price_at p delay f =
     set_price (Some \<lparr>price = p, timestamp = ledger_timestamp (mf_env f) + delay\<rparr>) f"

definition mt_rejects_500 :: "MultiTokenError \<Rightarrow> multi_fixture step" where
  "mt_rejects_500 err = panics err (mt_try_enforce (transfer_context mt_token_a 500))"

definition test_enforce_rejects_when_oracle_has_no_price :: bool where
  "test_enforce_rejects_when_oracle_has_no_price = passes (setup_oracle ONE_USD (setup_tokens 0 0))
     [install_policy [mt_token_a] 1000 100, set_price None, mt_rejects_500 InvalidOracleResponse]"

definition test_enforce_rejects_stale_price :: bool where
  "test_enforce_rejects_stale_price = passes (setup_oracle ONE_USD (setup_tokens 0 0))
     [install_policy [mt_token_a] 1000 100,
      (\<lambda>f. Some (f\<lparr>mf_env := (mf_env f)\<lparr>ledger_timestamp := ledger_timestamp (mf_env f)
             + ucast MAX_STALENESS_LEDGERS * LEDGER_CLOSE_TIME_SECS + 1\<rparr>\<rparr>)),
      mt_rejects_500 StaleOraclePrice]"

definition test_enforce_rejects_negative_oracle_price :: bool where
  "test_enforce_rejects_negative_oracle_price = passes (setup_oracle ONE_USD (setup_tokens 0 0))
     [install_policy [mt_token_a] 1000 100, mt_price_at (- ONE_USD) 0,
      mt_rejects_500 InvalidOracleResponse]"

definition test_enforce_rejects_zero_oracle_price :: bool where
  "test_enforce_rejects_zero_oracle_price = passes (setup_oracle ONE_USD (setup_tokens 0 0))
     [install_policy [mt_token_a] 1000 100, mt_price_at 0 0,
      mt_rejects_500 InvalidOracleResponse]"

definition test_enforce_rejects_future_dated_oracle_price :: bool where
  "test_enforce_rejects_future_dated_oracle_price = passes (setup_oracle ONE_USD (setup_tokens 0 0))
     [install_policy [mt_token_a] 1000 100, mt_price_at ONE_USD 1,
      mt_rejects_500 InvalidOracleResponse]"

lemma multi_enforce_oracle_tests_pass:
  shows "test_enforce_rejects_when_oracle_has_no_price"
    and "test_enforce_rejects_stale_price"
    and "test_enforce_rejects_negative_oracle_price"
    and "test_enforce_rejects_zero_oracle_price"
    and "test_enforce_rejects_future_dated_oracle_price"
  by code_simp+

section \<open>Enforce: the cap and the window\<close>

definition test_enforce_rejects_over_limit :: bool where
  "test_enforce_rejects_over_limit = passes (setup_oracle ONE_USD (setup_tokens 0 0))
     [install_policy [mt_token_a] 1000 100,
      panics SpendingLimitExceeded (mt_try_enforce (transfer_context mt_token_a 1001))]"

definition test_enforce_tracks_spend_across_multiple_tokens :: bool where
  "test_enforce_tracks_spend_across_multiple_tokens =
     passes (setup_oracle ONE_USD (setup_tokens 0 0))
     [install_policy [mt_token_a, mt_token_b] 1000 100,
      enforce_transfer mt_token_a 600, enforce_transfer mt_token_b 300,
      policy_data (\<lambda>d. cached_total_spent_usd d = 900)]"

definition test_enforce_rejects_combined_spend_over_limit_across_tokens :: bool where
  "test_enforce_rejects_combined_spend_over_limit_across_tokens =
     passes (setup_oracle ONE_USD (setup_tokens 0 0))
     [install_policy [mt_token_a, mt_token_b] 1000 100,
      enforce_transfer mt_token_a 600,
      panics SpendingLimitExceeded (mt_try_enforce (transfer_context mt_token_b 500))]"

definition test_enforce_allows_spend_again_after_window_expires :: bool where
  "test_enforce_allows_spend_again_after_window_expires =
     (let period = 100 in
      passes (setup_oracle ONE_USD (setup_tokens 0 0))
       [install_policy [mt_token_a] 1000 period,
        enforce_transfer mt_token_a 900,
        call_fails (mt_try_enforce (transfer_context mt_token_a 900)) (\<lambda>_. True),
        (\<lambda>f. Some (f\<lparr>mf_env := (mf_env f)\<lparr>ledger_sequence :=
               ledger_sequence (mf_env f) + period + 1\<rparr>\<rparr>)),
        enforce_transfer mt_token_a 900,
        policy_data (\<lambda>d. cached_total_spent_usd d = 900 \<and> length (spending_history d) = 1)])"

lemma multi_enforce_window_tests_pass:
  shows "test_enforce_rejects_over_limit"
    and "test_enforce_tracks_spend_across_multiple_tokens"
    and "test_enforce_rejects_combined_spend_over_limit_across_tokens"
    and "test_enforce_allows_spend_again_after_window_expires"
  by code_simp+

section \<open>Decimal normalisation and the query\<close>

definition test_install_queries_each_token_decimals :: bool where
  "test_install_queries_each_token_decimals = passes (setup_oracle ONE_USD (setup_tokens 7 6))
     [install_policy [mt_token_a, mt_token_b] 1000 100,
      policy_data (\<lambda>d. token_divisors d = [10000000, 1000000])]"

definition test_install_rejects_token_decimals_too_large :: bool where
  "test_install_rejects_token_decimals_too_large =
     passes (setup_oracle ONE_USD (setup_tokens 21 0))
     [panics InvalidTokenResponse (mt_try_install mt_rule [mt_token_a] 1000 100)]"

definition test_enforce_normalizes_token_decimals :: bool where
  "test_enforce_normalizes_token_decimals = passes (setup_oracle ONE_USD (setup_tokens 7 0))
     [install_policy [mt_token_a] 1000 100,
      enforce_transfer mt_token_a (500 * 10000000),
      policy_data (\<lambda>d. cached_total_spent_usd d = 500)]"

definition test_enforce_cap_bites_at_realistic_scale :: bool where
  "test_enforce_cap_bites_at_realistic_scale = passes (setup_oracle ONE_USD (setup_tokens 7 0))
     [install_policy [mt_token_a] 1000 100,
      panics SpendingLimitExceeded
        (mt_try_enforce (transfer_context mt_token_a (1001 * 10000000)))]"

definition test_enforce_tracks_mixed_decimal_tokens_against_one_cap :: bool where
  "test_enforce_tracks_mixed_decimal_tokens_against_one_cap =
     passes (setup_oracle ONE_USD (setup_tokens 7 6))
     [install_policy [mt_token_a, mt_token_b] 1000 100,
      enforce_transfer mt_token_a (600 * 10000000),
      enforce_transfer mt_token_b (300 * 1000000),
      policy_data (\<lambda>d. cached_total_spent_usd d = 900)]"

definition test_enforce_sub_dollar_transfer_truncates_to_zero :: bool where
  "test_enforce_sub_dollar_transfer_truncates_to_zero =
     passes (setup_oracle ONE_USD (setup_tokens 7 0))
     [install_policy [mt_token_a] 1000 100,
      enforce_transfer mt_token_a 9999999,
      policy_data (\<lambda>d. cached_total_spent_usd d = 0)]"

definition test_enforce_rejects_conversion_overflow :: bool where
  "test_enforce_rejects_conversion_overflow = passes (setup_oracle ONE_USD (setup_tokens 0 0))
     [install_policy [mt_token_a] 1000 100,
      panics AmountConversionOverflow (mt_try_enforce (transfer_context mt_token_a i128_max))]"

definition test_get_policy_data_rejects_not_installed :: bool where
  "test_get_policy_data_rejects_not_installed =
     passes (Some (setup_tokens 0 0)) [panics NotInstalled mt_try_get_policy_data]"

lemma multi_decimal_tests_pass:
  shows "test_install_queries_each_token_decimals"
    and "test_install_rejects_token_decimals_too_large"
    and "test_enforce_normalizes_token_decimals"
    and "test_enforce_cap_bites_at_realistic_scale"
    and "test_enforce_tracks_mixed_decimal_tokens_against_one_cap"
    and "test_enforce_sub_dollar_transfer_truncates_to_zero"
    and "test_enforce_rejects_conversion_overflow"
    and "test_get_policy_data_rejects_not_installed"
  by code_simp+

end
