(* ===== verification/Recipient_Tests.thy ===== *)
theory Recipient_Tests
  imports Recipient_Policy Test_Script
begin

text \<open>
  The tests of \<open>src/policies/recipient-allowlist-policy/src/test.rs\<close> on the model of the recipient
  policy.  The world of a test is the policy's storage.
\<close>

definition rt_account :: address where "rt_account = Addr 41"
definition rt_target :: address where "rt_target = Addr 42"
definition rt_signers :: "Signer list" where "rt_signers = [Delegated (Addr 43)]"
definition rt_recipient1 :: address where "rt_recipient1 = Addr 44"
definition rt_recipient2 :: address where "rt_recipient2 = Addr 45"

definition rt_create_context_rule :: "address \<Rightarrow> ContextRule" where
  "rt_create_context_rule target = \<lparr>rule_id = 1, context_type = CallContract target\<rparr>"

definition rt_rule :: ContextRule where
  "rt_rule = rt_create_context_rule rt_target"

definition rt_setup_env :: "env \<times> recipient_state" where
  "rt_setup_env = (\<lparr>ledger_sequence = 0, ledger_timestamp = 0,
     current_contract_address = Addr 46, authorized = (\<lambda>_. True)\<rparr>, init_policy_state)"

definition rt_context :: "symbol \<Rightarrow> address \<Rightarrow> Context" where
  "rt_context fn recipient = Contract \<lparr>ctx_contract = rt_target, ctx_fn_name = fn,
     ctx_args = [AddressVal rt_account, AddressVal recipient, I128Val 100]\<rparr>"

section \<open>Steps\<close>

definition rt_try_install ::
  "address list \<Rightarrow> ContextRule \<Rightarrow> env \<times> recipient_state \<Rightarrow> (RecipientError, recipient_state) result" where
  "rt_try_install rs r = (\<lambda>(e, s). recipient_install e \<lparr>param_allowed_recipients = rs\<rparr> r rt_account s)"

definition rt_install :: "address list \<Rightarrow> (env \<times> recipient_state) step" where
  "rt_install rs = call_ok (rt_try_install rs rt_rule) (\<lambda>_. True) (\<lambda>s (e, _). (e, s))"

definition rt_try_enforce ::
  "symbol \<Rightarrow> address \<Rightarrow> env \<times> recipient_state \<Rightarrow> (RecipientError, recipient_state) result" where
  "rt_try_enforce fn recipient =
     (\<lambda>(e, s). recipient_enforce e (rt_context fn recipient) rt_signers rt_rule rt_account s)"

section \<open>The scenarios\<close>

definition test_install_and_get :: bool where
  "test_install_and_get = passes (Some rt_setup_env)
     [rt_install [rt_recipient1, rt_recipient2],
      call_ok (\<lambda>(e, s). get_allowed_recipients (rule_id rt_rule) rt_account s)
        (\<lambda>(rs, _). rs = [rt_recipient1, rt_recipient2]) (\<lambda>(_, s) (e, _). (e, s))]"

definition test_install_rejects_non_call_contract :: bool where
  "test_install_rejects_non_call_contract = passes (Some rt_setup_env)
     [call_fails (rt_try_install [rt_recipient1] (rt_rule\<lparr>context_type := Default\<rparr>))
        (\<lambda>err. err = Panic OnlyCallContractAllowed)]"

definition test_install_rejects_empty_allowlist :: bool where
  "test_install_rejects_empty_allowlist = passes (Some rt_setup_env)
     [call_fails (rt_try_install [] rt_rule) (\<lambda>err. err = Panic InvalidAllowedRecipients)]"

text \<open>\<open>MAX_ALLOWED_RECIPIENTS + 1\<close> generated addresses.\<close>

definition test_install_rejects_too_large_allowlist :: bool where
  "test_install_rejects_too_large_allowlist = passes (Some rt_setup_env)
     [call_fails (rt_try_install (map Addr [50..<50 + (MAX_ALLOWED_RECIPIENTS + 1)]) rt_rule)
        (\<lambda>err. err = Panic InvalidAllowedRecipients)]"

definition test_enforce_accepts_allowlisted :: bool where
  "test_enforce_accepts_allowlisted = passes (Some rt_setup_env)
     [rt_install [rt_recipient1],
      call_ok (rt_try_enforce ''transfer'' rt_recipient1) (\<lambda>_. True) (\<lambda>s (e, _). (e, s))]"

definition test_enforce_rejects_non_allowlisted :: bool where
  "test_enforce_rejects_non_allowlisted = passes (Some rt_setup_env)
     [rt_install [rt_recipient1],
      call_fails (rt_try_enforce ''transfer'' rt_recipient2) (\<lambda>err. err = Panic RecipientNotAllowed)]"

definition test_enforce_rejects_non_transfer :: bool where
  "test_enforce_rejects_non_transfer = passes (Some rt_setup_env)
     [rt_install [rt_recipient1],
      call_fails (rt_try_enforce ''mint'' rt_recipient1) (\<lambda>err. err = Panic RecipientNotAllowed)]"

definition test_uninstall_clears_state :: bool where
  "test_uninstall_clears_state = passes (Some rt_setup_env)
     [rt_install [rt_recipient1],
      call_ok (\<lambda>(e, s). recipient_uninstall e rt_rule rt_account s) (\<lambda>_. True) (\<lambda>s (e, _). (e, s)),
      call_fails (\<lambda>(e, s). get_allowed_recipients (rule_id rt_rule) rt_account s) (\<lambda>_. True)]"

lemma recipient_tests_pass:
  shows "test_install_and_get"
    and "test_install_rejects_non_call_contract"
    and "test_install_rejects_empty_allowlist"
    and "test_install_rejects_too_large_allowlist"
    and "test_enforce_accepts_allowlisted"
    and "test_enforce_rejects_non_allowlisted"
    and "test_enforce_rejects_non_transfer"
    and "test_uninstall_clears_state"
  by code_simp+

end
