(* ===== verification/Parameter_Tests.thy ===== *)
theory Parameter_Tests
  imports Parameter_Policy Test_Script
begin

text \<open>
  The tests of \<open>src/policies/parameter-scoped-policy/src/test.rs\<close> on the model of the parameter-scoped
  policy: every operator at its boundary, the argument types, and the edge cases.  The tests share
  two scenarios, an installation followed by one enforcement and an installation alone.
\<close>

definition pt_account :: address where "pt_account = Addr 61"
definition pt_target :: address where "pt_target = Addr 62"

definition pt_setup :: "env \<times> parameter_state" where
  "pt_setup = (\<lparr>ledger_sequence = 0, ledger_timestamp = 0,
     current_contract_address = Addr 63, authorized = (\<lambda>_. True)\<rparr>, init_policy_state)"

definition pt_create_context_rule :: "address \<Rightarrow> ContextRule" where
  "pt_create_context_rule target = \<lparr>rule_id = 1, context_type = CallContract target\<rparr>"

definition pt_create_contract_context :: "address \<Rightarrow> symbol \<Rightarrow> val list \<Rightarrow> Context" where
  "pt_create_contract_context target fn args =
     Contract \<lparr>ctx_contract = target, ctx_fn_name = fn, ctx_args = args\<rparr>"

definition pt_try_install ::
  "symbol \<Rightarrow> Condition \<Rightarrow> env \<times> parameter_state \<Rightarrow> (ParameterScopedError, parameter_state) result" where
  "pt_try_install fn cond =
     (\<lambda>(e, s). parameter_install e \<lparr>param_conditions = [(fn, [cond])]\<rparr>
        (pt_create_context_rule pt_target) pt_account s)"

definition pt_install :: "symbol \<Rightarrow> Condition \<Rightarrow> (env \<times> parameter_state) step" where
  "pt_install fn cond = call_ok (pt_try_install fn cond) (\<lambda>_. True) (\<lambda>s (e, _). (e, s))"

definition pt_try_enforce ::
  "symbol \<Rightarrow> val list \<Rightarrow> env \<times> parameter_state \<Rightarrow> (ParameterScopedError, parameter_state) result" where
  "pt_try_enforce fn args =
     (\<lambda>(e, s). parameter_enforce e (pt_create_contract_context pt_target fn args)
        [Delegated (Addr 64)] (pt_create_context_rule pt_target) pt_account s)"

text \<open>Installing a condition for \<open>swap\<close>, then calling a function that must be approved or refused.\<close>

definition enforce_approves :: "Condition \<Rightarrow> symbol \<Rightarrow> val list \<Rightarrow> bool" where
  "enforce_approves cond fn args = passes (Some pt_setup)
     [pt_install ''swap'' cond, call_ok (pt_try_enforce fn args) (\<lambda>_. True) (\<lambda>s (e, _). (e, s))]"

definition enforce_panics :: "ParameterScopedError \<Rightarrow> Condition \<Rightarrow> symbol \<Rightarrow> val list \<Rightarrow> bool" where
  "enforce_panics err cond fn args = passes (Some pt_setup)
     [pt_install ''swap'' cond, call_fails (pt_try_enforce fn args) (\<lambda>f. f = Panic err)]"

definition install_panics :: "ParameterScopedError \<Rightarrow> Condition \<Rightarrow> bool" where
  "install_panics err cond = passes (Some pt_setup)
     [call_fails (pt_try_install ''swap'' cond) (\<lambda>f. f = Panic err)]"

definition test_install_and_get_conditions :: bool where
  "test_install_and_get_conditions = passes (Some pt_setup)
     [pt_install ''transfer'' \<lparr>arg_index = 0, operator = Eq, expected_value = EU32 42\<rparr>,
      call_ok (\<lambda>(e, s). get_conditions 1 pt_account s) (\<lambda>(stored, _). length stored = 1)
        (\<lambda>(_, s) (e, _). (e, s))]"

section \<open>Operators\<close>

text \<open>\<open>run_operator_test\<close>, once for the tests that pass and once for those that expect \<open>ConditionFailed\<close>.\<close>

definition run_operator_test :: "Operator \<Rightarrow> u32 \<Rightarrow> u32 \<Rightarrow> bool" where
  "run_operator_test op expected actual =
     enforce_approves \<lparr>arg_index = 0, operator = op, expected_value = EU32 expected\<rparr>
       ''swap'' [U32Val actual]"

definition operator_test_panics :: "Operator \<Rightarrow> u32 \<Rightarrow> u32 \<Rightarrow> bool" where
  "operator_test_panics op expected actual =
     enforce_panics ConditionFailed \<lparr>arg_index = 0, operator = op, expected_value = EU32 expected\<rparr>
       ''swap'' [U32Val actual]"

definition test_operator_eq_accept :: bool where
  "test_operator_eq_accept = run_operator_test Eq 100 100"

definition test_operator_eq_reject :: bool where
  "test_operator_eq_reject = operator_test_panics Eq 100 101"

definition test_operator_neq_accept :: bool where
  "test_operator_neq_accept = run_operator_test Neq 100 101"

definition test_operator_neq_reject :: bool where
  "test_operator_neq_reject = operator_test_panics Neq 100 100"

definition test_operator_gt_accept :: bool where
  "test_operator_gt_accept = run_operator_test Gt 100 101"

definition test_operator_gt_reject_equal :: bool where
  "test_operator_gt_reject_equal = operator_test_panics Gt 100 100"

definition test_operator_gt_reject_less :: bool where
  "test_operator_gt_reject_less = operator_test_panics Gt 100 99"

definition test_operator_gte_accept_greater :: bool where
  "test_operator_gte_accept_greater = run_operator_test Gte 100 101"

definition test_operator_gte_accept_equal :: bool where
  "test_operator_gte_accept_equal = run_operator_test Gte 100 100"

definition test_operator_gte_reject :: bool where
  "test_operator_gte_reject = operator_test_panics Gte 100 99"

definition test_operator_lt_accept :: bool where
  "test_operator_lt_accept = run_operator_test Lt 100 99"

definition test_operator_lt_reject_equal :: bool where
  "test_operator_lt_reject_equal = operator_test_panics Lt 100 100"

definition test_operator_lt_reject_greater :: bool where
  "test_operator_lt_reject_greater = operator_test_panics Lt 100 101"

definition test_operator_lte_accept_less :: bool where
  "test_operator_lte_accept_less = run_operator_test Lte 100 99"

definition test_operator_lte_accept_equal :: bool where
  "test_operator_lte_accept_equal = run_operator_test Lte 100 100"

definition test_operator_lte_reject :: bool where
  "test_operator_lte_reject = operator_test_panics Lte 100 101"

lemma operator_tests_pass:
  shows "test_install_and_get_conditions"
    and "test_operator_eq_accept"
    and "test_operator_eq_reject"
    and "test_operator_neq_accept"
    and "test_operator_neq_reject"
    and "test_operator_gt_accept"
    and "test_operator_gt_reject_equal"
    and "test_operator_gt_reject_less"
    and "test_operator_gte_accept_greater"
    and "test_operator_gte_accept_equal"
    and "test_operator_gte_reject"
    and "test_operator_lt_accept"
    and "test_operator_lt_reject_equal"
    and "test_operator_lt_reject_greater"
    and "test_operator_lte_accept_less"
    and "test_operator_lte_accept_equal"
    and "test_operator_lte_reject"
  by code_simp+

section \<open>Types\<close>

definition test_type_i32_accept :: bool where
  "test_type_i32_accept =
     enforce_approves \<lparr>arg_index = 0, operator = Lt, expected_value = EI32 0\<rparr> ''swap'' [I32Val (-10)]"

definition test_type_u64_reject :: bool where
  "test_type_u64_reject =
     enforce_panics ConditionFailed \<lparr>arg_index = 0, operator = Eq, expected_value = EU64 500\<rparr> ''swap'' [U64Val 501]"

definition test_type_i64_accept :: bool where
  "test_type_i64_accept =
     enforce_approves \<lparr>arg_index = 0, operator = Gte, expected_value = EI64 (-1000)\<rparr> ''swap'' [I64Val (-500)]"

definition test_type_u128_accept :: bool where
  "test_type_u128_accept =
     enforce_approves \<lparr>arg_index = 0, operator = Gte, expected_value = EU128 1000000\<rparr> ''swap'' [U128Val 1000000]"

definition test_type_i128_reject :: bool where
  "test_type_i128_reject =
     enforce_panics ConditionFailed \<lparr>arg_index = 0, operator = Lt, expected_value = EI128 (-500)\<rparr> ''swap'' [I128Val (-500)]"

definition test_type_sym_accept :: bool where
  "test_type_sym_accept =
     enforce_approves \<lparr>arg_index = 0, operator = Eq, expected_value = ESym ''USDC''\<rparr> ''swap'' [SymbolVal ''USDC'']"

definition test_type_addr_reject :: bool where
  "test_type_addr_reject =
     enforce_panics ConditionFailed \<lparr>arg_index = 0, operator = Eq, expected_value = EAddr (Addr 65)\<rparr> ''swap'' [AddressVal (Addr 66)]"

lemma type_tests_pass:
  shows "test_type_i32_accept"
    and "test_type_u64_reject"
    and "test_type_i64_accept"
    and "test_type_u128_accept"
    and "test_type_i128_reject"
    and "test_type_sym_accept"
    and "test_type_addr_reject"
  by code_simp+

section \<open>Edge cases\<close>

definition test_install_sym_rejects_invalid_operator :: bool where
  "test_install_sym_rejects_invalid_operator =
     install_panics InvalidConditions \<lparr>arg_index = 0, operator = Gt, expected_value = ESym ''USDC''\<rparr>"

definition test_install_addr_rejects_invalid_operator :: bool where
  "test_install_addr_rejects_invalid_operator =
     install_panics InvalidConditions \<lparr>arg_index = 0, operator = Lt, expected_value = EAddr (Addr 65)\<rparr>"

definition test_enforce_fails_index_out_of_bounds :: bool where
  "test_enforce_fails_index_out_of_bounds =
     enforce_panics ArgumentIndexOutOfBounds \<lparr>arg_index = 1, operator = Eq, expected_value = EU32 100\<rparr>
       ''swap'' [U32Val 100]"

definition test_enforce_fails_unconfigured_function :: bool where
  "test_enforce_fails_unconfigured_function =
     enforce_panics MethodNotAllowed \<lparr>arg_index = 0, operator = Eq, expected_value = EU32 100\<rparr>
       ''approve'' []"

lemma edge_tests_pass:
  shows "test_install_sym_rejects_invalid_operator"
    and "test_install_addr_rejects_invalid_operator"
    and "test_enforce_fails_index_out_of_bounds"
    and "test_enforce_fails_unconfigured_function"
  by code_simp+

end
