(* ===== verification/Factory_Tests.thy ===== *)
theory Factory_Tests
  imports Account_Factory Test_Script
begin

text \<open>
  The dummy contracts of \<open>src/account-factory/contracts\<close> and the tests of
  \<open>factory-contract/src/test.rs\<close>.  Hashing, XDR and contract creation are the host's, so the scenarios
  take a host; they are shown to pass on one that runs the dummy account's constructor.
\<close>

section \<open>The dummy contracts\<close>

text \<open>Both constructors accept their arguments and do nothing.\<close>

definition dummy_account_constructor ::
  "Signer list \<Rightarrow> (address \<times> SimpleThresholdAccountParams) list \<Rightarrow> 'w \<Rightarrow> (unit, 'w) result" where
  "dummy_account_constructor ss ps w = Inr w"

definition dummy_singleton_constructor :: "'w \<Rightarrow> (unit, 'w) result" where
  "dummy_singleton_constructor w = Inr w"

section \<open>Fixtures\<close>

definition ft_factory :: address where "ft_factory = Addr 10"
definition ft_ed25519_verifier :: address where "ft_ed25519_verifier = Addr 11"
definition ft_webauthn_verifier :: address where "ft_webauthn_verifier = Addr 12"
definition ft_threshold_policy :: address where "ft_threshold_policy = Addr 13"

definition ft_env :: env where
  "ft_env = \<lparr>ledger_sequence = 0, ledger_timestamp = 0,
     current_contract_address = ft_factory, authorized = (\<lambda>_. False)\<rparr>"

definition ft_empty :: factory_state where
  "ft_empty = \<lparr>config = None, factory_log = []\<rparr>"

definition install_factory :: "'w factory_host \<Rightarrow> 'w \<Rightarrow> (factory_state \<times> 'w) option" where
  "install_factory h w =
     (case factory_constructor h w [1] ft_ed25519_verifier ft_webauthn_verifier ft_threshold_policy ft_empty of
        Inl _ \<Rightarrow> None | Inr s \<Rightarrow> Some (s, w))"

definition install_factory_stub :: "'w factory_host \<Rightarrow> 'w \<Rightarrow> (factory_state \<times> 'w) option" where
  "install_factory_stub h w =
     (case factory_constructor h w (replicate 32 0) ft_ed25519_verifier ft_ed25519_verifier
             ft_ed25519_verifier ft_empty of
        Inl _ \<Rightarrow> None | Inr s \<Rightarrow> Some (s, w))"

definition ed25519_signer :: "u8 \<Rightarrow> ExternalSignerInit" where
  "ed25519_signer byte = \<lparr>signer_kind = Ed25519, key_data = replicate 32 byte\<rparr>"

definition webauthn_signer :: "u8 \<Rightarrow> ExternalSignerInit" where
  "webauthn_signer byte = \<lparr>signer_kind = WebAuthn, key_data = (replicate 100 byte)[0 := 4]\<rparr>"

definition ext_ed25519_signer :: "u8 \<Rightarrow> AccountSignerInit" where
  "ext_ed25519_signer byte = AccountSignerInit.External (ed25519_signer byte)"

definition ext_webauthn_signer :: "u8 \<Rightarrow> AccountSignerInit" where
  "ext_webauthn_signer byte = AccountSignerInit.External (webauthn_signer byte)"

text \<open>\<open>Address::generate\<close> gives a new address at each call; here the caller names it.\<close>

definition delegated_signer :: "address \<Rightarrow> AccountSignerInit" where
  "delegated_signer a = AccountSignerInit.Delegated a"

definition ft_params :: "AccountSignerInit list \<Rightarrow> u32 option \<Rightarrow> u8 \<Rightarrow> AccountInitParams" where
  "ft_params ss t byte = \<lparr>signers = ss, threshold = t, account_salt = replicate 32 byte\<rparr>"

section \<open>Steps\<close>

definition address_rejected :: "'w factory_host \<Rightarrow> AccountInitParams \<Rightarrow> (factory_state \<times> 'w) step" where
  "address_rejected h p = call_fails (\<lambda>_. get_account_address h ft_env p) (\<lambda>_. True)"

definition addresses_compare ::
  "(address \<Rightarrow> address \<Rightarrow> bool) \<Rightarrow> 'w factory_host \<Rightarrow> AccountInitParams \<Rightarrow> AccountInitParams
   \<Rightarrow> (factory_state \<times> 'w) step" where
  "addresses_compare R h p q =
     expect (\<lambda>_. case (get_account_address h ft_env p, get_account_address h ft_env q) of
        (Inr a, Inr b) \<Rightarrow> R a b | _ \<Rightarrow> False)"

fun ft_events :: "(unit, factory_event) effect list \<Rightarrow> factory_event list" where
  "ft_events [] = []"
| "ft_events (Publish ev # xs) = ev # ft_events xs"
| "ft_events (ExtendTtl _ _ _ # xs) = ft_events xs"

text \<open>
  \<open>create_account\<close> with its log started afresh (the test host lists the events of the last
  invocation), the precomputed address, code at the address, and the number of events.
\<close>

definition creates ::
  "'w factory_host \<Rightarrow> AccountInitParams \<Rightarrow> nat \<Rightarrow> (factory_state \<times> 'w) step" where
  "creates h p n =
     call_ok (\<lambda>(s, w). create_account h ft_env p (s\<lparr>factory_log := []\<rparr>) w)
       (\<lambda>(a, s', w'). get_account_address h ft_env p = Inr a \<and> executable h w' a
          \<and> length (ft_events (factory_log s')) = n)
       (\<lambda>(a, s', w') _. (s', w'))"

section \<open>The scenarios\<close>

definition same_params_same_address :: "'w factory_host \<Rightarrow> 'w \<Rightarrow> bool" where
  "same_params_same_address h w =
     passes (install_factory_stub h w)
       [addresses_compare (=) h (ft_params [ext_ed25519_signer 7] None 9) (ft_params [ext_ed25519_signer 7] None 9)]"

definition constructor_rejects_undeployed_singletons :: "'w factory_host \<Rightarrow> 'w \<Rightarrow> bool" where
  "constructor_rejects_undeployed_singletons h w =
     isl (factory_constructor h w (replicate 32 0) (Addr 99) (Addr 99) (Addr 99) ft_empty)"

definition signer_order_does_not_change_address :: "'w factory_host \<Rightarrow> 'w \<Rightarrow> bool" where
  "signer_order_does_not_change_address h w =
     passes (install_factory_stub h w)
       [addresses_compare (=) h (ft_params [ext_ed25519_signer 1, ext_webauthn_signer 2] (Some 2) 3)
          (ft_params [ext_webauthn_signer 2, ext_ed25519_signer 1] (Some 2) 3)]"

definition account_salt_changes_address :: "'w factory_host \<Rightarrow> 'w \<Rightarrow> bool" where
  "account_salt_changes_address h w =
     passes (install_factory_stub h w)
       [addresses_compare (\<noteq>) h (ft_params [ext_ed25519_signer 5] None 1) (ft_params [ext_ed25519_signer 5] None 2)]"

definition different_key_data_changes_address :: "'w factory_host \<Rightarrow> 'w \<Rightarrow> bool" where
  "different_key_data_changes_address h w =
     passes (install_factory_stub h w)
       [addresses_compare (\<noteq>) h (ft_params [ext_ed25519_signer 1] None 5) (ft_params [ext_ed25519_signer 2] None 5)]"

definition delegated_signer_changes_address :: "'w factory_host \<Rightarrow> 'w \<Rightarrow> bool" where
  "delegated_signer_changes_address h w =
     passes (install_factory_stub h w)
       [addresses_compare (\<noteq>) h (ft_params [delegated_signer (Addr 21)] None 40)
          (ft_params [delegated_signer (Addr 22)] None 40)]"

definition duplicate_signers_are_rejected :: "'w factory_host \<Rightarrow> 'w \<Rightarrow> bool" where
  "duplicate_signers_are_rejected h w =
     passes (install_factory_stub h w) [address_rejected h (ft_params [ext_ed25519_signer 9, ext_ed25519_signer 9] (Some 2) 7)]"

definition multisig_requires_explicit_threshold :: "'w factory_host \<Rightarrow> 'w \<Rightarrow> bool" where
  "multisig_requires_explicit_threshold h w =
     passes (install_factory_stub h w) [address_rejected h (ft_params [ext_ed25519_signer 1, ext_ed25519_signer 2] None 8)]"

definition threshold_zero_is_rejected :: "'w factory_host \<Rightarrow> 'w \<Rightarrow> bool" where
  "threshold_zero_is_rejected h w =
     passes (install_factory_stub h w) [address_rejected h (ft_params [ext_ed25519_signer 1, ext_ed25519_signer 2] (Some 0) 1)]"

definition threshold_above_signer_count_is_rejected :: "'w factory_host \<Rightarrow> 'w \<Rightarrow> bool" where
  "threshold_above_signer_count_is_rejected h w =
     passes (install_factory_stub h w) [address_rejected h (ft_params [ext_ed25519_signer 1, ext_ed25519_signer 2] (Some 3) 2)]"

definition invalid_ed25519_key_is_rejected :: "'w factory_host \<Rightarrow> 'w \<Rightarrow> bool" where
  "invalid_ed25519_key_is_rejected h w =
     passes (install_factory_stub h w) [address_rejected h (ft_params [AccountSignerInit.External
          \<lparr>signer_kind = Ed25519, key_data = replicate 31 1\<rparr>] None 6)]"

definition invalid_webauthn_key_is_rejected :: "'w factory_host \<Rightarrow> 'w \<Rightarrow> bool" where
  "invalid_webauthn_key_is_rejected h w =
     passes (install_factory_stub h w) [address_rejected h (ft_params [AccountSignerInit.External
          \<lparr>signer_kind = WebAuthn, key_data = (replicate 65 1)[0 := 4]\<rparr>] None 8)]"

definition get_verifier_returns_stored_addresses :: "'w factory_host \<Rightarrow> 'w \<Rightarrow> bool" where
  "get_verifier_returns_stored_addresses h w =
     passes (install_factory h w)
       [call_ok (\<lambda>(s, _). get_verifier Ed25519 s) (\<lambda>(a, _). a = ft_ed25519_verifier) (\<lambda>(_, s) (_, w). (s, w)),
        call_ok (\<lambda>(s, _). get_verifier WebAuthn s) (\<lambda>(a, _). a = ft_webauthn_verifier) (\<lambda>(_, s) (_, w). (s, w))]"

definition get_threshold_policy_returns_stored_address :: "'w factory_host \<Rightarrow> 'w \<Rightarrow> bool" where
  "get_threshold_policy_returns_stored_address h w =
     passes (install_factory h w)
       [call_ok (\<lambda>(s, _). get_threshold_policy s) (\<lambda>(a, _). a = ft_threshold_policy) (\<lambda>(_, s) (_, w). (s, w))]"

definition create_account_deploys_at_precomputed_address :: "'w factory_host \<Rightarrow> 'w \<Rightarrow> bool" where
  "create_account_deploys_at_precomputed_address h w =
     passes (install_factory h w) [creates h (ft_params [ext_ed25519_signer 1] None 10) 1]"

definition create_account_deploys_contract_at_address :: "'w factory_host \<Rightarrow> 'w \<Rightarrow> bool" where
  "create_account_deploys_contract_at_address h w =
     passes (install_factory h w) [creates h (ft_params [ext_ed25519_signer 2] None 11) 1]"

definition create_account_emits_account_created_event :: "'w factory_host \<Rightarrow> 'w \<Rightarrow> bool" where
  "create_account_emits_account_created_event h w =
     passes (install_factory h w) [creates h (ft_params [ext_ed25519_signer 3] None 12) 1]"

definition create_account_with_webauthn_signer :: "'w factory_host \<Rightarrow> 'w \<Rightarrow> bool" where
  "create_account_with_webauthn_signer h w =
     passes (install_factory h w) [creates h (ft_params [ext_webauthn_signer 6] None 31) 1]"

definition create_account_multisig_deploys_at_precomputed_address :: "'w factory_host \<Rightarrow> 'w \<Rightarrow> bool" where
  "create_account_multisig_deploys_at_precomputed_address h w =
     passes (install_factory h w) [creates h (ft_params [ext_ed25519_signer 1, ext_ed25519_signer 2] (Some 2) 15) 1]"

definition create_account_mixed_signers_multisig :: "'w factory_host \<Rightarrow> 'w \<Rightarrow> bool" where
  "create_account_mixed_signers_multisig h w =
     passes (install_factory h w) [creates h (ft_params [ext_ed25519_signer 1, ext_webauthn_signer 3] (Some 2) 32) 1]"

definition create_account_with_delegated_signer :: "'w factory_host \<Rightarrow> 'w \<Rightarrow> bool" where
  "create_account_with_delegated_signer h w =
     passes (install_factory h w) [creates h (ft_params [delegated_signer (Addr 21)] None 41) 1]"

definition create_account_with_delegated_and_external_multisig :: "'w factory_host \<Rightarrow> 'w \<Rightarrow> bool" where
  "create_account_with_delegated_and_external_multisig h w =
     passes (install_factory h w) [creates h (ft_params [delegated_signer (Addr 21), ext_webauthn_signer 9] (Some 2) 42) 1]"

definition create_account_is_idempotent :: "'w factory_host \<Rightarrow> 'w \<Rightarrow> bool" where
  "create_account_is_idempotent h w =
     (let p = ft_params [ext_ed25519_signer 4] None 13 in
      passes (install_factory h w) [creates h p 1, creates h p 0])"

section \<open>They pass\<close>

text \<open>
  A host whose world is the list of addresses with code.  The hash is a checksum, which is enough
  to tell the parameters of these tests apart; creating an account runs the dummy constructor.
\<close>

definition checksum :: "bytes \<Rightarrow> u8" where
  "checksum bs = ucast (foldl (\<lambda>c b. (31 * c + ucast b) mod 251) (7 :: u32) bs)"

definition ft_host :: "address list factory_host" where
  "ft_host = \<lparr>sha256 = (\<lambda>x. [checksum x]), to_xdr = (\<lambda>a. [of_nat (addr_index a)]),
     deployed_address = (\<lambda>d salt. Addr (100 + unat (checksum salt))),
     executable = List.member,
     deploy_v2 = (\<lambda>d salt hash ss ps w.
        let a = Addr (100 + unat (checksum salt)) in
        if List.member w a then None
        else (case dummy_account_constructor ss ps (a # w) of Inl _ \<Rightarrow> None | Inr w' \<Rightarrow> Some w'))\<rparr>"

definition ft_world :: "address list" where
  "ft_world = [ft_ed25519_verifier, ft_webauthn_verifier, ft_threshold_policy]"

text \<open>The singletons are registered by running their constructor.\<close>

lemma singletons_registered: "dummy_singleton_constructor ft_world = Inr ft_world"
  by (simp add: dummy_singleton_constructor_def)

lemma factory_stable_address_tests_pass:
  shows "same_params_same_address ft_host ft_world"
    and "constructor_rejects_undeployed_singletons ft_host ft_world"
    and "signer_order_does_not_change_address ft_host ft_world"
  by code_simp+

lemma factory_distinct_address_tests_pass:
  shows "account_salt_changes_address ft_host ft_world"
    and "different_key_data_changes_address ft_host ft_world"
    and "delegated_signer_changes_address ft_host ft_world"
  by code_simp+

lemma factory_validation_tests_pass:
  shows "duplicate_signers_are_rejected ft_host ft_world"
    and "multisig_requires_explicit_threshold ft_host ft_world"
    and "threshold_zero_is_rejected ft_host ft_world"
    and "threshold_above_signer_count_is_rejected ft_host ft_world"
    and "invalid_ed25519_key_is_rejected ft_host ft_world"
    and "invalid_webauthn_key_is_rejected ft_host ft_world"
    and "get_verifier_returns_stored_addresses ft_host ft_world"
    and "get_threshold_policy_returns_stored_address ft_host ft_world"
  by code_simp+

lemma factory_single_signer_tests_pass:
  shows "create_account_deploys_at_precomputed_address ft_host ft_world"
    and "create_account_deploys_contract_at_address ft_host ft_world"
    and "create_account_emits_account_created_event ft_host ft_world"
  by code_simp+

lemma factory_multisig_tests_pass:
  shows "create_account_with_webauthn_signer ft_host ft_world"
    and "create_account_multisig_deploys_at_precomputed_address ft_host ft_world"
    and "create_account_mixed_signers_multisig ft_host ft_world"
  by code_simp+

lemma factory_delegated_tests_pass:
  shows "create_account_with_delegated_signer ft_host ft_world"
    and "create_account_with_delegated_and_external_multisig ft_host ft_world"
    and "create_account_is_idempotent ft_host ft_world"
  by code_simp+

lemma each_verifier_address_is_distinct: "ft_ed25519_verifier \<noteq> ft_webauthn_verifier"
  by (simp add: ft_ed25519_verifier_def ft_webauthn_verifier_def)

end
