(* ===== verification/Account_Tests.thy ===== *)
theory Account_Tests
  imports Smart_Account Factory_Tests
begin

text \<open>
  The tests of \<open>src/latch-smart-account/src/test.rs\<close> that exercise the account's own code: the
  constructor's call, self-authorisation of an upgrade, and the deployment registry, deploying the
  dummy singleton.  The other tests of that file exercise the library's rule matching.
\<close>

text \<open>
  A host that derives an address from the salt's first byte and runs the dummy constructor (which takes
  no arguments), with a library that keeps the context rules it is given.
\<close>

record at_world =
  at_code :: "address list"
  at_rules :: "(ContextRuleType \<times> string \<times> u32 option \<times> Signer list \<times> (address \<times> val) list) list"

definition at_address :: "bytes \<Rightarrow> address" where
  "at_address salt = Addr (40 + (case salt of [] \<Rightarrow> 0 | b # _ \<Rightarrow> unat b))"

definition at_lib :: "(at_world, val, unit, unit) account_lib" where
  "at_lib = \<lparr>account_deploy_v2 = (\<lambda>d salt hash args w.
        if List.member (at_code w) (at_address salt) \<or> args \<noteq> [] then None
        else (case dummy_singleton_constructor (w\<lparr>at_code := at_address salt # at_code w\<rparr>) of
                Inl _ \<Rightarrow> None | Inr w' \<Rightarrow> Some (at_address salt, w'))),
     add_context_rule = (\<lambda>t name until ss ps w. Some (w\<lparr>at_rules := at_rules w @ [(t, name, until, ss, ps)]\<rparr>)),
     lib_batch_add_signer = (\<lambda>_ _ w. Some w), lib_upgrade = (\<lambda>_ w. Some w),
     do_check_auth = (\<lambda>_ _ _ w. Inr w), SMART_ACCOUNT_TTL_THRESHOLD = 100,
     SMART_ACCOUNT_EXTEND_AMOUNT = 200\<rparr>"

definition at_env :: "(address \<Rightarrow> bool) \<Rightarrow> env" where
  "at_env auth = \<lparr>ledger_sequence = 0, ledger_timestamp = 0, current_contract_address = Addr 31,
     authorized = auth\<rparr>"

definition default_signers :: "Signer list" where
  "default_signers = [Signer.Delegated (Addr 32)]"

definition register_account :: "Signer list \<Rightarrow> (address \<times> val) list \<Rightarrow> (account_state \<times> at_world) option" where
  "register_account ss ps =
     (case account_constructor at_lib ss ps \<lparr>at_code = [], at_rules = []\<rparr> of
        Inl _ \<Rightarrow> None | Inr w \<Rightarrow> Some (init_account_state, w))"

definition deployed_wasm_hash :: bytes where
  "deployed_wasm_hash = replicate 32 9"

definition try_deploy ::
  "u8 \<Rightarrow> account_state \<times> at_world
   \<Rightarrow> (LatchSmartAccountError, address \<times> account_state \<times> at_world) result" where
  "try_deploy byte =
     (\<lambda>(s, w). deploy_contract at_lib (at_env (\<lambda>_. True)) deployed_wasm_hash (replicate 32 byte) [] s w)"

definition deploys_at :: "u8 \<Rightarrow> address \<Rightarrow> (account_state \<times> at_world) step" where
  "deploys_at byte a = call_ok (try_deploy byte) (\<lambda>(x, _). x = a) (\<lambda>(_, s, w) _. (s, w))"

definition count_is :: "u32 \<Rightarrow> (account_state \<times> at_world) step" where
  "count_is n = expect (\<lambda>(s, _). get_deployed_contract_count s = n)"

definition recorded_is :: "u32 \<Rightarrow> (DeployedContract \<Rightarrow> bool) \<Rightarrow> (account_state \<times> at_world) step" where
  "recorded_is i P = call_ok (\<lambda>(s, _). get_deployed_contract at_lib i s) (\<lambda>(x, _). P x) (\<lambda>(_, s) (_, w). (s, w))"

section \<open>The scenarios\<close>

definition constructor_creates_one_default_rule_named_default :: bool where
  "constructor_creates_one_default_rule_named_default =
     passes (register_account default_signers [])
       [expect (\<lambda>(_, w). at_rules w = [(Default, ''default'', None, default_signers, [])])]"

definition upgrade_succeeds_with_self_auth :: bool where
  "upgrade_succeeds_with_self_auth =
     passes (register_account default_signers [])
       [call_ok (\<lambda>(_, w). account_upgrade at_lib (at_env (\<lambda>_. True)) deployed_wasm_hash (Addr 31) w)
          (\<lambda>_. True) (\<lambda>w (s, _). (s, w))]"

definition upgrade_requires_self_auth :: bool where
  "upgrade_requires_self_auth =
     passes (register_account default_signers [])
       [call_fails (\<lambda>(_, w). account_upgrade at_lib (at_env (\<lambda>_. False)) (replicate 32 0) (Addr 31) w)
          (\<lambda>_. True)]"

definition deploy_contract_deploys_real_wasm_and_derives_deterministic_address :: bool where
  "deploy_contract_deploys_real_wasm_and_derives_deterministic_address =
     passes (register_account default_signers [])
       [deploys_at 7 (at_address (replicate 32 7)),
        count_is 1,
        recorded_is 0 (\<lambda>x. dc_address x = at_address (replicate 32 7) \<and> dc_wasm_hash x = deployed_wasm_hash)]"

definition deploy_contract_records_multiple_deployments_in_order :: bool where
  "deploy_contract_records_multiple_deployments_in_order =
     passes (register_account default_signers [])
       [deploys_at 1 (at_address (replicate 32 1)),
        deploys_at 2 (at_address (replicate 32 2)),
        count_is 2,
        recorded_is 0 (\<lambda>x. dc_address x = at_address (replicate 32 1)),
        recorded_is 1 (\<lambda>x. dc_address x = at_address (replicate 32 2))]"

definition deploy_contract_rejects_reusing_same_salt :: bool where
  "deploy_contract_rejects_reusing_same_salt =
     passes (register_account default_signers [])
       [deploys_at 3 (at_address (replicate 32 3)), call_fails (try_deploy 3) (\<lambda>_. True)]"

definition get_deployed_contract_rejects_out_of_range_index :: bool where
  "get_deployed_contract_rejects_out_of_range_index =
     passes (register_account default_signers [])
       [call_fails (\<lambda>(s, _). get_deployed_contract at_lib 0 s) (\<lambda>f. f = Panic DeployedContractNotFound)]"

lemma account_tests_pass:
  shows "constructor_creates_one_default_rule_named_default"
    and "upgrade_succeeds_with_self_auth"
    and "upgrade_requires_self_auth"
    and "deploy_contract_deploys_real_wasm_and_derives_deterministic_address"
    and "deploy_contract_records_multiple_deployments_in_order"
    and "deploy_contract_rejects_reusing_same_salt"
    and "get_deployed_contract_rejects_out_of_range_index"
  by code_simp+

end
