(* ===== verification/Deployment_Tests.thy ===== *)
theory Deployment_Tests
  imports Account_Templates Vault_Tests Vesting_Tests
begin

text \<open>
  The two end-to-end tests of the templates, \<open>e2e_deploy_via_smart_account\<close> of
  \<open>src/templates/timelock-vault/src/test.rs\<close> and
  \<open>test_end_to_end_deployment_and_claim_via_smart_account\<close> of
  \<open>src/templates/vesting-schedule/src/test.rs\<close>: an account deploys a template from uploaded code and the
  contract is then used.  The compiled code stands for the modelled template, contract creation is
  done by the host of \<open>Account_Templates\<close>, and the asset contract by the mock token.
\<close>

record e2e =
  ee_env :: env
  ee_account :: account_state
  ee_contracts :: template_world
  ee_tokens :: mock_ledger

definition ee_account_id :: address where "ee_account_id = Addr 31"
definition ee_token :: address where "ee_token = Addr 32"
definition ee_beneficiary :: address where "ee_beneficiary = Addr 33"
definition ee_contract :: address where "ee_contract = Addr 41"

definition ee_code :: "bytes \<Rightarrow> template option" where
  "ee_code hash = (if hash = [1] then Some VaultTemplate else if hash = [2] then Some VestingTemplate else None)"

text \<open>A registered account, with every authorisation mocked.\<close>

definition ee_start :: "e2e option" where
  "ee_start =
     (let e = \<lparr>ledger_sequence = 0, ledger_timestamp = 0, current_contract_address = ee_account_id,
               authorized = (\<lambda>_. True)\<rparr> in
      case account_constructor (template_lib e ee_code) [Delegated (Addr 34)] [] (\<lambda>_. None) of
        Inl _ \<Rightarrow> None
      | Inr w \<Rightarrow> Some \<lparr>ee_env = e, ee_account = init_account_state, ee_contracts = w,
                        ee_tokens = (\<lambda>_ _. None)\<rparr>)"

section \<open>Steps\<close>

definition ee_at :: "u32 \<Rightarrow> e2e step" where
  "ee_at l x = Some (x\<lparr>ee_env := (ee_env x)\<lparr>ledger_sequence := l\<rparr>\<rparr>)"

definition ee_deploy :: "bytes \<Rightarrow> val list \<Rightarrow> e2e step" where
  "ee_deploy hash args =
     call_ok (\<lambda>x. deploy_contract (template_lib (ee_env x) ee_code) (ee_env x) hash (replicate 32 1) args
                  (ee_account x) (ee_contracts x))
       (\<lambda>(a, _). a = ee_contract) (\<lambda>(_, s, w) x. x\<lparr>ee_account := s, ee_contracts := w\<rparr>)"

definition ee_mint :: "address \<Rightarrow> i128 \<Rightarrow> e2e step" where
  "ee_mint to amount x =
     map_option (\<lambda>w. x\<lparr>ee_tokens := w\<rparr>) (mock_mint ee_token to amount (ee_tokens x))"

definition ee_holds :: "address \<Rightarrow> i128 \<Rightarrow> e2e step" where
  "ee_holds a b = expect (\<lambda>x. mock_balance ee_token a (ee_tokens x) = b)"

text \<open>Calls on the deployed contract; without one of the expected kind the test stops.\<close>

definition contract_env :: "e2e \<Rightarrow> env" where
  "contract_env x = (ee_env x)\<lparr>current_contract_address := ee_contract\<rparr>"

definition on_vault :: "(vault_state \<Rightarrow> e2e step) \<Rightarrow> e2e step" where
  "on_vault f x = (case ee_contracts x ee_contract of Some (VaultInstance s) \<Rightarrow> f s x | _ \<Rightarrow> None)"

definition on_vesting :: "(vesting_state \<Rightarrow> e2e step) \<Rightarrow> e2e step" where
  "on_vesting f x = (case ee_contracts x ee_contract of Some (VestingInstance s) \<Rightarrow> f s x | _ \<Rightarrow> None)"

definition put_instance :: "template_instance \<Rightarrow> e2e \<Rightarrow> e2e" where
  "put_instance i x = x\<lparr>ee_contracts := (ee_contracts x)(ee_contract := Some i)\<rparr>"

definition put_vault :: "vault_state \<times> mock_ledger \<Rightarrow> e2e \<Rightarrow> e2e" where
  "put_vault = (\<lambda>(s, w) x. put_instance (VaultInstance s) (x\<lparr>ee_tokens := w\<rparr>))"

definition ee_claim :: "i128 \<Rightarrow> e2e step" where
  "ee_claim r = on_vesting (\<lambda>s.
     call_ok (\<lambda>x. claim (mock_transfer (\<lambda>_. True)) (contract_env x) ee_beneficiary s (ee_tokens x))
       (\<lambda>(y, _). y = r) (\<lambda>(_, s', w) x. put_instance (VestingInstance s') (x\<lparr>ee_tokens := w\<rparr>)))"

definition vesting_query ::
  "(vesting_state \<Rightarrow> (VestingScheduleError, 'a \<times> vesting_state) result) \<Rightarrow> 'a \<Rightarrow> e2e step" where
  "vesting_query q r = on_vesting (\<lambda>s. call_ok (\<lambda>_. q s) (\<lambda>(y, _). y = r)
     (\<lambda>(_, s') x. put_instance (VestingInstance s') x))"

section \<open>The tests\<close>

definition e2e_deploy_via_smart_account :: bool where
  "e2e_deploy_via_smart_account = passes ee_start
     [ee_at 100,
      ee_deploy [1] [AddressVal ee_account_id, U32Val 1000],
      on_vault (\<lambda>s. call_ok (\<lambda>_. get_owner s) (\<lambda>a. a = ee_account_id) (\<lambda>_ x. x)),
      on_vault (\<lambda>s. call_ok (\<lambda>_. get_unlock_ledger s) (\<lambda>l. l = 1000) (\<lambda>_ x. x)),
      ee_mint ee_account_id 10000000,
      on_vault (\<lambda>s. call_ok
        (\<lambda>x. deposit tv_transfer (contract_env x) ee_account_id ee_token 10000000 s (ee_tokens x))
        (\<lambda>_. True) put_vault),
      expect (\<lambda>x. get_balance mock_balance (contract_env x) ee_token (ee_tokens x) = 10000000),
      on_vault (\<lambda>s. call_fails
        (\<lambda>x. withdraw tv_transfer (contract_env x) ee_token 10000000 ee_account_id s (ee_tokens x))
        (\<lambda>_. True)),
      ee_at (1000 + 1),
      on_vault (\<lambda>s. call_ok
        (\<lambda>x. withdraw tv_transfer (contract_env x) ee_token 10000000 ee_account_id s (ee_tokens x))
        (\<lambda>_. True) put_vault),
      expect (\<lambda>x. get_balance mock_balance (contract_env x) ee_token (ee_tokens x) = 0)]"

definition test_end_to_end_deployment_and_claim_via_smart_account :: bool where
  "test_end_to_end_deployment_and_claim_via_smart_account = passes ee_start
     [ee_deploy [2] [AddressVal ee_account_id, AddressVal ee_token, I128Val 5000, U32Val 100, VoidVal, U32Val 600],
      vesting_query vesting_owner ee_account_id,
      vesting_query vesting_token ee_token,
      ee_mint ee_contract 5000,
      ee_holds ee_contract 5000,
      ee_at 350,
      ee_claim 2500, ee_holds ee_beneficiary 2500, ee_holds ee_contract 2500,
      ee_at 700,
      ee_claim 2500, ee_holds ee_beneficiary 5000, ee_holds ee_contract 0]"

lemma deployment_tests_pass:
  shows "e2e_deploy_via_smart_account"
    and "test_end_to_end_deployment_and_claim_via_smart_account"
  by code_simp+

end
