(* ===== verification/Verifier_Tests.thy ===== *)
theory Verifier_Tests
  imports Hex_Message
begin

unbundle bit_operations_syntax

text \<open>
  The tests of the P-256, secp256k1 and demonstration verifiers
  (\<open>src/latch-verifiers/p256-verifier/src/test.rs\<close>, \<open>secp256k1-verifier/src/test.rs\<close>,
  \<open>src/demo/modified-ed25519-verifier/src/test.rs\<close>) on the models of the contracts.  Keys and signatures
  come from cryptographic libraries, so a test is a statement about two public keys and a signature;
  what the host answers on the vectors of a suite is a hypothesis (\<open>p256_vectors\<close>, \<open>k1_vectors\<close>,
  \<open>modified_vectors\<close>).  The lemmas prove that every test passes: all that is not the host's answer, the
  order of the checks and the error each ends with, is the contract's.
\<close>

section \<open>Shared data\<close>

text \<open>The host's check of a key, a message and a signature; the host's recovery of a key.\<close>

type_synonym host_check = "bytes \<Rightarrow> bytes \<Rightarrow> bytes \<Rightarrow> bool"

type_synonym host_recover = "bytes \<Rightarrow> bytes \<Rightarrow> u32 \<Rightarrow> bytes option"

definition TEST_PAYLOAD :: bytes where
  "TEST_PAYLOAD =
     [0x4b, 0xb7, 0xa8, 0xb9, 0x96, 0x09, 0xb0, 0xb8, 0xb1, 0xd5, 0x34, 0x69, 0x4b, 0xb1, 0xf3, 0x1f,
      0x12, 0x91, 0x38, 0xa2, 0xf2, 0xa1, 0x1f, 0x8e, 0x87, 0x02, 0xee, 0xdb, 0xb7, 0x92, 0x92, 0x2e]"

text \<open>\<open>bytes[i] ^= 1\<close>, \<open>bytes[a..b].fill(0)\<close> and a key that is a prefix byte and zeros.\<close>

definition flip_at :: "nat \<Rightarrow> bytes \<Rightarrow> bytes" where
  "flip_at i bs = bs[i := bs ! i XOR 1]"

definition fill_zero :: "nat \<Rightarrow> nat \<Rightarrow> bytes \<Rightarrow> bytes" where
  "fill_zero a b bs = take a bs @ replicate (b - a) 0 @ drop b bs"

definition off_curve :: bytes where
  "off_curve = 4 # replicate 64 0"

definition key_shaped :: "bytes \<Rightarrow> bool" where
  "key_shaped k \<longleftrightarrow> length k = 65 \<and> k ! 0 = 4"

lemma TEST_PAYLOAD_length [simp]: "length TEST_PAYLOAD = 32"
  by (simp add: TEST_PAYLOAD_def)

lemma key_shaped_get: "key_shaped k \<Longrightarrow> vec_get k 0 = Some 4"
  by (simp add: key_shaped_def vec_get_def)

lemma reprefixed_get: "key_shaped k \<Longrightarrow> vec_get (k[0 := b]) 0 = Some b"
  by (simp add: key_shaped_def vec_get_def)

lemma off_curve_get: "vec_get off_curve 0 = Some 4"
  by (simp add: off_curve_def vec_get_def)

section \<open>P-256\<close>

text \<open>
  \<open>pk\<close> and \<open>pk'\<close> are the public keys of the suite's two signing keys, \<open>sg\<close> the first key's signature
  of the payload in low-S form and \<open>hi\<close> the same in high-S form.
\<close>

definition p256_rejected :: "bytes \<Rightarrow> bytes \<Rightarrow> bytes \<Rightarrow> bytes \<Rightarrow> (bytes \<times> bytes \<times> bytes) list" where
  "p256_rejected pk pk' sg hi =
     [(pk, replicate 32 0xff, sg), (pk', TEST_PAYLOAD, sg), (pk, TEST_PAYLOAD, flip_at 0 sg),
      (pk, TEST_PAYLOAD, flip_at 63 sg), (off_curve, TEST_PAYLOAD, sg),
      (pk, TEST_PAYLOAD, fill_zero 0 32 sg), (pk, TEST_PAYLOAD, fill_zero 32 64 sg),
      (pk, TEST_PAYLOAD, hi)]"

definition p256_vectors ::
  "host_check \<Rightarrow> bytes \<Rightarrow> bytes \<Rightarrow> bytes \<Rightarrow> bytes \<Rightarrow> bool" where
  "p256_vectors host pk pk' sg hi \<longleftrightarrow>
     key_shaped pk \<and> key_shaped pk' \<and> pk \<noteq> pk' \<and> host pk TEST_PAYLOAD sg
     \<and> (\<forall>(k, d, s) \<in> set (p256_rejected pk pk' sg hi). \<not> host k d s)"

definition p256_verify_valid_low_s_signature :: "host_check \<Rightarrow> bytes \<Rightarrow> bytes \<Rightarrow> bool" where
  "p256_verify_valid_low_s_signature host pk sg \<longleftrightarrow> p256_verify host TEST_PAYLOAD pk sg = Inr True"

definition p256_verify_rejects_short_hash :: "host_check \<Rightarrow> bytes \<Rightarrow> bytes \<Rightarrow> bool" where
  "p256_verify_rejects_short_hash host pk sg \<longleftrightarrow>
     p256_verify host (replicate 31 0) pk sg = Inl (Panic P256VerifierError.InvalidHashLength)"

definition p256_verify_rejects_long_hash :: "host_check \<Rightarrow> bytes \<Rightarrow> bytes \<Rightarrow> bool" where
  "p256_verify_rejects_long_hash host pk sg \<longleftrightarrow>
     p256_verify host (replicate 33 0) pk sg = Inl (Panic P256VerifierError.InvalidHashLength)"

definition p256_verify_rejects_wrong_digest :: "host_check \<Rightarrow> bytes \<Rightarrow> bytes \<Rightarrow> bool" where
  "p256_verify_rejects_wrong_digest host pk sg \<longleftrightarrow>
     p256_verify host (replicate 32 0xff) pk sg = Inl (Trap CryptoInvalid)"

definition p256_verify_rejects_wrong_key :: "host_check \<Rightarrow> bytes \<Rightarrow> bytes \<Rightarrow> bool" where
  "p256_verify_rejects_wrong_key host pk' sg \<longleftrightarrow>
     p256_verify host TEST_PAYLOAD pk' sg = Inl (Trap CryptoInvalid)"

definition p256_verify_rejects_modified_r :: "host_check \<Rightarrow> bytes \<Rightarrow> bytes \<Rightarrow> bool" where
  "p256_verify_rejects_modified_r host pk sg \<longleftrightarrow>
     p256_verify host TEST_PAYLOAD pk (flip_at 0 sg) = Inl (Trap CryptoInvalid)"

definition p256_verify_rejects_modified_s :: "host_check \<Rightarrow> bytes \<Rightarrow> bytes \<Rightarrow> bool" where
  "p256_verify_rejects_modified_s host pk sg \<longleftrightarrow>
     p256_verify host TEST_PAYLOAD pk (flip_at 63 sg) = Inl (Trap CryptoInvalid)"

definition p256_verify_rejects_disallowed_prefix ::
  "host_check \<Rightarrow> bytes \<Rightarrow> bytes \<Rightarrow> bool" where
  "p256_verify_rejects_disallowed_prefix host pk sg \<longleftrightarrow>
     p256_verify host TEST_PAYLOAD (pk[0 := 0]) sg = Inl (Panic P256VerifierError.InvalidKeyEncoding)"

definition p256_verify_rejects_compressed_point_prefix_in_65_byte_input ::
  "host_check \<Rightarrow> bytes \<Rightarrow> bytes \<Rightarrow> bool" where
  "p256_verify_rejects_compressed_point_prefix_in_65_byte_input host pk sg \<longleftrightarrow>
     p256_verify host TEST_PAYLOAD (pk[0 := 2]) sg = Inl (Panic P256VerifierError.InvalidKeyEncoding)"

definition p256_verify_rejects_invalid_curve_point :: "host_check \<Rightarrow> bytes \<Rightarrow> bool" where
  "p256_verify_rejects_invalid_curve_point host sg \<longleftrightarrow>
     p256_verify host TEST_PAYLOAD off_curve sg = Inl (Trap CryptoInvalid)"

definition p256_verify_rejects_zero_r :: "host_check \<Rightarrow> bytes \<Rightarrow> bytes \<Rightarrow> bool" where
  "p256_verify_rejects_zero_r host pk sg \<longleftrightarrow>
     p256_verify host TEST_PAYLOAD pk (fill_zero 0 32 sg) = Inl (Trap CryptoInvalid)"

definition p256_verify_rejects_zero_s :: "host_check \<Rightarrow> bytes \<Rightarrow> bytes \<Rightarrow> bool" where
  "p256_verify_rejects_zero_s host pk sg \<longleftrightarrow>
     p256_verify host TEST_PAYLOAD pk (fill_zero 32 64 sg) = Inl (Trap CryptoInvalid)"

definition p256_verify_rejects_high_s_signature :: "host_check \<Rightarrow> bytes \<Rightarrow> bytes \<Rightarrow> bool" where
  "p256_verify_rejects_high_s_signature host pk hi \<longleftrightarrow>
     p256_verify host TEST_PAYLOAD pk hi = Inl (Trap CryptoInvalid)"

definition p256_canonicalize_key_is_identity :: "bytes \<Rightarrow> bool" where
  "p256_canonicalize_key_is_identity pk \<longleftrightarrow>
     (case p256_canonicalize_key pk of Inl _ \<Rightarrow> False | Inr ck \<Rightarrow> ck = pk \<and> length ck = 65)"

definition p256_canonicalize_key_preserves_distinct_keys :: "bytes \<Rightarrow> bytes \<Rightarrow> bool" where
  "p256_canonicalize_key_preserves_distinct_keys pk pk' \<longleftrightarrow>
     p256_canonicalize_key pk \<noteq> p256_canonicalize_key pk'"

definition p256_canonicalize_key_rejects_disallowed_prefix :: "bytes \<Rightarrow> bool" where
  "p256_canonicalize_key_rejects_disallowed_prefix pk \<longleftrightarrow>
     p256_canonicalize_key (pk[0 := 3]) = Inl (Panic P256VerifierError.InvalidKeyEncoding)"

definition p256_batch_canonicalize_key_preserves_length_and_order :: "bytes \<Rightarrow> bytes \<Rightarrow> bool" where
  "p256_batch_canonicalize_key_preserves_length_and_order pk pk' \<longleftrightarrow>
     (case p256_batch_canonicalize_key [pk, pk'] of Inl _ \<Rightarrow> False
      | Inr cks \<Rightarrow> length cks = 2 \<and> cks ! 0 = pk \<and> cks ! 1 = pk')"

definition p256_batch_canonicalize_key_single_matches_canonicalize_key :: "bytes \<Rightarrow> bool" where
  "p256_batch_canonicalize_key_single_matches_canonicalize_key pk \<longleftrightarrow>
     res_bind (p256_batch_canonicalize_key [pk]) (\<lambda>cks. Inr (cks ! 0)) = p256_canonicalize_key pk
     \<and> \<not> isl (p256_canonicalize_key pk)"

text \<open>Everything the suite calls, once its hypotheses are unfolded, is decided by the guards.\<close>

lemmas p256_test_simps = p256_verify_def p256_validate_key_encoding_def p256_canonicalize_key_def
  p256_batch_canonicalize_key_def key_shaped_get reprefixed_get off_curve_get guard_def

theorem p256_tests_pass:
  assumes "p256_vectors host pk pk' sg hi"
  shows "p256_verify_valid_low_s_signature host pk sg" "p256_verify_rejects_short_hash host pk sg"
    "p256_verify_rejects_long_hash host pk sg" "p256_verify_rejects_wrong_digest host pk sg"
    "p256_verify_rejects_wrong_key host pk' sg" "p256_verify_rejects_modified_r host pk sg"
    "p256_verify_rejects_modified_s host pk sg" "p256_verify_rejects_disallowed_prefix host pk sg"
    "p256_verify_rejects_compressed_point_prefix_in_65_byte_input host pk sg"
    "p256_verify_rejects_invalid_curve_point host sg" "p256_verify_rejects_zero_r host pk sg"
    "p256_verify_rejects_zero_s host pk sg" "p256_verify_rejects_high_s_signature host pk hi"
    "p256_canonicalize_key_is_identity pk" "p256_canonicalize_key_preserves_distinct_keys pk pk'"
    "p256_canonicalize_key_rejects_disallowed_prefix pk"
    "p256_batch_canonicalize_key_preserves_length_and_order pk pk'"
    "p256_batch_canonicalize_key_single_matches_canonicalize_key pk"
proof -
  have k: "key_shaped pk" "key_shaped pk'" "pk \<noteq> pk'" "length pk = 65" and ok: "host pk TEST_PAYLOAD sg"
    using assms by (simp_all add: p256_vectors_def key_shaped_def)
  have bad: "\<forall>(k, d, s) \<in> set (p256_rejected pk pk' sg hi). \<not> host k d s"
    using assms by (simp add: p256_vectors_def)
  note no = bad [unfolded p256_rejected_def, simplified]
  show "p256_verify_valid_low_s_signature host pk sg" "p256_verify_rejects_short_hash host pk sg"
    "p256_verify_rejects_long_hash host pk sg" "p256_verify_rejects_disallowed_prefix host pk sg"
    "p256_verify_rejects_compressed_point_prefix_in_65_byte_input host pk sg"
    by (simp_all add: p256_verify_valid_low_s_signature_def p256_verify_rejects_short_hash_def
        p256_verify_rejects_long_hash_def p256_verify_rejects_disallowed_prefix_def
        p256_verify_rejects_compressed_point_prefix_in_65_byte_input_def p256_test_simps k ok)
  show "p256_verify_rejects_wrong_digest host pk sg" "p256_verify_rejects_wrong_key host pk' sg"
    "p256_verify_rejects_modified_r host pk sg" "p256_verify_rejects_modified_s host pk sg"
    "p256_verify_rejects_invalid_curve_point host sg" "p256_verify_rejects_zero_r host pk sg"
    "p256_verify_rejects_zero_s host pk sg" "p256_verify_rejects_high_s_signature host pk hi"
    by (simp_all add: p256_verify_rejects_wrong_digest_def p256_verify_rejects_wrong_key_def
        p256_verify_rejects_modified_r_def p256_verify_rejects_modified_s_def
        p256_verify_rejects_invalid_curve_point_def p256_verify_rejects_zero_r_def
        p256_verify_rejects_zero_s_def p256_verify_rejects_high_s_signature_def p256_test_simps k no)
  show "p256_canonicalize_key_is_identity pk" "p256_canonicalize_key_preserves_distinct_keys pk pk'"
    "p256_canonicalize_key_rejects_disallowed_prefix pk"
    "p256_batch_canonicalize_key_preserves_length_and_order pk pk'"
    "p256_batch_canonicalize_key_single_matches_canonicalize_key pk"
    by (simp_all add: p256_canonicalize_key_is_identity_def
        p256_canonicalize_key_preserves_distinct_keys_def p256_canonicalize_key_rejects_disallowed_prefix_def
        p256_batch_canonicalize_key_preserves_length_and_order_def
        p256_batch_canonicalize_key_single_matches_canonicalize_key_def p256_test_simps k)
qed

section \<open>secp256k1\<close>

text \<open>
  The host recovers the first key from the genuine signature and some other key from a changed
  digest, recovery byte or signature; it refuses a zero or high-S signature.
\<close>

definition recovers :: "host_recover \<Rightarrow> bytes \<Rightarrow> bytes \<Rightarrow> bytes option" where
  "recovers host d s = host d (take 64 s) (ucast (s ! 64))"

definition k1_vectors :: "host_recover \<Rightarrow> bytes \<Rightarrow> bytes \<Rightarrow> bytes \<Rightarrow> bytes \<Rightarrow> bool" where
  "k1_vectors host pk pk' sg hi \<longleftrightarrow>
     key_shaped pk \<and> key_shaped pk' \<and> pk \<noteq> pk' \<and> pk \<noteq> off_curve
     \<and> list_all (\<lambda>s. length s = 65 \<and> (s ! 64 = 0 \<or> s ! 64 = 1)) [sg, hi]
     \<and> recovers host TEST_PAYLOAD sg = Some pk
     \<and> list_all (\<lambda>(d, s). recovers host d s \<noteq> None \<and> recovers host d s \<noteq> Some pk)
         [(replicate 32 0xff, sg), (TEST_PAYLOAD, flip_at 64 sg), (TEST_PAYLOAD, flip_at 0 sg),
          (TEST_PAYLOAD, flip_at 63 sg)]
     \<and> list_all (\<lambda>s. recovers host TEST_PAYLOAD s = None) [fill_zero 0 32 sg, fill_zero 32 64 sg, hi]"

definition k1_verify_valid_signature :: "host_recover \<Rightarrow> bytes \<Rightarrow> bytes \<Rightarrow> bool" where
  "k1_verify_valid_signature host pk sg \<longleftrightarrow> k1_verify host TEST_PAYLOAD pk sg = Inr True"

definition k1_verify_rejects_short_hash :: "host_recover \<Rightarrow> bytes \<Rightarrow> bytes \<Rightarrow> bool" where
  "k1_verify_rejects_short_hash host pk sg \<longleftrightarrow>
     k1_verify host (replicate 31 0) pk sg = Inl (Panic Secp256k1VerifierError.InvalidHashLength)"

definition k1_verify_rejects_long_hash :: "host_recover \<Rightarrow> bytes \<Rightarrow> bytes \<Rightarrow> bool" where
  "k1_verify_rejects_long_hash host pk sg \<longleftrightarrow>
     k1_verify host (replicate 33 0) pk sg = Inl (Panic Secp256k1VerifierError.InvalidHashLength)"

definition k1_verify_rejects_wrong_digest :: "host_recover \<Rightarrow> bytes \<Rightarrow> bytes \<Rightarrow> bool" where
  "k1_verify_rejects_wrong_digest host pk sg \<longleftrightarrow>
     k1_verify host (replicate 32 0xff) pk sg = Inl (Panic KeyMismatch)"

definition k1_verify_rejects_wrong_key :: "host_recover \<Rightarrow> bytes \<Rightarrow> bytes \<Rightarrow> bool" where
  "k1_verify_rejects_wrong_key host pk' sg \<longleftrightarrow>
     k1_verify host TEST_PAYLOAD pk' sg = Inl (Panic KeyMismatch)"

definition k1_verify_rejects_wrong_recovery_id :: "host_recover \<Rightarrow> bytes \<Rightarrow> bytes \<Rightarrow> bool" where
  "k1_verify_rejects_wrong_recovery_id host pk sg \<longleftrightarrow>
     k1_verify host TEST_PAYLOAD pk (flip_at 64 sg) = Inl (Panic KeyMismatch)"

definition k1_verify_rejects_modified_r :: "host_recover \<Rightarrow> bytes \<Rightarrow> bytes \<Rightarrow> bool" where
  "k1_verify_rejects_modified_r host pk sg \<longleftrightarrow>
     k1_verify host TEST_PAYLOAD pk (flip_at 0 sg) = Inl (Panic KeyMismatch)"

definition k1_verify_rejects_modified_s :: "host_recover \<Rightarrow> bytes \<Rightarrow> bytes \<Rightarrow> bool" where
  "k1_verify_rejects_modified_s host pk sg \<longleftrightarrow>
     k1_verify host TEST_PAYLOAD pk (flip_at 63 sg) = Inl (Panic KeyMismatch)"

definition k1_verify_rejects_disallowed_prefix :: "host_recover \<Rightarrow> bytes \<Rightarrow> bytes \<Rightarrow> bool" where
  "k1_verify_rejects_disallowed_prefix host pk sg \<longleftrightarrow>
     k1_verify host TEST_PAYLOAD (pk[0 := 0]) sg = Inl (Panic Secp256k1VerifierError.InvalidKeyEncoding)"

definition k1_verify_rejects_compressed_point_prefix_in_65_byte_input ::
  "host_recover \<Rightarrow> bytes \<Rightarrow> bytes \<Rightarrow> bool" where
  "k1_verify_rejects_compressed_point_prefix_in_65_byte_input host pk sg \<longleftrightarrow>
     k1_verify host TEST_PAYLOAD (pk[0 := 2]) sg = Inl (Panic Secp256k1VerifierError.InvalidKeyEncoding)"

definition k1_verify_rejects_invalid_curve_point :: "host_recover \<Rightarrow> bytes \<Rightarrow> bool" where
  "k1_verify_rejects_invalid_curve_point host sg \<longleftrightarrow>
     k1_verify host TEST_PAYLOAD off_curve sg = Inl (Panic KeyMismatch)"

definition assert_recovery_id_rejected :: "host_recover \<Rightarrow> bytes \<Rightarrow> bytes \<Rightarrow> u8 \<Rightarrow> bool" where
  "assert_recovery_id_rejected host pk sg recovery_id \<longleftrightarrow>
     k1_verify host TEST_PAYLOAD pk (sg[64 := recovery_id]) = Inl (Panic InvalidRecoveryId)"

definition k1_verify_rejects_recovery_id_2 :: "host_recover \<Rightarrow> bytes \<Rightarrow> bytes \<Rightarrow> bool" where
  "k1_verify_rejects_recovery_id_2 host pk sg \<longleftrightarrow> assert_recovery_id_rejected host pk sg 2"

definition k1_verify_rejects_ethereum_recovery_id_27 :: "host_recover \<Rightarrow> bytes \<Rightarrow> bytes \<Rightarrow> bool" where
  "k1_verify_rejects_ethereum_recovery_id_27 host pk sg \<longleftrightarrow> assert_recovery_id_rejected host pk sg 27"

definition k1_verify_rejects_ethereum_recovery_id_28 :: "host_recover \<Rightarrow> bytes \<Rightarrow> bytes \<Rightarrow> bool" where
  "k1_verify_rejects_ethereum_recovery_id_28 host pk sg \<longleftrightarrow> assert_recovery_id_rejected host pk sg 28"

definition k1_verify_rejects_zero_r :: "host_recover \<Rightarrow> bytes \<Rightarrow> bytes \<Rightarrow> bool" where
  "k1_verify_rejects_zero_r host pk sg \<longleftrightarrow>
     k1_verify host TEST_PAYLOAD pk (fill_zero 0 32 sg) = Inl (Trap CryptoInvalid)"

definition k1_verify_rejects_zero_s :: "host_recover \<Rightarrow> bytes \<Rightarrow> bytes \<Rightarrow> bool" where
  "k1_verify_rejects_zero_s host pk sg \<longleftrightarrow>
     k1_verify host TEST_PAYLOAD pk (fill_zero 32 64 sg) = Inl (Trap CryptoInvalid)"

definition k1_verify_rejects_high_s_signature :: "host_recover \<Rightarrow> bytes \<Rightarrow> bytes \<Rightarrow> bool" where
  "k1_verify_rejects_high_s_signature host pk hi \<longleftrightarrow>
     k1_verify host TEST_PAYLOAD pk hi = Inl (Trap CryptoInvalid)"

definition k1_canonicalize_key_is_identity :: "bytes \<Rightarrow> bool" where
  "k1_canonicalize_key_is_identity pk \<longleftrightarrow>
     (case k1_canonicalize_key pk of Inl _ \<Rightarrow> False | Inr ck \<Rightarrow> ck = pk \<and> length ck = 65)"

definition k1_canonicalize_key_preserves_distinct_keys :: "bytes \<Rightarrow> bytes \<Rightarrow> bool" where
  "k1_canonicalize_key_preserves_distinct_keys pk pk' \<longleftrightarrow>
     k1_canonicalize_key pk \<noteq> k1_canonicalize_key pk'"

definition k1_canonicalize_key_rejects_disallowed_prefix :: "bytes \<Rightarrow> bool" where
  "k1_canonicalize_key_rejects_disallowed_prefix pk \<longleftrightarrow>
     k1_canonicalize_key (pk[0 := 3]) = Inl (Panic Secp256k1VerifierError.InvalidKeyEncoding)"

definition k1_batch_canonicalize_key_preserves_length_and_order :: "bytes \<Rightarrow> bytes \<Rightarrow> bool" where
  "k1_batch_canonicalize_key_preserves_length_and_order pk pk' \<longleftrightarrow>
     (case k1_batch_canonicalize_key [pk, pk'] of Inl _ \<Rightarrow> False
      | Inr cks \<Rightarrow> length cks = 2 \<and> cks ! 0 = pk \<and> cks ! 1 = pk')"

definition k1_batch_canonicalize_key_single_matches_canonicalize_key :: "bytes \<Rightarrow> bool" where
  "k1_batch_canonicalize_key_single_matches_canonicalize_key pk \<longleftrightarrow>
     res_bind (k1_batch_canonicalize_key [pk]) (\<lambda>cks. Inr (cks ! 0)) = k1_canonicalize_key pk
     \<and> \<not> isl (k1_canonicalize_key pk)"

definition k1_batch_canonicalize_key_accepts_empty_input :: bool where
  "k1_batch_canonicalize_key_accepts_empty_input \<longleftrightarrow> k1_batch_canonicalize_key [] = Inr []"

definition k1_batch_canonicalize_key_rejects_disallowed_prefix :: "bytes \<Rightarrow> bytes \<Rightarrow> bool" where
  "k1_batch_canonicalize_key_rejects_disallowed_prefix pk pk' \<longleftrightarrow>
     k1_batch_canonicalize_key [pk, pk'[0 := 2]] = Inl (Panic Secp256k1VerifierError.InvalidKeyEncoding)"

text \<open>
  The verifier on a digest of the right length, a well-shaped key and a signature of 65 bytes: the
  recovery byte decides first, then the host.
\<close>

lemma k1_verify_eq:
  assumes "length d = 32" "vec_get k 0 = Some 4" "length s = 65"
  shows "k1_verify host d k s =
     (if s ! 64 = 0 \<or> s ! 64 = 1 then
        (case recovers host d s of None \<Rightarrow> Inl (Trap CryptoInvalid)
         | Some k' \<Rightarrow> if k' = k then Inr True else Inl (Panic KeyMismatch))
      else Inl (Panic InvalidRecoveryId))"
  using assms recovery_id_le [of "s ! 64"]
  by (auto simp: k1_verify_def k1_validate_key_encoding_def recovers_def guard_def vec_get_def Let_def
      split: option.splits)

lemma fill_zero_shape:
  assumes "length s = 65" "a \<le> b" "b \<le> 64"
  shows "length (fill_zero a b s) = 65" "fill_zero a b s ! 64 = s ! 64"
  using assms by (auto simp: fill_zero_def nth_append)

lemma flip_at_shape: "length (flip_at i s) = length s"
  "i \<noteq> 64 \<Longrightarrow> flip_at i s ! 64 = s ! 64"
  "length s = 65 \<Longrightarrow> s ! 64 = 0 \<or> s ! 64 = 1 \<Longrightarrow> flip_at 64 s ! 64 = 0 \<or> flip_at 64 s ! 64 = 1"
  by (auto simp: flip_at_def)

lemmas k1_test_simps = key_shaped_get reprefixed_get off_curve_get fill_zero_shape flip_at_shape k1_verify_eq

theorem k1_verify_tests_pass:
  assumes "k1_vectors host pk pk' sg hi"
  shows "k1_verify_valid_signature host pk sg" "k1_verify_rejects_short_hash host pk sg"
    "k1_verify_rejects_long_hash host pk sg" "k1_verify_rejects_wrong_digest host pk sg"
    "k1_verify_rejects_wrong_key host pk' sg" "k1_verify_rejects_wrong_recovery_id host pk sg"
    "k1_verify_rejects_modified_r host pk sg" "k1_verify_rejects_modified_s host pk sg"
    "k1_verify_rejects_disallowed_prefix host pk sg"
    "k1_verify_rejects_compressed_point_prefix_in_65_byte_input host pk sg"
    "k1_verify_rejects_invalid_curve_point host sg" "k1_verify_rejects_recovery_id_2 host pk sg"
    "k1_verify_rejects_ethereum_recovery_id_27 host pk sg"
    "k1_verify_rejects_ethereum_recovery_id_28 host pk sg" "k1_verify_rejects_zero_r host pk sg"
    "k1_verify_rejects_zero_s host pk sg" "k1_verify_rejects_high_s_signature host pk hi"
proof -
  have k: "key_shaped pk" "key_shaped pk'" "pk \<noteq> pk'" "pk \<noteq> off_curve"
    and s: "length sg = 65" "length hi = 65" "sg ! 64 = 0 \<or> sg ! 64 = 1" "hi ! 64 = 0 \<or> hi ! 64 = 1"
    and host: "recovers host TEST_PAYLOAD sg = Some pk"
    using assms by (simp_all add: k1_vectors_def)
  have other: "recovers host (replicate 32 0xff) sg \<notin> {None, Some pk}"
    "recovers host TEST_PAYLOAD (flip_at 64 sg) \<notin> {None, Some pk}"
    "recovers host TEST_PAYLOAD (flip_at 0 sg) \<notin> {None, Some pk}"
    "recovers host TEST_PAYLOAD (flip_at 63 sg) \<notin> {None, Some pk}"
    and none: "recovers host TEST_PAYLOAD (fill_zero 0 32 sg) = None"
    "recovers host TEST_PAYLOAD (fill_zero 32 64 sg) = None" "recovers host TEST_PAYLOAD hi = None"
    using assms by (simp_all add: k1_vectors_def)
  show "k1_verify_valid_signature host pk sg" "k1_verify_rejects_wrong_key host pk' sg"
    "k1_verify_rejects_invalid_curve_point host sg"
    using k s host
    by (simp_all add: k1_verify_valid_signature_def k1_verify_rejects_wrong_key_def
        k1_verify_rejects_invalid_curve_point_def k1_test_simps)
  show "k1_verify_rejects_wrong_digest host pk sg" "k1_verify_rejects_wrong_recovery_id host pk sg"
    "k1_verify_rejects_modified_r host pk sg" "k1_verify_rejects_modified_s host pk sg"
    using k s other flip_at_shape(3) [OF s(1,3)]
    by (auto simp: k1_verify_rejects_wrong_digest_def k1_verify_rejects_wrong_recovery_id_def
        k1_verify_rejects_modified_r_def k1_verify_rejects_modified_s_def k1_test_simps)
  show "k1_verify_rejects_zero_r host pk sg" "k1_verify_rejects_zero_s host pk sg"
    "k1_verify_rejects_high_s_signature host pk hi"
    using k s none
    by (simp_all add: k1_verify_rejects_zero_r_def k1_verify_rejects_zero_s_def
        k1_verify_rejects_high_s_signature_def k1_test_simps)
  show "k1_verify_rejects_recovery_id_2 host pk sg" "k1_verify_rejects_ethereum_recovery_id_27 host pk sg"
    "k1_verify_rejects_ethereum_recovery_id_28 host pk sg"
    using k s
    by (simp_all add: k1_verify_rejects_recovery_id_2_def k1_verify_rejects_ethereum_recovery_id_27_def
        k1_verify_rejects_ethereum_recovery_id_28_def assert_recovery_id_rejected_def k1_test_simps)
  show "k1_verify_rejects_short_hash host pk sg" "k1_verify_rejects_long_hash host pk sg"
    "k1_verify_rejects_disallowed_prefix host pk sg"
    "k1_verify_rejects_compressed_point_prefix_in_65_byte_input host pk sg"
    using k
    by (simp_all add: k1_verify_rejects_short_hash_def k1_verify_rejects_long_hash_def
        k1_verify_rejects_disallowed_prefix_def k1_verify_def k1_validate_key_encoding_def guard_def
        k1_verify_rejects_compressed_point_prefix_in_65_byte_input_def reprefixed_get)
qed

theorem k1_key_tests_pass:
  assumes "key_shaped pk" "key_shaped pk'" "pk \<noteq> pk'"
  shows "k1_canonicalize_key_is_identity pk" "k1_canonicalize_key_preserves_distinct_keys pk pk'"
    "k1_canonicalize_key_rejects_disallowed_prefix pk"
    "k1_batch_canonicalize_key_preserves_length_and_order pk pk'"
    "k1_batch_canonicalize_key_single_matches_canonicalize_key pk"
    "k1_batch_canonicalize_key_accepts_empty_input"
    "k1_batch_canonicalize_key_rejects_disallowed_prefix pk pk'"
  using assms
  by (simp_all add: k1_canonicalize_key_is_identity_def k1_canonicalize_key_preserves_distinct_keys_def
      k1_canonicalize_key_rejects_disallowed_prefix_def k1_batch_canonicalize_key_accepts_empty_input_def
      k1_batch_canonicalize_key_preserves_length_and_order_def k1_batch_canonicalize_key_def
      k1_batch_canonicalize_key_single_matches_canonicalize_key_def k1_canonicalize_key_def guard_def
      k1_batch_canonicalize_key_rejects_disallowed_prefix_def k1_validate_key_encoding_def
      key_shaped_get reprefixed_get key_shaped_def)

section \<open>The demonstration verifier\<close>

text \<open>
  \<open>build_signed_message\<close> of the suite, a buffer filled by index, is the message the contract checks.
  The vectors are signatures of that message, of the raw hash, of a message with another prefix,
  and a corrupted one.
\<close>

fun hex_into :: "bytes \<Rightarrow> nat \<Rightarrow> bytes \<Rightarrow> bytes" where
  "hex_into msg i [] = msg"
| "hex_into msg i (b # bs) =
     hex_into (msg[PREFIX_LEN + i * 2 := HEX ! unat (drop_bit 4 b),
                   PREFIX_LEN + i * 2 + 1 := HEX ! unat (b AND 15)]) (i + 1) bs"

definition build_signed_message :: "bytes \<Rightarrow> bytes" where
  "build_signed_message hash =
     hex_into (AUTH_PREFIX @ drop PREFIX_LEN (replicate SIGNED_MSG_LEN 0)) 0 hash"

definition wrong_prefix_message :: bytes where
  "wrong_prefix_message = map (\<lambda>c. of_nat (of_char c)) ''Wrong Prefix:'' @ [10] @ hex TEST_PAYLOAD"

text \<open>
  The signing function of the suite's first key and the host: genuine signatures are accepted for
  their message, and the altered combinations of the suite are not.
\<close>

definition modified_vectors :: "host_check \<Rightarrow> bytes \<Rightarrow> bytes \<Rightarrow> (bytes \<Rightarrow> bytes) \<Rightarrow> bool" where
  "modified_vectors host pk pk' sign \<longleftrightarrow>
     (let m = AUTH_PREFIX @ hex TEST_PAYLOAD; sg = sign m in
      (\<forall>x. host pk x (sign x)) \<and> \<not> host pk m (sign TEST_PAYLOAD) \<and> \<not> host pk m (sign wrong_prefix_message)
      \<and> \<not> host pk m (sg[0 := sg ! 0 + 1]) \<and> \<not> host pk' m sg
      \<and> \<not> host pk (AUTH_PREFIX @ hex (replicate 32 0xff)) sg)"

definition phantom_sign :: "(bytes \<Rightarrow> bytes) \<Rightarrow> bytes \<Rightarrow> bytes" where
  "phantom_sign sign hash_bytes = sign (build_signed_message hash_bytes)"

definition verify_valid_phantom_signature :: "host_check \<Rightarrow> bytes \<Rightarrow> (bytes \<Rightarrow> bytes) \<Rightarrow> bool" where
  "verify_valid_phantom_signature host pk sign \<longleftrightarrow>
     modified_verify host TEST_PAYLOAD pk (phantom_sign sign TEST_PAYLOAD) = Inr True"

definition verify_rejects_raw_hash_signature :: "host_check \<Rightarrow> bytes \<Rightarrow> (bytes \<Rightarrow> bytes) \<Rightarrow> bool" where
  "verify_rejects_raw_hash_signature host pk sign \<longleftrightarrow>
     modified_verify host TEST_PAYLOAD pk (sign TEST_PAYLOAD) = Inl (Trap CryptoInvalid)"

definition verify_rejects_wrong_prefix :: "host_check \<Rightarrow> bytes \<Rightarrow> (bytes \<Rightarrow> bytes) \<Rightarrow> bool" where
  "verify_rejects_wrong_prefix host pk sign \<longleftrightarrow>
     modified_verify host TEST_PAYLOAD pk (sign wrong_prefix_message) = Inl (Trap CryptoInvalid)"

definition verify_rejects_corrupted_signature :: "host_check \<Rightarrow> bytes \<Rightarrow> (bytes \<Rightarrow> bytes) \<Rightarrow> bool" where
  "verify_rejects_corrupted_signature host pk sign \<longleftrightarrow>
     (let sig_bytes = phantom_sign sign TEST_PAYLOAD in
      modified_verify host TEST_PAYLOAD pk (sig_bytes[0 := sig_bytes ! 0 + 1]) = Inl (Trap CryptoInvalid))"

definition verify_rejects_wrong_key :: "host_check \<Rightarrow> bytes \<Rightarrow> (bytes \<Rightarrow> bytes) \<Rightarrow> bool" where
  "verify_rejects_wrong_key host pk' sign \<longleftrightarrow>
     modified_verify host TEST_PAYLOAD pk' (phantom_sign sign TEST_PAYLOAD) = Inl (Trap CryptoInvalid)"

definition verify_rejects_wrong_payload :: "host_check \<Rightarrow> bytes \<Rightarrow> (bytes \<Rightarrow> bytes) \<Rightarrow> bool" where
  "verify_rejects_wrong_payload host pk sign \<longleftrightarrow>
     modified_verify host (replicate 32 0xff) pk (phantom_sign sign TEST_PAYLOAD) = Inl (Trap CryptoInvalid)"

lemma hex_into_eq:
  assumes "length pre = PREFIX_LEN + i * 2" "length post = 2 * length bs"
  shows "hex_into (pre @ post) i bs = pre @ hex bs"
  using assms
proof (induction bs arbitrary: pre post i)
  case Nil
  then show ?case by (simp add: hex_def)
next
  case (Cons b bs)
  then obtain x y post' where post: "post = x # y # post'" "length post' = 2 * length bs"
    by (cases post; cases "tl post") auto
  have "hex_into ((pre @ hex_pair b) @ post') (i + 1) bs = (pre @ hex_pair b) @ hex bs"
    using Cons.prems(1) post(2) by (intro Cons.IH) (simp_all add: hex_pair_def)
  then show ?case
    using Cons.prems(1) by (simp add: post(1) hex_pair_def hex_def list_update_append)
qed

lemma build_signed_message_eq: "length h = 32 \<Longrightarrow> build_signed_message h = AUTH_PREFIX @ hex h"
  by (simp add: build_signed_message_def hex_into_eq PREFIX_LEN_def SIGNED_MSG_LEN_def HEX_LEN_def)

lemma modified_verify_eq:
  assumes "length h = 32"
  shows "modified_verify host h k s =
     (if host k (AUTH_PREFIX @ hex h) s then Inr True else Inl (Trap CryptoInvalid))"
  using assms
  by (simp add: modified_verify_def hex_encode_lower_eq PREFIX_LEN_def HEX_LEN_def SIGNED_MSG_LEN_def
      PAYLOAD_LEN_def Let_def guard_def)

theorem modified_tests_pass:
  assumes "modified_vectors host pk pk' sign"
  shows "verify_valid_phantom_signature host pk sign" "verify_rejects_raw_hash_signature host pk sign"
    "verify_rejects_wrong_prefix host pk sign" "verify_rejects_corrupted_signature host pk sign"
    "verify_rejects_wrong_key host pk' sign" "verify_rejects_wrong_payload host pk sign"
  using assms
  by (simp_all add: modified_vectors_def Let_def verify_valid_phantom_signature_def
      verify_rejects_raw_hash_signature_def verify_rejects_wrong_prefix_def
      verify_rejects_corrupted_signature_def verify_rejects_wrong_key_def
      verify_rejects_wrong_payload_def phantom_sign_def build_signed_message_eq modified_verify_eq)

section \<open>The hypotheses can hold\<close>

text \<open>Small hosts that answer on the vectors as the suites expect.\<close>

definition toy_key :: "u8 \<Rightarrow> bytes" where
  "toy_key b = 4 # replicate 64 b"

definition toy_signature :: bytes where
  "toy_signature = replicate 64 7 @ [1]"

lemma p256_vectors_possible:
  "p256_vectors (\<lambda>k d s. k = toy_key 1 \<and> d = TEST_PAYLOAD \<and> s = take 64 toy_signature)
     (toy_key 1) (toy_key 2) (take 64 toy_signature) (replicate 64 9)"
  by code_simp

definition toy_recover :: host_recover where
  "toy_recover d s r =
     (if hd s = 0 \<or> last s = 0 \<or> hd s = 9 then None
      else if d = TEST_PAYLOAD \<and> s = replicate 64 7 \<and> r = 1 then Some (toy_key 1) else Some (toy_key 3))"

lemma k1_vectors_possible:
  "k1_vectors toy_recover (toy_key 1) (toy_key 2) toy_signature (replicate 64 9 @ [0])"
  by code_simp

lemma modified_vectors_possible:
  "modified_vectors (\<lambda>k m s. k = toy_key 1 \<and> s = m) (toy_key 1) (toy_key 2) id"
proof -
  have "AUTH_PREFIX @ hex TEST_PAYLOAD \<noteq> TEST_PAYLOAD" "AUTH_PREFIX @ hex TEST_PAYLOAD \<noteq> wrong_prefix_message"
    by (simp_all add: wrong_prefix_message_def list_eq_iff_nth_eq)
  moreover have "xs[0 := xs ! 0 + 1] \<noteq> xs" if "xs \<noteq> []" for xs :: bytes
  proof
    assume "xs[0 := xs ! 0 + 1] = xs"
    then have "xs[0 := xs ! 0 + 1] ! 0 = xs ! 0" by simp
    with that show False by simp
  qed
  moreover have "AUTH_PREFIX \<noteq> []" "toy_key 2 \<noteq> toy_key 1" by (simp_all add: AUTH_PREFIX_def toy_key_def)
  moreover have "TEST_PAYLOAD \<noteq> replicate 32 0xff" by code_simp
  then have "hex TEST_PAYLOAD \<noteq> hex (replicate 32 0xff)" by (simp add: hex_inject)
  ultimately show ?thesis by (auto simp: modified_vectors_def Let_def)
qed

end
