(* ===== verification/Forwarder_Tests.thy ===== *)
theory Forwarder_Tests
  imports Forwarder_History
begin

text \<open>
  The tests of \<open>src/fee-forwarder/src/test.rs\<close> that exercise the forwarder itself: the roles its
  constructor grants and the rejections of callers without the role or without their signature.
  They hold for every access-control library with the documented laws.  The other tests of the suite
  run the fee library, which is a parameter.
\<close>

definition ft_admin :: address where "ft_admin = Addr 51"
definition ft_manager :: address where "ft_manager = Addr 52"
definition ft_user :: address where "ft_user = Addr 53"
definition ft_relayer :: address where "ft_relayer = Addr 54"
definition ft_forwarder :: address where "ft_forwarder = Addr 55"
definition ft_token :: address where "ft_token = Addr 56"
definition ft_target :: address where "ft_target = Addr 57"

text \<open>The environments: everybody's authorisation is mocked, or only that of the listed addresses.\<close>

definition ft_signed_by :: "address list \<Rightarrow> env" where
  "ft_signed_by as = \<lparr>ledger_sequence = 0, ledger_timestamp = 0,
     current_contract_address = ft_forwarder, authorized = (\<lambda>a. a \<in> set as)\<rparr>"

definition ft_all_signed :: env where
  "ft_all_signed = (ft_signed_by [])\<lparr>authorized := (\<lambda>_. True)\<rparr>"

definition forwarder_setup :: "('w, 'e, 'v) fee_lib \<Rightarrow> 'w \<Rightarrow> 'w" where
  "forwarder_setup lib w = forwarder_constructor lib ft_admin ft_manager [ft_relayer] w"

definition forward_by :: "('w, 'e, 'v) fee_lib \<Rightarrow> env \<Rightarrow> address \<Rightarrow> 'w \<Rightarrow> ('e, 'v \<times> 'w) result" where
  "forward_by lib e relayer w =
     forward lib e ft_token 100000 150000 (ledger_sequence e) ft_target ''greet'' [] ft_user relayer w"

definition forward_rejects_missing_relayer_auth :: "('w, 'e, 'v) fee_lib \<Rightarrow> 'w \<Rightarrow> bool" where
  "forward_rejects_missing_relayer_auth lib w \<longleftrightarrow>
     isl (forward_by lib (ft_signed_by [ft_user]) ft_relayer (forwarder_setup lib w))"

definition forward_rejects_non_executor_caller :: "('w, 'e, 'v) fee_lib \<Rightarrow> 'w \<Rightarrow> bool" where
  "forward_rejects_non_executor_caller lib w \<longleftrightarrow>
     isl (forward_by lib ft_all_signed (Addr 58) (forwarder_setup lib w))"

definition enable_fee_token_rejects_non_manager :: "('w, 'e, 'v) fee_lib \<Rightarrow> 'w \<Rightarrow> bool" where
  "enable_fee_token_rejects_non_manager lib w \<longleftrightarrow>
     isl (enable_fee_token lib ft_all_signed ft_token (Addr 58) (forwarder_setup lib w))"

text \<open>The manager enables the token first; whatever that call answers, the other's disabling fails.\<close>

definition disable_fee_token_rejects_non_manager :: "('w, 'e, 'v) fee_lib \<Rightarrow> 'w \<Rightarrow> bool" where
  "disable_fee_token_rejects_non_manager lib w \<longleftrightarrow>
     isl (res_bind (enable_fee_token lib ft_all_signed ft_token ft_manager (forwarder_setup lib w)) (\<lambda>w'.
          disable_fee_token lib ft_all_signed ft_token (Addr 58) w'))"

definition sweep_tokens_rejects_non_manager :: "('w, 'e, 'v) fee_lib \<Rightarrow> 'w \<Rightarrow> bool" where
  "sweep_tokens_rejects_non_manager lib w \<longleftrightarrow>
     isl (sweep_tokens lib ft_all_signed ft_token (Addr 59) (Addr 58) (forwarder_setup lib w))"

definition constructor_grants_admin_manager_and_executor_roles ::
  "('w, 'e, 'v) fee_lib \<Rightarrow> 'w access_lib \<Rightarrow> 'w \<Rightarrow> bool" where
  "constructor_grants_admin_manager_and_executor_roles lib ac w \<longleftrightarrow>
     (let w' = forwarder_setup lib w in
      has_role lib w' ft_manager ''manager'' \<and> has_role lib w' ft_relayer ''executor''
      \<and> admin_of ac w' = Some ft_admin)"

text \<open>A caller the gate stops is stopped.\<close>

lemma gate_stops:
  assumes "role_laws lib" "\<not> (has_role lib w a r \<and> authorized e a)"
  shows "isl (res_bind (only_role lib e a r w) f)"
  using assms role_gate [OF assms(1), of e a r w] by (cases "only_role lib e a r w") auto

lemma setup_roles:
  assumes "role_laws lib" "untouched lib ac w"
  shows "has_role lib (forwarder_setup lib w) a r \<longleftrightarrow>
     (a = ft_manager \<and> r = ''manager'') \<or> (a = ft_relayer \<and> r = ''executor'')"
  using assms constructor_roles [OF assms(1)]
  by (auto simp: forwarder_setup_def untouched_def MANAGER_ROLE_def EXECUTOR_ROLE_def)

lemmas ft_addresses = ft_admin_def ft_manager_def ft_user_def ft_relayer_def ft_signed_by_def

theorem forwarder_tests_pass:
  assumes "role_laws lib" "access_laws lib ac" "untouched lib ac w"
  shows "forward_rejects_missing_relayer_auth lib w" "forward_rejects_non_executor_caller lib w"
    "enable_fee_token_rejects_non_manager lib w" "disable_fee_token_rejects_non_manager lib w"
    "sweep_tokens_rejects_non_manager lib w" "constructor_grants_admin_manager_and_executor_roles lib ac w"
proof -
  note roles = setup_roles [OF assms(1,3)]
  note stops = gate_stops [OF assms(1)]
  show "forward_rejects_missing_relayer_auth lib w" "forward_rejects_non_executor_caller lib w"
    "enable_fee_token_rejects_non_manager lib w" "sweep_tokens_rejects_non_manager lib w"
    unfolding forward_rejects_missing_relayer_auth_def forward_rejects_non_executor_caller_def
      enable_fee_token_rejects_non_manager_def sweep_tokens_rejects_non_manager_def forward_by_def
      forward_def enable_fee_token_def sweep_tokens_def
    by (rule stops; simp add: roles ft_addresses)+
  show "constructor_grants_admin_manager_and_executor_roles lib ac w"
    using roles assms(2) grant_all_access [OF assms(2)]
    by (simp add: constructor_grants_admin_manager_and_executor_roles_def Let_def)
      (simp add: forwarder_setup_def forwarder_constructor_def access_laws_def)
  show "disable_fee_token_rejects_non_manager lib w"
  proof (cases "enable_fee_token lib ft_all_signed ft_token ft_manager (forwarder_setup lib w)")
    case (Inr w')
    then have "same_access lib ac (forwarder_setup lib w) w'"
      using assms(2) by (auto simp: enable_fee_token_def access_laws_def result_simps)
    with roles have "\<not> has_role lib w' (Addr 58) ''manager''"
      by (simp add: same_access_def ft_addresses)
    with Inr show ?thesis
      unfolding disable_fee_token_rejects_non_manager_def disable_fee_token_def by (simp add: stops)
  qed (simp add: disable_fee_token_rejects_non_manager_def)
qed

end
