(* ===== verification/Spec2Isabelle.thy ===== *)
theory Spec2Isabelle
  imports Policy_Properties Template_Properties Account_Properties Policy_Shells
    Life_Properties System_Properties Policy_Stack
    Vesting_Tests Vault_Tests Session_Tests Multi_Token_Tests
    Recipient_Tests Parameter_Tests Factory_Tests Account_Tests Deployment_Tests
    Verifier_Tests Forwarder_Tests
begin

text \<open>
  \<^bold>\<open>Latch contracts: a verification library\<close>

  The repository holds the Soroban contracts of the Latch smart-account system.  A \<^emph>\<open>smart account\<close>
  authorises calls through signers, each checked by a \<^emph>\<open>signature verifier\<close> contract, and
  through \<^emph>\<open>policy\<close> contracts attached to its context rules; the \<^emph>\<open>account factory\<close> deploys accounts at
  predictable addresses; a \<^emph>\<open>fee forwarder\<close> lets a relayer pay for them; two \<^emph>\<open>templates\<close>
  (vesting schedule, timelock vault) are contracts an account may own.

  \<^bold>\<open>Theories and the code they model\<close>

  \<^item> \<open>Latch_Prelude\<close>: machine integers with the checked and saturating operations the contracts call,
    addresses, failures (\<open>fault\<close>: an error code of the contract, a refused authorisation, a trap) and
    the result calculus every entry point is written in.  The release profile has overflow checks on,
    so an arithmetic overflow is a trap.
  \<^item> \<open>Soroban_Env\<close>: what a contract sees of the host: environment, authorisation, typed values, call
    contexts, context rules, signers, and the effects it asks for (events, TTL extensions).
  \<^item> \<open>Policy_Store\<close>: the storage shape and life cycle the policies of \<open>src/policies\<close> share; the
    interface locales \<open>policy_contract\<close>, \<open>fixed_policy\<close> (enforcement does not write) and
    \<open>updatable_policy\<close> (with a setter), whose lemmas (isolation, invariants over histories, revocation,
    persistence) are proved once and interpreted by every policy.
  \<^item> \<open>Session_Policy\<close> (\<open>session-policy/src/allowlist.rs\<close>), \<open>Recipient_Policy\<close>
    (\<open>recipient-allowlist-policy/src/lib.rs\<close>), \<open>Parameter_Policy\<close>
    (\<open>parameter-scoped-policy/src/conditions.rs\<close>): data, entry points and closed forms.
  \<^item> \<open>Price_Oracle\<close>, \<open>Multi_Token_Policy\<close>, \<open>Multi_Token_Window\<close>
    (\<open>multi-token-spending-limit-policy/src/oracle.rs\<close>, \<open>lib.rs\<close>): the oracle calls, the window
    clean-up loop, the accounting invariant, and the policy over sequences of calls.
  \<^item> \<open>Policy_Shells\<close> (\<open>threshold-policy\<close>, \<open>weighted-threshold-policy\<close>, \<open>spending-limit-policy\<close>): one-call
    delegations to the \<open>stellar-accounts\<close> crate, which is a parameter.
  \<^item> \<open>Vesting_Math\<close>, \<open>Vesting_Schedule\<close>, \<open>Vesting_Machine\<close>
    (\<open>src/templates/vesting-schedule/src/lib.rs\<close>): the 128-bit multiplication at its width,
    the contract, and its states over ledger time as an inductive step relation.
  \<^item> \<open>Timelock_Vault\<close> (\<open>src/templates/timelock-vault/src/lib.rs\<close>): the contract and its step relation.
  \<^item> \<open>Token_Interface\<close>: what the templates rely on of a token (locales \<open>sep41_token\<close>, \<open>sep41_strict\<close>),
    interpreted by the mock token of \<open>vesting-schedule/src/test.rs\<close>.
  \<^item> \<open>Signer_Order\<close>, \<open>Account_Factory\<close> (\<open>factory-contract/src/lib.rs\<close>): signer comparison (locale
    \<open>comparator\<close>) and insertion loop, parameter normalisation, salt preimage, creation.
  \<^item> \<open>Smart_Account\<close> (\<open>src/latch-smart-account/src/lib.rs\<close>): the deployment registry (locale
    \<open>append_registry\<close>) and the self-authorised entry points.
  \<^item> \<open>Signature_Verifiers\<close>, \<open>Hex_Message\<close> (\<open>src/latch-verifiers\<close>, \<open>src/demo\<close>): P-256, secp256k1, the
    Ed25519 and WebAuthn shells, and the hex-message verifier (locale \<open>signature_verifier\<close>).
  \<^item> \<open>Fee_Forwarder\<close>, \<open>Forwarder_History\<close> (\<open>src/fee-forwarder/src/lib.rs\<close>): role set-up and role-gated entry
    points, and the forwarder over histories of its own calls and of the access-control methods it
    exposes, as an inductive reachability relation.
  \<^item> \<open>Window_Limiter\<close>: the specification of the multi-token policy as a rolling-window limiter, a list of
    dated amounts and one comparison, and the simulation between the two.
  \<^item> \<open>Policy_Stack\<close>: the policies attached to one rule, over histories of authorisations and of direct
    calls by anyone; the account's check is library code and a parameter that requires every attached policy.
  \<^item> \<open>Spending_Exposure\<close>: the approved transfers with their exact rational dollar values, against the
    whole dollars the policy counts.
  \<^item> \<open>Storage_Life\<close>, \<open>Vault_Life\<close>, \<open>Vesting_Life\<close>, \<open>Factory_Life\<close>, \<open>Registry_Life\<close>, \<open>Policy_Life\<close>: what
    the requested TTL extensions mean.  Entries have a last ledger of use, \<open>extend_ttl\<close> moves it, a call
    on an archived entry fails; the vault, the vesting schedule, the factory, the account's deployment
    records and the four storing policies run on top of that (locales \<open>ttl_constants\<close>, \<open>refreshing_policy\<close>).
  \<^item> \<open>Source_Loops\<close>: the two \<open>while\<close> loops of the program with their mutable variables, \<open>break\<close> and index,
    on the library's while combinator, and their agreement with the recursive definitions.
  \<^item> \<open>Account_Templates\<close>: an account deploying a template: \<open>deploy_contract\<close>, the template's constructor
    on decoded arguments, and the template's reachable states, together.
  \<^item> \<open>Factory_History\<close>: the factory over arbitrary histories of creation calls by anyone, on a host that
    remembers what each account was constructed with.
  \<^item> \<open>Test_Script\<close>, \<open>Vesting_Tests\<close>, \<open>Vault_Tests\<close>, \<open>Session_Tests\<close>, \<open>Multi_Token_Tests\<close>, \<open>Recipient_Tests\<close>,
    \<open>Parameter_Tests\<close>, \<open>Factory_Tests\<close> (with the dummy contracts), \<open>Account_Tests\<close>, \<open>Deployment_Tests\<close>,
    \<open>Verifier_Tests\<close>, \<open>Forwarder_Tests\<close>: the repository's tests of these components (their \<open>src/test.rs\<close>) as scripts over the model, each
    proved to pass, so that the model agrees with the program on the scenarios its authors wrote down.
  \<^item> \<open>Spending_Properties\<close>, \<open>Policy_Properties\<close>, \<open>Template_Properties\<close>, \<open>Account_Properties\<close>,
    \<open>Life_Properties\<close>, \<open>System_Properties\<close> and the end of this theory: the properties C1 to C40, each with a concrete instance where it has hypotheses.

  \<^bold>\<open>State and failure\<close>

  An entry point is a function from its arguments, the environment and the contract's state to either
  a fault or its result with the new state.  A fault carries no state because the host rolls a failed
  invocation back (\<open>commit\<close>).  Policy state is a map from \<open>AccountContext(account, rule id)\<close> to the
  stored record plus the log of effects in order.  Signed integers are integers with the range checks
  written out, unsigned ones are words.

  \<^bold>\<open>What the properties show\<close>

  \<^item> The multi-token limit (C1-C5, C15, C24, C40): it holds in every rolling window over arbitrary call
    histories, its accounting is exact (below the limit \<open>i128::MAX\<close>), it fails closed, it refines a
    rolling-window limiter, it is available in full again one period after its use, and the rounding to
    whole dollars costs less than one dollar per transfer.
  \<^item> The policies together (C6-C10, C12, C28, C30, C38): the allowlist policies approve exactly what was
    installed and store only what is in bounds; in all four storing policies installations are isolated
    and revocation is final; which of them insist on a signer; a policy that is used does not expire;
    stacked policies over time, the replacement of recipients included.
  \<^item> The templates (C13, C14, C16-C21, C32): the vesting arithmetic is exact at 128 bits, the schedule never
    overpays, its queries announce what a claim pays, it can always pay when funded and can be kept alive to its end; nothing leaves a locked vault,
    and a vault that is bumped often enough outlives any lock.
  \<^item> The factory (C11, C23, C25-C27, C39): accounts are canonical in their signers and bound to their
    parameters up to a hash collision, creation is idempotent, nobody can occupy an account's address
    with other signers; a factory's life ends on a fixed ledger unless its configuration is read in the
    last hundred ledgers before; what it leaves to the WebAuthn verifier.
  \<^item> The account (C22, C29, C31, C33): the deployment registry is an append-only list whose records live by
    their own reads; which entry points ask for the account's authorisation; the templates deployed through
    an account, by whoever calls it.
  \<^item> The verifiers (C34, C36), the loops (C35: they stop) and the forwarder (C37: who can use it, over
    its whole life).

  \<^bold>\<open>Bounds\<close>

  All recursion is structural on the data the code iterates over, so no fuel is needed; the \<open>while\<close>
  loops, where the code has them, are also given literally and proved to stop (C35).  Lengths of
  host vectors and byte strings are below \<open>2\<^sup>3\<^sup>2\<close>; where that matters it is a hypothesis.  The
  window theorems are for limits below \<open>i128::MAX\<close>: at that limit the saturating sum makes the cap
  unenforceable (\<open>accounting_at_max_limit\<close> of \<open>Spending_Properties\<close>).  A window at ledger \<open>l\<close> starts after \<open>l - period\<close>, floored at zero as in the code, so
  a transfer recorded at ledger zero would expire at once.

  \<^bold>\<open>Parameters\<close>

  Code outside the repository is a parameter: the oracle and token contracts, hashing, XDR, contract
  deployment and curve operations of the host, the \<open>stellar-accounts\<close>, \<open>stellar-access\<close> and
  \<open>stellar-fee-abstraction\<close> crates.  What is assumed of them is named: \<open>sep41_token\<close>, \<open>sep41_strict\<close>,
  \<open>deployer_ok\<close>, \<open>xdr_ok\<close>, \<open>extracts\<close>, \<open>role_laws\<close>, \<open>access_laws\<close>, \<open>runs_templates\<close> (creating a contract runs its
  constructor and refuses a taken address), \<open>derives_addresses\<close> (the address comes from deployer and salt),
  \<open>requires_policies\<close> and \<open>decided_by_policies\<close> (how an account uses the policies of a rule), \<open>own_addresses\<close> (only a deployer's own deployments put code at its addresses).  The network's TTL limits are the parameter \<open>network\<close>; the lifetime theorems need it to
  admit the contract's own extension.

  \<^bold>\<open>Not modelled\<close>

  Restoring an archived entry, the life of contract code and of the smart account's instance (kept by the
  library), gas and size limits, the trait methods the smart account and the forwarder inherit from libraries (they appear only through
  their documented laws), and the tests that run library code: the Ed25519 and WebAuthn suites,
  the fee collection of the forwarder, the rule matching of the account.
\<close>

section \<open>Properties that span components\<close>

text \<open>
  One call under two policies.  When a call passes both the recipient policy and the multi-token limit of
  an account, it is a token transfer of a non-negative amount to a listed recipient, of an allowed
  token, and its dollar value alone is within the limit.
\<close>

theorem stacked_policies:
  assumes "recipient_enforce e ctx sg r a s1 = Inr s1'" "multi_enforce h e ctx sg r a s2 = Inr s2'"
    and "entries s1 (AccountContext a (rule_id r)) = Some rd"
    and "entries s2 (AccountContext a (rule_id r)) = Some d"
    and "multi_valid d" "spending_limit_usd d < i128_max"
  shows "\<exists>cc to amount. ctx = Contract cc \<and> ctx_fn_name cc = ''transfer''
     \<and> ctx_args cc ! 1 = AddressVal to \<and> to \<in> set (allowed_recipients rd)
     \<and> ctx_args cc ! 2 = I128Val amount \<and> 0 \<le> amount
     \<and> ctx_contract cc \<in> set (allowed_tokens d)
     \<and> usd_value h d cc \<le> spending_limit_usd d"
proof -
  from assms(1,3) obtain cc to where to: "ctx = Contract cc" "ctx_args cc ! 1 = AddressVal to"
    "to \<in> set (allowed_recipients rd)"
    by (auto simp: recipient_enforce_Inr transfer_to_listed_def)
  from assms(2,4) to(1) obtain amount t p usd d' where
    ok: "priced_transfer h e d cc amount t p" "to_usd amount (price p) (usd_divisor d) t = Inr usd"
      "record_spend (ledger_sequence e) usd d = Inr d'"
    by (auto simp: multi_enforce_Inr)
  have cfg: "multi_config d" and acc: "multi_accounts d"
    using assms(5,6) by (simp_all add: multi_valid_def)
  have "usd \<le> spending_limit_usd d"
    using ok(3) priced_usd_nonneg [OF ok(1) cfg ok(2)] live_history_total [OF acc, of "ledger_sequence e"]
    by (simp add: record_spend_Inr [OF acc assms(6)])
  with ok(1) to usd_value_eq [OF ok(1) cfg ok(2)] show ?thesis
    by (auto simp: priced_transfer_def first_index_of_Some in_set_conv_nth)
qed

theorem stacked_policies_witness:
  "\<exists>cc to amount. Contract (demo_call 600) = Contract cc \<and> ctx_args cc ! 1 = AddressVal to
     \<and> to \<in> {Addr 2} \<and> ctx_args cc ! 2 = I128Val amount \<and> usd_value demo_host demo_data cc \<le> 100"
proof -
  let ?r = "recipient_enforce (demo_env 5) (Contract (demo_call 600)) [demo_signer] demo_rule (Addr 11) demo_recipients'"
  let ?m = "multi_enforce demo_host (demo_env 5) (Contract (demo_call 600)) [demo_signer] demo_rule (Addr 11) demo_state"
  have "\<not> isl ?r" by code_simp
  then obtain s1' where r: "?r = Inr s1'" by (cases ?r) auto
  have "\<not> isl ?m" by code_simp
  then obtain s2' where m: "?m = Inr s2'" by (cases ?m) auto
  have e: "entries demo_recipients' (AccountContext (Addr 11) (rule_id demo_rule))
      = Some \<lparr>allowed_recipients = [Addr 2]\<rparr>"
    "entries demo_state (AccountContext (Addr 11) (rule_id demo_rule)) = Some demo_data"
    by (simp_all add: demo_recipients'_def demo_rule_def)
  have lim: "spending_limit_usd demo_data < i128_max" by (simp add: demo_data_def i128_max_def)
  from stacked_policies [OF r m e demo_valid lim] show ?thesis
    by (auto simp: demo_data_def)
qed

text \<open>
  C38: Stacked policies over time.  A rule of an account has the multi-token limit attached together with
  any of the session, recipient and parameter policies, and the account authorises nothing under the rule
  that one of them refuses.  From the installation on, whatever is presented for authorisation and
  whoever else calls the policy contracts directly (install, enforce, replacing lists of recipients, and
  uninstalling short of the account's own uninstallation of this rule), every call authorised under the
  rule satisfies the session and parameter lists as they were installed and the list of recipients the
  account last put in force, and in every window of \<open>period_ledgers\<close> ledgers the dollars authorised under
  the rule stay within the limit.
\<close>

theorem stacked_history:
  assumes "requires_policies ps r a auth" "MultiToken \<in> set ps" "k = AccountContext a (rule_id r)"
    and "multi_install h e p r a s0 = Inr (multi_st w)" "p_spending_limit_usd p < i128_max"
    and "installed_stack ps k sd rs pd w"
    and "\<forall>c \<in> set cs. keeps_stack k c" "sorted (map stack_ledger cs)"
  shows "(\<forall>xs ys h' e' cc sg w'. cs = xs @ Authorise h' e' (Contract cc) sg # ys
            \<and> auth h' e' (Contract cc) sg (stack_run auth xs w) = Some w'
            \<longrightarrow> listed_call ps sd (list_in_force k xs rs) pd cc)
     \<and> usd_total (in_window (p_period_ledgers p) l (map snd (authorised auth k r a cs w)))
         \<le> p_spending_limit_usd p"
proof -
  have kept: "\<And>c. c \<in> set cs \<Longrightarrow> keeps_stack (AccountContext a (rule_id r)) c"
    using assms(3,7) by simp
  have "listed_call ps sd (list_in_force k xs rs) pd cc"
    if "cs = xs @ Authorise h' e' (Contract cc) sg # ys"
      "auth h' e' (Contract cc) sg (stack_run auth xs w) = Some w'" for xs ys h' e' cc sg w'
    using authorised_listed [OF assms(1) assms(6) [unfolded assms(3)] kept that(2)] that(1) assms(3) by simp
  with stack_within_limit [OF assms(1,2,4,5) kept assms(8)] assms(3) show ?thesis by blast
qed

text \<open>
  A rule with the session and recipient policies and the limit: 60 dollars to the listed recipient, 30 to
  another; a stranger and then the account replace the list; the 30 dollars pass, 60 to the first
  recipient do not, and after the window 60 to the new one do.
\<close>

definition stack_world :: policy_world where
  "stack_world = \<lparr>session_st = store_set (AccountContext (Addr 11) 1) \<lparr>allowed_fns = [''transfer'']\<rparr> init_policy_state,
     recipient_st = demo_recipients',
     parameter_st = init_policy_state,
     multi_st = demo_state\<rparr>"

definition stack_pay :: "u32 \<Rightarrow> nat \<Rightarrow> int \<Rightarrow> stack_call" where
  "stack_pay l to x = Authorise demo_host (demo_env l)
     (Contract ((demo_call x)\<lparr>ctx_args := [AddressVal (Addr 11), AddressVal (Addr to), I128Val x]\<rparr>)) [demo_signer]"

definition stack_calls :: "stack_call list" where
  "stack_calls =
     [stack_pay 5 2 600, stack_pay 6 3 300,
      OnRecipient (CallUpdate ((demo_env 7)\<lparr>authorized := \<lambda>_. False\<rparr>) [Addr 4] 1 (Addr 11)),
      OnRecipient (CallUpdate (demo_env 7) [Addr 3] 1 (Addr 11)),
      stack_pay 8 3 300, stack_pay 9 2 50, stack_pay 20 3 600]"

theorem stacked_history_witness:
  "map snd (authorised (sample_account [Session, Recipient, MultiToken] demo_rule (Addr 11))
      (AccountContext (Addr 11) 1) demo_rule (Addr 11) stack_calls stack_world)
     = [\<lparr>amount_usd = 60, spent_ledger = 5\<rparr>, \<lparr>amount_usd = 30, spent_ledger = 8\<rparr>,
        \<lparr>amount_usd = 60, spent_ledger = 20\<rparr>]
   \<and> list_in_force (AccountContext (Addr 11) 1) stack_calls [Addr 2] = [Addr 3]
   \<and> usd_total (in_window 10 14 (map snd
       (authorised (sample_account [Session, Recipient, MultiToken] demo_rule (Addr 11))
         (AccountContext (Addr 11) 1) demo_rule (Addr 11) stack_calls stack_world))) \<le> 100"
proof -
  let ?ps = "[Session, Recipient, MultiToken]" and ?k = "AccountContext (Addr 11) 1"
  let ?auth = "sample_account ?ps demo_rule (Addr 11)"
  have req: "requires_policies ?ps demo_rule (Addr 11) ?auth"
    by (rule decided_requires [OF sample_account_decided]) simp
  have ins: "multi_install demo_host (demo_env 1) demo_params demo_rule (Addr 11) init_policy_state
      = Inr (multi_st stack_world)"
    using demo_install by (simp add: stack_world_def)
  have st: "installed_stack ?ps ?k \<lparr>allowed_fns = [''transfer'']\<rparr> [Addr 2] \<lparr>conditions = []\<rparr> stack_world"
    by (simp add: installed_stack_def stack_world_def demo_recipients'_def)
  have run: "map snd (authorised ?auth ?k demo_rule (Addr 11) stack_calls stack_world)
      = [\<lparr>amount_usd = 60, spent_ledger = 5\<rparr>, \<lparr>amount_usd = 30, spent_ledger = 8\<rparr>,
         \<lparr>amount_usd = 60, spent_ledger = 20\<rparr>]"
    "list_in_force ?k stack_calls [Addr 2] = [Addr 3]"
    by code_simp+
  have ok: "\<forall>c \<in> set stack_calls. keeps_stack ?k c" "sorted (map stack_ledger stack_calls)"
    by (simp_all add: stack_calls_def stack_pay_def demo_env_def)
  have lim: "p_spending_limit_usd demo_params < i128_max" by (simp add: demo_params_def i128_max_def)
  have k: "?k = AccountContext (Addr 11) (rule_id demo_rule)" by (simp add: demo_rule_def)
  from stacked_history [OF req _ k ins lim st ok, of 14] run show ?thesis
    by (simp add: demo_params_def)
qed

text \<open>
  C28: Who has to have signed.  The session, recipient and parameter policies refuse a call for which no
  signer was authenticated, each with its own error, so a rule that requires one of them authorises
  nothing unsigned.  The multi-token limit does not look at the signers at all: it answers the same with none
  as with any, so where that policy alone decides, calls that nobody signed are approved like any
  others, within the limit.
\<close>

theorem signer_requirement:
  "session_enforce e ctx [] r a s1 =
     (if authorized e a then Inl (Panic SessionError.MethodNotAllowed) else Inl (AuthFailed a))
   \<and> recipient_enforce e ctx [] r a s2 =
     (if authorized e a then Inl (Panic RecipientNotAllowed) else Inl (AuthFailed a))
   \<and> parameter_enforce e ctx [] r a s3 =
     (if authorized e a then Inl (Panic ParameterScopedError.MethodNotAllowed) else Inl (AuthFailed a))
   \<and> multi_enforce h e ctx sg r a s4 = multi_enforce h e ctx [] r a s4
   \<and> (requires_policies ps r a auth \<and> auth h e ctx [] w = Some w' \<longrightarrow> set ps \<subseteq> {MultiToken})
   \<and> (decided_by_policies [MultiToken] r a auth2 \<longrightarrow> auth2 h e ctx sg w = auth2 h e ctx [] w)"
proof -
  have multi: "multi_enforce h e ctx sg r a s = multi_enforce h e ctx [] r a s" for s
    by (simp add: multi_enforce_def)
  have "auth2 h e ctx sg w = auth2 h e ctx [] w" if "decided_by_policies [MultiToken] r a auth2"
  proof -
    have "auth2 h e ctx sg w = Some v \<longleftrightarrow> auth2 h e ctx [] w = Some v" for v
      using that by (simp add: decided_by_policies_def pass_policies_def multi)
    then show ?thesis by (metis option.exhaust)
  qed
  moreover have "set ps \<subseteq> {MultiToken}" if "requires_policies ps r a auth" "auth h e ctx [] w = Some w'"
    by (rule pass_unsigned [of ps r a h e ctx w w']) (use that in \<open>simp add: requires_policies_def\<close>)
  ultimately show ?thesis by (simp add: enforce_no_signer multi)
qed

text \<open>A transfer of 60 dollars that nobody signed passes the limit, and fails with the session policy beside it.\<close>

theorem signer_requirement_witness:
  "sample_account [MultiToken] demo_rule (Addr 11) demo_host (demo_env 5) (Contract (demo_call 600)) [] stack_world
     \<noteq> None
   \<and> sample_account [Session, MultiToken] demo_rule (Addr 11) demo_host (demo_env 5) (Contract (demo_call 600)) []
       stack_world = None"
proof -
  let ?ctx = "Contract (demo_call 600)"
  let ?one = "sample_account [MultiToken] demo_rule (Addr 11)"
  let ?two = "sample_account [Session, MultiToken] demo_rule (Addr 11)"
  have laws: "requires_policies [Session, MultiToken] demo_rule (Addr 11) ?two"
    "decided_by_policies [MultiToken] demo_rule (Addr 11) ?one"
    by (simp_all add: decided_requires sample_account_decided)
  have "map_option (\<lambda>_. ()) (?one demo_host (demo_env 5) ?ctx [demo_signer] stack_world) = Some ()"
    by code_simp
  then have "?one demo_host (demo_env 5) ?ctx [] stack_world \<noteq> None"
    using signer_requirement [of "demo_env 5" ?ctx demo_rule "Addr 11" init_policy_state init_policy_state
      init_policy_state demo_host "[demo_signer]" init_policy_state "[]" ?one stack_world stack_world ?one] laws
    by (auto simp del: sample_account.simps)
  moreover have "?two demo_host (demo_env 5) ?ctx [] stack_world = None"
    using signer_requirement [of "demo_env 5" ?ctx demo_rule "Addr 11" init_policy_state init_policy_state
      init_policy_state demo_host "[demo_signer]" init_policy_state "[Session, MultiToken]" ?two stack_world _ ?one] laws
    by (cases "?two demo_host (demo_env 5) ?ctx [] stack_world") (auto simp del: sample_account.simps)
  ultimately show ?thesis ..
qed

text \<open>
  C39: Where duplicates are caught.  The factory compares WebAuthn signers by their whole key data, so
  it accepts two registrations of one public key under different credential identifiers as two
  signers, while the verifier cannot tell them apart: rejecting such a pair is left to the account,
  through the verifier's canonical keys.
\<close>

theorem factory_keeps_credential_duplicates:
  assumes "extracts lib" "length key = 65" "vec_get key 0 = Some 4"
    and "c1 \<noteq> []" "c2 \<noteq> []" "c1 \<noteq> c2"
    and "x1 = AccountSignerInit.External \<lparr>signer_kind = WebAuthn, key_data = key @ c1\<rparr>"
    and "x2 = AccountSignerInit.External \<lparr>signer_kind = WebAuthn, key_data = key @ c2\<rparr>"
  shows "canonicalize_signers [x1, x2] = Inr (sort [x1, x2])
     \<and> webauthn_contract_verify lib hash (key @ c1) sig = webauthn_contract_verify lib hash (key @ c2) sig"
proof -
  have shape: "validate_signer_shape (AccountSignerInit.External \<lparr>signer_kind = WebAuthn, key_data = key @ c\<rparr>)
      = Inr ()" if "c \<noteq> []" for c
    using that assms(2,3) by (auto simp: validate_signer_shape_def vec_get_def nth_append split: if_splits)
  have "canonicalize_signers [x1, x2] = Inr (sort [x1, x2])"
    unfolding canonicalize_signers_Inr using assms(4-8) shape by auto
  moreover have "webauthn_contract_verify lib hash (key @ c1) sig
      = webauthn_contract_verify lib hash (key @ c2) sig"
    using assms(1,2) by (simp add: webauthn_contract_verify_eq split: option.split)
  ultimately show ?thesis ..
qed

theorem factory_keeps_credential_duplicates_witness:
  "webauthn_contract_verify w_lib [1] (replicate 65 4 @ [1]) [2]
   = webauthn_contract_verify w_lib [1] (replicate 65 4 @ [2]) [2]"
  using factory_keeps_credential_duplicates [OF _ _ _ _ _ _ refl refl,
      of w_lib "replicate 65 4" "[1]" "[2]" "[1]" "[2]"]
  by (simp add: extracts_def w_lib_def vec_get_def)

end
